(* ===== verification/Prelude.thy ===== *)
theory Prelude
  imports Main "HOL-Library.Multiset" "HOL-Library.Product_Lexorder"
begin

text \<open>
  Shared vocabulary of the development: the names of the model's basic types, the
  JavaScript values that arrive in request bodies, HTTP responses, the generic
  table operations that every SQL \<open>UPDATE\<close>/\<open>DELETE\<close> of the routes translates to,
  and the half-up rounding the MySQL \<open>DECIMAL\<close> columns apply.  The lemmas here are
  declared into the collection \<open>table_simps\<close> so that the component theories can
  unfold a whole SQL statement sequence with one \<open>simp add: table_simps\<close>.
\<close>

named_theorems table_simps "rewrite rules for the SQL table operations"

type_synonym ident = nat    \<comment> \<open>\<open>INT PRIMARY KEY AUTO_INCREMENT\<close> values\<close>
type_synonym cents = int    \<comment> \<open>\<open>DECIMAL(10,2)\<close> values, in hundredths\<close>

subsection \<open>JavaScript values of a JSON request body\<close>

text \<open>
  A field of \<open>req.body\<close> or \<open>req.params\<close> as the route sees it: absent
  (\<open>undefined\<close>), \<open>null\<close>, a boolean, an integral number or a string.
  Non-integral numbers are not modelled.
\<close>

datatype jsval = JUndefined | JNull | JBool bool | JNum int | JStr string

text \<open>JavaScript truthiness (\<open>if (x)\<close>, \<open>x && ...\<close>, \<open>!x\<close>).\<close>

text \<open>A JSON object (\<open>req.body\<close>, \<open>req.params\<close>) and property access on it.\<close>

type_synonym js_object = "(string \<times> jsval) list"

definition js_get :: "js_object \<Rightarrow> string \<Rightarrow> jsval" where
  "js_get obj k = (case map_of obj k of None \<Rightarrow> JUndefined | Some v \<Rightarrow> v)"

text \<open>The text a \<open>VARCHAR\<close>/\<open>TEXT\<close> column stores for a bound string (\<open>NULL\<close> as empty).\<close>

fun js_to_text :: "jsval \<Rightarrow> string" where
  "js_to_text (JStr s) = s"
| "js_to_text _ = []"

fun js_truthy :: "jsval \<Rightarrow> bool" where
  "js_truthy JUndefined = False"
| "js_truthy JNull = False"
| "js_truthy (JBool b) = b"
| "js_truthy (JNum n) = (n \<noteq> 0)"
| "js_truthy (JStr s) = (s \<noteq> [])"

subsection \<open>HTTP responses\<close>

text \<open>
  \<open>res.status(n).json(...)\<close>: a success carries the route's payload, a failure the
  status code and the \<open>error\<close> message the route sends.
\<close>

datatype 'a response = Success nat 'a | Failure nat string

fun status_of :: "'a response \<Rightarrow> nat" where
  "status_of (Success n _) = n"
| "status_of (Failure n _) = n"

fun is_success :: "'a response \<Rightarrow> bool" where
  "is_success (Success _ _) = True"
| "is_success (Failure _ _) = False"

subsection \<open>Tables as lists of rows\<close>

text \<open>
  A table is the list of its rows in insertion order.  \<open>SELECT ... WHERE c\<close> is
  \<open>filter c\<close>, \<open>DELETE ... WHERE c\<close> is \<open>filter (Not \<circ> c)\<close>, and
  \<open>UPDATE ... SET ... WHERE c\<close> is \<open>update_where c f\<close>, which rewrites every row
  that satisfies the condition and keeps the order.
\<close>

definition update_where :: "('r \<Rightarrow> bool) \<Rightarrow> ('r \<Rightarrow> 'r) \<Rightarrow> 'r list \<Rightarrow> 'r list" where
  "update_where c f rs = map (\<lambda>r. if c r then f r else r) rs"

lemma update_where_simps [simp]:
  "update_where c f [] = []"
  "update_where c f (r # rs) = (if c r then f r else r) # update_where c f rs"
  by (simp_all add: update_where_def)

lemma length_update_where [simp]: "length (update_where c f rs) = length rs"
  by (simp add: update_where_def)

lemma update_where_no_match [table_simps]:
  "\<forall>r\<in>set rs. \<not> c r \<Longrightarrow> update_where c f rs = rs"
  by (induction rs) auto

lemma filter_update_where_frame [table_simps]:
  assumes "\<And>r. r \<in> set rs \<Longrightarrow> c r \<Longrightarrow> p (f r) = p r \<and> (p r \<longrightarrow> f r = r)"
  shows "filter p (update_where c f rs) = filter p rs"
  using assms by (induction rs) auto

lemma map_update_where_frame [table_simps]:
  assumes "\<And>r. c r \<Longrightarrow> g (f r) = g r"
  shows "map g (update_where c f rs) = map g rs"
  using assms by (induction rs) auto

lemma image_update_where_frame [table_simps]:
  assumes "\<And>r. c r \<Longrightarrow> g (f r) = g r"
  shows "g ` set (update_where c f rs) = g ` set rs"
  using map_update_where_frame [of c g f rs, OF assms] by (metis set_map)

lemma set_update_where_cases:
  "r' \<in> set (update_where c f rs) \<Longrightarrow> (\<exists>r\<in>set rs. c r \<and> r' = f r) \<or> (r' \<in> set rs \<and> \<not> c r')"
  by (induction rs) (auto split: if_splits)

lemma update_where_in:
  "r \<in> set rs \<Longrightarrow> c r \<Longrightarrow> f r \<in> set (update_where c f rs)"
  by (induction rs) auto

subsection \<open>Half-up rounding of non-negative quotients\<close>

text \<open>
  MySQL rounds an exact \<open>DECIMAL\<close> value to a column's scale half away from zero;
  on the non-negative values of this program that is half up.
  \<open>round_div a b\<close> is \<open>a / b\<close> rounded half up to an integer.
\<close>

definition round_div :: "int \<Rightarrow> int \<Rightarrow> int" where
  "round_div a b = (2 * a + b) div (2 * b)"

lemma round_div_bounds:
  assumes "0 < b"
  shows "2 * b * round_div a b \<le> 2 * a + b \<and> 2 * a + b < 2 * b * (round_div a b + 1)"
proof -
  define q where "q = (2 * a + b) div (2 * b)"
  define m where "m = (2 * a + b) mod (2 * b)"
  have eq: "2 * a + b = 2 * b * q + m"
    unfolding q_def m_def by simp
  have "0 \<le> m" and "m < 2 * b"
    unfolding m_def using assms by simp_all
  with eq show ?thesis
    unfolding round_div_def q_def [symmetric] by (simp add: algebra_simps)
qed

lemma round_div_exact [simp]:
  assumes "0 < b"
  shows "round_div (k * b) b = k"
proof -
  have "(2 * (k * b) + b) div (2 * b) = (b + k * (2 * b)) div (2 * b)"
    by (simp add: algebra_simps)
  also have "\<dots> = k + b div (2 * b)"
    using assms by (simp only: div_mult_self1)
  also have "b div (2 * b) = 0" using assms by simp
  finally show ?thesis unfolding round_div_def by simp
qed

lemma round_div_mono: "0 < b \<Longrightarrow> a \<le> a' \<Longrightarrow> round_div a b \<le> round_div a' b"
  unfolding round_div_def
  by (simp add: zdiv_mono1)

lemma round_div_nonneg: "0 \<le> a \<Longrightarrow> 0 < b \<Longrightarrow> 0 \<le> round_div a b"
  by (simp add: round_div_def pos_imp_zdiv_nonneg_iff)

lemma round_div_zero [simp]: "0 < b \<Longrightarrow> round_div 0 b = 0"
  using round_div_exact [of b 0] by simp


subsection \<open>Primary keys\<close>

text \<open>
  \<open>keys_ok key rs ai\<close>: the primary keys of the rows are distinct, positive and below
  the table's \<open>AUTO_INCREMENT\<close> counter \<open>ai\<close>, which is positive and is the key the
  next insert gets.
\<close>

definition keys_ok :: "('r \<Rightarrow> nat) \<Rightarrow> 'r list \<Rightarrow> nat \<Rightarrow> bool" where
  "keys_ok key rs ai \<longleftrightarrow> 0 < ai \<and> distinct (map key rs) \<and> (\<forall>r\<in>set rs. 0 < key r \<and> key r < ai)"

lemma keys_ok_append [table_simps]:
  "keys_ok key rs ai \<Longrightarrow> key r = ai \<Longrightarrow> keys_ok key (rs @ [r]) (Suc ai)"
  unfolding keys_ok_def by fastforce

lemma keys_ok_filter [table_simps]: "keys_ok key rs ai \<Longrightarrow> keys_ok key (filter p rs) ai"
  unfolding keys_ok_def by (auto simp: distinct_map_filter)

lemma keys_ok_update_where [table_simps]:
  "keys_ok key rs ai \<Longrightarrow> (\<And>r. c r \<Longrightarrow> key (f r) = key r) \<Longrightarrow> keys_ok key (update_where c f rs) ai"
  unfolding keys_ok_def by (auto simp: map_update_where_frame dest!: set_update_where_cases)

lemma keys_ok_fresh: "keys_ok key rs ai \<Longrightarrow> \<forall>r\<in>set rs. key r \<noteq> ai"
  unfolding keys_ok_def by auto

lemma keys_ok_unique:
  "keys_ok key rs ai \<Longrightarrow> r \<in> set rs \<Longrightarrow> r' \<in> set rs \<Longrightarrow> key r = key r' \<Longrightarrow> r = r'"
  unfolding keys_ok_def by (auto dest: inj_on_eq_iff [OF distinct_map [THEN iffD1, THEN conjunct2]])

lemma keys_ok_find:
  "keys_ok key rs ai \<Longrightarrow> r \<in> set rs \<Longrightarrow> find (\<lambda>x. key x = key r) rs = Some r"
  unfolding keys_ok_def
  by (induction rs) (auto simp: find_Some_iff)

lemma find_key_None_iff [table_simps]:
  "find (\<lambda>x. key x = k) rs = None \<longleftrightarrow> k \<notin> key ` set rs"
  by (auto simp: find_None_iff)

lemma find_update_where_key [table_simps]:
  assumes "\<And>r. key (f r) = key r"
  shows "find (\<lambda>x. key x = k) (update_where (\<lambda>x. key x = k) f rs) = map_option f (find (\<lambda>x. key x = k) rs)"
  using assms by (induction rs) auto

lemma find_append_fresh:
  "k \<notin> key ` set rs \<Longrightarrow> find (\<lambda>x. key x = k) (rs @ [r]) = (if key r = k then Some r else None)"
  by (induction rs) auto

lemma distinct_map_update_where_key:
  assumes "distinct (map g rs)" and "distinct (map key rs)"
    and "\<forall>r\<in>set rs. key r \<noteq> k \<longrightarrow> g r \<noteq> v" and "\<And>r. g (f r) = v"
  shows "distinct (map g (update_where (\<lambda>r. key r = k) f rs))"
  using assms
proof (induction rs)
  case (Cons r rs)
  then have "distinct (map g (update_where (\<lambda>r. key r = k) f rs))" by simp
  moreover have "g (if key r = k then f r else r) \<notin> g ` set (update_where (\<lambda>r. key r = k) f rs)"
    using Cons.prems by (auto dest!: set_update_where_cases) (metis image_eqI)+
  ultimately show ?case by simp
qed simp

end
