(* ===== verification/Store.thy ===== *)
theory Store
  imports Prelude
begin

text \<open>
  The relational store: the five tables that \<open>initializeDatabase\<close>
  (\<open>src/server/config/database.js\<close>) creates, with their column types, defaults and
  constraints (primary keys with \<open>AUTO_INCREMENT\<close>, the \<open>UNIQUE\<close> keys on
  \<open>users.email\<close> and \<open>reviews (user_id, package_id)\<close>, the foreign keys with
  \<open>ON DELETE CASCADE\<close>, the \<open>CHECK\<close> on \<open>reviews.rating\<close>, the range of
  \<open>DECIMAL(10,2)\<close>), and one function per kind of SQL statement the routes execute.
  A statement that violates a constraint returns the MySQL error code (\<open>Inl\<close>) and
  leaves the store unchanged, as a single statement in InnoDB does.
  \<open>db_wf\<close> states the constraints as an invariant; every statement keeps it.
\<close>

subsection \<open>Column types\<close>

datatype role = RoleUser | RoleAdmin                \<comment> \<open>\<open>ENUM('user', 'admin')\<close>\<close>
datatype status = Pending | Confirmed | Cancelled   \<comment> \<open>\<open>ENUM('pending', 'confirmed', 'cancelled')\<close>\<close>

text \<open>
  A stored bcrypt hash.  Only its functional behaviour is modelled: \<open>bcrypt.compare p h\<close>
  holds exactly when \<open>h\<close> was made by \<open>bcrypt.hash p\<close> (the salt and the cost are
  not observable through the routes).
\<close>

datatype pw_hash = Bcrypt string

fun bcrypt_compare :: "string \<Rightarrow> pw_hash \<Rightarrow> bool" where
  "bcrypt_compare p (Bcrypt q) = (p = q)"

type_synonym date = "int \<times> int \<times> int"   \<comment> \<open>\<open>DATE\<close>: year, month, day\<close>

text \<open>The largest value of a \<open>DECIMAL(10,2)\<close> column, in hundredths.\<close>

definition decimal_10_2_max :: cents where
  "decimal_10_2_max = 9999999999"

subsection \<open>Rows\<close>

record user_row =
  user_id :: ident
  user_name :: string
  user_email :: string
  user_password :: pw_hash
  user_role :: role

record package_row =
  package_id :: ident
  package_title :: string
  package_destination :: string
  package_description :: string
  package_price :: cents
  package_duration :: string
  package_image_url :: string
  package_rating :: int          \<comment> \<open>\<open>DECIMAL(3,2) DEFAULT 0.00\<close>, in hundredths\<close>
  package_total_reviews :: nat   \<comment> \<open>\<open>INT DEFAULT 0\<close>\<close>

record booking_row =
  booking_id :: ident
  booking_user_id :: ident
  booking_package_id :: ident
  booking_date :: date
  booking_guests :: int
  booking_rooms :: int
  booking_total_amount :: cents
  booking_status :: status

record review_row =
  review_id :: ident
  review_user_id :: ident
  review_package_id :: ident
  review_rating :: int
  review_comment :: "string option"   \<comment> \<open>\<open>TEXT\<close>, nullable\<close>

record contact_row =
  contact_id :: ident
  contact_name :: string
  contact_email :: string
  contact_phone :: string
  contact_booking_date :: string
  contact_status :: status

text \<open>The database: the tables and their \<open>AUTO_INCREMENT\<close> counters.\<close>

record db =
  users :: "user_row list"
  packages :: "package_row list"
  bookings :: "booking_row list"
  reviews :: "review_row list"
  booking_contacts :: "contact_row list"
  users_ai :: ident
  packages_ai :: ident
  bookings_ai :: ident
  reviews_ai :: ident
  contacts_ai :: ident

definition empty_db :: db where
  "empty_db = \<lparr>users = [], packages = [], bookings = [], reviews = [], booking_contacts = [],
     users_ai = 1, packages_ai = 1, bookings_ai = 1, reviews_ai = 1, contacts_ai = 1\<rparr>"

text \<open>The MySQL errors the statements of the routes can raise.\<close>

datatype sql_error =
    ER_DUP_ENTRY                   \<comment> \<open>a \<open>UNIQUE\<close> key would be duplicated\<close>
  | ER_NO_REFERENCED_ROW_2         \<comment> \<open>a foreign key names no row\<close>
  | ER_CHECK_CONSTRAINT_VIOLATED   \<comment> \<open>\<open>CHECK (rating >= 1 AND rating <= 5)\<close>\<close>
  | ER_WARN_DATA_OUT_OF_RANGE      \<comment> \<open>a value outside its column's range (strict mode)\<close>
  | ER_WRONG_ARGUMENTS             \<comment> \<open>placeholders and parameters do not match\<close>
  | ER_BAD_NULL_ERROR              \<comment> \<open>\<open>NULL\<close> into a \<open>NOT NULL\<close> column\<close>
  | ER_TRUNCATED_WRONG_VALUE_FOR_FIELD  \<comment> \<open>a string that is no number into an \<open>INT\<close> (strict mode)\<close>
  | ER_DATA_TOO_LONG               \<comment> \<open>a string longer than its \<open>VARCHAR\<close>\<close>
  | DRIVER_UNDEFINED_BIND          \<comment> \<open>mysql2 refuses \<open>undefined\<close> bind parameters\<close>

text \<open>
  A statement parameter as the driver binds it: JavaScript \<open>null\<close> is \<open>NULL\<close>, numbers
  and booleans are numbers (\<open>true\<close> is 1), strings are strings.  Storing it into an
  \<open>INT NOT NULL\<close> column converts a string that is an integer literal and rejects
  anything else; a \<open>TEXT\<close> column takes the text of a number.
\<close>

datatype sql_value = SqlNull | SqlInt int | SqlText string

fun sql_param :: "jsval \<Rightarrow> sql_value" where
  "sql_param JNull = SqlNull"
| "sql_param JUndefined = SqlNull"   \<comment> \<open>not bound by any modelled route\<close>
| "sql_param (JBool b) = SqlInt (if b then 1 else 0)"
| "sql_param (JNum n) = SqlInt n"
| "sql_param (JStr s) = SqlText s"

text \<open>
  String comparison in the default collation \<open>utf8mb4_0900_ai_ci\<close>: case-insensitive,
  no padding.  Only ASCII case folding is modelled.
\<close>

definition ascii_lower :: "char \<Rightarrow> char" where
  "ascii_lower c = (let k = (of_char c :: nat) in if 65 \<le> k \<and> k \<le> 90 then char_of (k + 32) else c)"

definition ci_key :: "string \<Rightarrow> string" where
  "ci_key s = map ascii_lower s"

subsection \<open>Lookups (\<open>SELECT ... WHERE id = ?\<close>)\<close>

definition find_user :: "db \<Rightarrow> ident \<Rightarrow> user_row option" where
  "find_user d i = find (\<lambda>u. user_id u = i) (users d)"

definition find_package :: "db \<Rightarrow> ident \<Rightarrow> package_row option" where
  "find_package d i = find (\<lambda>p. package_id p = i) (packages d)"

definition find_booking :: "db \<Rightarrow> ident \<Rightarrow> booking_row option" where
  "find_booking d i = find (\<lambda>b. booking_id b = i) (bookings d)"

definition find_review :: "db \<Rightarrow> ident \<Rightarrow> review_row option" where
  "find_review d i = find (\<lambda>r. review_id r = i) (reviews d)"

text \<open>\<open>SELECT ... FROM users WHERE email = ?\<close>.\<close>

definition find_user_by_email :: "db \<Rightarrow> string \<Rightarrow> user_row option" where
  "find_user_by_email d e = find (\<lambda>u. ci_key (user_email u) = ci_key e) (users d)"

text \<open>The ratings of a package's reviews: \<open>SELECT rating FROM reviews WHERE package_id = ?\<close>.\<close>

definition package_ratings :: "db \<Rightarrow> ident \<Rightarrow> int list" where
  "package_ratings d p = map review_rating (filter (\<lambda>r. review_package_id r = p) (reviews d))"

subsection \<open>Statements\<close>

text \<open>
  \<open>INSERT INTO bookings (user_id, package_id, booking_date, guests, rooms, total_amount)\<close>:
  \<open>status\<close> takes its default \<open>'pending'\<close>.  The \<open>DECIMAL(10,2)\<close> range of
  \<open>total_amount\<close> is checked when the value is stored, before the foreign keys.
\<close>

definition insert_booking ::
  "ident \<Rightarrow> ident \<Rightarrow> date \<Rightarrow> int \<Rightarrow> int \<Rightarrow> cents \<Rightarrow> db \<Rightarrow> sql_error + (ident \<times> db)" where
  "insert_booking u p dt g r amount d =
     (if amount < - decimal_10_2_max \<or> decimal_10_2_max < amount then Inl ER_WARN_DATA_OUT_OF_RANGE
      else if find_user d u = None \<or> find_package d p = None then Inl ER_NO_REFERENCED_ROW_2
      else let i = bookings_ai d in
        Inr (i, d\<lparr>bookings := bookings d @
                   [\<lparr>booking_id = i, booking_user_id = u, booking_package_id = p, booking_date = dt,
                     booking_guests = g, booking_rooms = r, booking_total_amount = amount,
                     booking_status = Pending\<rparr>],
                 bookings_ai := Suc i\<rparr>))"

text \<open>\<open>UPDATE bookings SET status = ? WHERE id = ?\<close>.\<close>

definition set_booking_status :: "ident \<Rightarrow> status \<Rightarrow> db \<Rightarrow> db" where
  "set_booking_status i st d =
     d\<lparr>bookings := update_where (\<lambda>b. booking_id b = i) (\<lambda>b. b\<lparr>booking_status := st\<rparr>) (bookings d)\<rparr>"

text \<open>
  \<open>INSERT INTO reviews (user_id, package_id, rating, comment)\<close>: the \<open>CHECK\<close> on the
  rating is evaluated on the new row, then the foreign keys and the unique key
  \<open>unique_user_package\<close>.
\<close>

definition insert_review :: "ident \<Rightarrow> ident \<Rightarrow> int \<Rightarrow> string \<Rightarrow> db \<Rightarrow> sql_error + (ident \<times> db)" where
  "insert_review u p rating c d =
     (if rating < 1 \<or> 5 < rating then Inl ER_CHECK_CONSTRAINT_VIOLATED
      else if find_user d u = None \<or> find_package d p = None then Inl ER_NO_REFERENCED_ROW_2
      else if (\<exists>r\<in>set (reviews d). review_user_id r = u \<and> review_package_id r = p) then Inl ER_DUP_ENTRY
      else let i = reviews_ai d in
        Inr (i, d\<lparr>reviews := reviews d @
                   [\<lparr>review_id = i, review_user_id = u, review_package_id = p,
                     review_rating = rating, review_comment = Some c\<rparr>],
                 reviews_ai := Suc i\<rparr>))"

text \<open>
  \<open>UPDATE reviews SET rating = ?, comment = ? WHERE id = ?\<close>, with the \<open>SET\<close> list
  built from the fields present (\<open>None\<close> is a field left out; a comment may be set to
  \<open>NULL\<close>).
\<close>

definition update_review_fields :: "ident \<Rightarrow> int option \<Rightarrow> string option option \<Rightarrow> db \<Rightarrow> sql_error + db" where
  "update_review_fields i rating c d =
     (if (case rating of Some x \<Rightarrow> x < 1 \<or> 5 < x | None \<Rightarrow> False) \<and> (\<exists>r\<in>set (reviews d). review_id r = i)
      then Inl ER_CHECK_CONSTRAINT_VIOLATED
      else Inr (d\<lparr>reviews := update_where (\<lambda>r. review_id r = i)
                  (\<lambda>r. r\<lparr>review_rating := case_option (review_rating r) id rating,
                        review_comment := case_option (review_comment r) id c\<rparr>) (reviews d)\<rparr>))"

text \<open>\<open>DELETE FROM reviews WHERE id = ?\<close>.\<close>

definition delete_review_row :: "ident \<Rightarrow> db \<Rightarrow> db" where
  "delete_review_row i d = d\<lparr>reviews := filter (\<lambda>r. review_id r \<noteq> i) (reviews d)\<rparr>"

text \<open>\<open>UPDATE packages SET rating = ?, total_reviews = ? WHERE id = ?\<close>.\<close>

definition set_package_rating :: "ident \<Rightarrow> int \<Rightarrow> nat \<Rightarrow> db \<Rightarrow> db" where
  "set_package_rating i rating n d =
     d\<lparr>packages := update_where (\<lambda>p. package_id p = i)
                     (\<lambda>p. p\<lparr>package_rating := rating, package_total_reviews := n\<rparr>) (packages d)\<rparr>"

text \<open>
  \<open>DELETE FROM packages WHERE id = ?\<close> and \<open>DELETE FROM users WHERE id = ?\<close>: the foreign
  keys of \<open>bookings\<close> and \<open>reviews\<close> are \<open>ON DELETE CASCADE\<close>, so their rows go too.
\<close>

definition delete_package_row :: "ident \<Rightarrow> db \<Rightarrow> db" where
  "delete_package_row i d =
     d\<lparr>packages := filter (\<lambda>p. package_id p \<noteq> i) (packages d),
       bookings := filter (\<lambda>b. booking_package_id b \<noteq> i) (bookings d),
       reviews := filter (\<lambda>r. review_package_id r \<noteq> i) (reviews d)\<rparr>"

definition delete_user_row :: "ident \<Rightarrow> db \<Rightarrow> db" where
  "delete_user_row i d =
     d\<lparr>users := filter (\<lambda>u. user_id u \<noteq> i) (users d),
       bookings := filter (\<lambda>b. booking_user_id b \<noteq> i) (bookings d),
       reviews := filter (\<lambda>r. review_user_id r \<noteq> i) (reviews d)\<rparr>"

text \<open>
  \<open>INSERT INTO booking_contacts (name, email, phone, booking_date, status)\<close>.  The
  date is kept as the text the form sent.
\<close>

definition insert_contact :: "string \<Rightarrow> string \<Rightarrow> string \<Rightarrow> string \<Rightarrow> status \<Rightarrow> db \<Rightarrow> ident \<times> db" where
  "insert_contact n e ph dt st d =
     (let i = contacts_ai d in
      (i, d\<lparr>booking_contacts := booking_contacts d @
              [\<lparr>contact_id = i, contact_name = n, contact_email = e, contact_phone = ph,
                contact_booking_date = dt, contact_status = st\<rparr>],
            contacts_ai := Suc i\<rparr>))"

text \<open>
  \<open>UPDATE booking_contacts SET status = ? WHERE id = ?\<close> and
  \<open>DELETE FROM booking_contacts WHERE id = ?\<close>, with \<open>affectedRows\<close>: the driver
  connects with \<open>CLIENT_FOUND_ROWS\<close>, so it counts the matched rows.
\<close>

definition set_contact_status :: "ident \<Rightarrow> status \<Rightarrow> db \<Rightarrow> nat \<times> db" where
  "set_contact_status i st d =
     (length (filter (\<lambda>c. contact_id c = i) (booking_contacts d)),
      d\<lparr>booking_contacts := update_where (\<lambda>c. contact_id c = i) (\<lambda>c. c\<lparr>contact_status := st\<rparr>)
                              (booking_contacts d)\<rparr>)"

definition delete_contact_row :: "ident \<Rightarrow> db \<Rightarrow> nat \<times> db" where
  "delete_contact_row i d =
     (length (filter (\<lambda>c. contact_id c = i) (booking_contacts d)),
      d\<lparr>booking_contacts := filter (\<lambda>c. contact_id c \<noteq> i) (booking_contacts d)\<rparr>)"

text \<open>
  \<open>INSERT INTO users (name, email, password)\<close>: \<open>role\<close> takes its default
  \<open>'user'\<close>; the unique key on \<open>email\<close> compares in the column's collation.
\<close>

definition insert_user :: "string \<Rightarrow> string \<Rightarrow> pw_hash \<Rightarrow> db \<Rightarrow> sql_error + (ident \<times> db)" where
  "insert_user n e pw d =
     (if (\<exists>u\<in>set (users d). ci_key (user_email u) = ci_key e) then Inl ER_DUP_ENTRY
      else let i = users_ai d in
        Inr (i, d\<lparr>users := users d @ [\<lparr>user_id = i, user_name = n, user_email = e, user_password = pw,
                                        user_role = RoleUser\<rparr>],
                 users_ai := Suc i\<rparr>))"

text \<open>\<open>UPDATE users SET name = ?, email = ? WHERE id = ?\<close>.\<close>

definition set_user_profile :: "ident \<Rightarrow> string \<Rightarrow> string \<Rightarrow> db \<Rightarrow> sql_error + db" where
  "set_user_profile i n e d =
     (if (\<exists>u\<in>set (users d). user_id u \<noteq> i \<and> ci_key (user_email u) = ci_key e)
         \<and> (\<exists>u\<in>set (users d). user_id u = i) then Inl ER_DUP_ENTRY
      else Inr (d\<lparr>users := update_where (\<lambda>u. user_id u = i) (\<lambda>u. u\<lparr>user_name := n, user_email := e\<rparr>) (users d)\<rparr>))"

text \<open>\<open>UPDATE users SET password = ? WHERE id = ?\<close> and \<open>UPDATE users SET role = ? WHERE id = ?\<close>.\<close>

definition set_user_password :: "ident \<Rightarrow> pw_hash \<Rightarrow> db \<Rightarrow> db" where
  "set_user_password i pw d =
     d\<lparr>users := update_where (\<lambda>u. user_id u = i) (\<lambda>u. u\<lparr>user_password := pw\<rparr>) (users d)\<rparr>"

definition set_user_role :: "ident \<Rightarrow> role \<Rightarrow> db \<Rightarrow> db" where
  "set_user_role i r d =
     d\<lparr>users := update_where (\<lambda>u. user_id u = i) (\<lambda>u. u\<lparr>user_role := r\<rparr>) (users d)\<rparr>"

text \<open>
  The text columns of a new or edited package, as bound by the route: \<open>image_url\<close> is
  the body's raw value (\<open>undefined\<close> when absent, which the driver refuses, \<open>null\<close>
  allowed by the column).
\<close>

record package_fields =
  pf_title :: string
  pf_destination :: string
  pf_description :: string
  pf_price :: cents
  pf_duration :: string
  pf_image_url :: jsval

definition package_fields_error :: "package_fields \<Rightarrow> sql_error option" where
  "package_fields_error f =
     (if pf_image_url f = JUndefined then Some DRIVER_UNDEFINED_BIND
      else if pf_price f < - decimal_10_2_max \<or> decimal_10_2_max < pf_price f then Some ER_WARN_DATA_OUT_OF_RANGE
      else if 500 < length (js_to_text (pf_image_url f)) then Some ER_DATA_TOO_LONG
      else None)"

text \<open>
  \<open>INSERT INTO packages (title, destination, description, price, duration, image_url)\<close>:
  \<open>rating\<close> and \<open>total_reviews\<close> take their defaults 0.  A \<open>NULL\<close> image is stored as
  the empty text.
\<close>

definition insert_package :: "package_fields \<Rightarrow> db \<Rightarrow> sql_error + (ident \<times> db)" where
  "insert_package f d =
     (case package_fields_error f of
        Some e \<Rightarrow> Inl e
      | None \<Rightarrow>
          let i = packages_ai d in
          Inr (i, d\<lparr>packages := packages d @
                     [\<lparr>package_id = i, package_title = pf_title f, package_destination = pf_destination f,
                       package_description = pf_description f, package_price = pf_price f,
                       package_duration = pf_duration f, package_image_url = js_to_text (pf_image_url f),
                       package_rating = 0, package_total_reviews = 0\<rparr>],
                   packages_ai := Suc i\<rparr>))"

text \<open>\<open>UPDATE packages SET title = ?, ..., image_url = ? WHERE id = ?\<close>.\<close>

definition set_package_fields :: "ident \<Rightarrow> package_fields \<Rightarrow> db \<Rightarrow> sql_error + db" where
  "set_package_fields i f d =
     (case package_fields_error f of
        Some e \<Rightarrow> Inl e
      | None \<Rightarrow>
          Inr (d\<lparr>packages := update_where (\<lambda>p. package_id p = i)
                 (\<lambda>p. p\<lparr>package_title := pf_title f, package_destination := pf_destination f,
                       package_description := pf_description f, package_price := pf_price f,
                       package_duration := pf_duration f, package_image_url := js_to_text (pf_image_url f)\<rparr>)
                 (packages d)\<rparr>))"

subsection \<open>The schema's constraints as an invariant\<close>

text \<open>Every foreign key names an existing row.\<close>

definition fk_ok :: "db \<Rightarrow> bool" where
  "fk_ok d \<longleftrightarrow>
     (\<forall>b\<in>set (bookings d). booking_user_id b \<in> user_id ` set (users d)
                         \<and> booking_package_id b \<in> package_id ` set (packages d))
   \<and> (\<forall>r\<in>set (reviews d). review_user_id r \<in> user_id ` set (users d)
                         \<and> review_package_id r \<in> package_id ` set (packages d))"

definition db_wf :: "db \<Rightarrow> bool" where
  "db_wf d \<longleftrightarrow>
     keys_ok user_id (users d) (users_ai d) \<and> keys_ok package_id (packages d) (packages_ai d)
   \<and> keys_ok booking_id (bookings d) (bookings_ai d) \<and> keys_ok review_id (reviews d) (reviews_ai d)
   \<and> keys_ok contact_id (booking_contacts d) (contacts_ai d)
   \<and> distinct (map (\<lambda>u. ci_key (user_email u)) (users d))
   \<and> distinct (map (\<lambda>r. (review_user_id r, review_package_id r)) (reviews d))
   \<and> fk_ok d
   \<and> (\<forall>r\<in>set (reviews d). 1 \<le> review_rating r \<and> review_rating r \<le> 5)
   \<and> (\<forall>b\<in>set (bookings d). \<bar>booking_total_amount b\<bar> \<le> decimal_10_2_max)"

lemma db_wf_empty: "db_wf empty_db"
  by (simp add: db_wf_def empty_db_def keys_ok_def fk_ok_def)

lemmas find_defs = find_user_def find_package_def find_booking_def find_review_def

lemma wf_insert_booking:
  "db_wf d \<Longrightarrow> insert_booking u p dt g r a d = Inr (i, d') \<Longrightarrow> db_wf d'"
  unfolding insert_booking_def db_wf_def fk_ok_def
  by (auto simp: Let_def find_defs table_simps split: if_splits)

lemma wf_set_booking_status: "db_wf d \<Longrightarrow> db_wf (set_booking_status i st d)"
  unfolding set_booking_status_def db_wf_def fk_ok_def
  by (auto simp: table_simps dest!: set_update_where_cases)

lemma wf_insert_review:
  assumes wf: "db_wf d" and ins: "insert_review u p rt c d = Inr (i, d')"
  shows "db_wf d'"
proof -
  let ?row = "\<lparr>review_id = reviews_ai d, review_user_id = u, review_package_id = p,
               review_rating = rt, review_comment = Some c\<rparr>"
  from ins have chk: "1 \<le> rt \<and> rt \<le> 5"
    and fk: "u \<in> user_id ` set (users d) \<and> p \<in> package_id ` set (packages d)"
    and uq: "(u, p) \<notin> (\<lambda>r. (review_user_id r, review_package_id r)) ` set (reviews d)"
    and d': "d' = d\<lparr>reviews := reviews d @ [?row], reviews_ai := Suc (reviews_ai d)\<rparr>"
    unfolding insert_review_def
    by (auto simp: Let_def find_defs table_simps split: if_splits)
  with wf show ?thesis
    unfolding db_wf_def fk_ok_def by (auto simp: table_simps)
qed

lemma wf_update_review_fields:
  "db_wf d \<Longrightarrow> update_review_fields i rt c d = Inr d' \<Longrightarrow> db_wf d'"
  unfolding update_review_fields_def db_wf_def fk_ok_def
  by (auto simp: table_simps split: if_splits option.splits dest!: set_update_where_cases)

lemma wf_delete_review_row: "db_wf d \<Longrightarrow> db_wf (delete_review_row i d)"
  unfolding delete_review_row_def db_wf_def fk_ok_def
  by (auto simp: table_simps distinct_map_filter)

lemma wf_set_package_rating: "db_wf d \<Longrightarrow> db_wf (set_package_rating i rt n d)"
  unfolding set_package_rating_def db_wf_def fk_ok_def
  by (auto simp: table_simps)

lemma wf_delete_package_row: "db_wf d \<Longrightarrow> db_wf (delete_package_row i d)"
  unfolding delete_package_row_def db_wf_def fk_ok_def
  by (auto simp: table_simps distinct_map_filter image_iff)

lemma wf_delete_user_row: "db_wf d \<Longrightarrow> db_wf (delete_user_row i d)"
  unfolding delete_user_row_def db_wf_def fk_ok_def
  by (auto simp: table_simps distinct_map_filter image_iff)

lemma wf_insert_contact: "db_wf d \<Longrightarrow> db_wf (snd (insert_contact n e ph dt st d))"
  unfolding insert_contact_def db_wf_def fk_ok_def
  by (auto simp: Let_def table_simps)

lemma wf_set_contact_status: "db_wf d \<Longrightarrow> db_wf (snd (set_contact_status i st d))"
  unfolding set_contact_status_def db_wf_def fk_ok_def
  by (auto simp: table_simps)

lemma wf_delete_contact_row: "db_wf d \<Longrightarrow> db_wf (snd (delete_contact_row i d))"
  unfolding delete_contact_row_def db_wf_def fk_ok_def
  by (auto simp: table_simps)

lemma wf_append_user:
  assumes "db_wf d" and "\<forall>v\<in>set (users d). ci_key (user_email v) \<noteq> ci_key (user_email u)"
    and "user_id u = users_ai d"
  shows "db_wf (d\<lparr>users := users d @ [u], users_ai := Suc (users_ai d)\<rparr>)"
  using assms unfolding db_wf_def fk_ok_def by (auto simp: table_simps image_iff)

lemma wf_insert_user:
  assumes wf: "db_wf d" and ins: "insert_user n e pw d = Inr (i, d')"
  shows "db_wf d'"
  using ins wf_append_user [OF wf, where u = "\<lparr>user_id = users_ai d, user_name = n, user_email = e,
                                               user_password = pw, user_role = RoleUser\<rparr>"]
  unfolding insert_user_def by (auto simp: Let_def split: if_splits)

lemma wf_set_user_password: "db_wf d \<Longrightarrow> db_wf (set_user_password i pw d)"
  unfolding set_user_password_def db_wf_def fk_ok_def
  by (auto simp: table_simps)

lemma wf_set_user_role: "db_wf d \<Longrightarrow> db_wf (set_user_role i r d)"
  unfolding set_user_role_def db_wf_def fk_ok_def
  by (auto simp: table_simps)

lemma wf_set_user_profile:
  assumes wf: "db_wf d" and upd: "set_user_profile i n e d = Inr d'"
  shows "db_wf d'"
proof (cases "\<exists>u\<in>set (users d). user_id u = i")
  case True
  with upd have free: "\<forall>u\<in>set (users d). user_id u \<noteq> i \<longrightarrow> ci_key (user_email u) \<noteq> ci_key e"
    and d': "d' = d\<lparr>users := update_where (\<lambda>u. user_id u = i) (\<lambda>u. u\<lparr>user_name := n, user_email := e\<rparr>) (users d)\<rparr>"
    unfolding set_user_profile_def by (auto split: if_splits)
  have "distinct (map (\<lambda>u. ci_key (user_email u))
          (update_where (\<lambda>u. user_id u = i) (\<lambda>u. u\<lparr>user_name := n, user_email := e\<rparr>) (users d)))"
    using wf free by (intro distinct_map_update_where_key) (auto simp: db_wf_def keys_ok_def)
  with wf show ?thesis unfolding d' db_wf_def fk_ok_def by (auto simp: table_simps)
next
  case False
  with upd have "d' = d\<lparr>users := update_where (\<lambda>u. user_id u = i) (\<lambda>u. u\<lparr>user_name := n, user_email := e\<rparr>) (users d)\<rparr>"
    unfolding set_user_profile_def by (auto split: if_splits)
  moreover from False have "update_where (\<lambda>u. user_id u = i) (\<lambda>u. u\<lparr>user_name := n, user_email := e\<rparr>) (users d) = users d"
    by (intro update_where_no_match) auto
  ultimately show ?thesis using wf by simp
qed

lemma wf_insert_package:
  "db_wf d \<Longrightarrow> insert_package f d = Inr (i, d') \<Longrightarrow> db_wf d'"
  unfolding insert_package_def db_wf_def fk_ok_def
  by (auto simp: Let_def table_simps split: option.splits)

lemma wf_set_package_fields:
  "db_wf d \<Longrightarrow> set_package_fields i f d = Inr d' \<Longrightarrow> db_wf d'"
  unfolding set_package_fields_def db_wf_def fk_ok_def
  by (auto simp: table_simps split: option.splits)

end
