(* ===== verification/Validation.thy ===== *)
theory Validation
  imports Store
begin

text \<open>
  The validation layer, \<open>src/server/middleware/validation.js\<close>: the express-validator
  chains \<open>validateBooking\<close>, \<open>validateReview\<close> and \<open>validateId\<close>, and
  \<open>handleValidationErrors\<close>, which answers 400 with the message of the first failing
  rule.  The validators of the library are modelled as they behave on the values a JSON
  body can hold: every value is first turned into a string (\<open>toString\<close>) and
  \<open>isInt\<close> matches \<open>^[-+]?[0-9]+$\<close> (the default \<open>allow_leading_zeroes\<close>) and
  then compares \<open>parseInt\<close> with \<open>min\<close>/\<open>max\<close>.  A validated body is returned
  as a typed request record, the value the handler then reads.
\<close>

subsection \<open>Decimal strings\<close>

definition digit_val :: "char \<Rightarrow> nat option" where
  "digit_val c = (let k = (of_char c :: nat) in if 48 \<le> k \<and> k \<le> 57 then Some (k - 48) else None)"

fun digits_acc :: "nat \<Rightarrow> string \<Rightarrow> nat option" where
  "digits_acc acc [] = Some acc"
| "digits_acc acc (c # cs) =
     (case digit_val c of None \<Rightarrow> None | Some v \<Rightarrow> digits_acc (10 * acc + v) cs)"

text \<open>A non-empty run of decimal digits.\<close>

definition parse_nat :: "string \<Rightarrow> nat option" where
  "parse_nat s = (if s = [] then None else digits_acc 0 s)"

text \<open>\<open>isInt\<close>'s syntax \<open>^[-+]?[0-9]+$\<close> with its value.\<close>

fun parse_int :: "string \<Rightarrow> int option" where
  "parse_int (c # cs) =
     (if c = CHR ''-'' then map_option (\<lambda>n. - int n) (parse_nat cs)
      else if c = CHR ''+'' then map_option int (parse_nat cs)
      else map_option int (parse_nat (c # cs)))"
| "parse_int [] = None"

text \<open>\<open>String(n)\<close> for an integral number.\<close>

definition digit_char :: "nat \<Rightarrow> char" where
  "digit_char n = char_of (48 + n)"

fun nat_to_string :: "nat \<Rightarrow> string" where
  "nat_to_string n =
     (if n < 10 then [digit_char n] else nat_to_string (n div 10) @ [digit_char (n mod 10)])"

declare nat_to_string.simps [simp del]

definition int_to_string :: "int \<Rightarrow> string" where
  "int_to_string i = (if i < 0 then CHR ''-'' # nat_to_string (nat (- i)) else nat_to_string (nat i))"

text \<open>express-validator's \<open>toString\<close> of a field value.\<close>

fun js_to_string :: "jsval \<Rightarrow> string" where
  "js_to_string JUndefined = []"
| "js_to_string JNull = []"
| "js_to_string (JBool b) = (if b then ''true'' else ''false'')"
| "js_to_string (JNum n) = int_to_string n"
| "js_to_string (JStr s) = s"

subsection \<open>Round trip: \<open>isInt\<close> reads back every integral number\<close>

lemma digits_acc_append:
  "digits_acc acc (s @ t) = (case digits_acc acc s of None \<Rightarrow> None | Some a \<Rightarrow> digits_acc a t)"
  by (induction acc s rule: digits_acc.induct) (auto split: option.splits)

lemma digit_val_digit_char: "n < 10 \<Longrightarrow> digit_val (digit_char n) = Some n"
  by (simp add: digit_val_def digit_char_def Let_def)

lemma nat_to_string_ne: "nat_to_string n \<noteq> []"
  by (subst nat_to_string.simps) simp

lemma nat_to_string_digits: "c \<in> set (nat_to_string n) \<Longrightarrow> digit_val c \<noteq> None"
proof (induction n rule: nat_to_string.induct)
  case (1 n)
  then show ?case
    by (subst (asm) nat_to_string.simps) (auto simp: digit_val_digit_char split: if_splits)
qed

lemma digits_acc_nat_to_string: "digits_acc 0 (nat_to_string n) = Some n"
proof (induction n rule: nat_to_string.induct)
  case (1 n)
  show ?case
  proof (cases "n < 10")
    case True
    then show ?thesis by (subst nat_to_string.simps) (simp add: digit_val_digit_char)
  next
    case False
    with "1.IH" have "digits_acc 0 (nat_to_string (n div 10)) = Some (n div 10)" by simp
    with False show ?thesis
      by (subst nat_to_string.simps) (simp add: digits_acc_append digit_val_digit_char)
  qed
qed

lemma parse_nat_nat_to_string: "parse_nat (nat_to_string n) = Some n"
  by (simp add: parse_nat_def nat_to_string_ne digits_acc_nat_to_string)

lemma parse_int_nat_to_string: "parse_int (nat_to_string n) = Some (int n)"
proof -
  obtain c cs where cs: "nat_to_string n = c # cs"
    using nat_to_string_ne by (cases "nat_to_string n") auto
  then have "digit_val c \<noteq> None" using nat_to_string_digits [of c n] by simp
  then have "c \<noteq> CHR ''-'' \<and> c \<noteq> CHR ''+''" by (auto simp: digit_val_def)
  with cs show ?thesis using parse_nat_nat_to_string [of n] by simp
qed

lemma parse_int_int_to_string [simp]: "parse_int (int_to_string i) = Some i"
proof (cases "i < 0")
  case True
  then show ?thesis
    using parse_nat_nat_to_string [of "nat (- i)"] by (simp add: int_to_string_def)
next
  case False
  then show ?thesis
    using parse_int_nat_to_string [of "nat i"] by (simp add: int_to_string_def)
qed

subsection \<open>The validators\<close>

text \<open>\<open>isInt({min: lo, max: hi})\<close>, returning the integer it accepted.\<close>

definition int_in :: "int \<Rightarrow> int option \<Rightarrow> jsval \<Rightarrow> int option" where
  "int_in lo hi v =
     (case parse_int (js_to_string v) of
        None \<Rightarrow> None
      | Some n \<Rightarrow> if lo \<le> n \<and> (case hi of None \<Rightarrow> True | Some h \<Rightarrow> n \<le> h) then Some n else None)"

lemma int_in_JNum [simp]:
  "int_in lo hi (JNum n) = (if lo \<le> n \<and> (case hi of None \<Rightarrow> True | Some h \<Rightarrow> n \<le> h) then Some n else None)"
  by (simp add: int_in_def)

lemma int_in_SomeD: "int_in lo hi v = Some n \<Longrightarrow> lo \<le> n \<and> (\<forall>h. hi = Some h \<longrightarrow> n \<le> h)"
  by (auto simp: int_in_def split: option.splits if_splits)

text \<open>
  \<open>isISO8601()\<close> on a calendar date \<open>YYYY-MM-DD\<close> (month \<open>01\<close>--\<open>12\<close>, day
  \<open>01\<close>--\<open>31\<close>), read as the date \<open>new Date(value)\<close> denotes.
\<close>

definition parse_iso_date :: "string \<Rightarrow> date option" where
  "parse_iso_date s =
     (if length s = 10 \<and> s ! 4 = CHR ''-'' \<and> s ! 7 = CHR ''-'' then
        (case (parse_nat (take 4 s), parse_nat (take 2 (drop 5 s)), parse_nat (drop 8 s)) of
           (Some y, Some m, Some dd) \<Rightarrow>
             if 1 \<le> m \<and> m \<le> 12 \<and> 1 \<le> dd \<and> dd \<le> 31 then Some (int y, int m, int dd) else None
         | _ \<Rightarrow> None)
      else None)"

text \<open>\<open>trim()\<close>: leading and trailing white space (the ASCII part of JavaScript's \<open>\s\<close>).\<close>

definition js_space :: "char \<Rightarrow> bool" where
  "js_space c \<longleftrightarrow> c \<in> set [CHR '' '', CHR 0x09, CHR 0x0A, CHR 0x0B, CHR 0x0C, CHR 0x0D]"

definition js_trim :: "string \<Rightarrow> string" where
  "js_trim s = rev (dropWhile js_space (rev (dropWhile js_space s)))"

text \<open>Storing a bound parameter into an \<open>INT NOT NULL\<close> and into a nullable \<open>TEXT\<close> column.\<close>

fun int_column :: "sql_value \<Rightarrow> sql_error + int" where
  "int_column SqlNull = Inl ER_BAD_NULL_ERROR"
| "int_column (SqlInt n) = Inr n"
| "int_column (SqlText s) =
     (case parse_int (js_trim s) of None \<Rightarrow> Inl ER_TRUNCATED_WRONG_VALUE_FOR_FIELD | Some n \<Rightarrow> Inr n)"

fun text_column :: "sql_value \<Rightarrow> string option" where
  "text_column SqlNull = None"
| "text_column (SqlInt n) = Some (int_to_string n)"
| "text_column (SqlText s) = Some s"

text \<open>
  JavaScript \<open>ToNumber\<close> as the relational operators apply it; \<open>None\<close> is \<open>NaN\<close>
  (every comparison with it is false).  Strings denoting non-integral numbers are outside
  the model.
\<close>

fun js_to_number :: "jsval \<Rightarrow> int option" where
  "js_to_number JUndefined = None"
| "js_to_number JNull = Some 0"
| "js_to_number (JBool b) = Some (if b then 1 else 0)"
| "js_to_number (JNum n) = Some n"
| "js_to_number (JStr s) = (let t = js_trim s in if t = [] then Some 0 else parse_int t)"

subsection \<open>\<open>validateBooking\<close>\<close>

record booking_req =
  req_package_id :: int
  req_booking_date :: date
  req_guests :: int
  req_rooms :: int

text \<open>
  The four chains in their order; \<open>handleValidationErrors\<close> reports the first error.
  \<open>today\<close> is the current date (\<open>new Date()\<close> with \<open>setHours(0, 0, 0, 0)\<close>).
\<close>

definition validate_booking :: "date \<Rightarrow> js_object \<Rightarrow> string + booking_req" where
  "validate_booking today body =
     (case int_in 1 None (js_get body ''packageId'') of
        None \<Rightarrow> Inl ''Package ID must be a positive integer''
      | Some pid \<Rightarrow>
     (case parse_iso_date (js_to_string (js_get body ''bookingDate'')) of
        None \<Rightarrow> Inl ''Booking date must be a valid date''
      | Some dt \<Rightarrow>
     if dt < today then Inl ''Booking date cannot be in the past'' else
     (case int_in 1 (Some 10) (js_get body ''guests'') of
        None \<Rightarrow> Inl ''Number of guests must be between 1 and 10''
      | Some g \<Rightarrow>
     (case int_in 1 (Some 5) (js_get body ''rooms'') of
        None \<Rightarrow> Inl ''Number of rooms must be between 1 and 5''
      | Some r \<Rightarrow>
        Inr \<lparr>req_package_id = pid, req_booking_date = dt, req_guests = g, req_rooms = r\<rparr>))))"

subsection \<open>\<open>validateReview\<close>\<close>

record review_req =
  rreq_package_id :: int
  rreq_rating :: int
  rreq_comment :: string

text \<open>The \<open>trim()\<close> sanitizer rewrites \<open>req.body.comment\<close>: the handler stores the trimmed text.\<close>

definition validate_review :: "js_object \<Rightarrow> string + review_req" where
  "validate_review body =
     (case int_in 1 None (js_get body ''packageId'') of
        None \<Rightarrow> Inl ''Package ID must be a positive integer''
      | Some pid \<Rightarrow>
     (case int_in 1 (Some 5) (js_get body ''rating'') of
        None \<Rightarrow> Inl ''Rating must be between 1 and 5''
      | Some rt \<Rightarrow>
     (let c = js_trim (js_to_string (js_get body ''comment'')) in
      if length c < 10 \<or> 500 < length c then Inl ''Comment must be between 10 and 500 characters''
      else Inr \<lparr>rreq_package_id = pid, rreq_rating = rt, rreq_comment = c\<rparr>)))"

subsection \<open>\<open>validateId\<close>\<close>

text \<open>
  \<open>param('id').isInt({min: 1})\<close>: it reads the route parameter named \<open>id\<close>, whatever
  the route's own parameter is called.  Route parameters are strings.
\<close>

definition param_val :: "(string \<times> string) list \<Rightarrow> string \<Rightarrow> jsval" where
  "param_val params k = (case map_of params k of None \<Rightarrow> JUndefined | Some v \<Rightarrow> JStr v)"

definition validate_id :: "(string \<times> string) list \<Rightarrow> string + int" where
  "validate_id params =
     (case int_in 1 None (param_val params ''id'') of
        None \<Rightarrow> Inl ''ID must be a positive integer''
      | Some i \<Rightarrow> Inr i)"

subsection \<open>Properties of the validators\<close>

lemma validate_booking_bounds:
  assumes "validate_booking today body = Inr rq"
  shows "1 \<le> req_package_id rq \<and> today \<le> req_booking_date rq
       \<and> 1 \<le> req_guests rq \<and> req_guests rq \<le> 10 \<and> 1 \<le> req_rooms rq \<and> req_rooms rq \<le> 5"
  using assms unfolding validate_booking_def
  by (auto split: option.splits if_splits dest!: int_in_SomeD)

lemma validate_id_absent:
  "map_of params ''id'' = None \<Longrightarrow> validate_id params = Inl ''ID must be a positive integer''"
  by (simp add: validate_id_def param_val_def int_in_def)

end
