(* ===== verification/Bookings.thy ===== *)
theory Bookings
  imports Validation
begin

text \<open>
  The booking routes: \<open>src/server/routes/bookings.js\<close> (creation, the owner's status
  change and cancellation, the owner's reads and statistics, the booking-contact lead
  records) and the administrator's status change of \<open>src/server/routes/admin.js\<close>.
  Each handler takes the database and the caller's row as \<open>authenticateToken\<close> attached
  it (\<open>req.user\<close>), runs the route's statements in order and returns the new database
  with the response; a statement error is the route's \<open>catch\<close> branch (500).
  A route function composes the handler with the middleware the route lists.
\<close>

subsection \<open>Joins the routes answer with\<close>

text \<open>
  \<open>SELECT b.*, p.title, p.destination, ... FROM bookings b JOIN packages p ON
  b.package_id = p.id WHERE b.id = ?\<close>: the booking with its package, if both exist.
\<close>

definition booking_join :: "db \<Rightarrow> ident \<Rightarrow> (booking_row \<times> package_row) option" where
  "booking_join d i =
     (case find_booking d i of
        None \<Rightarrow> None
      | Some b \<Rightarrow> map_option (Pair b) (find_package d (booking_package_id b)))"

text \<open>\<open>SELECT * FROM bookings WHERE id = ? AND user_id = ?\<close>.\<close>

definition find_own_booking :: "db \<Rightarrow> ident \<Rightarrow> ident \<Rightarrow> booking_row option" where
  "find_own_booking d i u = find (\<lambda>b. booking_id b = i \<and> booking_user_id b = u) (bookings d)"

text \<open>\<open>['pending', 'confirmed', 'cancelled'].includes(status)\<close> (strict equality).\<close>

fun parse_status :: "jsval \<Rightarrow> status option" where
  "parse_status (JStr s) =
     (if s = ''pending'' then Some Pending
      else if s = ''confirmed'' then Some Confirmed
      else if s = ''cancelled'' then Some Cancelled else None)"
| "parse_status _ = None"

subsection \<open>\<open>POST /api/bookings\<close>\<close>

text \<open>
  The package is read, \<open>totalAmount = package.price * guests * rooms\<close> is computed and
  inserted with the booking (status \<open>pending\<close> by the column default), and the joined
  row is returned with 201.  Prices are exact in hundredths: the JavaScript product of a
  two-decimal price and two small integers is within rounding distance of the exact
  value, which the \<open>DECIMAL(10,2)\<close> column restores.
\<close>

definition create_booking ::
  "user_row \<Rightarrow> booking_req \<Rightarrow> db \<Rightarrow> db \<times> (booking_row \<times> package_row) option response" where
  "create_booking usr rq d =
     (case find_package d (nat (req_package_id rq)) of
        None \<Rightarrow> (d, Failure 404 ''Package not found'')
      | Some pk \<Rightarrow>
          (let amount = package_price pk * req_guests rq * req_rooms rq in
           case insert_booking (user_id usr) (nat (req_package_id rq)) (req_booking_date rq)
                  (req_guests rq) (req_rooms rq) amount d of
             Inl _ \<Rightarrow> (d, Failure 500 ''Failed to create booking'')
           | Inr (i, d') \<Rightarrow> (d', Success 201 (booking_join d' i))))"

text \<open>The route: \<open>router.post('/', authenticateToken, validateBooking, handler)\<close>.\<close>

definition route_create_booking ::
  "date \<Rightarrow> user_row \<Rightarrow> js_object \<Rightarrow> db \<Rightarrow> db \<times> (booking_row \<times> package_row) option response" where
  "route_create_booking today usr body d =
     (case validate_booking today body of
        Inl msg \<Rightarrow> (d, Failure 400 msg)
      | Inr rq \<Rightarrow> create_booking usr rq d)"

subsection \<open>\<open>GET /api/bookings/:id\<close>\<close>

definition get_booking :: "user_row \<Rightarrow> ident \<Rightarrow> db \<Rightarrow> (booking_row \<times> package_row) response" where
  "get_booking usr i d =
     (case find_own_booking d i (user_id usr) of
        None \<Rightarrow> Failure 404 ''Booking not found''
      | Some b \<Rightarrow>
          (case find_package d (booking_package_id b) of
             None \<Rightarrow> Failure 404 ''Booking not found''
           | Some p \<Rightarrow> Success 200 (b, p)))"

subsection \<open>\<open>PATCH /api/bookings/:id/status\<close>\<close>

text \<open>
  The status is checked, the booking must be the caller's, and only \<open>confirmed\<close> is
  reserved to administrators; any other target status is written for any owner.
\<close>

definition update_booking_status ::
  "user_row \<Rightarrow> ident \<Rightarrow> jsval \<Rightarrow> db \<Rightarrow> db \<times> (booking_row \<times> package_row) option response" where
  "update_booking_status usr i st d =
     (case parse_status st of
        None \<Rightarrow> (d, Failure 400 ''Invalid status. Must be pending, confirmed, or cancelled'')
      | Some s \<Rightarrow>
          (case find_own_booking d i (user_id usr) of
             None \<Rightarrow> (d, Failure 404 ''Booking not found'')
           | Some _ \<Rightarrow>
               if s = Confirmed \<and> user_role usr \<noteq> RoleAdmin
               then (d, Failure 403 ''Only admins can confirm bookings'')
               else (let d' = set_booking_status i s d in (d', Success 200 (booking_join d' i)))))"

definition route_update_booking_status ::
  "user_row \<Rightarrow> (string \<times> string) list \<Rightarrow> js_object \<Rightarrow> db
     \<Rightarrow> db \<times> (booking_row \<times> package_row) option response" where
  "route_update_booking_status usr params body d =
     (case validate_id params of
        Inl msg \<Rightarrow> (d, Failure 400 msg)
      | Inr i \<Rightarrow> update_booking_status usr (nat i) (js_get body ''status'') d)"

subsection \<open>\<open>POST /api/bookings/:id/cancel\<close>\<close>

definition cancel_booking :: "user_row \<Rightarrow> ident \<Rightarrow> db \<Rightarrow> db \<times> string response" where
  "cancel_booking usr i d =
     (case find_own_booking d i (user_id usr) of
        None \<Rightarrow> (d, Failure 404 ''Booking not found'')
      | Some b \<Rightarrow>
          if booking_status b = Cancelled then (d, Failure 400 ''Booking is already cancelled'')
          else (set_booking_status i Cancelled d, Success 200 ''Booking cancelled successfully''))"

definition route_cancel_booking :: "user_row \<Rightarrow> (string \<times> string) list \<Rightarrow> db \<Rightarrow> db \<times> string response" where
  "route_cancel_booking usr params d =
     (case validate_id params of
        Inl msg \<Rightarrow> (d, Failure 400 msg)
      | Inr i \<Rightarrow> cancel_booking usr (nat i) d)"

subsection \<open>\<open>PATCH /api/admin/bookings/:id/status\<close>\<close>

text \<open>
  Behind \<open>router.use(authenticateToken, requireAdmin)\<close>; no ownership check and no
  \<open>validateId\<close>: \<open>i\<close> is the integer MySQL reads from the path segment.
\<close>

definition admin_update_booking_status ::
  "ident \<Rightarrow> jsval \<Rightarrow> db \<Rightarrow> db \<times> (booking_row \<times> package_row \<times> user_row) option response" where
  "admin_update_booking_status i st d =
     (case parse_status st of
        None \<Rightarrow> (d, Failure 400 ''Invalid status. Must be pending, confirmed, or cancelled'')
      | Some s \<Rightarrow>
          (case find_booking d i of
             None \<Rightarrow> (d, Failure 404 ''Booking not found'')
           | Some _ \<Rightarrow>
               (let d' = set_booking_status i s d in
                (d', Success 200
                  (case booking_join d' i of
                     None \<Rightarrow> None
                   | Some (b, p) \<Rightarrow> map_option (\<lambda>u. (b, p, u)) (find_user d' (booking_user_id b)))))))"

subsection \<open>\<open>GET /api/bookings/stats/user\<close>\<close>

record booking_stats =
  total_bookings :: nat
  confirmed_bookings :: nat
  pending_bookings :: nat
  cancelled_bookings :: nat
  total_spent :: "cents option"   \<comment> \<open>\<open>SUM\<close> over no rows is \<open>NULL\<close>\<close>

definition user_booking_stats :: "user_row \<Rightarrow> db \<Rightarrow> booking_stats" where
  "user_booking_stats usr d =
     (let bs = filter (\<lambda>b. booking_user_id b = user_id usr) (bookings d);
          cnt = (\<lambda>s. length (filter (\<lambda>b. booking_status b = s) bs)) in
      \<lparr>total_bookings = length bs, confirmed_bookings = cnt Confirmed,
       pending_bookings = cnt Pending, cancelled_bookings = cnt Cancelled,
       total_spent = (if bs = [] then None else Some (sum_list (map booking_total_amount bs)))\<rparr>)"

subsection \<open>Booking contacts (\<open>/api/bookings/contacts\<close>)\<close>

text \<open>
  \<open>POST /contacts\<close>: all four fields must be truthy; the row is stored as
  \<open>pending\<close>.  No authentication.
\<close>

definition create_booking_contact :: "js_object \<Rightarrow> db \<Rightarrow> db \<times> string response" where
  "create_booking_contact body d =
     (let n = js_get body ''name''; e = js_get body ''email''; ph = js_get body ''phone'';
          dt = js_get body ''booking_date'' in
      if \<not> js_truthy n \<or> \<not> js_truthy e \<or> \<not> js_truthy ph \<or> \<not> js_truthy dt
      then (d, Failure 400 ''All fields (name, email, phone, booking_date) are required.'')
      else (snd (insert_contact (js_to_string n) (js_to_string e) (js_to_string ph) (js_to_string dt)
                   Pending d),
            Success 201 ''Booking contact saved successfully.''))"

definition update_contact_status :: "ident \<Rightarrow> jsval \<Rightarrow> db \<Rightarrow> db \<times> string response" where
  "update_contact_status i st d =
     (case parse_status st of
        None \<Rightarrow> (d, Failure 400 ''Invalid status'')
      | Some s \<Rightarrow>
          (let (n, d') = set_contact_status i s d in
           if n = 0 then (d', Failure 404 ''Booking contact not found'')
           else (d', Success 200 ''Status updated successfully'')))"

definition delete_booking_contact :: "ident \<Rightarrow> db \<Rightarrow> db \<times> string response" where
  "delete_booking_contact i d =
     (let (n, d') = delete_contact_row i d in
      if n = 0 then (d', Failure 404 ''Booking contact not found'')
      else (d', Success 200 ''Booking contact deleted successfully''))"

subsection \<open>Properties of the booking routes\<close>

lemma find_own_booking_SomeD:
  assumes "db_wf d" "find_own_booking d i u = Some b"
  shows "find_booking d i = Some b \<and> booking_id b = i \<and> booking_user_id b = u \<and> b \<in> set (bookings d)"
proof -
  from assms(2) have b: "b \<in> set (bookings d)" "booking_id b = i" "booking_user_id b = u"
    unfolding find_own_booking_def by (auto simp: find_Some_iff nth_mem)
  moreover have "keys_ok booking_id (bookings d) (bookings_ai d)" using assms(1) by (simp add: db_wf_def)
  ultimately show ?thesis unfolding find_booking_def using keys_ok_find by fastforce
qed

lemma find_booking_set_status:
  "find_booking (set_booking_status i s d) i = map_option (\<lambda>b. b\<lparr>booking_status := s\<rparr>) (find_booking d i)"
  unfolding find_booking_def set_booking_status_def by (simp add: table_simps)

lemma set_booking_status_totals:
  "map booking_total_amount (bookings (set_booking_status i s d)) = map booking_total_amount (bookings d)"
  unfolding set_booking_status_def by (simp add: table_simps)

lemma update_booking_status_non_admin_confirm:
  assumes "user_role usr \<noteq> RoleAdmin" and "find_own_booking d i (user_id usr) \<noteq> None"
  shows "update_booking_status usr i (JStr ''confirmed'') d = (d, Failure 403 ''Only admins can confirm bookings'')"
  using assms unfolding update_booking_status_def by auto

lemma update_booking_status_owner:
  assumes wf: "db_wf d" and own: "find_own_booking d i (user_id usr) = Some b"
    and st: "parse_status v = Some s" and allowed: "s = Confirmed \<longrightarrow> user_role usr = RoleAdmin"
  shows "\<exists>r. update_booking_status usr i v d = (set_booking_status i s d, Success 200 r)
           \<and> find_booking (set_booking_status i s d) i = Some (b\<lparr>booking_status := s\<rparr>)"
  using find_own_booking_SomeD [OF wf own] own st allowed
  unfolding update_booking_status_def by (auto simp: Let_def find_booking_set_status)

lemma cancel_booking_cancels:
  assumes wf: "db_wf d" and own: "find_own_booking d i (user_id usr) = Some b"
    and nc: "booking_status b \<noteq> Cancelled"
  shows "cancel_booking usr i d = (set_booking_status i Cancelled d, Success 200 ''Booking cancelled successfully'')
       \<and> find_booking (set_booking_status i Cancelled d) i = Some (b\<lparr>booking_status := Cancelled\<rparr>)"
  using find_own_booking_SomeD [OF wf own] own nc
  unfolding cancel_booking_def by (auto simp: find_booking_set_status)

lemma length_status_partition:
  "length bs = length (filter (\<lambda>b. booking_status b = Confirmed) bs)
     + length (filter (\<lambda>b. booking_status b = Pending) bs)
     + length (filter (\<lambda>b. booking_status b = Cancelled) bs)"
proof (induction bs)
  case (Cons b bs)
  then show ?case by (cases "booking_status b") auto
qed simp

lemma create_booking_success:
  assumes wf: "db_wf d"
    and pk: "find_package d (nat (req_package_id rq)) = Some pk"
    and usr: "user_id usr \<in> user_id ` set (users d)"
    and rng: "\<bar>package_price pk * req_guests rq * req_rooms rq\<bar> \<le> decimal_10_2_max"
  shows "\<exists>b. create_booking usr rq d
               = (d\<lparr>bookings := bookings d @ [b], bookings_ai := Suc (bookings_ai d)\<rparr>, Success 201 (Some (b, pk)))
           \<and> booking_total_amount b = package_price pk * req_guests rq * req_rooms rq
           \<and> booking_status b = Pending \<and> booking_user_id b = user_id usr
           \<and> booking_package_id b = package_id pk
           \<and> booking_guests b = req_guests rq \<and> booking_rooms b = req_rooms rq
           \<and> booking_date b = req_booking_date rq"
proof -
  let ?amt = "package_price pk * req_guests rq * req_rooms rq"
  let ?b = "\<lparr>booking_id = bookings_ai d, booking_user_id = user_id usr,
             booking_package_id = nat (req_package_id rq), booking_date = req_booking_date rq,
             booking_guests = req_guests rq, booking_rooms = req_rooms rq,
             booking_total_amount = ?amt, booking_status = Pending\<rparr>"
  let ?d' = "d\<lparr>bookings := bookings d @ [?b], bookings_ai := Suc (bookings_ai d)\<rparr>"
  have pid: "package_id pk = nat (req_package_id rq)"
    using pk unfolding find_package_def by (auto simp: find_Some_iff)
  have ins: "insert_booking (user_id usr) (nat (req_package_id rq)) (req_booking_date rq)
               (req_guests rq) (req_rooms rq) ?amt d = Inr (bookings_ai d, ?d')"
    using rng usr pk unfolding insert_booking_def by (auto simp: Let_def find_defs table_simps)
  have fresh: "bookings_ai d \<notin> booking_id ` set (bookings d)"
    using wf keys_ok_fresh unfolding db_wf_def by fastforce
  have "booking_join ?d' (bookings_ai d) = Some (?b, pk)"
    using fresh pk unfolding booking_join_def find_defs by (simp add: find_append_fresh)
  with pk ins pid show ?thesis unfolding create_booking_def by (auto simp: Let_def)
qed

lemma create_booking_result:
  assumes wf: "db_wf d" and ok: "create_booking usr rq d = (d', Success n (Some (b, p)))"
  shows "find_package d (nat (req_package_id rq)) = Some p
       \<and> booking_total_amount b = package_price p * req_guests rq * req_rooms rq
       \<and> booking_status b = Pending \<and> booking_user_id b = user_id usr
       \<and> booking_guests b = req_guests rq \<and> booking_rooms b = req_rooms rq
       \<and> booking_date b = req_booking_date rq \<and> n = 201"
proof -
  obtain pk where pk: "find_package d (nat (req_package_id rq)) = Some pk"
    using ok unfolding create_booking_def by (auto split: option.splits)
  let ?amt = "package_price pk * req_guests rq * req_rooms rq"
  obtain i d1 where ins: "insert_booking (user_id usr) (nat (req_package_id rq)) (req_booking_date rq)
        (req_guests rq) (req_rooms rq) ?amt d = Inr (i, d1)"
    and res: "d' = d1" "booking_join d1 i = Some (b, p)" "n = 201"
    using ok pk unfolding create_booking_def by (auto simp: Let_def split: sum.splits)
  have rng: "\<bar>?amt\<bar> \<le> decimal_10_2_max"
    using ins unfolding insert_booking_def by (auto split: if_splits)
  have usr: "user_id usr \<in> user_id ` set (users d)"
    using ins unfolding insert_booking_def by (auto simp: find_defs table_simps split: if_splits)
  from create_booking_success [OF wf pk usr rng] obtain b' where
    eq: "create_booking usr rq d = (d\<lparr>bookings := bookings d @ [b'], bookings_ai := Suc (bookings_ai d)\<rparr>,
            Success 201 (Some (b', pk)))"
    and props: "booking_total_amount b' = ?amt" "booking_status b' = Pending" "booking_user_id b' = user_id usr"
      "booking_guests b' = req_guests rq" "booking_rooms b' = req_rooms rq"
      "booking_date b' = req_booking_date rq"
    by blast
  from eq ok have "b' = b" "pk = p" by simp_all
  then show ?thesis using props pk res by simp
qed

lemma admin_update_booking_status_sets:
  assumes "find_booking d i = Some b" and "parse_status v = Some s"
  shows "\<exists>r. admin_update_booking_status i v d = (set_booking_status i s d, Success 200 r)
           \<and> find_booking (set_booking_status i s d) i = Some (b\<lparr>booking_status := s\<rparr>)"
  using assms unfolding admin_update_booking_status_def by (auto simp: Let_def find_booking_set_status)

end
