(* ===== verification/Reviews.thy ===== *)
theory Reviews
  imports Validation
begin

text \<open>
  The review routes of \<open>src/server/routes/reviews.js\<close> and their helper
  \<open>updatePackageRating\<close>, which recomputes a package's cached \<open>rating\<close> and
  \<open>total_reviews\<close> after every review written or deleted.  The cached rating is what
  MySQL makes of \<open>AVG(rating)\<close>: the average of an \<open>INT\<close> column is a
  \<open>DECIMAL\<close> with four decimals (rounded half up), the driver returns it as text, and
  storing that text into \<open>rating DECIMAL(3,2)\<close> rounds it again to two decimals.
  \<open>rating_of_mset\<close> is the abstract specification: the cached value is a function of
  the multiset of the package's ratings alone.
\<close>

subsection \<open>Rating aggregation\<close>

text \<open>\<open>AVG(rating)\<close> of a non-empty list, in ten-thousandths.\<close>

definition mysql_avg4 :: "int list \<Rightarrow> int" where
  "mysql_avg4 rs = round_div (10000 * sum_list rs) (int (length rs))"

text \<open>
  The value \<open>updatePackageRating\<close> stores, in hundredths: \<open>AVG\<close> is \<open>NULL\<close> on no
  rows and \<open>averageRating || 0\<close> makes it 0; otherwise the four-decimal average rounded
  to the column's two decimals.
\<close>

definition stored_rating :: "int list \<Rightarrow> int" where
  "stored_rating rs = (if rs = [] then 0 else round_div (mysql_avg4 rs) 100)"

definition rating_of_mset :: "int multiset \<Rightarrow> int" where
  "rating_of_mset M =
     (if M = {#} then 0 else round_div (round_div (10000 * sum_mset M) (int (size M))) 100)"

text \<open>\<open>updatePackageRating(packageId)\<close>: one \<open>SELECT\<close> of the aggregates, one \<open>UPDATE\<close>.\<close>

definition update_package_rating :: "ident \<Rightarrow> db \<Rightarrow> db" where
  "update_package_rating p d =
     (let rs = package_ratings d p in set_package_rating p (stored_rating rs) (length rs) d)"

text \<open>The package cache agrees with the reviews table.\<close>

definition rating_cache_ok :: "db \<Rightarrow> bool" where
  "rating_cache_ok d \<longleftrightarrow>
     (\<forall>pk\<in>set (packages d). package_rating pk = stored_rating (package_ratings d (package_id pk))
                         \<and> package_total_reviews pk = length (package_ratings d (package_id pk)))"

text \<open>The cache agrees with the reviews table for every package but \<open>p\<close>.\<close>

definition cache_ok_except :: "ident \<Rightarrow> db \<Rightarrow> bool" where
  "cache_ok_except p d \<longleftrightarrow>
     (\<forall>pk\<in>set (packages d). package_id pk \<noteq> p \<longrightarrow>
        package_rating pk = stored_rating (package_ratings d (package_id pk))
        \<and> package_total_reviews pk = length (package_ratings d (package_id pk)))"

subsection \<open>Routes\<close>

text \<open>\<open>SELECT r.*, u.name AS user_name FROM reviews r JOIN users u ON r.user_id = u.id WHERE r.id = ?\<close>.\<close>

definition review_join :: "db \<Rightarrow> ident \<Rightarrow> (review_row \<times> string) option" where
  "review_join d i =
     (case find_review d i of
        None \<Rightarrow> None
      | Some r \<Rightarrow> map_option (\<lambda>u. (r, user_name u)) (find_user d (review_user_id r)))"

text \<open>
  \<open>POST /api/reviews\<close>: the package must exist, the caller must not have reviewed it, and
  the caller must hold a \<open>confirmed\<close> booking of it; then the review is inserted and the
  package's cache refreshed.
\<close>

definition create_review :: "user_row \<Rightarrow> review_req \<Rightarrow> db \<Rightarrow> db \<times> (review_row \<times> string) option response" where
  "create_review usr rq d =
     (let p = nat (rreq_package_id rq) in
      case find_package d p of
        None \<Rightarrow> (d, Failure 404 ''Package not found'')
      | Some _ \<Rightarrow>
          if (\<exists>r\<in>set (reviews d). review_user_id r = user_id usr \<and> review_package_id r = p)
          then (d, Failure 400 ''You have already reviewed this package'')
          else if \<not> (\<exists>b\<in>set (bookings d). booking_user_id b = user_id usr \<and> booking_package_id b = p
                                          \<and> booking_status b = Confirmed)
          then (d, Failure 403 ''You can only review packages you have booked and completed'')
          else (case insert_review (user_id usr) p (rreq_rating rq) (rreq_comment rq) d of
                  Inl _ \<Rightarrow> (d, Failure 500 ''Failed to create review'')
                | Inr (i, d1) \<Rightarrow>
                    (let d2 = update_package_rating p d1 in (d2, Success 201 (review_join d2 i)))))"

definition route_create_review :: "user_row \<Rightarrow> js_object \<Rightarrow> db \<Rightarrow> db \<times> (review_row \<times> string) option response" where
  "route_create_review usr body d =
     (case validate_review body of
        Inl msg \<Rightarrow> (d, Failure 400 msg)
      | Inr rq \<Rightarrow> create_review usr rq d)"

text \<open>\<open>SELECT * FROM reviews WHERE id = ? AND user_id = ?\<close>.\<close>

definition find_own_review :: "db \<Rightarrow> ident \<Rightarrow> ident \<Rightarrow> review_row option" where
  "find_own_review d i u = find (\<lambda>r. review_id r = i \<and> review_user_id r = u) (reviews d)"

text \<open>
  \<open>PUT /api/reviews/:id\<close>: the guard \<open>rating && (rating < 1 || rating > 5)\<close>, the
  ownership check, the \<open>SET\<close> list of the fields that are not \<open>undefined\<close>, the
  \<open>UPDATE\<close> (whose column conversions and \<open>CHECK\<close> may fail), the cache refresh.
\<close>

definition update_review ::
  "user_row \<Rightarrow> ident \<Rightarrow> jsval \<Rightarrow> jsval \<Rightarrow> db \<Rightarrow> db \<times> (review_row \<times> string) option response" where
  "update_review usr i rating comment d =
     (if js_truthy rating \<and> (case js_to_number rating of None \<Rightarrow> False | Some x \<Rightarrow> x < 1 \<or> 5 < x)
      then (d, Failure 400 ''Rating must be between 1 and 5'')
      else case find_own_review d i (user_id usr) of
        None \<Rightarrow> (d, Failure 404 ''Review not found'')
      | Some rv \<Rightarrow>
          if rating = JUndefined \<and> comment = JUndefined then (d, Failure 400 ''No fields to update'')
          else
            (case (if rating = JUndefined then Inr None else map_sum id Some (int_column (sql_param rating))) of
               Inl _ \<Rightarrow> (d, Failure 500 ''Failed to update review'')
             | Inr rt \<Rightarrow>
                 (case update_review_fields i rt
                         (if comment = JUndefined then None else Some (text_column (sql_param comment))) d of
                    Inl _ \<Rightarrow> (d, Failure 500 ''Failed to update review'')
                  | Inr d1 \<Rightarrow>
                      (let d2 = update_package_rating (review_package_id rv) d1 in
                       (d2, Success 200 (review_join d2 i))))))"

definition route_update_review ::
  "user_row \<Rightarrow> (string \<times> string) list \<Rightarrow> js_object \<Rightarrow> db \<Rightarrow> db \<times> (review_row \<times> string) option response" where
  "route_update_review usr params body d =
     (case validate_id params of
        Inl msg \<Rightarrow> (d, Failure 400 msg)
      | Inr i \<Rightarrow> update_review usr (nat i) (js_get body ''rating'') (js_get body ''comment'') d)"

text \<open>\<open>DELETE /api/reviews/:id\<close>.\<close>

definition delete_review :: "user_row \<Rightarrow> ident \<Rightarrow> db \<Rightarrow> db \<times> string response" where
  "delete_review usr i d =
     (case find_own_review d i (user_id usr) of
        None \<Rightarrow> (d, Failure 404 ''Review not found'')
      | Some rv \<Rightarrow>
          (update_package_rating (review_package_id rv) (delete_review_row i d),
           Success 200 ''Review deleted successfully''))"

definition route_delete_review :: "user_row \<Rightarrow> (string \<times> string) list \<Rightarrow> db \<Rightarrow> db \<times> string response" where
  "route_delete_review usr params d =
     (case validate_id params of
        Inl msg \<Rightarrow> (d, Failure 400 msg)
      | Inr i \<Rightarrow> delete_review usr (nat i) d)"

text \<open>
  \<open>GET /api/reviews/package/:packageId\<close>, behind \<open>validateId\<close>.  The handler answers
  the package's reviews, their count and \<open>AVG(rating) || 0\<close> (in ten-thousandths);
  pagination and the \<open>toFixed(1)\<close> formatting are not modelled.
\<close>

definition package_reviews :: "ident \<Rightarrow> db \<Rightarrow> (review_row list \<times> nat \<times> int) response" where
  "package_reviews p d =
     (case find_package d p of
        None \<Rightarrow> Failure 404 ''Package not found''
      | Some _ \<Rightarrow>
          (let rs = filter (\<lambda>r. review_package_id r = p) (reviews d) in
           Success 200 (rs, length rs, if rs = [] then 0 else mysql_avg4 (map review_rating rs))))"

definition route_package_reviews :: "string \<Rightarrow> db \<Rightarrow> (review_row list \<times> nat \<times> int) response" where
  "route_package_reviews package_param d =
     (let params = [(''packageId'', package_param)] in
      case validate_id params of
        Inl msg \<Rightarrow> Failure 400 msg
      | Inr _ \<Rightarrow>
          (case parse_int package_param of
             None \<Rightarrow> Failure 404 ''Package not found''
           | Some p \<Rightarrow> package_reviews (nat p) d))"

subsection \<open>Properties of the aggregation and of the review routes\<close>


lemma stored_rating_mset: "stored_rating xs = rating_of_mset (mset xs)"
  by (simp add: stored_rating_def rating_of_mset_def mysql_avg4_def sum_mset_sum_list)

lemma sum_list_lower: "\<forall>x\<in>set xs. a \<le> x \<Longrightarrow> int (length xs) * a \<le> sum_list xs"
  by (induction xs) (auto simp: algebra_simps)

lemma sum_list_upper: "\<forall>x\<in>set xs. x \<le> a \<Longrightarrow> sum_list xs \<le> int (length xs) * a"
  by (induction xs) (auto simp: algebra_simps)

text \<open>
  C13. With ratings between 1 and 5 (the \<open>CHECK\<close> constraint), a package with reviews
  caches a rating between 1.00 and 5.00.
\<close>

theorem stored_rating_bounds:
  assumes "rs \<noteq> []" and "\<forall>x\<in>set rs. 1 \<le> x \<and> x \<le> 5"
  shows "100 \<le> stored_rating rs \<and> stored_rating rs \<le> 500"
proof -
  let ?n = "int (length rs)"
  have n: "0 < ?n" using assms(1) by simp
  have lo: "?n * 1 \<le> sum_list rs" using sum_list_lower [of rs 1] assms(2) by auto
  have hi: "sum_list rs \<le> ?n * 5" using sum_list_upper [of rs 5] assms(2) by auto
  have "round_div (10000 * ?n) ?n \<le> mysql_avg4 rs"
    unfolding mysql_avg4_def using lo n by (intro round_div_mono) auto
  moreover have "mysql_avg4 rs \<le> round_div (50000 * ?n) ?n"
    unfolding mysql_avg4_def using hi n by (intro round_div_mono) auto
  ultimately have a: "10000 \<le> mysql_avg4 rs" "mysql_avg4 rs \<le> 50000"
    using n by simp_all
  have "round_div (100 * 100) 100 \<le> round_div (mysql_avg4 rs) 100"
    using a by (intro round_div_mono) auto
  moreover have "round_div (mysql_avg4 rs) 100 \<le> round_div (500 * 100) 100"
    using a by (intro round_div_mono) auto
  moreover have "round_div (100 * 100) 100 = 100" "round_div (500 * 100) 100 = 500"
    by (simp_all only: round_div_exact zero_less_numeral)
  ultimately show ?thesis using assms(1) unfolding stored_rating_def by simp
qed

lemma double_round: "stored_rating (2 # replicate 200 1) = 101 \<and> round_div (100 * sum_list (2 # replicate 200 (1::int))) 201 = 100"
  by (simp add: stored_rating_def mysql_avg4_def round_div_def sum_list_replicate)

lemma package_ratings_set_package_rating [simp]:
  "package_ratings (set_package_rating i rt n d) q = package_ratings d q"
  by (simp add: package_ratings_def set_package_rating_def)

lemma packages_set_package_rating [simp]:
  "packages (set_package_rating i rt n d)
     = update_where (\<lambda>p. package_id p = i) (\<lambda>p. p\<lparr>package_rating := rt, package_total_reviews := n\<rparr>) (packages d)"
  by (simp add: set_package_rating_def)

lemma rating_cache_refresh:
  "cache_ok_except p d \<Longrightarrow> rating_cache_ok (update_package_rating p d)"
  unfolding cache_ok_except_def rating_cache_ok_def update_package_rating_def Let_def
  by (auto dest!: set_update_where_cases)

lemma cache_ok_except_frame:
  assumes "rating_cache_ok d" and "packages d' = packages d"
    and "\<And>q. q \<noteq> p \<Longrightarrow> package_ratings d' q = package_ratings d q"
  shows "cache_ok_except p d'"
  using assms unfolding cache_ok_except_def rating_cache_ok_def by auto

lemma find_own_review_SomeD:
  assumes "db_wf d" "find_own_review d i u = Some rv"
  shows "rv \<in> set (reviews d) \<and> review_id rv = i \<and> review_user_id rv = u
       \<and> (\<forall>r\<in>set (reviews d). review_id r = i \<longrightarrow> r = rv)"
proof -
  from assms(2) have rv: "rv \<in> set (reviews d)" "review_id rv = i" "review_user_id rv = u"
    unfolding find_own_review_def by (auto simp: find_Some_iff nth_mem)
  moreover have "keys_ok review_id (reviews d) (reviews_ai d)" using assms(1) by (simp add: db_wf_def)
  ultimately show ?thesis using keys_ok_unique by metis
qed

lemma create_review_cache:
  assumes cache: "rating_cache_ok d" and run: "create_review usr rq d = (d', res)"
  shows "rating_cache_ok d'"
proof (cases "\<exists>i d1. insert_review (user_id usr) (nat (rreq_package_id rq)) (rreq_rating rq) (rreq_comment rq) d = Inr (i, d1)
              \<and> d' = update_package_rating (nat (rreq_package_id rq)) d1")
  case True
  then obtain i d1 where ins: "insert_review (user_id usr) (nat (rreq_package_id rq)) (rreq_rating rq) (rreq_comment rq) d = Inr (i, d1)"
    and d': "d' = update_package_rating (nat (rreq_package_id rq)) d1" by blast
  have "packages d1 = packages d"
    and "\<And>q. q \<noteq> nat (rreq_package_id rq) \<Longrightarrow> package_ratings d1 q = package_ratings d q"
    using ins unfolding insert_review_def package_ratings_def by (auto simp: Let_def split: if_splits)
  with cache have "cache_ok_except (nat (rreq_package_id rq)) d1" by (rule cache_ok_except_frame)
  then show ?thesis unfolding d' by (rule rating_cache_refresh)
next
  case False
  with run have "d' = d"
    unfolding create_review_def by (auto simp: Let_def split: option.splits if_splits sum.splits)
  with cache show ?thesis by simp
qed

lemma update_review_cases:
  assumes "update_review usr i rt c d = (d', res)"
  shows "d' = d \<or> (\<exists>rv x y d1. find_own_review d i (user_id usr) = Some rv \<and> update_review_fields i x y d = Inr d1
              \<and> d' = update_package_rating (review_package_id rv) d1)"
proof (cases "find_own_review d i (user_id usr)")
  case None
  with assms show ?thesis unfolding update_review_def by (simp split: if_split_asm)
next
  case (Some rv)
  show ?thesis
  proof (cases "update_review_fields i (if rt = JUndefined then None else projr (map_sum id Some (int_column (sql_param rt))))
                 (if c = JUndefined then None else Some (text_column (sql_param c))) d")
    case (Inl e)
    with assms Some show ?thesis unfolding update_review_def
      by (simp add: Let_def split: if_split_asm sum.split_asm)
  next
    case (Inr d1)
    with assms Some show ?thesis unfolding update_review_def
      by (auto simp: Let_def split: if_split_asm sum.split_asm)
  qed
qed

lemma update_review_cache:
  assumes wf: "db_wf d" and cache: "rating_cache_ok d" and run: "update_review usr i rt c d = (d', res)"
  shows "rating_cache_ok d'"
proof -
  from update_review_cases [OF run]
  show ?thesis
  proof
    assume "d' = d"
    with cache show ?thesis by simp
  next
    assume "\<exists>rv x y d1. find_own_review d i (user_id usr) = Some rv \<and> update_review_fields i x y d = Inr d1
              \<and> d' = update_package_rating (review_package_id rv) d1"
    then obtain rv x y d1 where own: "find_own_review d i (user_id usr) = Some rv"
      and upd: "update_review_fields i x y d = Inr d1"
      and d': "d' = update_package_rating (review_package_id rv) d1" by blast
    note rv = find_own_review_SomeD [OF wf own]
    obtain f where d1: "d1 = d\<lparr>reviews := update_where (\<lambda>r. review_id r = i) f (reviews d)\<rparr>"
      and f: "\<And>r. review_package_id (f r) = review_package_id r"
      using upd unfolding update_review_fields_def by (auto split: if_split_asm)
    have "packages d1 = packages d" by (simp add: d1)
    moreover have "\<And>q. q \<noteq> review_package_id rv \<Longrightarrow> package_ratings d1 q = package_ratings d q"
    proof -
      fix q assume q: "q \<noteq> review_package_id rv"
      have "filter (\<lambda>r. review_package_id r = q) (update_where (\<lambda>r. review_id r = i) f (reviews d))
            = filter (\<lambda>r. review_package_id r = q) (reviews d)"
        by (rule filter_update_where_frame) (use rv q f in auto)
      then show "package_ratings d1 q = package_ratings d q"
        by (simp add: d1 package_ratings_def)
    qed
    ultimately have "cache_ok_except (review_package_id rv) d1"
      by (rule cache_ok_except_frame [OF cache])
    then show ?thesis unfolding d' by (rule rating_cache_refresh)
  qed
qed

lemma delete_review_cache:
  assumes wf: "db_wf d" and cache: "rating_cache_ok d" and run: "delete_review usr i d = (d', res)"
  shows "rating_cache_ok d'"
proof (cases "find_own_review d i (user_id usr)")
  case None
  with run cache show ?thesis unfolding delete_review_def by simp
next
  case (Some rv)
  note rv = find_own_review_SomeD [OF wf Some]
  have "packages (delete_review_row i d) = packages d" by (simp add: delete_review_row_def)
  moreover have "\<And>q. q \<noteq> review_package_id rv \<Longrightarrow> package_ratings (delete_review_row i d) q = package_ratings d q"
  proof -
    fix q assume q: "q \<noteq> review_package_id rv"
    have "filter (\<lambda>r. review_package_id r = q) (filter (\<lambda>r. review_id r \<noteq> i) (reviews d))
          = filter (\<lambda>r. review_package_id r = q) (reviews d)"
      unfolding filter_filter by (rule filter_cong) (use rv q in auto)
    then show "package_ratings (delete_review_row i d) q = package_ratings d q"
      by (simp add: delete_review_row_def package_ratings_def)
  qed
  ultimately have "cache_ok_except (review_package_id rv) (delete_review_row i d)"
    by (rule cache_ok_except_frame [OF cache])
  with run Some show ?thesis unfolding delete_review_def by (auto intro: rating_cache_refresh)
qed

end
