(* ===== verification/Auth.thy ===== *)
theory Auth
  imports Validation
begin

text \<open>
  The authentication middleware of \<open>src/server/middleware/auth.js\<close>.  A bearer token is
  a string; \<open>jwt.verify(token, JWT_SECRET)\<close> accepts exactly the strings signed with the
  server's secret and decodes their payload \<open>{userId, exp}\<close>.  Signature checking is
  cryptography, not program logic, so the signed tokens are a parameter of the model: a
  \<open>token_registry\<close> maps each validly signed token string to its payload.  Time
  (\<open>now\<close>) is in seconds, as \<open>exp\<close> is.  A middleware either stops the request with
  a status and a message (\<open>Inl\<close>) or passes on to the next handler (\<open>Inr\<close>).
\<close>

type_synonym token_registry = "string \<Rightarrow> (ident \<times> int) option"

datatype verify_result = TokenOk ident | JsonWebTokenError | TokenExpiredError

text \<open>\<open>jwt.verify\<close>: unknown signature or malformed token, expired (\<open>now >= exp\<close>), or the user id.\<close>

definition jwt_verify :: "token_registry \<Rightarrow> int \<Rightarrow> string \<Rightarrow> verify_result" where
  "jwt_verify reg now tok =
     (case reg tok of
        None \<Rightarrow> JsonWebTokenError
      | Some (u, ex) \<Rightarrow> if ex \<le> now then TokenExpiredError else TokenOk u)"

text \<open>\<open>String.prototype.split(c)\<close>: empty fields are kept.\<close>

fun js_split :: "char \<Rightarrow> string \<Rightarrow> string list" where
  "js_split c [] = [[]]"
| "js_split c (x # xs) =
     (let r = js_split c xs in if x = c then [] # r else (x # hd r) # tl r)"

text \<open>\<open>authHeader && authHeader.split(' ')[1]\<close>, then \<open>if (!token)\<close>.\<close>

definition bearer_token :: "string option \<Rightarrow> string option" where
  "bearer_token hdr =
     (case hdr of
        None \<Rightarrow> None
      | Some h \<Rightarrow> (case js_split CHR '' '' h of _ # t # _ \<Rightarrow> if t = [] then None else Some t | _ \<Rightarrow> None))"

type_synonym 'a gate = "(nat \<times> string) + 'a"

text \<open>
  \<open>authenticateToken\<close>: the token is verified and its user re-read from \<open>users\<close> on
  every request, so a deleted user's token stops working at once.
\<close>

definition authenticate_token :: "token_registry \<Rightarrow> int \<Rightarrow> string option \<Rightarrow> db \<Rightarrow> user_row gate" where
  "authenticate_token reg now hdr d =
     (case bearer_token hdr of
        None \<Rightarrow> Inl (401, ''Access denied. No token provided.'')
      | Some t \<Rightarrow>
          (case jwt_verify reg now t of
             JsonWebTokenError \<Rightarrow> Inl (401, ''Invalid token.'')
           | TokenExpiredError \<Rightarrow> Inl (401, ''Token expired.'')
           | TokenOk u \<Rightarrow>
               (case find_user d u of
                  None \<Rightarrow> Inl (401, ''Invalid token. User not found.'')
                | Some usr \<Rightarrow> Inr usr)))"

definition require_admin :: "user_row \<Rightarrow> user_row gate" where
  "require_admin usr =
     (if user_role usr \<noteq> RoleAdmin then Inl (403, ''Access denied. Admin privileges required.'') else Inr usr)"

text \<open>The chain \<open>authenticateToken, requireAdmin\<close> in front of the admin-only routes.\<close>

definition admin_gate :: "token_registry \<Rightarrow> int \<Rightarrow> string option \<Rightarrow> db \<Rightarrow> user_row gate" where
  "admin_gate reg now hdr d =
     (case authenticate_token reg now hdr d of Inl e \<Rightarrow> Inl e | Inr u \<Rightarrow> require_admin u)"

text \<open>JavaScript \<open>parseInt(s)\<close> on the decimal prefix of a string (\<open>None\<close> is \<open>NaN\<close>).\<close>

definition js_parse_int :: "string \<Rightarrow> int option" where
  "js_parse_int s =
     (let t = dropWhile js_space s;
          sg = (case t of c # _ \<Rightarrow> if c = CHR ''-'' then -1 else 1 | [] \<Rightarrow> 1);
          u = (case t of c # cs \<Rightarrow> if c = CHR ''-'' \<or> c = CHR ''+'' then cs else t | [] \<Rightarrow> []);
          ds = takeWhile (\<lambda>c. digit_val c \<noteq> None) u in
      map_option (\<lambda>n. sg * int n) (parse_nat ds))"

text \<open>
  \<open>requireOwnerOrAdmin\<close>: \<open>parseInt(req.params.userId || req.body.userId)\<close> compared
  with the caller's id by \<open>===\<close> (never equal to \<open>NaN\<close>).
\<close>

definition require_owner_or_admin :: "user_row \<Rightarrow> jsval \<Rightarrow> jsval \<Rightarrow> user_row gate" where
  "require_owner_or_admin usr param_uid body_uid =
     (let v = (if js_truthy param_uid then param_uid else body_uid) in
      if user_role usr = RoleAdmin \<or> js_parse_int (js_to_string v) = Some (int (user_id usr)) then Inr usr
      else Inl (403, ''Access denied. You can only access your own resources.''))"

text \<open>\<open>optionalAuth\<close>: any failure leaves \<open>req.user = null\<close> and goes on.\<close>

definition optional_auth :: "token_registry \<Rightarrow> int \<Rightarrow> string option \<Rightarrow> db \<Rightarrow> user_row option" where
  "optional_auth reg now hdr d =
     (case bearer_token hdr of
        None \<Rightarrow> None
      | Some t \<Rightarrow> (case jwt_verify reg now t of TokenOk u \<Rightarrow> find_user d u | _ \<Rightarrow> None))"

subsection \<open>Properties\<close>

lemma js_split_ne [simp]: "js_split c s \<noteq> []"
  by (induction s) (auto simp: Let_def)

lemma authenticate_token_Inr:
  assumes "authenticate_token reg now hdr d = Inr usr"
  shows "\<exists>t ex. bearer_token hdr = Some t \<and> reg t = Some (user_id usr, ex) \<and> now < ex
           \<and> find_user d (user_id usr) = Some usr"
proof -
  obtain t u where t: "bearer_token hdr = Some t" and v: "jwt_verify reg now t = TokenOk u"
    and f: "find_user d u = Some usr"
    using assms unfolding authenticate_token_def
    by (auto split: option.splits verify_result.splits)
  from f have "user_id usr = u" unfolding find_user_def by (auto simp: find_Some_iff)
  moreover from v obtain ex where "reg t = Some (u, ex)" "now < ex"
    unfolding jwt_verify_def by (auto split: option.splits if_splits)
  ultimately show ?thesis using t f by auto
qed

lemma find_user_delete_user_row: "find_user (delete_user_row u d) u = None"
  unfolding find_user_def delete_user_row_def by (simp add: find_None_iff)

end
