(* ===== verification/Accounts.thy ===== *)
theory Accounts
  imports Auth
begin

text \<open>
  The account routes of \<open>src/server/routes/auth.js\<close> with their validators
  \<open>validateRegister\<close> and \<open>validateLogin\<close>.  The library functions the validators
  call, \<open>isEmail\<close> and the sanitizer \<open>normalizeEmail\<close> (which rewrites
  \<open>req.body.email\<close>), are parameters (\<open>email_lib\<close>).  bcryptjs hashes and compares
  strings only; any other JSON value makes it throw, which the route's \<open>catch\<close>
  answers with 500.  Tokens are issued as their payload \<open>(userId, exp)\<close>, with
  \<open>exp = now + 7 days\<close> (the default of \<open>JWT_EXPIRES_IN\<close>).
\<close>

record email_lib =
  is_email :: "string \<Rightarrow> bool"
  normalize_email :: "string \<Rightarrow> string"

definition jwt_lifetime :: int where
  "jwt_lifetime = 7 * 24 * 60 * 60"

definition jwt_sign :: "ident \<Rightarrow> int \<Rightarrow> ident \<times> int" where
  "jwt_sign u now = (u, now + jwt_lifetime)"

fun bcrypt_hash :: "jsval \<Rightarrow> pw_hash option" where
  "bcrypt_hash (JStr s) = Some (Bcrypt s)"
| "bcrypt_hash _ = None"

fun bcrypt_check :: "jsval \<Rightarrow> pw_hash \<Rightarrow> bool option" where
  "bcrypt_check (JStr s) h = Some (bcrypt_compare s h)"
| "bcrypt_check _ _ = None"

definition ascii_letter :: "char \<Rightarrow> bool" where
  "ascii_letter c \<longleftrightarrow> (let k = (of_char c :: nat) in (65 \<le> k \<and> k \<le> 90) \<or> (97 \<le> k \<and> k \<le> 122))"

subsection \<open>Validators\<close>

text \<open>
  \<open>validateRegister\<close>: the trimmed name has 2--50 characters and matches
  \<open>^[a-zA-Z\s]+$\<close>, the email is valid (and is normalised), the password has at least 6
  characters.  The result is the trimmed name, the normalised email and the raw password.
\<close>

definition validate_register :: "email_lib \<Rightarrow> js_object \<Rightarrow> string + (string \<times> string \<times> jsval)" where
  "validate_register em body =
     (let n = js_trim (js_to_string (js_get body ''name''));
          e = js_to_string (js_get body ''email'');
          pw = js_get body ''password'' in
      if length n < 2 \<or> 50 < length n then Inl ''Name must be between 2 and 50 characters''
      else if \<not> (\<forall>c\<in>set n. ascii_letter c \<or> js_space c) then Inl ''Name can only contain letters and spaces''
      else if \<not> is_email em e then Inl ''Please provide a valid email address''
      else if length (js_to_string pw) < 6 then Inl ''Password must be at least 6 characters long''
      else Inr (n, normalize_email em e, pw))"

definition validate_login :: "email_lib \<Rightarrow> js_object \<Rightarrow> string + (string \<times> jsval)" where
  "validate_login em body =
     (let e = js_to_string (js_get body ''email''); pw = js_get body ''password'' in
      if \<not> is_email em e then Inl ''Please provide a valid email address''
      else if js_to_string pw = [] then Inl ''Password is required''
      else Inr (normalize_email em e, pw))"

subsection \<open>Routes\<close>

type_synonym session = "user_row \<times> (ident \<times> int)"

text \<open>\<open>POST /api/auth/register\<close>.\<close>

definition register :: "email_lib \<Rightarrow> int \<Rightarrow> js_object \<Rightarrow> db \<Rightarrow> db \<times> session response" where
  "register em now body d =
     (case validate_register em body of
        Inl msg \<Rightarrow> (d, Failure 400 msg)
      | Inr (n, e, pw) \<Rightarrow>
          if find_user_by_email d e \<noteq> None then (d, Failure 400 ''User with this email already exists'')
          else (case bcrypt_hash pw of
                  None \<Rightarrow> (d, Failure 500 ''Registration failed. Please try again.'')
                | Some h \<Rightarrow>
                    (case insert_user n e h d of
                       Inl _ \<Rightarrow> (d, Failure 500 ''Registration failed. Please try again.'')
                     | Inr (i, d1) \<Rightarrow>
                         (case find_user d1 i of
                            None \<Rightarrow> (d1, Failure 500 ''Registration failed. Please try again.'')
                          | Some u \<Rightarrow> (d1, Success 201 (u, jwt_sign (user_id u) now))))))"

text \<open>\<open>POST /api/auth/login\<close>: reads only.\<close>

definition login :: "email_lib \<Rightarrow> int \<Rightarrow> js_object \<Rightarrow> db \<Rightarrow> session response" where
  "login em now body d =
     (case validate_login em body of
        Inl msg \<Rightarrow> Failure 400 msg
      | Inr (e, pw) \<Rightarrow>
          (case find_user_by_email d e of
             None \<Rightarrow> Failure 401 ''Invalid email or password''
           | Some u \<Rightarrow>
               (case bcrypt_check pw (user_password u) of
                  None \<Rightarrow> Failure 500 ''Login failed. Please try again.''
                | Some False \<Rightarrow> Failure 401 ''Invalid email or password''
                | Some True \<Rightarrow> Success 200 (u, jwt_sign (user_id u) now))))"

text \<open>\<open>GET /api/auth/profile\<close>.\<close>

definition get_profile :: "user_row \<Rightarrow> db \<Rightarrow> user_row response" where
  "get_profile usr d =
     (case find_user d (user_id usr) of
        None \<Rightarrow> Failure 404 ''User not found''
      | Some u \<Rightarrow> Success 200 u)"

text \<open>\<open>PUT /api/auth/profile\<close>: no validator and no \<open>normalizeEmail\<close>.\<close>

definition update_profile :: "user_row \<Rightarrow> js_object \<Rightarrow> db \<Rightarrow> db \<times> user_row option response" where
  "update_profile usr body d =
     (let n = js_get body ''name''; e = js_get body ''email'' in
      if \<not> js_truthy n \<or> \<not> js_truthy e then (d, Failure 400 ''Name and email are required'')
      else if (\<exists>u\<in>set (users d). ci_key (user_email u) = ci_key (js_to_string e) \<and> user_id u \<noteq> user_id usr)
      then (d, Failure 400 ''Email is already taken'')
      else (case set_user_profile (user_id usr) (js_to_string n) (js_to_string e) d of
              Inl _ \<Rightarrow> (d, Failure 500 ''Failed to update profile'')
            | Inr d1 \<Rightarrow> (d1, Success 200 (find_user d1 (user_id usr)))))"

text \<open>\<open>PUT /api/auth/change-password\<close>: the new password is not validated.\<close>

definition change_password :: "user_row \<Rightarrow> js_object \<Rightarrow> db \<Rightarrow> db \<times> string response" where
  "change_password usr body d =
     (let cur = js_get body ''currentPassword''; new = js_get body ''newPassword'' in
      if \<not> js_truthy cur \<or> \<not> js_truthy new
      then (d, Failure 400 ''Current password and new password are required'')
      else (case find_user d (user_id usr) of
              None \<Rightarrow> (d, Failure 404 ''User not found'')
            | Some u \<Rightarrow>
                (case bcrypt_check cur (user_password u) of
                   None \<Rightarrow> (d, Failure 500 ''Failed to change password'')
                 | Some False \<Rightarrow> (d, Failure 401 ''Current password is incorrect'')
                 | Some True \<Rightarrow>
                     (case bcrypt_hash new of
                        None \<Rightarrow> (d, Failure 500 ''Failed to change password'')
                      | Some h \<Rightarrow> (set_user_password (user_id usr) h d, Success 200 ''Password changed successfully'')))))"

subsection \<open>Properties\<close>

lemma find_user_set_user_password:
  "find_user (set_user_password i pw d) i = map_option (\<lambda>u. u\<lparr>user_password := pw\<rparr>) (find_user d i)"
  unfolding find_user_def set_user_password_def by (simp add: table_simps)

lemma update_profile_stores_email:
  assumes "find_user d (user_id usr) = Some u0" and "update_profile usr body d = (d1, Success n r)"
  shows "find_user d1 (user_id usr)
           = Some (u0\<lparr>user_name := js_to_string (js_get body ''name''), user_email := js_to_string (js_get body ''email'')\<rparr>)"
proof -
  obtain d2 where upd: "set_user_profile (user_id usr) (js_to_string (js_get body ''name'')) (js_to_string (js_get body ''email'')) d = Inr d2"
    and d1: "d1 = d2"
    using assms(2) unfolding update_profile_def by (auto simp: Let_def split: if_splits sum.splits)
  then have "d2 = d\<lparr>users := update_where (\<lambda>u. user_id u = user_id usr)
       (\<lambda>u. u\<lparr>user_name := js_to_string (js_get body ''name''), user_email := js_to_string (js_get body ''email'')\<rparr>) (users d)\<rparr>"
    unfolding set_user_profile_def by (auto split: if_splits)
  with assms(1) d1 show ?thesis unfolding find_user_def by (simp add: table_simps)
qed

end
