(* ===== verification/Packages.thy ===== *)
theory Packages
  imports Reviews Auth
begin

text \<open>
  The package catalogue, \<open>src/server/routes/packages.js\<close>, with the two validators it
  uses from \<open>src/server/middleware/validation.js\<close> (\<open>validatePackage\<close>,
  \<open>validateSearch\<close>) and the part of MySQL it relies on: \<open>LIKE\<close> patterns under the
  case-insensitive collation and the conversion of a numeric string into
  \<open>DECIMAL(10,2)\<close>.  Listing results are ordered newest first (\<open>ORDER BY created_at
  DESC\<close>); the model orders rows by reverse insertion, which is that order up to rows created
  in the same second.
\<close>

section \<open>Numbers as \<open>isFloat\<close> and MySQL read them\<close>

text \<open>
  A decimal literal \<open>(neg, m, e)\<close> denotes \<open>(-1)^neg * m * 10^e\<close>.  \<open>parse_float\<close>
  accepts what validator.js's \<open>isFloat\<close> pattern
  \<open>^[-+]?([0-9]+)?(\.[0-9]*)?([eE][+-]?[0-9]+)?$\<close> accepts and \<open>parseFloat\<close> reads as a
  number (at least one mantissa digit; without one the value is \<open>NaN\<close>, which fails every
  \<open>min\<close> bound).  Arithmetic is exact: \<open>parseFloat\<close>'s rounding to a double is not
  modelled.
\<close>

type_synonym decimal = "bool \<times> nat \<times> int"

definition is_digit :: "char \<Rightarrow> bool" where
  "is_digit c \<longleftrightarrow> digit_val c \<noteq> None"

definition split_sign :: "string \<Rightarrow> bool \<times> string" where
  "split_sign s =
     (case s of c # cs \<Rightarrow> if c = CHR ''-'' then (True, cs) else if c = CHR ''+'' then (False, cs) else (False, s)
      | [] \<Rightarrow> (False, []))"

definition parse_exponent :: "string \<Rightarrow> int option" where
  "parse_exponent s =
     (case s of
        [] \<Rightarrow> Some 0
      | c # cs \<Rightarrow>
          if c = CHR ''e'' \<or> c = CHR ''E'' then
            (let (ng, ds) = split_sign cs in
             if ds \<noteq> [] \<and> list_all is_digit ds then map_option (\<lambda>n. if ng then - int n else int n) (parse_nat ds)
             else None)
          else None)"

definition parse_float :: "string \<Rightarrow> decimal option" where
  "parse_float s =
     (let (ng, s1) = split_sign s;
          ip = takeWhile is_digit s1; s2 = dropWhile is_digit s1;
          (fp, s3) = (case s2 of c # cs \<Rightarrow> if c = CHR ''.'' then (takeWhile is_digit cs, dropWhile is_digit cs) else ([], s2)
                      | [] \<Rightarrow> ([], []))
      in if ip @ fp = [] then None
         else (case (parse_nat (ip @ fp), parse_exponent s3) of
                 (Some m, Some e) \<Rightarrow> Some (ng, m, e - int (length fp))
               | _ \<Rightarrow> None))"

text \<open>\<open>isFloat({min: 0})\<close>: a number, and \<open>parseFloat(v) >= 0\<close> (so \<open>-0\<close> passes).\<close>

definition float_min0 :: "jsval \<Rightarrow> decimal option" where
  "float_min0 v =
     (case parse_float (js_to_string v) of
        Some (ng, m, e) \<Rightarrow> if ng \<and> m \<noteq> 0 then None else Some (ng, m, e)
      | None \<Rightarrow> None)"

text \<open>
  The signed value of a literal scaled by \<open>10^k\<close> against cents: \<open>dec_vs_cents v = (a, b)\<close>
  with \<open>c / 100 \<ge> v \<longleftrightarrow> a * c \<ge> b\<close> for every \<open>c\<close> (and likewise for \<open>\<le>\<close>).
\<close>

definition dec_vs_cents :: "decimal \<Rightarrow> int \<times> int" where
  "dec_vs_cents v =
     (case v of (ng, m, e) \<Rightarrow>
        let x = (if ng then - int m else int m); k = e + 2 in
        if 0 \<le> k then (1, x * 10 ^ nat k) else (10 ^ nat (- k), x))"

text \<open>
  Storing a literal into \<open>DECIMAL(10,2)\<close>: the value rounded to cents, half away from
  zero.
\<close>

definition decimal_cents :: "decimal \<Rightarrow> cents" where
  "decimal_cents v =
     (case v of (ng, m, e) \<Rightarrow>
        let k = e + 2;
            a = (if 0 \<le> k then int m * 10 ^ nat k else round_div (int m) (10 ^ nat (- k))) in
        if ng then - a else a)"

section \<open>\<open>LIKE\<close> under the case-insensitive collation\<close>

text \<open>
  \<open>%\<close> matches any sequence, \<open>_\<close> one character, backslash escapes the next pattern
  character; other characters match up to ASCII case.
\<close>

fun sql_like :: "string \<Rightarrow> string \<Rightarrow> bool" where
  "sql_like [] s \<longleftrightarrow> s = []"
| "sql_like (c # p) [] \<longleftrightarrow> c = CHR ''%'' \<and> sql_like p []"
| "sql_like (c # p) (x # xs) \<longleftrightarrow>
     (if c = CHR ''%'' then sql_like p (x # xs) \<or> sql_like (c # p) xs
      else if c = CHR ''_'' then sql_like p xs
      else if c = CHR 0x5C \<and> p \<noteq> [] then ascii_lower (hd p) = ascii_lower x \<and> sql_like (tl p) xs
      else ascii_lower c = ascii_lower x \<and> sql_like p xs)"

text \<open>The pattern \<open>`%${t}%`\<close> the routes build from user input, unescaped.\<close>

definition contains_pattern :: "string \<Rightarrow> string" where
  "contains_pattern t = CHR ''%'' # t @ [CHR ''%'']"

definition like_special :: "char \<Rightarrow> bool" where
  "like_special c \<longleftrightarrow> c = CHR ''%'' \<or> c = CHR ''_'' \<or> c = CHR 0x5C"

section \<open>\<open>validatePackage\<close>\<close>

text \<open>
  Five chains in order; the \<open>trim()\<close> sanitizers rewrite the text fields, \<open>price\<close> is
  checked but bound as sent (MySQL rounds it into cents), \<open>image_url\<close> is not checked at
  all.
\<close>

definition validate_package :: "js_object \<Rightarrow> string + package_fields" where
  "validate_package body =
     (let t = js_trim (js_to_string (js_get body ''title''));
          ds = js_trim (js_to_string (js_get body ''destination''));
          dc = js_trim (js_to_string (js_get body ''description''));
          du = js_trim (js_to_string (js_get body ''duration'')) in
      if length t < 3 \<or> 255 < length t then Inl ''Title must be between 3 and 255 characters''
      else if length ds < 2 \<or> 255 < length ds then Inl ''Destination must be between 2 and 255 characters''
      else if length dc < 10 \<or> 1000 < length dc then Inl ''Description must be between 10 and 1000 characters''
      else (case float_min0 (js_get body ''price'') of
              None \<Rightarrow> Inl ''Price must be a positive number''
            | Some v \<Rightarrow>
                if length du < 2 \<or> 100 < length du then Inl ''Duration must be between 2 and 100 characters''
                else Inr \<lparr>pf_title = t, pf_destination = ds, pf_description = dc, pf_price = decimal_cents v,
                          pf_duration = du, pf_image_url = js_get body ''image_url''\<rparr>))"

section \<open>\<open>validateSearch\<close>\<close>

text \<open>
  Query parameters are strings; \<open>optional()\<close> skips a parameter only when it is absent.
  A price filter keeps the string the handler tests for truthiness and the number
  \<open>parseFloat\<close> reads; \<open>page\<close> and \<open>limit\<close> default to 1 and 10.
\<close>

record search_req =
  sr_search :: "string option"
  sr_destination :: "string option"
  sr_min_price :: "(string \<times> decimal) option"
  sr_max_price :: "(string \<times> decimal) option"
  sr_page :: int
  sr_limit :: int

definition opt_text :: "string \<Rightarrow> (string \<times> string) list \<Rightarrow> string \<Rightarrow> string + string option" where
  "opt_text msg q k =
     (case map_of q k of
        None \<Rightarrow> Inr None
      | Some s \<Rightarrow> let t = js_trim s in if length t < 2 \<or> 100 < length t then Inl msg else Inr (Some t))"

definition opt_price :: "string \<Rightarrow> (string \<times> string) list \<Rightarrow> string \<Rightarrow> string + (string \<times> decimal) option" where
  "opt_price msg q k =
     (case map_of q k of
        None \<Rightarrow> Inr None
      | Some s \<Rightarrow> (case float_min0 (JStr s) of None \<Rightarrow> Inl msg | Some v \<Rightarrow> Inr (Some (s, v))))"

definition opt_int :: "string \<Rightarrow> int \<Rightarrow> int option \<Rightarrow> int \<Rightarrow> (string \<times> string) list \<Rightarrow> string \<Rightarrow> string + int" where
  "opt_int msg lo hi dflt q k =
     (case map_of q k of
        None \<Rightarrow> Inr dflt
      | Some s \<Rightarrow> (case int_in lo hi (JStr s) of None \<Rightarrow> Inl msg | Some n \<Rightarrow> Inr n))"

definition validate_search :: "(string \<times> string) list \<Rightarrow> string + search_req" where
  "validate_search q =
     (case opt_text ''Search term must be between 2 and 100 characters'' q ''search'' of Inl m \<Rightarrow> Inl m | Inr s \<Rightarrow>
      case opt_text ''Destination filter must be between 2 and 100 characters'' q ''destination'' of Inl m \<Rightarrow> Inl m | Inr ds \<Rightarrow>
      case opt_price ''Minimum price must be a positive number'' q ''minPrice'' of Inl m \<Rightarrow> Inl m | Inr lo \<Rightarrow>
      case opt_price ''Maximum price must be a positive number'' q ''maxPrice'' of Inl m \<Rightarrow> Inl m | Inr hi \<Rightarrow>
      case opt_int ''Page must be a positive integer'' 1 None 1 q ''page'' of Inl m \<Rightarrow> Inl m | Inr pg \<Rightarrow>
      case opt_int ''Limit must be between 1 and 100'' 1 (Some 100) 10 q ''limit'' of Inl m \<Rightarrow> Inl m | Inr l \<Rightarrow>
        Inr \<lparr>sr_search = s, sr_destination = ds, sr_min_price = lo, sr_max_price = hi, sr_page = pg, sr_limit = l\<rparr>)"

section \<open>The handlers\<close>

text \<open>
  A package with its review aggregate, as the routes select it: \<open>COUNT(r.id)\<close> and
  \<open>COALESCE(AVG(r.rating), 0)\<close> (MySQL's \<open>AVG\<close> of an \<open>INT\<close>, four decimals, in
  ten-thousandths).  The string \<open>toFixed(1)\<close> built from the average for display is
  not modelled.
\<close>

record package_summary =
  ps_package :: package_row
  ps_review_count :: nat
  ps_average :: int

definition package_summary :: "db \<Rightarrow> package_row \<Rightarrow> package_summary" where
  "package_summary d p =
     (let rs = package_ratings d (package_id p) in
      \<lparr>ps_package = p, ps_review_count = length rs, ps_average = (if rs = [] then 0 else mysql_avg4 rs)\<rparr>)"

subsection \<open>\<open>GET /api/packages\<close>\<close>

text \<open>
  The filters the handler turns into \<open>WHERE\<close> conditions, each with the placeholders its
  SQL text has and the parameters it pushes.
\<close>

datatype pkg_cond =
    CondSearch string
  | CondDestination string
  | CondMinPrice decimal
  | CondMaxPrice decimal

datatype search_arg = LikeArg string | PriceArg decimal

fun cond_placeholders :: "pkg_cond \<Rightarrow> nat" where
  "cond_placeholders (CondSearch _) = 3"
| "cond_placeholders _ = 1"

fun cond_params :: "pkg_cond \<Rightarrow> search_arg list" where
  "cond_params (CondSearch t) = replicate 3 (LikeArg (contains_pattern t))"
| "cond_params (CondDestination t) = [LikeArg (contains_pattern t)]"
| "cond_params (CondMinPrice v) = [PriceArg v]"
| "cond_params (CondMaxPrice v) = [PriceArg v]"

fun cond_holds :: "pkg_cond \<Rightarrow> package_row \<Rightarrow> bool" where
  "cond_holds (CondSearch t) p \<longleftrightarrow>
     sql_like (contains_pattern t) (package_title p) \<or> sql_like (contains_pattern t) (package_description p)
     \<or> sql_like (contains_pattern t) (package_destination p)"
| "cond_holds (CondDestination t) p \<longleftrightarrow> sql_like (contains_pattern t) (package_destination p)"
| "cond_holds (CondMinPrice v) p \<longleftrightarrow> (case dec_vs_cents v of (a, b) \<Rightarrow> b \<le> a * package_price p)"
| "cond_holds (CondMaxPrice v) p \<longleftrightarrow> (case dec_vs_cents v of (a, b) \<Rightarrow> a * package_price p \<le> b)"

text \<open>\<open>if (search)\<close>, \<open>if (destination)\<close>, \<open>if (minPrice)\<close>, \<open>if (maxPrice)\<close>: a non-empty string is truthy.\<close>

definition search_conditions :: "search_req \<Rightarrow> pkg_cond list" where
  "search_conditions sr =
     (case sr_search sr of Some t \<Rightarrow> if t \<noteq> [] then [CondSearch t] else [] | None \<Rightarrow> [])
     @ (case sr_destination sr of Some t \<Rightarrow> if t \<noteq> [] then [CondDestination t] else [] | None \<Rightarrow> [])
     @ (case sr_min_price sr of Some (s, v) \<Rightarrow> if s \<noteq> [] then [CondMinPrice v] else [] | None \<Rightarrow> [])
     @ (case sr_max_price sr of Some (s, v) \<Rightarrow> if s \<noteq> [] then [CondMaxPrice v] else [] | None \<Rightarrow> [])"

text \<open>
  \<open>pool.execute(sql, params)\<close> prepares the statement: the number of bound values must be
  the number of placeholders, or the server answers \<open>ER_WRONG_ARGUMENTS\<close>.
\<close>

definition execute_check :: "pkg_cond list \<Rightarrow> search_arg list \<Rightarrow> sql_error option" where
  "execute_check cs ps = (if sum_list (map cond_placeholders cs) = length ps then None else Some ER_WRONG_ARGUMENTS)"

text \<open>\<open>params.slice(0, -2)\<close>.\<close>

definition js_slice_drop2 :: "'a list \<Rightarrow> 'a list" where
  "js_slice_drop2 xs = take (length xs - 2) xs"

record package_page =
  pp_packages :: "package_summary list"
  pp_page :: int
  pp_limit :: int
  pp_total :: nat
  pp_pages :: int

text \<open>
  The handler: the page query (\<open>LIMIT limit OFFSET (page - 1) * limit\<close>, interpolated),
  then the count query, run with the same conditions and \<open>params.slice(0, -2)\<close>.
  \<open>Math.ceil(total / limit)\<close> with \<open>limit \<ge> 1\<close>.
\<close>

definition list_packages :: "search_req \<Rightarrow> db \<Rightarrow> package_page response" where
  "list_packages sr d =
     (let cs = search_conditions sr; ps = concat (map cond_params cs);
          l = sr_limit sr; off = (sr_page sr - 1) * l in
      case execute_check cs ps of
        Some _ \<Rightarrow> Failure 500 ''Failed to fetch packages''
      | None \<Rightarrow>
          (let rows = filter (\<lambda>p. \<forall>c\<in>set cs. cond_holds c p) (rev (packages d));
               page = take (nat l) (drop (nat off) rows) in
           case execute_check cs (js_slice_drop2 ps) of
             Some _ \<Rightarrow> Failure 500 ''Failed to fetch packages''
           | None \<Rightarrow>
               (let total = length (filter (\<lambda>p. \<forall>c\<in>set cs. cond_holds c p) (packages d)) in
                Success 200 \<lparr>pp_packages = map (package_summary d) page, pp_page = sr_page sr, pp_limit = l,
                             pp_total = total, pp_pages = (int total + l - 1) div l\<rparr>)))"

text \<open>\<open>router.get('/', validateSearch, optionalAuth, handler)\<close>: the handler does not read \<open>req.user\<close>.\<close>

definition route_list_packages :: "(string \<times> string) list \<Rightarrow> db \<Rightarrow> package_page response" where
  "route_list_packages q d =
     (case validate_search q of Inl msg \<Rightarrow> Failure 400 msg | Inr sr \<Rightarrow> list_packages sr d)"

subsection \<open>\<open>GET /api/packages/popular/:limit\<close>\<close>

text \<open>
  \<open>parseInt(req.params.limit) || 6\<close> (so \<open>0\<close> and \<open>NaN\<close> both give 6), interpolated
  into \<open>LIMIT\<close>: a negative limit is a syntax error.  \<open>COUNT(DISTINCT b.id)\<close> counts
  every booking of the package, whatever its status.  \<open>ORDER BY booking_count DESC,
  average_rating DESC\<close>; the model breaks remaining ties by insertion order.
\<close>

definition popular_limit :: "string \<Rightarrow> int" where
  "popular_limit s = (case js_parse_int s of Some n \<Rightarrow> if n = 0 then 6 else n | None \<Rightarrow> 6)"

definition booking_count :: "db \<Rightarrow> ident \<Rightarrow> nat" where
  "booking_count d p = length (filter (\<lambda>b. booking_package_id b = p) (bookings d))"

definition popular_packages :: "string \<Rightarrow> db \<Rightarrow> (package_summary \<times> nat) list response" where
  "popular_packages s d =
     (let l = popular_limit s in
      if l < 0 then Failure 500 ''Failed to fetch popular packages''
      else
        (let rows = map (\<lambda>p. (package_summary d p, booking_count d (package_id p))) (packages d) in
         Success 200 (take (nat l) (sort_key (\<lambda>(ps, n). (- int n, - ps_average ps)) rows))))"

subsection \<open>\<open>GET /api/packages/by-destination/:destination\<close>\<close>

definition packages_by_destination :: "string \<Rightarrow> db \<Rightarrow> package_summary list response" where
  "packages_by_destination t d =
     Success 200 (map (package_summary d)
                   (filter (\<lambda>p. sql_like (contains_pattern t) (package_destination p)) (rev (packages d))))"

subsection \<open>\<open>GET /api/packages/:id\<close>\<close>

text \<open>
  The package with its aggregate, and its reviews joined with their authors' names
  (\<open>JOIN users\<close>, newest first).
\<close>

definition get_package :: "ident \<Rightarrow> db \<Rightarrow> (package_summary \<times> (review_row \<times> string) list) response" where
  "get_package i d =
     (case find_package d i of
        None \<Rightarrow> Failure 404 ''Package not found''
      | Some p \<Rightarrow>
          Success 200 (package_summary d p,
            List.map_filter (\<lambda>r. map_option (\<lambda>u. (r, user_name u)) (find_user d (review_user_id r)))
              (rev (filter (\<lambda>r. review_package_id r = i) (reviews d)))))"

definition route_get_package ::
  "(string \<times> string) list \<Rightarrow> db \<Rightarrow> (package_summary \<times> (review_row \<times> string) list) response" where
  "route_get_package params d =
     (case validate_id params of Inl msg \<Rightarrow> Failure 400 msg | Inr i \<Rightarrow> get_package (nat i) d)"

subsection \<open>\<open>POST /api/packages\<close>, \<open>PUT /api/packages/:id\<close>, \<open>DELETE /api/packages/:id\<close>\<close>

text \<open>Every failure of a statement is caught and answered with 500.\<close>

definition create_package :: "package_fields \<Rightarrow> db \<Rightarrow> db \<times> package_row option response" where
  "create_package f d =
     (case insert_package f d of
        Inl _ \<Rightarrow> (d, Failure 500 ''Failed to create package'')
      | Inr (i, d1) \<Rightarrow> (d1, Success 201 (find_package d1 i)))"

definition route_create_package ::
  "token_registry \<Rightarrow> int \<Rightarrow> string option \<Rightarrow> js_object \<Rightarrow> db \<Rightarrow> db \<times> package_row option response" where
  "route_create_package reg now hdr body d =
     (case admin_gate reg now hdr d of
        Inl (c, m) \<Rightarrow> (d, Failure c m)
      | Inr _ \<Rightarrow>
          (case validate_package body of
             Inl msg \<Rightarrow> (d, Failure 400 msg)
           | Inr f \<Rightarrow> create_package f d))"

definition update_package :: "ident \<Rightarrow> package_fields \<Rightarrow> db \<Rightarrow> db \<times> package_row option response" where
  "update_package i f d =
     (case find_package d i of
        None \<Rightarrow> (d, Failure 404 ''Package not found'')
      | Some _ \<Rightarrow>
          (case set_package_fields i f d of
             Inl _ \<Rightarrow> (d, Failure 500 ''Failed to update package'')
           | Inr d1 \<Rightarrow> (d1, Success 200 (find_package d1 i))))"

definition route_update_package ::
  "token_registry \<Rightarrow> int \<Rightarrow> string option \<Rightarrow> (string \<times> string) list \<Rightarrow> js_object \<Rightarrow> db
   \<Rightarrow> db \<times> package_row option response" where
  "route_update_package reg now hdr params body d =
     (case admin_gate reg now hdr d of
        Inl (c, m) \<Rightarrow> (d, Failure c m)
      | Inr _ \<Rightarrow>
          (case validate_id params of
             Inl msg \<Rightarrow> (d, Failure 400 msg)
           | Inr i \<Rightarrow>
               (case validate_package body of
                  Inl msg \<Rightarrow> (d, Failure 400 msg)
                | Inr f \<Rightarrow> update_package (nat i) f d)))"

definition delete_package :: "ident \<Rightarrow> db \<Rightarrow> db \<times> string response" where
  "delete_package i d =
     (case find_package d i of
        None \<Rightarrow> (d, Failure 404 ''Package not found'')
      | Some _ \<Rightarrow>
          if booking_count d i > 0 then (d, Failure 400 ''Cannot delete package with existing bookings'')
          else (delete_package_row i d, Success 200 ''Package deleted successfully''))"

definition route_delete_package ::
  "token_registry \<Rightarrow> int \<Rightarrow> string option \<Rightarrow> (string \<times> string) list \<Rightarrow> db \<Rightarrow> db \<times> string response" where
  "route_delete_package reg now hdr params d =
     (case admin_gate reg now hdr d of
        Inl (c, m) \<Rightarrow> (d, Failure c m)
      | Inr _ \<Rightarrow>
          (case validate_id params of
             Inl msg \<Rightarrow> (d, Failure 400 msg)
           | Inr i \<Rightarrow> delete_package (nat i) d))"

section \<open>Properties\<close>

subsection \<open>\<open>LIKE\<close>\<close>

lemma ex_le_Suc_iff: "(\<exists>n\<le>Suc k. P n) \<longleftrightarrow> P 0 \<or> (\<exists>n\<le>k. P (Suc n))"
  by (metis Suc_le_mono le0 not0_implies_Suc)

lemma sql_like_percent:
  "sql_like (CHR ''%'' # p) s \<longleftrightarrow> (\<exists>n\<le>length s. sql_like p (drop n s))"
  by (induction s) (auto simp: ex_le_Suc_iff)

lemma sql_like_plain:
  "\<not> like_special c \<Longrightarrow> sql_like (c # p) s \<longleftrightarrow> s \<noteq> [] \<and> ascii_lower (hd s) = ascii_lower c \<and> sql_like p (tl s)"
  unfolding like_special_def by (cases s) auto

lemma sql_like_any: "sql_like [CHR ''%''] s"
  by (induction s) auto

lemma sql_like_literal:
  "list_all (\<lambda>c. \<not> like_special c) t \<Longrightarrow>
   sql_like (t @ p) s \<longleftrightarrow> length t \<le> length s \<and> ci_key (take (length t) s) = ci_key t \<and> sql_like p (drop (length t) s)"
proof (induction t arbitrary: s)
  case Nil
  then show ?case by (simp add: ci_key_def)
next
  case (Cons c t)
  then have c: "\<not> like_special c" and ih: "\<And>s. sql_like (t @ p) s \<longleftrightarrow>
      length t \<le> length s \<and> ci_key (take (length t) s) = ci_key t \<and> sql_like p (drop (length t) s)"
    by simp_all
  show ?case
  proof (cases s)
    case Nil
    then show ?thesis using c by (simp add: like_special_def)
  next
    case (Cons x xs)
    then show ?thesis using c by (auto simp del: sql_like.simps simp add: sql_like_plain ih ci_key_def)
  qed
qed

lemma sql_like_contains:
  assumes "list_all (\<lambda>c. \<not> like_special c) t"
  shows "sql_like (contains_pattern t) s \<longleftrightarrow> (\<exists>u v w. s = u @ v @ w \<and> ci_key v = ci_key t)"
proof
  assume "sql_like (contains_pattern t) s"
  then obtain n where "sql_like (t @ [CHR ''%'']) (drop n s)"
    by (auto simp: contains_pattern_def sql_like_percent)
  then have "ci_key (take (length t) (drop n s)) = ci_key t"
    using sql_like_literal [OF assms] by blast
  moreover have "s = take n s @ take (length t) (drop n s) @ drop (length t) (drop n s)"
    by (simp only: append_take_drop_id)
  ultimately show "\<exists>u v w. s = u @ v @ w \<and> ci_key v = ci_key t" by blast
next
  assume "\<exists>u v w. s = u @ v @ w \<and> ci_key v = ci_key t"
  then obtain u v w where s: "s = u @ v @ w" and v: "ci_key v = ci_key t" by blast
  then have len: "length v = length t" by (metis ci_key_def length_map)
  have "sql_like (t @ [CHR ''%'']) (v @ w)"
    using sql_like_literal [OF assms, of "[CHR ''%'']" "v @ w"] len v by (simp add: sql_like_any)
  moreover have "drop (length u) s = v @ w" using s by simp
  ultimately show "sql_like (contains_pattern t) s"
    unfolding contains_pattern_def sql_like_percent using s by (metis le_add1 length_append)
qed

subsection \<open>The listing and its count query\<close>

lemma length_cond_params: "length (cond_params c) = cond_placeholders c"
  by (cases c) simp_all

lemma length_search_params:
  "length (concat (map cond_params cs)) = sum_list (map cond_placeholders cs)"
  by (induction cs) (simp_all add: length_cond_params)

lemma cond_placeholders_pos: "0 < cond_placeholders c"
  by (cases c) simp_all

lemma sum_placeholders_pos: "cs \<noteq> [] \<Longrightarrow> 0 < sum_list (map cond_placeholders cs)"
  by (cases cs) (simp_all add: cond_placeholders_pos)

lemma list_packages_filtered:
  assumes "search_conditions sr \<noteq> []"
  shows "list_packages sr d = Failure 500 ''Failed to fetch packages''"
proof -
  let ?cs = "search_conditions sr"
  let ?ps = "concat (map cond_params ?cs)"
  have n: "length ?ps = sum_list (map cond_placeholders ?cs)" by (rule length_search_params)
  have pos: "0 < length ?ps" using n sum_placeholders_pos [OF assms] by simp
  have "execute_check ?cs ?ps = None" using n by (simp add: execute_check_def)
  moreover have "execute_check ?cs (js_slice_drop2 ?ps) = Some ER_WRONG_ARGUMENTS"
    using n pos by (simp add: execute_check_def js_slice_drop2_def)
  ultimately show ?thesis by (simp add: list_packages_def Let_def)
qed

lemma list_packages_unfiltered:
  assumes "search_conditions sr = []"
  shows "list_packages sr d =
           Success 200 \<lparr>pp_packages = map (package_summary d)
                          (take (nat (sr_limit sr)) (drop (nat ((sr_page sr - 1) * sr_limit sr)) (rev (packages d)))),
                        pp_page = sr_page sr, pp_limit = sr_limit sr, pp_total = length (packages d),
                        pp_pages = (int (length (packages d)) + sr_limit sr - 1) div sr_limit sr\<rparr>"
  using assms by (simp add: list_packages_def Let_def execute_check_def js_slice_drop2_def)

lemma opt_text_Some: "opt_text m q k = Inr x \<Longrightarrow> (x = None \<longleftrightarrow> map_of q k = None) \<and> (\<forall>t. x = Some t \<longrightarrow> t \<noteq> [])"
  by (auto simp: opt_text_def Let_def split: option.splits if_splits)

lemma parse_float_Nil [simp]: "parse_float [] = None"
  by (simp add: parse_float_def split_sign_def)

lemma opt_price_Some: "opt_price m q k = Inr x \<Longrightarrow> (x = None \<longleftrightarrow> map_of q k = None) \<and> (\<forall>s v. x = Some (s, v) \<longrightarrow> s \<noteq> [])"
  by (auto simp: opt_price_def float_min0_def split: option.splits if_splits)

lemma validate_search_Inr:
  assumes "validate_search q = Inr sr"
  obtains s ds lo hi pg l where
    "opt_text ''Search term must be between 2 and 100 characters'' q ''search'' = Inr s"
    "opt_text ''Destination filter must be between 2 and 100 characters'' q ''destination'' = Inr ds"
    "opt_price ''Minimum price must be a positive number'' q ''minPrice'' = Inr lo"
    "opt_price ''Maximum price must be a positive number'' q ''maxPrice'' = Inr hi"
    "sr = \<lparr>sr_search = s, sr_destination = ds, sr_min_price = lo, sr_max_price = hi, sr_page = pg, sr_limit = l\<rparr>"
  using assms unfolding validate_search_def by (auto split: sum.split_asm)

lemma validate_search_conditions:
  assumes "validate_search q = Inr sr"
  shows "search_conditions sr = [] \<longleftrightarrow>
           map_of q ''search'' = None \<and> map_of q ''destination'' = None
           \<and> map_of q ''minPrice'' = None \<and> map_of q ''maxPrice'' = None"
proof -
  obtain s ds lo hi pg l where
    a: "opt_text ''Search term must be between 2 and 100 characters'' q ''search'' = Inr s"
    and b: "opt_text ''Destination filter must be between 2 and 100 characters'' q ''destination'' = Inr ds"
    and c: "opt_price ''Minimum price must be a positive number'' q ''minPrice'' = Inr lo"
    and e: "opt_price ''Maximum price must be a positive number'' q ''maxPrice'' = Inr hi"
    and sr: "sr = \<lparr>sr_search = s, sr_destination = ds, sr_min_price = lo, sr_max_price = hi, sr_page = pg, sr_limit = l\<rparr>"
    using assms by (rule validate_search_Inr)
  note facts = opt_text_Some [OF a] opt_text_Some [OF b] opt_price_Some [OF c] opt_price_Some [OF e]
  show ?thesis
    unfolding sr search_conditions_def using facts
    by (cases s; cases ds; cases lo; cases hi) auto
qed

subsection \<open>Popular packages and the destination search\<close>

lemma popular_packages_Success:
  assumes "popular_packages s d = Success c rs"
  shows "0 \<le> popular_limit s \<and> c = 200 \<and>
         rs = take (nat (popular_limit s))
                (sort_key (\<lambda>(ps, n). (- int n, - ps_average ps))
                  (map (\<lambda>p. (package_summary d p, booking_count d (package_id p))) (packages d)))"
  using assms by (simp add: popular_packages_def Let_def split: if_splits)

lemma popular_packages_sorted:
  assumes "popular_packages s d = Success c rs"
  shows "sorted_wrt (\<lambda>a b. snd b < snd a \<or> (snd b = snd a \<and> ps_average (fst b) \<le> ps_average (fst a))) rs"
proof -
  let ?f = "\<lambda>(ps :: package_summary, n :: nat). (- int n, - ps_average ps)"
  let ?xs = "map (\<lambda>p. (package_summary d p, booking_count d (package_id p))) (packages d)"
  have "sorted (map ?f (sort_key ?f ?xs))" by (rule sorted_sort_key)
  then have "sorted_wrt (\<lambda>a b. ?f a \<le> ?f b) (take (nat (popular_limit s)) (sort_key ?f ?xs))"
    by (simp add: sorted_map sorted_wrt_take)
  then show ?thesis
    using popular_packages_Success [OF assms]
    by (auto elim!: sorted_wrt_mono_rel [rotated] simp: less_eq_prod_def split: prod.splits)
qed

lemma popular_packages_length:
  "popular_packages s d = Success c rs \<Longrightarrow> length rs = min (nat (popular_limit s)) (length (packages d))"
  by (drule popular_packages_Success) (simp add: length_sort)

lemma sql_like_percent_skip: "sql_like p s \<Longrightarrow> sql_like (CHR ''%'' # p) s"
  unfolding sql_like_percent by (metis drop0 le0)

lemma sql_like_contains_percent: "sql_like (contains_pattern ''%'') s"
  unfolding contains_pattern_def by (simp del: sql_like.simps add: sql_like_percent_skip sql_like_any)

lemma packages_by_destination_plain:
  assumes "list_all (\<lambda>c. \<not> like_special c) t"
  shows "packages_by_destination t d =
           Success 200 (map (package_summary d)
             (filter (\<lambda>p. \<exists>u v w. package_destination p = u @ v @ w \<and> ci_key v = ci_key t) (rev (packages d))))"
  unfolding packages_by_destination_def sql_like_contains [OF assms] ..

subsection \<open>The writes: schema, rating cache and bookings\<close>

lemma fresh_package_no_ratings:
  assumes "db_wf d"
  shows "package_ratings d (packages_ai d) = []"
proof -
  have "\<forall>p\<in>set (packages d). package_id p \<noteq> packages_ai d"
    using assms keys_ok_fresh by (auto simp: db_wf_def)
  moreover have "\<forall>r\<in>set (reviews d). review_package_id r \<in> package_id ` set (packages d)"
    using assms by (simp add: db_wf_def fk_ok_def)
  ultimately show ?thesis by (force simp: package_ratings_def filter_empty_conv)
qed

lemma create_package_db:
  "fst (create_package f d) = d \<or> (\<exists>i. insert_package f d = Inr (i, fst (create_package f d)))"
  by (auto simp: create_package_def split: sum.splits)

lemma update_package_db:
  "fst (update_package i f d) = d \<or> set_package_fields i f d = Inr (fst (update_package i f d))"
  by (auto simp: update_package_def split: option.splits sum.splits)

lemma delete_package_db:
  "fst (delete_package i d) = d \<or> (booking_count d i = 0 \<and> fst (delete_package i d) = delete_package_row i d)"
  by (auto simp: delete_package_def split: option.splits)

lemma cache_insert_package:
  assumes wf: "db_wf d" and ok: "rating_cache_ok d" and ins: "insert_package f d = Inr (i, d')"
  shows "rating_cache_ok d'"
  using ins ok fresh_package_no_ratings [OF wf]
  by (auto simp: insert_package_def Let_def rating_cache_ok_def package_ratings_def stored_rating_def split: option.splits)

lemma cache_set_package_fields:
  assumes ok: "rating_cache_ok d" and upd: "set_package_fields i f d = Inr d'"
  shows "rating_cache_ok d'"
  using upd ok
  by (auto simp: set_package_fields_def rating_cache_ok_def package_ratings_def split: option.splits
           dest!: set_update_where_cases)

lemma filter_other_key:
  "q \<noteq> i \<Longrightarrow> filter (\<lambda>x. k x = q) (filter (\<lambda>x. k x \<noteq> i) xs) = filter (\<lambda>x. k x = q) xs"
  by (induction xs) auto

lemma package_ratings_delete_package_row:
  "q \<noteq> i \<Longrightarrow> package_ratings (delete_package_row i d) q = package_ratings d q"
  unfolding package_ratings_def delete_package_row_def by (simp del: filter_filter add: filter_other_key)

lemma packages_delete_package_row [simp]:
  "packages (delete_package_row i d) = filter (\<lambda>p. package_id p \<noteq> i) (packages d)"
  by (simp add: delete_package_row_def)

lemma cache_delete_package_row:
  "rating_cache_ok d \<Longrightarrow> rating_cache_ok (delete_package_row i d)"
  unfolding rating_cache_ok_def by (auto simp: package_ratings_delete_package_row)

lemma booking_count_zero: "booking_count d i = 0 \<Longrightarrow> filter (\<lambda>b. booking_package_id b \<noteq> i) (bookings d) = bookings d"
  by (auto simp: booking_count_def filter_empty_conv filter_id_conv)

subsection \<open>Aggregates and prices\<close>

lemma package_summary_cached:
  assumes "rating_cache_ok d" and "pk \<in> set (packages d)"
  shows "round_div (ps_average (package_summary d pk)) 100 = package_rating pk
         \<and> ps_review_count (package_summary d pk) = package_total_reviews pk"
  using assms by (auto simp: rating_cache_ok_def package_summary_def stored_rating_def Let_def round_div_def)



lemma float_min0_cents_nonneg: "float_min0 v = Some x \<Longrightarrow> 0 \<le> decimal_cents x"
  by (auto simp: float_min0_def decimal_cents_def Let_def round_div_nonneg
           split: option.splits if_splits)

lemma validate_package_Inr:
  assumes "validate_package body = Inr f"
  shows "0 \<le> pf_price f \<and> pf_image_url f = js_get body ''image_url''
         \<and> 3 \<le> length (pf_title f) \<and> length (pf_title f) \<le> 255"
  using assms float_min0_cents_nonneg
  by (auto simp: validate_package_def Let_def split: option.splits if_splits)

lemma create_package_undefined_image:
  "pf_image_url f = JUndefined \<Longrightarrow> create_package f d = (d, Failure 500 ''Failed to create package'')"
  by (simp add: create_package_def insert_package_def package_fields_error_def)

lemma split_sign_digit: "s = c # cs \<Longrightarrow> digit_val c \<noteq> None \<Longrightarrow> split_sign s = (False, s)"
  by (auto simp: split_sign_def digit_val_def)

lemma parse_float_nat_to_string: "parse_float (nat_to_string n) = Some (False, n, 0)"
proof -
  let ?s = "nat_to_string n"
  obtain c cs where cs: "?s = c # cs" using nat_to_string_ne by (cases ?s) auto
  have dig: "\<forall>x\<in>set ?s. is_digit x" using nat_to_string_digits by (simp add: is_digit_def)
  then have "digit_val c \<noteq> None" using cs by (simp add: is_digit_def)
  then have sp: "split_sign ?s = (False, ?s)" by (rule split_sign_digit [OF cs])
  have tw: "takeWhile is_digit ?s = ?s" and dw: "dropWhile is_digit ?s = []"
    using dig by simp_all
  show ?thesis
    by (simp add: parse_float_def Let_def sp tw dw nat_to_string_ne parse_nat_nat_to_string parse_exponent_def)
qed

lemma float_min0_JNum: "0 \<le> n \<Longrightarrow> float_min0 (JNum n) = Some (False, nat n, 0)"
  by (simp add: float_min0_def int_to_string_def parse_float_nat_to_string)

lemma decimal_cents_int: "decimal_cents (False, m, 0) = int m * 100"
  by (simp add: decimal_cents_def)

subsection \<open>The routes' effect on the database\<close>

lemma route_create_package_db:
  "fst (route_create_package reg now hdr body d) = d
   \<or> (\<exists>f. fst (route_create_package reg now hdr body d) = fst (create_package f d))"
  by (auto simp: route_create_package_def split: sum.splits)

lemma route_update_package_db:
  "fst (route_update_package reg now hdr params body d) = d
   \<or> (\<exists>i f. fst (route_update_package reg now hdr params body d) = fst (update_package i f d))"
  by (auto simp: route_update_package_def split: sum.splits)

lemma route_delete_package_db:
  "fst (route_delete_package reg now hdr params d) = d
   \<or> (\<exists>i. fst (route_delete_package reg now hdr params d) = fst (delete_package i d))"
  by (auto simp: route_delete_package_def split: sum.splits)

lemma create_package_invariants:
  "db_wf d \<Longrightarrow> rating_cache_ok d \<Longrightarrow> db_wf (fst (create_package f d)) \<and> rating_cache_ok (fst (create_package f d))"
  using create_package_db [of f d] wf_insert_package cache_insert_package by metis

lemma update_package_invariants:
  "db_wf d \<Longrightarrow> rating_cache_ok d \<Longrightarrow> db_wf (fst (update_package i f d)) \<and> rating_cache_ok (fst (update_package i f d))"
  using update_package_db [of i f d] wf_set_package_fields cache_set_package_fields by metis

lemma delete_package_invariants:
  "db_wf d \<Longrightarrow> rating_cache_ok d \<Longrightarrow> db_wf (fst (delete_package i d)) \<and> rating_cache_ok (fst (delete_package i d))"
  using delete_package_db [of i d] wf_delete_package_row cache_delete_package_row by metis

lemma delete_package_bookings: "bookings (fst (delete_package i d)) = bookings d"
  using delete_package_db [of i d] booking_count_zero by (auto simp: delete_package_row_def)

lemma validate_package_price:
  "validate_package body = Inr f \<Longrightarrow> \<exists>v. float_min0 (js_get body ''price'') = Some v \<and> pf_price f = decimal_cents v"
  by (auto simp: validate_package_def Let_def split: option.splits if_splits)

lemma get_package_Success:
  "get_package i d = Success c (ps, rvs) \<Longrightarrow> ps_package ps \<in> set (packages d) \<and> ps = package_summary d (ps_package ps)"
  by (auto simp: get_package_def find_package_def package_summary_def Let_def find_Some_iff
           split: option.splits dest: nth_mem)

end
