(* ===== verification/Admin.thy ===== *)
theory Admin
  imports Packages Bookings
begin

text \<open>
  The admin API, \<open>src/server/routes/admin.js\<close>: every route is behind
  \<open>router.use(authenticateToken, requireAdmin)\<close> (\<open>admin_gate\<close>).  Its query
  parameters are not validated: \<open>page\<close> and \<open>limit\<close> go through \<open>parseInt\<close> and are
  interpolated into \<open>LIMIT ... OFFSET ...\<close>, so a value that is no number or a negative
  one makes the statement a syntax error.  Path ids are compared with \<open>INT\<close> columns by
  MySQL; the model reads them as \<open>parseInt\<close> does (MySQL also reads a fraction or an
  exponent, which no id matches).
\<close>

section \<open>Pagination\<close>

text \<open>
  \<open>const { page = 1, limit = 10 } = req.query\<close>, \<open>offset = (parseInt(page) - 1) *
  parseInt(limit)\<close> and \<open>LIMIT ${parseInt(limit)} OFFSET ${offset}\<close>: \<open>None\<close> when the
  text is not a valid clause (\<open>NaN\<close> or a negative number).  \<open>-0\<close> prints as \<open>0\<close>.
\<close>

definition sql_pagination :: "string option \<Rightarrow> string option \<Rightarrow> (int \<times> int \<times> int) option" where
  "sql_pagination pg lm =
     (let p = (case pg of None \<Rightarrow> Some 1 | Some s \<Rightarrow> js_parse_int s);
          l = (case lm of None \<Rightarrow> Some 10 | Some s \<Rightarrow> js_parse_int s) in
      case (p, l) of
        (Some p, Some l) \<Rightarrow> let off = (p - 1) * l in if l < 0 \<or> off < 0 then None else Some (p, l, off)
      | _ \<Rightarrow> None)"

text \<open>\<open>Math.ceil(total / limit)\<close>; with \<open>limit = 0\<close> it is \<open>Infinity\<close> or \<open>NaN\<close>, sent as \<open>null\<close>.\<close>

definition js_ceil_div :: "nat \<Rightarrow> int \<Rightarrow> int option" where
  "js_ceil_div n l = (if l = 0 then None else Some ((int n + l - 1) div l))"

record pagination =
  pg_page :: int
  pg_limit :: int
  pg_total :: nat
  pg_pages :: "int option"

definition page_of :: "int \<times> int \<times> int \<Rightarrow> 'a list \<Rightarrow> 'a list" where
  "page_of plo rows = (case plo of (p, l, off) \<Rightarrow> take (nat l) (drop (nat off) rows))"

definition pagination_of :: "int \<times> int \<times> int \<Rightarrow> nat \<Rightarrow> pagination" where
  "pagination_of plo n =
     (case plo of (p, l, off) \<Rightarrow> \<lparr>pg_page = p, pg_limit = l, pg_total = n, pg_pages = js_ceil_div n l\<rparr>)"

section \<open>\<open>GET /api/admin/users\<close>\<close>

text \<open>
  \<open>SELECT id, name, email, role, created_at, (SELECT COUNT(*) FROM bookings WHERE user_id =
  users.id) AS total_bookings FROM users\<close>, optionally \<open>WHERE name LIKE ? OR email LIKE ?\<close>,
  newest first.  The password hash is not selected.
\<close>

record user_summary =
  us_id :: ident
  us_name :: string
  us_email :: string
  us_role :: role
  us_total_bookings :: nat

definition user_summary :: "db \<Rightarrow> user_row \<Rightarrow> user_summary" where
  "user_summary d u =
     \<lparr>us_id = user_id u, us_name = user_name u, us_email = user_email u, us_role = user_role u,
      us_total_bookings = length (filter (\<lambda>b. booking_user_id b = user_id u) (bookings d))\<rparr>"

definition user_matches :: "string \<Rightarrow> user_row \<Rightarrow> bool" where
  "user_matches s u \<longleftrightarrow> sql_like (contains_pattern s) (user_name u) \<or> sql_like (contains_pattern s) (user_email u)"

text \<open>\<open>if (search)\<close>: an absent or empty search lists every user; the count query has its own, correct, parameters.\<close>

definition admin_users :: "(string \<times> string) list \<Rightarrow> db \<Rightarrow> (user_summary list \<times> pagination) response" where
  "admin_users q d =
     (case sql_pagination (map_of q ''page'') (map_of q ''limit'') of
        None \<Rightarrow> Failure 500 ''Failed to fetch users''
      | Some plo \<Rightarrow>
          (let sel = (case map_of q ''search'' of Some s \<Rightarrow> if s \<noteq> [] then user_matches s else (\<lambda>_. True)
                      | None \<Rightarrow> (\<lambda>_. True));
               rows = filter sel (rev (users d)) in
           Success 200 (map (user_summary d) (page_of plo rows), pagination_of plo (length rows))))"

section \<open>\<open>GET /api/admin/bookings\<close>\<close>

text \<open>
  The filters \<open>b.status = ?\<close> (the \<open>ENUM\<close> compared as text under the case-insensitive
  collation) and \<open>b.user_id = ?\<close>; the count query repeats the conditions but is run with
  \<open>params.slice(0, -2)\<close>.
\<close>

fun status_text :: "status \<Rightarrow> string" where
  "status_text Pending = ''pending''"
| "status_text Confirmed = ''confirmed''"
| "status_text Cancelled = ''cancelled''"

definition admin_booking_conds :: "(string \<times> string) list \<Rightarrow> (booking_row \<Rightarrow> bool) list" where
  "admin_booking_conds q =
     (case map_of q ''status'' of
        Some s \<Rightarrow> if s \<noteq> [] then [\<lambda>b. ci_key (status_text (booking_status b)) = ci_key s] else []
      | None \<Rightarrow> [])
     @ (case map_of q ''userId'' of
          Some s \<Rightarrow> if s \<noteq> [] then [\<lambda>b. js_parse_int s = Some (int (booking_user_id b))] else []
        | None \<Rightarrow> [])"

text \<open>\<open>JOIN packages p\<close> and \<open>JOIN users u\<close>: the row with its package's title and destination and its user's name and email.\<close>

definition admin_booking_row :: "db \<Rightarrow> booking_row \<Rightarrow> (booking_row \<times> package_row \<times> user_row) option" where
  "admin_booking_row d b =
     (case (find_package d (booking_package_id b), find_user d (booking_user_id b)) of
        (Some p, Some u) \<Rightarrow> Some (b, p, u)
      | _ \<Rightarrow> None)"

definition admin_bookings ::
  "(string \<times> string) list \<Rightarrow> db \<Rightarrow> ((booking_row \<times> package_row \<times> user_row) list \<times> pagination) response" where
  "admin_bookings q d =
     (case sql_pagination (map_of q ''page'') (map_of q ''limit'') of
        None \<Rightarrow> Failure 500 ''Failed to fetch bookings''
      | Some plo \<Rightarrow>
          (let cs = admin_booking_conds q; n = length cs in
           if length (js_slice_drop2 (replicate n ())) \<noteq> n then Failure 500 ''Failed to fetch bookings''
           else
             (let rows = List.map_filter (admin_booking_row d)
                           (filter (\<lambda>b. \<forall>c\<in>set cs. c b) (rev (bookings d))) in
              Success 200 (page_of plo rows, pagination_of plo (length rows)))))"

section \<open>\<open>GET /api/admin/dashboard\<close>\<close>

text \<open>
  Six queries: users with role \<open>user\<close>, packages, bookings, \<open>SUM(total_amount)\<close> of the
  confirmed bookings (\<open>NULL || 0\<close>), the five latest bookings, the five packages with most
  bookings, and the count per status present (\<open>GROUP BY status\<close>, listed in \<open>ENUM\<close>
  order here; MySQL does not sort groups).
\<close>

record dashboard =
  db_total_users :: nat
  db_total_packages :: nat
  db_total_bookings :: nat
  db_total_revenue :: cents
  db_recent_bookings :: "(booking_row \<times> package_row \<times> user_row) list"
  db_popular_packages :: "(package_row \<times> nat) list"
  db_status_distribution :: "(status \<times> nat) list"

definition status_count :: "db \<Rightarrow> status \<Rightarrow> nat" where
  "status_count d s = length (filter (\<lambda>b. booking_status b = s) (bookings d))"

definition admin_dashboard :: "db \<Rightarrow> dashboard response" where
  "admin_dashboard d =
     Success 200
       \<lparr>db_total_users = length (filter (\<lambda>u. user_role u = RoleUser) (users d)),
        db_total_packages = length (packages d),
        db_total_bookings = length (bookings d),
        db_total_revenue = sum_list (map booking_total_amount (filter (\<lambda>b. booking_status b = Confirmed) (bookings d))),
        db_recent_bookings = take 5 (List.map_filter (admin_booking_row d) (rev (bookings d))),
        db_popular_packages =
          take 5 (sort_key (\<lambda>(p, n). - int n) (map (\<lambda>p. (p, booking_count d (package_id p))) (packages d))),
        db_status_distribution =
          filter (\<lambda>(s, n). 0 < n) (map (\<lambda>s. (s, status_count d s)) [Pending, Confirmed, Cancelled])\<rparr>"

section \<open>\<open>DELETE /api/admin/users/:id\<close> and \<open>PATCH /api/admin/users/:id/role\<close>\<close>

text \<open>
  A user is deleted only when it exists, is not an admin and has no bookings; the
  \<open>DELETE\<close> cascades to the user's reviews (and bookings, of which there are none).
\<close>

definition admin_delete_user :: "ident \<Rightarrow> db \<Rightarrow> db \<times> string response" where
  "admin_delete_user i d =
     (case find_user d i of
        None \<Rightarrow> (d, Failure 404 ''User not found'')
      | Some u \<Rightarrow>
          if user_role u = RoleAdmin then (d, Failure 403 ''Cannot delete admin users'')
          else if filter (\<lambda>b. booking_user_id b = i) (bookings d) \<noteq> [] then
            (d, Failure 400 ''Cannot delete user with existing bookings'')
          else (delete_user_row i d, Success 200 ''User deleted successfully''))"

text \<open>\<open>['user', 'admin'].includes(role)\<close> (strict equality).\<close>

fun parse_role :: "jsval \<Rightarrow> role option" where
  "parse_role (JStr s) =
     (if s = ''user'' then Some RoleUser else if s = ''admin'' then Some RoleAdmin else None)"
| "parse_role _ = None"

definition admin_update_user_role :: "ident \<Rightarrow> jsval \<Rightarrow> db \<Rightarrow> db \<times> string response" where
  "admin_update_user_role i r d =
     (case parse_role r of
        None \<Rightarrow> (d, Failure 400 ''Invalid role. Must be user or admin'')
      | Some rl \<Rightarrow>
          (case find_user d i of
             None \<Rightarrow> (d, Failure 404 ''User not found'')
           | Some _ \<Rightarrow> (set_user_role i rl d, Success 200 ''User role updated successfully'')))"

section \<open>The routes behind the admin gate\<close>

text \<open>The id MySQL reads from a path segment compared with an \<open>INT\<close> id (no row has id 0).\<close>

definition path_id :: "string \<Rightarrow> ident" where
  "path_id s = (case js_parse_int s of Some n \<Rightarrow> if 0 < n then nat n else 0 | None \<Rightarrow> 0)"

definition gated :: "token_registry \<Rightarrow> int \<Rightarrow> string option \<Rightarrow> db \<Rightarrow> (db \<Rightarrow> db \<times> 'a response) \<Rightarrow> db \<times> 'a response" where
  "gated reg now hdr d h = (case admin_gate reg now hdr d of Inl (c, m) \<Rightarrow> (d, Failure c m) | Inr _ \<Rightarrow> h d)"

definition route_admin_users ::
  "token_registry \<Rightarrow> int \<Rightarrow> string option \<Rightarrow> (string \<times> string) list \<Rightarrow> db \<Rightarrow> db \<times> (user_summary list \<times> pagination) response" where
  "route_admin_users reg now hdr q d = gated reg now hdr d (\<lambda>d. (d, admin_users q d))"

definition route_admin_bookings ::
  "token_registry \<Rightarrow> int \<Rightarrow> string option \<Rightarrow> (string \<times> string) list \<Rightarrow> db
   \<Rightarrow> db \<times> ((booking_row \<times> package_row \<times> user_row) list \<times> pagination) response" where
  "route_admin_bookings reg now hdr q d = gated reg now hdr d (\<lambda>d. (d, admin_bookings q d))"

definition route_admin_booking_status ::
  "token_registry \<Rightarrow> int \<Rightarrow> string option \<Rightarrow> string \<Rightarrow> js_object \<Rightarrow> db
   \<Rightarrow> db \<times> (booking_row \<times> package_row \<times> user_row) option response" where
  "route_admin_booking_status reg now hdr i body d =
     gated reg now hdr d (admin_update_booking_status (path_id i) (js_get body ''status''))"

definition route_admin_dashboard :: "token_registry \<Rightarrow> int \<Rightarrow> string option \<Rightarrow> db \<Rightarrow> db \<times> dashboard response" where
  "route_admin_dashboard reg now hdr d = gated reg now hdr d (\<lambda>d. (d, admin_dashboard d))"

definition route_admin_delete_user ::
  "token_registry \<Rightarrow> int \<Rightarrow> string option \<Rightarrow> string \<Rightarrow> db \<Rightarrow> db \<times> string response" where
  "route_admin_delete_user reg now hdr i d = gated reg now hdr d (admin_delete_user (path_id i))"

definition route_admin_user_role ::
  "token_registry \<Rightarrow> int \<Rightarrow> string option \<Rightarrow> string \<Rightarrow> js_object \<Rightarrow> db \<Rightarrow> db \<times> string response" where
  "route_admin_user_role reg now hdr i body d = gated reg now hdr d (admin_update_user_role (path_id i) (js_get body ''role''))"

section \<open>Properties\<close>


lemma gated_pass: "admin_gate reg now hdr d = Inr u \<Longrightarrow> gated reg now hdr d h = h d"
  by (simp add: gated_def)

lemma gated_db: "fst (gated reg now hdr d h) = d \<or> fst (gated reg now hdr d h) = fst (h d)"
  by (auto simp: gated_def split: sum.splits)

lemma admin_booking_conds_filter:
  "(map_of q ''status'' = Some s \<or> map_of q ''userId'' = Some s) \<Longrightarrow> s \<noteq> [] \<Longrightarrow> admin_booking_conds q \<noteq> []"
  by (auto simp: admin_booking_conds_def split: option.splits)

lemma admin_bookings_filtered:
  assumes "admin_booking_conds q \<noteq> []"
  shows "admin_bookings q d = Failure 500 ''Failed to fetch bookings''"
proof -
  have "length (admin_booking_conds q) - 2 \<noteq> length (admin_booking_conds q)"
    using assms by (cases "admin_booking_conds q") simp_all
  then show ?thesis by (simp add: admin_bookings_def js_slice_drop2_def Let_def split: option.splits)
qed

lemma sql_pagination_Some:
  "sql_pagination pg lm = Some (p, l, off) \<Longrightarrow> 0 \<le> l \<and> 0 \<le> off \<and> off = (p - 1) * l"
  by (auto simp: sql_pagination_def Let_def split: option.splits if_splits)

lemma role_not_admin [simp]: "r \<noteq> RoleAdmin \<longleftrightarrow> r = RoleUser"
  by (cases r) simp_all

lemma sum_list_filter_pos: "sum_list (map snd (filter (\<lambda>(s, n). 0 < n) xs)) = sum_list (map snd (xs :: ('a \<times> nat) list))"
  by (induction xs) auto

lemma admin_dashboard_counts:
  assumes "admin_dashboard d = Success c ds"
  shows "sum_list (map snd (db_status_distribution ds)) = db_total_bookings ds
         \<and> db_total_revenue ds = sum_list (map booking_total_amount (filter (\<lambda>b. booking_status b = Confirmed) (bookings d)))
         \<and> length (db_recent_bookings ds) \<le> 5 \<and> length (db_popular_packages ds) \<le> 5"
  using assms length_status_partition [of "bookings d"]
  by (auto simp: admin_dashboard_def sum_list_filter_pos status_count_def)

lemma admin_delete_user_db:
  "fst (admin_delete_user i d) = d
   \<or> (filter (\<lambda>b. booking_user_id b = i) (bookings d) = [] \<and> (\<exists>u. find_user d i = Some u \<and> user_role u = RoleUser)
      \<and> fst (admin_delete_user i d) = delete_user_row i d)"
  by (auto simp: admin_delete_user_def split: option.splits)

lemma route_admin_delete_user_db:
  "fst (route_admin_delete_user reg now hdr i d) = d \<or> fst (route_admin_delete_user reg now hdr i d) = fst (admin_delete_user (path_id i) d)"
  unfolding route_admin_delete_user_def by (rule gated_db)

lemma filter_admins_delete_user_row:
  "find_user d i = Some u \<Longrightarrow> user_role u = RoleUser \<Longrightarrow> keys_ok user_id (users d) k \<Longrightarrow>
   filter (\<lambda>v. user_role v = RoleAdmin) (users (delete_user_row i d)) = filter (\<lambda>v. user_role v = RoleAdmin) (users d)"
  unfolding delete_user_row_def find_user_def
  by (auto simp: filter_filter find_Some_iff intro!: filter_cong dest: keys_ok_unique nth_mem)

end
