(* ===== verification/Seed.thy ===== *)
theory Seed
  imports Store
begin

text \<open>
  \<open>initializeDatabase\<close> of \<open>src/server/config/database.js\<close>: the tables are created if
  missing (the model's tables always exist), an admin account is inserted when no user has
  the e-mail \<open>admin@wavv.com\<close>, and six sample packages are inserted when the package table
  is empty.  A failing statement aborts the initialisation (\<open>throw error\<close>).  JavaScript
  prices such as \<open>2400.00\<close> are stored in cents.
\<close>

text \<open>\<open>INSERT INTO users (name, email, password, role) VALUES (?, ?, ?, ?)\<close> with role \<open>'admin'\<close>.\<close>

definition insert_admin_user :: "string \<Rightarrow> string \<Rightarrow> pw_hash \<Rightarrow> db \<Rightarrow> sql_error + db" where
  "insert_admin_user n e pw d =
     (if (\<exists>u\<in>set (users d). ci_key (user_email u) = ci_key e) then Inl ER_DUP_ENTRY
      else let i = users_ai d in
        Inr (d\<lparr>users := users d @ [\<lparr>user_id = i, user_name = n, user_email = e, user_password = pw,
                                        user_role = RoleAdmin\<rparr>],
               users_ai := Suc i\<rparr>))"

definition sample_package :: "string \<Rightarrow> string \<Rightarrow> string \<Rightarrow> cents \<Rightarrow> string \<Rightarrow> string \<Rightarrow> package_fields" where
  "sample_package t ds dc pr du img =
     \<lparr>pf_title = t, pf_destination = ds, pf_description = dc, pf_price = pr, pf_duration = du, pf_image_url = JStr img\<rparr>"

definition sample_packages :: "package_fields list" where
  "sample_packages =
     [sample_package ''Italian Adventure'' ''Italy''
        ''Explore the beautiful cities of Rome, Florence, and Venice with guided tours and authentic experiences.''
        240000 ''7 days'' ''/uploads/italy.jpg'',
      sample_package ''Mexican Beach Getaway'' ''Mexico''
        ''Discover ancient ruins and pristine beaches with all-inclusive luxury accommodations.''
        98000 ''5 days'' ''/uploads/mexico.jpg'',
      sample_package ''French Romance'' ''France''
        ''Experience the romance of Paris and French countryside with wine tasting and cultural tours.''
        120000 ''6 days'' ''/uploads/france.jpg'',
      sample_package ''Turkish Delight'' ''Turkey''
        ''Visit historic Istanbul and stunning Cappadocia with hot air balloon rides.''
        50000 ''4 days'' ''/uploads/turkey.jpg'',
      sample_package ''Indian Heritage'' ''India''
        ''Journey through diverse cultures and landscapes from the Taj Mahal to the Himalayas.''
        80000 ''8 days'' ''/uploads/india.jpg'',
      sample_package ''Spanish Fiesta'' ''Spain''
        ''Enjoy vibrant cities and Mediterranean coast with flamenco shows and tapas tours.''
        199900 ''9 days'' ''/uploads/spain.jpg'']"

text \<open>\<open>for (const pkg of samplePackages) await connection.execute(INSERT ...)\<close>: stops at the first error.\<close>

fun insert_packages :: "package_fields list \<Rightarrow> db \<Rightarrow> sql_error + db" where
  "insert_packages [] d = Inr d"
| "insert_packages (f # fs) d = (case insert_package f d of Inl e \<Rightarrow> Inl e | Inr (_, d1) \<Rightarrow> insert_packages fs d1)"

definition initialize_database :: "db \<Rightarrow> sql_error + db" where
  "initialize_database d =
     (case (if find_user_by_email d ''admin@wavv.com'' = None
            then insert_admin_user ''Admin User'' ''admin@wavv.com'' (Bcrypt ''admin123'') d
            else Inr d) of
        Inl e \<Rightarrow> Inl e
      | Inr d1 \<Rightarrow> if packages d1 = [] then insert_packages sample_packages d1 else Inr d1)"

section \<open>Properties\<close>

lemma wf_insert_admin_user:
  assumes wf: "db_wf d" and ins: "insert_admin_user n e pw d = Inr d'"
  shows "db_wf d'"
  using ins wf_append_user [OF wf, where u = "\<lparr>user_id = users_ai d, user_name = n, user_email = e,
                                               user_password = pw, user_role = RoleAdmin\<rparr>"]
  unfolding insert_admin_user_def by (auto simp: Let_def split: if_splits)

lemma wf_insert_packages: "db_wf d \<Longrightarrow> insert_packages fs d = Inr d' \<Longrightarrow> db_wf d'"
proof (induction fs arbitrary: d)
  case (Cons f fs)
  then show ?case by (auto split: sum.splits dest: wf_insert_package)
qed simp

lemma wf_initialize_database: "db_wf d \<Longrightarrow> initialize_database d = Inr d' \<Longrightarrow> db_wf d'"
  unfolding initialize_database_def
  by (auto split: sum.splits if_splits dest: wf_insert_admin_user wf_insert_packages)

lemma insert_packages_keeps:
  "insert_packages fs d = Inr d' \<Longrightarrow> users d' = users d \<and> reviews d' = reviews d \<and> bookings d' = bookings d"
proof (induction fs arbitrary: d)
  case (Cons f fs)
  then show ?case by (fastforce simp: insert_package_def Let_def split: sum.splits option.splits)
qed simp

end
