(* ===== verification/ErrorHandler.thy ===== *)
theory ErrorHandler
  imports Prelude
begin

text \<open>
  The Express error middleware of \<open>src/server/middleware/errorHandler.js\<close>.  An error
  object is read through four properties; an absent property is the empty string (or
  status 0), which is what the handler's truthiness tests and strict comparisons see.  The
  answer is a status and a message (the response's \<open>timestamp\<close> and \<open>path\<close> fields are
  not modelled).
\<close>

record js_error =
  err_message :: string
  err_status :: nat
  err_code :: string
  err_name :: string

text \<open>The handler as written: a default, then eight independent \<open>if\<close>s, each overwriting both fields.\<close>

definition error_handler :: "js_error \<Rightarrow> nat \<times> string" where
  "error_handler e =
     (let r0 = (if err_status e \<noteq> 0 then err_status e else 500,
                if err_message e \<noteq> [] then err_message e else ''Internal Server Error'');
          r1 = (if err_code e = ''ER_DUP_ENTRY'' then (400, ''Duplicate entry. This record already exists.'') else r0);
          r2 = (if err_code e = ''ER_NO_REFERENCED_ROW_2'' then (400, ''Referenced record does not exist.'') else r1);
          r3 = (if err_code e = ''ER_ROW_IS_REFERENCED_2''
                then (400, ''Cannot delete this record as it is referenced by other records.'') else r2);
          r4 = (if err_name e = ''ValidationError'' then (400, err_message e) else r3);
          r5 = (if err_name e = ''JsonWebTokenError'' then (401, ''Invalid token.'') else r4);
          r6 = (if err_name e = ''TokenExpiredError'' then (401, ''Token expired.'') else r5);
          r7 = (if err_name e = ''CastError'' then (400, ''Invalid ID format.'') else r6);
          r8 = (if err_code e = ''LIMIT_FILE_SIZE'' then (400, ''File too large. Maximum size is 5MB.'') else r7)
      in if err_code e = ''LIMIT_UNEXPECTED_FILE'' then (400, ''Unexpected file field.'') else r8)"

text \<open>
  A reference reading of the same table: the rules in source order, each a guard and the
  answer it gives; the answer is the one of the last rule whose guard holds, or the default.
\<close>

definition error_rules :: "js_error \<Rightarrow> (bool \<times> nat \<times> string) list" where
  "error_rules e =
     [(err_code e = ''ER_DUP_ENTRY'', 400, ''Duplicate entry. This record already exists.''),
      (err_code e = ''ER_NO_REFERENCED_ROW_2'', 400, ''Referenced record does not exist.''),
      (err_code e = ''ER_ROW_IS_REFERENCED_2'', 400, ''Cannot delete this record as it is referenced by other records.''),
      (err_name e = ''ValidationError'', 400, err_message e),
      (err_name e = ''JsonWebTokenError'', 401, ''Invalid token.''),
      (err_name e = ''TokenExpiredError'', 401, ''Token expired.''),
      (err_name e = ''CastError'', 400, ''Invalid ID format.''),
      (err_code e = ''LIMIT_FILE_SIZE'', 400, ''File too large. Maximum size is 5MB.''),
      (err_code e = ''LIMIT_UNEXPECTED_FILE'', 400, ''Unexpected file field.'')]"

definition error_default :: "js_error \<Rightarrow> nat \<times> string" where
  "error_default e =
     (if err_status e \<noteq> 0 then err_status e else 500,
      if err_message e \<noteq> [] then err_message e else ''Internal Server Error'')"

definition last_rule :: "(bool \<times> nat \<times> string) list \<Rightarrow> nat \<times> string \<Rightarrow> nat \<times> string" where
  "last_rule rs dflt = (case find fst (rev rs) of Some (_, s, m) \<Rightarrow> (s, m) | None \<Rightarrow> dflt)"

section \<open>Properties\<close>

text \<open>Applying the rules one after the other, each overwriting the answer when its guard holds.\<close>

lemma fold_rules_last:
  "fold (\<lambda>(g, s, m) r. if g then (s, m) else r) rs dflt = last_rule rs dflt"
proof (induction rs arbitrary: dflt rule: rev_induct)
  case (snoc x xs)
  then show ?case by (cases x) (simp add: last_rule_def)
qed (simp add: last_rule_def)

lemma error_handler_fold:
  "error_handler e = fold (\<lambda>(g, s, m) r. if g then (s, m) else r) (error_rules e) (error_default e)"
  by (simp add: error_handler_def error_rules_def error_default_def Let_def)

end
