(* ===== verification/Api.thy ===== *)
theory Api
  imports Admin Accounts Seed
begin

text \<open>
  The server as one state machine: every route of \<open>src/server/server.js\<close> that writes to
  the database, with the middleware chain it is mounted behind, as one step function
  \<open>api_exec\<close> over a request; the database after \<open>initializeDatabase\<close> and any
  sequence of such requests are the reachable states.  Requests run one at a time (the
  handlers' statements do not interleave).  Read-only routes (the \<open>GET\<close>s and
  \<open>POST /api/auth/login\<close>) leave the database as it is and are not steps here.
\<close>

text \<open>What the server is configured with: the token signatures it accepts and validator.js's e-mail functions.\<close>

record env =
  env_reg :: token_registry
  env_email :: email_lib

text \<open>A request: the \<open>Authorization\<close> header, path parameters, body, and the clock.\<close>

record request =
  rq_hdr :: "string option"
  rq_params :: "(string \<times> string) list"
  rq_body :: js_object
  rq_now :: int
  rq_today :: date

datatype endpoint =
    Register | UpdateProfile | ChangePassword
  | CreateBooking | UpdateBookingStatus | CancelBooking
  | CreateContact | UpdateContact | DeleteContact
  | CreateReview | UpdateReview | DeleteReview
  | CreatePackage | UpdatePackage | DeletePackage
  | AdminBookingStatus | AdminDeleteUser | AdminUserRole

text \<open>\<open>authenticateToken\<close> in front of a handler that reads \<open>req.user\<close>.\<close>

definition authed ::
  "token_registry \<Rightarrow> request \<Rightarrow> db \<Rightarrow> (user_row \<Rightarrow> db \<Rightarrow> db \<times> 'a response) \<Rightarrow> db \<times> 'a response" where
  "authed reg rq d h =
     (case authenticate_token reg (rq_now rq) (rq_hdr rq) d of Inl (c, m) \<Rightarrow> (d, Failure c m) | Inr u \<Rightarrow> h u d)"

definition path_param :: "request \<Rightarrow> string" where
  "path_param rq = (case map_of (rq_params rq) ''id'' of Some s \<Rightarrow> s | None \<Rightarrow> [])"

text \<open>The new database and the response's status.\<close>

fun api_exec :: "env \<Rightarrow> endpoint \<Rightarrow> request \<Rightarrow> db \<Rightarrow> db \<times> nat" where
  "api_exec E Register rq d =
     (let r = register (env_email E) (rq_now rq) (rq_body rq) d in (fst r, status_of (snd r)))"
| "api_exec E UpdateProfile rq d =
     (let r = authed (env_reg E) rq d (\<lambda>u. update_profile u (rq_body rq)) in (fst r, status_of (snd r)))"
| "api_exec E ChangePassword rq d =
     (let r = authed (env_reg E) rq d (\<lambda>u. change_password u (rq_body rq)) in (fst r, status_of (snd r)))"
| "api_exec E CreateBooking rq d =
     (let r = authed (env_reg E) rq d (\<lambda>u. route_create_booking (rq_today rq) u (rq_body rq)) in (fst r, status_of (snd r)))"
| "api_exec E UpdateBookingStatus rq d =
     (let r = authed (env_reg E) rq d (\<lambda>u. route_update_booking_status u (rq_params rq) (rq_body rq)) in (fst r, status_of (snd r)))"
| "api_exec E CancelBooking rq d =
     (let r = authed (env_reg E) rq d (\<lambda>u. route_cancel_booking u (rq_params rq)) in (fst r, status_of (snd r)))"
| "api_exec E CreateContact rq d =
     (let r = create_booking_contact (rq_body rq) d in (fst r, status_of (snd r)))"
| "api_exec E UpdateContact rq d =
     (let r = update_contact_status (path_id (path_param rq)) (js_get (rq_body rq) ''status'') d in (fst r, status_of (snd r)))"
| "api_exec E DeleteContact rq d =
     (let r = delete_booking_contact (path_id (path_param rq)) d in (fst r, status_of (snd r)))"
| "api_exec E CreateReview rq d =
     (let r = authed (env_reg E) rq d (\<lambda>u. route_create_review u (rq_body rq)) in (fst r, status_of (snd r)))"
| "api_exec E UpdateReview rq d =
     (let r = authed (env_reg E) rq d (\<lambda>u. route_update_review u (rq_params rq) (rq_body rq)) in (fst r, status_of (snd r)))"
| "api_exec E DeleteReview rq d =
     (let r = authed (env_reg E) rq d (\<lambda>u. route_delete_review u (rq_params rq)) in (fst r, status_of (snd r)))"
| "api_exec E CreatePackage rq d =
     (let r = route_create_package (env_reg E) (rq_now rq) (rq_hdr rq) (rq_body rq) d in (fst r, status_of (snd r)))"
| "api_exec E UpdatePackage rq d =
     (let r = route_update_package (env_reg E) (rq_now rq) (rq_hdr rq) (rq_params rq) (rq_body rq) d in (fst r, status_of (snd r)))"
| "api_exec E DeletePackage rq d =
     (let r = route_delete_package (env_reg E) (rq_now rq) (rq_hdr rq) (rq_params rq) d in (fst r, status_of (snd r)))"
| "api_exec E AdminBookingStatus rq d =
     (let r = route_admin_booking_status (env_reg E) (rq_now rq) (rq_hdr rq) (path_param rq) (rq_body rq) d in (fst r, status_of (snd r)))"
| "api_exec E AdminDeleteUser rq d =
     (let r = route_admin_delete_user (env_reg E) (rq_now rq) (rq_hdr rq) (path_param rq) d in (fst r, status_of (snd r)))"
| "api_exec E AdminUserRole rq d =
     (let r = route_admin_user_role (env_reg E) (rq_now rq) (rq_hdr rq) (path_param rq) (rq_body rq) d in (fst r, status_of (snd r)))"

text \<open>The states the server can be in: after initialisation, and after any request.\<close>

inductive reachable :: "env \<Rightarrow> db \<Rightarrow> bool" for E :: env where
  init: "initialize_database empty_db = Inr d \<Longrightarrow> reachable E d"
| step: "reachable E d \<Longrightarrow> reachable E (fst (api_exec E ep rq d))"

text \<open>Every review is backed by a booking of its author for its package (whatever the booking's status).\<close>

definition reviews_backed :: "db \<Rightarrow> bool" where
  "reviews_backed d \<longleftrightarrow>
     (\<forall>r\<in>set (reviews d). \<exists>b\<in>set (bookings d).
        booking_user_id b = review_user_id r \<and> booking_package_id b = review_package_id r)"

text \<open>The spec's stronger reading: every review is backed by a \<open>confirmed\<close> booking.\<close>

definition reviews_confirmed :: "db \<Rightarrow> bool" where
  "reviews_confirmed d \<longleftrightarrow>
     (\<forall>r\<in>set (reviews d). \<exists>b\<in>set (bookings d).
        booking_user_id b = review_user_id r \<and> booking_package_id b = review_package_id r
        \<and> booking_status b = Confirmed)"

definition api_inv :: "db \<Rightarrow> bool" where
  "api_inv d \<longleftrightarrow> db_wf d \<and> rating_cache_ok d \<and> reviews_backed d"

text \<open>Every booking of \<open>d\<close> is still in \<open>d'\<close>, with everything but its status unchanged.\<close>

definition bookings_kept :: "db \<Rightarrow> db \<Rightarrow> bool" where
  "bookings_kept d d' \<longleftrightarrow>
     (\<forall>b\<in>set (bookings d). \<exists>b'\<in>set (bookings d'). b' = b\<lparr>booking_status := booking_status b'\<rparr>)"

text \<open>A step from \<open>d\<close> to \<open>d'\<close> is sound: it keeps the invariant and keeps every booking.\<close>

definition step_ok :: "db \<Rightarrow> db \<Rightarrow> bool" where
  "step_ok d d' \<longleftrightarrow> (api_inv d \<longrightarrow> api_inv d') \<and> bookings_kept d d'"

text \<open>A sequence of requests, served one after the other.\<close>

fun api_run :: "env \<Rightarrow> (endpoint \<times> request) list \<Rightarrow> db \<Rightarrow> db" where
  "api_run E [] d = d"
| "api_run E ((ep, rq) # rs) d = api_run E rs (fst (api_exec E ep rq d))"

text \<open>No booking of \<open>d'\<close> is confirmed unless it was confirmed in \<open>d\<close> already.\<close>

definition no_new_confirm :: "db \<Rightarrow> db \<Rightarrow> bool" where
  "no_new_confirm d d' \<longleftrightarrow>
     (\<forall>b'\<in>set (bookings d'). booking_status b' = Confirmed \<longrightarrow>
        (\<exists>b\<in>set (bookings d). booking_id b = booking_id b' \<and> booking_status b = Confirmed))"

section \<open>Properties\<close>

text \<open>
  Each write the routes make is a sound step (\<open>step_ok\<close>); the handlers compose
  them, the middleware wrappers either stop with the database unchanged or run the
  handler, and \<open>api_exec\<close> is sound for every endpoint.  By rule induction, every
  reachable state satisfies \<open>api_inv\<close>.
\<close>
lemma rating_cache_ok_cong:
  "packages d' = packages d \<Longrightarrow> reviews d' = reviews d \<Longrightarrow> rating_cache_ok d' = rating_cache_ok d"
  by (simp add: rating_cache_ok_def package_ratings_def)

lemma bookings_kept_same: "set (bookings d) \<subseteq> set (bookings d') \<Longrightarrow> bookings_kept d d'"
  unfolding bookings_kept_def
proof
  fix b assume "set (bookings d) \<subseteq> set (bookings d')" and "b \<in> set (bookings d)"
  then show "\<exists>b'\<in>set (bookings d'). b' = b\<lparr>booking_status := booking_status b'\<rparr>"
    by (intro bexI [of _ b]) auto
qed

lemma update_where_image_in: "r \<in> set rs \<Longrightarrow> (if c r then f r else r) \<in> set (update_where c f rs)"
  by (induction rs) auto

lemma bookings_kept_set_status: "bookings_kept d (set_booking_status i s d)"
  unfolding bookings_kept_def
proof
  fix b assume b: "b \<in> set (bookings d)"
  let ?b' = "if booking_id b = i then b\<lparr>booking_status := s\<rparr> else b"
  have "?b' \<in> set (bookings (set_booking_status i s d))"
    using update_where_image_in [OF b, of "\<lambda>b. booking_id b = i" "\<lambda>b. b\<lparr>booking_status := s\<rparr>"]
    by (simp add: set_booking_status_def)
  then show "\<exists>b'\<in>set (bookings (set_booking_status i s d)). b' = b\<lparr>booking_status := booking_status b'\<rparr>"
    by (intro bexI [of _ ?b']) auto
qed

lemma kept_same_pairs:
  assumes "bookings_kept d d'" and "b \<in> set (bookings d)"
  shows "\<exists>b'\<in>set (bookings d'). booking_user_id b' = booking_user_id b \<and> booking_package_id b' = booking_package_id b"
proof -
  obtain b' where b': "b' \<in> set (bookings d')" and eq: "b' = b\<lparr>booking_status := booking_status b'\<rparr>"
    using assms unfolding bookings_kept_def by blast
  have "booking_user_id b' = booking_user_id b" "booking_package_id b' = booking_package_id b"
    using arg_cong [OF eq, of booking_user_id] arg_cong [OF eq, of booking_package_id] by simp_all
  then show ?thesis using b' by blast
qed

lemma api_inv_frame:
  assumes inv: "api_inv d" and wf: "db_wf d'" and p: "packages d' = packages d" and r: "reviews d' = reviews d"
    and k: "bookings_kept d d'"
  shows "api_inv d'"
proof -
  have "rating_cache_ok d'" using inv rating_cache_ok_cong [OF p r] by (simp add: api_inv_def)
  moreover have "reviews_backed d'"
    unfolding reviews_backed_def r
  proof
    fix rv assume "rv \<in> set (reviews d)"
    then obtain b where "b \<in> set (bookings d)" "booking_user_id b = review_user_id rv"
        "booking_package_id b = review_package_id rv"
      using inv by (auto simp: api_inv_def reviews_backed_def)
    then show "\<exists>b\<in>set (bookings d'). booking_user_id b = review_user_id rv \<and> booking_package_id b = review_package_id rv"
      using kept_same_pairs [OF k] by metis
  qed
  ultimately show ?thesis using wf by (simp add: api_inv_def)
qed


lemma step_ok_refl [simp]: "step_ok d d"
  unfolding step_ok_def by (blast intro: bookings_kept_same)

lemma step_ok_frame:
  assumes "db_wf d \<Longrightarrow> db_wf d'" and "packages d' = packages d" and "reviews d' = reviews d"
    and "bookings_kept d d'"
  shows "step_ok d d'"
  unfolding step_ok_def
proof (intro conjI impI)
  assume inv: "api_inv d"
  then have "db_wf d'" using assms(1) by (simp add: api_inv_def)
  then show "api_inv d'" by (rule api_inv_frame [OF inv _ assms(2-4)])
qed (rule assms(4))

lemma step_ok_insert_user:
  assumes "insert_user n e pw d = Inr (i, d')"
  shows "step_ok d d'"
proof (rule step_ok_frame)
  have d': "packages d' = packages d \<and> reviews d' = reviews d \<and> bookings d' = bookings d"
    using assms by (auto simp: insert_user_def Let_def split: if_splits)
  show "db_wf d \<Longrightarrow> db_wf d'" by (rule wf_insert_user [OF _ assms])
  show "packages d' = packages d" "reviews d' = reviews d" using d' by simp_all
  show "bookings_kept d d'" using d' by (simp add: bookings_kept_same)
qed

lemma step_ok_set_user_profile:
  assumes "set_user_profile i n e d = Inr d'"
  shows "step_ok d d'"
proof (rule step_ok_frame)
  have d': "packages d' = packages d \<and> reviews d' = reviews d \<and> bookings d' = bookings d"
    using assms by (auto simp: set_user_profile_def split: if_splits)
  show "db_wf d \<Longrightarrow> db_wf d'" by (rule wf_set_user_profile [OF _ assms])
  show "packages d' = packages d" "reviews d' = reviews d" using d' by simp_all
  show "bookings_kept d d'" using d' by (simp add: bookings_kept_same)
qed

lemma step_ok_set_user_password: "step_ok d (set_user_password i pw d)"
  by (rule step_ok_frame) (simp_all only: wf_set_user_password, simp_all add: set_user_password_def bookings_kept_same)

lemma step_ok_set_user_role: "step_ok d (set_user_role i r d)"
  by (rule step_ok_frame) (simp_all only: wf_set_user_role, simp_all add: set_user_role_def bookings_kept_same)

lemma step_ok_insert_booking:
  assumes "insert_booking u p dt g r a d = Inr (i, d')"
  shows "step_ok d d'"
proof (rule step_ok_frame)
  obtain b where d': "packages d' = packages d \<and> reviews d' = reviews d \<and> bookings d' = bookings d @ [b]"
    using assms by (auto simp: insert_booking_def Let_def split: if_splits)
  show "db_wf d \<Longrightarrow> db_wf d'" by (rule wf_insert_booking [OF _ assms])
  show "packages d' = packages d" "reviews d' = reviews d" using d' by simp_all
  show "bookings_kept d d'" using d' by (intro bookings_kept_same) auto
qed

lemma step_ok_set_booking_status: "step_ok d (set_booking_status i s d)"
  by (rule step_ok_frame) (simp_all only: wf_set_booking_status bookings_kept_set_status, simp_all add: set_booking_status_def)

lemma step_ok_insert_contact: "step_ok d (snd (insert_contact n e ph dt st d))"
  by (rule step_ok_frame) (simp_all only: wf_insert_contact, simp_all add: insert_contact_def Let_def bookings_kept_same)

lemma step_ok_set_contact_status: "step_ok d (snd (set_contact_status i st d))"
  by (rule step_ok_frame) (simp_all only: wf_set_contact_status, simp_all add: set_contact_status_def bookings_kept_same)

lemma step_ok_delete_contact_row: "step_ok d (snd (delete_contact_row i d))"
  by (rule step_ok_frame) (simp_all only: wf_delete_contact_row, simp_all add: delete_contact_row_def bookings_kept_same)

lemma update_package_rating_frame [simp]:
  "reviews (update_package_rating p d) = reviews d" "bookings (update_package_rating p d) = bookings d"
  "users (update_package_rating p d) = users d"
  by (simp_all add: update_package_rating_def Let_def set_package_rating_def)

lemma wf_update_package_rating: "db_wf d \<Longrightarrow> db_wf (update_package_rating p d)"
  unfolding update_package_rating_def Let_def by (rule wf_set_package_rating)

lemma step_okI:
  assumes "bookings_kept d d'" and "api_inv d \<Longrightarrow> db_wf d'" and "api_inv d \<Longrightarrow> rating_cache_ok d'"
    and "api_inv d \<Longrightarrow> reviews_backed d'"
  shows "step_ok d d'"
  using assms by (simp add: step_ok_def api_inv_def)

lemma create_review_effect:
  assumes "fst (create_review u rq d) \<noteq> d"
  obtains i d1 b where "b \<in> set (bookings d)" "booking_user_id b = user_id u" "booking_package_id b = nat (rreq_package_id rq)"
      "insert_review (user_id u) (nat (rreq_package_id rq)) (rreq_rating rq) (rreq_comment rq) d = Inr (i, d1)"
      "fst (create_review u rq d) = update_package_rating (nat (rreq_package_id rq)) d1"
proof -
  let ?p = "nat (rreq_package_id rq)"
  have "\<exists>b\<in>set (bookings d). booking_user_id b = user_id u \<and> booking_package_id b = ?p"
    using assms by (auto simp: create_review_def Let_def split: option.splits if_splits)
  moreover obtain i d1 where "insert_review (user_id u) ?p (rreq_rating rq) (rreq_comment rq) d = Inr (i, d1)"
    using assms by (auto simp: create_review_def Let_def split: option.splits if_splits sum.splits)
  moreover have "fst (create_review u rq d) = update_package_rating ?p d1"
    using assms calculation(2) by (auto simp: create_review_def Let_def split: option.splits if_splits)
  ultimately show ?thesis using that by blast
qed

lemma step_ok_create_review: "step_ok d (fst (create_review u rq d))"
proof (cases "fst (create_review u rq d) = d")
  case False
  then obtain i d1 b where b: "b \<in> set (bookings d)" "booking_user_id b = user_id u" "booking_package_id b = nat (rreq_package_id rq)"
    and ins: "insert_review (user_id u) (nat (rreq_package_id rq)) (rreq_rating rq) (rreq_comment rq) d = Inr (i, d1)"
    and d': "fst (create_review u rq d) = update_package_rating (nat (rreq_package_id rq)) d1"
    by (rule create_review_effect)
  have r1: "set (reviews d1) = insert \<lparr>review_id = reviews_ai d, review_user_id = user_id u, review_package_id = nat (rreq_package_id rq),
                                     review_rating = rreq_rating rq, review_comment = Some (rreq_comment rq)\<rparr> (set (reviews d))"
    and b1: "bookings d1 = bookings d"
    using ins by (auto simp: insert_review_def Let_def split: if_splits)
  show ?thesis
  proof (rule step_okI)
    show "bookings_kept d (fst (create_review u rq d))" using b1 d' by (intro bookings_kept_same) simp
    show "db_wf (fst (create_review u rq d))" if "api_inv d"
      using that d' wf_insert_review [OF _ ins] wf_update_package_rating by (simp add: api_inv_def)
    show "rating_cache_ok (fst (create_review u rq d))" if "api_inv d"
      using that create_review_cache [OF _ prod.collapse [symmetric]] by (simp add: api_inv_def)
    show "reviews_backed (fst (create_review u rq d))" if "api_inv d"
      using that b r1 b1 d' by (auto simp: api_inv_def reviews_backed_def)
  qed
qed simp

lemma update_where_in_image: "r' \<in> set (update_where c f rs) \<Longrightarrow> \<exists>r\<in>set rs. r' = (if c r then f r else r)"
  unfolding update_where_def by auto

lemma reviews_backed_sub:
  assumes "reviews_backed d" and "bookings_kept d d'"
    and "\<And>r'. r' \<in> set (reviews d') \<Longrightarrow> \<exists>r\<in>set (reviews d). review_user_id r = review_user_id r' \<and> review_package_id r = review_package_id r'"
  shows "reviews_backed d'"
  unfolding reviews_backed_def
proof
  fix r' assume "r' \<in> set (reviews d')"
  then obtain r where r: "r \<in> set (reviews d)" "review_user_id r = review_user_id r'" "review_package_id r = review_package_id r'"
    using assms(3) by blast
  then obtain b where "b \<in> set (bookings d)" "booking_user_id b = review_user_id r" "booking_package_id b = review_package_id r"
    using assms(1) by (auto simp: reviews_backed_def)
  then show "\<exists>b\<in>set (bookings d'). booking_user_id b = review_user_id r' \<and> booking_package_id b = review_package_id r'"
    using kept_same_pairs [OF assms(2)] r(2,3) by metis
qed

lemma update_review_fields_pairs:
  assumes "update_review_fields i x y d = Inr d1"
  shows "bookings d1 = bookings d"
    and "\<And>r'. r' \<in> set (reviews d1) \<Longrightarrow> \<exists>r\<in>set (reviews d). review_user_id r = review_user_id r' \<and> review_package_id r = review_package_id r'"
proof -
  obtain f where d1: "d1 = d\<lparr>reviews := update_where (\<lambda>r. review_id r = i) f (reviews d)\<rparr>"
    and f: "\<And>r. review_user_id (f r) = review_user_id r \<and> review_package_id (f r) = review_package_id r"
    using assms unfolding update_review_fields_def by (auto split: if_split_asm)
  show "bookings d1 = bookings d" by (simp add: d1)
  fix r' assume "r' \<in> set (reviews d1)"
  then obtain r where "r \<in> set (reviews d)" "r' = (if review_id r = i then f r else r)"
    using update_where_in_image [of r' "\<lambda>r. review_id r = i" f "reviews d"] by (auto simp: d1)
  then show "\<exists>r\<in>set (reviews d). review_user_id r = review_user_id r' \<and> review_package_id r = review_package_id r'"
    using f by (intro bexI [of _ r]) auto
qed

lemma step_ok_update_review: "step_ok d (fst (update_review u i rt c d))"
proof -
  from update_review_cases [OF prod.collapse [symmetric]]
  show ?thesis
  proof
    assume "fst (update_review u i rt c d) = d" then show ?thesis by simp
  next
    assume "\<exists>rv x y d1. find_own_review d i (user_id u) = Some rv \<and> update_review_fields i x y d = Inr d1
              \<and> fst (update_review u i rt c d) = update_package_rating (review_package_id rv) d1"
    then obtain rv x y d1 where "find_own_review d i (user_id u) = Some rv" and upd: "update_review_fields i x y d = Inr d1"
      and d': "fst (update_review u i rt c d) = update_package_rating (review_package_id rv) d1" by blast
    note pairs = update_review_fields_pairs [OF upd]
    have kept: "bookings_kept d (fst (update_review u i rt c d))"
      using pairs(1) d' by (intro bookings_kept_same) simp
    show ?thesis
    proof (rule step_okI [OF kept])
      show "db_wf (fst (update_review u i rt c d))" if "api_inv d"
        using that d' wf_update_review_fields [OF _ upd] wf_update_package_rating by (simp add: api_inv_def)
      show "rating_cache_ok (fst (update_review u i rt c d))" if "api_inv d"
        using that update_review_cache [OF _ _ prod.collapse [symmetric]] by (simp add: api_inv_def)
      show "reviews_backed (fst (update_review u i rt c d))" if "api_inv d"
      proof (rule reviews_backed_sub [OF _ kept])
        show "reviews_backed d" using that by (simp add: api_inv_def)
      qed (use pairs(2) d' in simp)
    qed
  qed
qed

lemma step_ok_delete_review: "step_ok d (fst (delete_review u i d))"
proof (cases "find_own_review d i (user_id u)")
  case (Some rv)
  then have d': "fst (delete_review u i d) = update_package_rating (review_package_id rv) (delete_review_row i d)"
    by (simp add: delete_review_def)
  have kept: "bookings_kept d (fst (delete_review u i d))"
    using d' by (intro bookings_kept_same) (simp add: delete_review_row_def)
  show ?thesis
  proof (rule step_okI [OF kept])
    show "db_wf (fst (delete_review u i d))" if "api_inv d"
      using that d' wf_delete_review_row wf_update_package_rating by (simp add: api_inv_def)
    show "rating_cache_ok (fst (delete_review u i d))" if "api_inv d"
      using that delete_review_cache [OF _ _ prod.collapse [symmetric]] by (simp add: api_inv_def)
    show "reviews_backed (fst (delete_review u i d))" if "api_inv d"
    proof (rule reviews_backed_sub [OF _ kept])
      show "reviews_backed d" using that by (simp add: api_inv_def)
    qed (auto simp: d' delete_review_row_def)
  qed
qed (simp add: delete_review_def)


lemma step_ok_shrink:
  assumes "bookings d' = bookings d" and "set (reviews d') \<subseteq> set (reviews d)"
    and "db_wf d \<Longrightarrow> rating_cache_ok d \<Longrightarrow> db_wf d' \<and> rating_cache_ok d'"
  shows "step_ok d d'"
proof -
  have kept: "bookings_kept d d'" using assms(1) by (simp add: bookings_kept_same)
  show ?thesis
  proof (rule step_okI [OF kept])
    show "db_wf d'" "rating_cache_ok d'" if "api_inv d" using that assms(3) by (simp_all add: api_inv_def)
    show "reviews_backed d'" if "api_inv d"
    proof (rule reviews_backed_sub [OF _ kept])
      show "reviews_backed d" using that by (simp add: api_inv_def)
    qed (use assms(2) in blast)
  qed
qed

lemma step_ok_register: "step_ok d (fst (register em now body d))"
  by (auto simp: register_def split: sum.splits option.splits prod.splits intro: step_ok_insert_user)

lemma step_ok_update_profile: "step_ok d (fst (update_profile u body d))"
  by (auto simp: update_profile_def Let_def split: sum.splits intro: step_ok_set_user_profile)

lemma step_ok_change_password: "step_ok d (fst (change_password u body d))"
  by (auto simp: change_password_def Let_def step_ok_set_user_password split: option.splits bool.splits)

lemma step_ok_route_create_booking: "step_ok d (fst (route_create_booking t u body d))"
  by (auto simp: route_create_booking_def create_booking_def Let_def split: sum.splits option.splits prod.splits
           intro: step_ok_insert_booking)

lemma step_ok_route_update_booking_status: "step_ok d (fst (route_update_booking_status u ps body d))"
  by (auto simp: route_update_booking_status_def update_booking_status_def Let_def step_ok_set_booking_status
           split: sum.splits option.splits)

lemma step_ok_route_cancel_booking: "step_ok d (fst (route_cancel_booking u ps d))"
  by (auto simp: route_cancel_booking_def cancel_booking_def step_ok_set_booking_status split: sum.splits option.splits)

lemma step_ok_create_booking_contact: "step_ok d (fst (create_booking_contact body d))"
  by (simp add: create_booking_contact_def Let_def step_ok_insert_contact)

lemma step_ok_update_contact_status: "step_ok d (fst (update_contact_status i st d))"
  by (simp add: update_contact_status_def case_prod_beta step_ok_set_contact_status split: option.splits)

lemma step_ok_delete_booking_contact: "step_ok d (fst (delete_booking_contact i d))"
  by (simp add: delete_booking_contact_def case_prod_beta step_ok_delete_contact_row)

lemma step_ok_route_create_review: "step_ok d (fst (route_create_review u body d))"
  by (simp add: route_create_review_def step_ok_create_review split: sum.splits)

lemma step_ok_route_update_review: "step_ok d (fst (route_update_review u ps body d))"
  by (simp add: route_update_review_def step_ok_update_review split: sum.splits)

lemma step_ok_route_delete_review: "step_ok d (fst (route_delete_review u ps d))"
  by (simp add: route_delete_review_def step_ok_delete_review split: sum.splits)

lemma step_ok_authed: "(\<And>u. step_ok d (fst (h u d))) \<Longrightarrow> step_ok d (fst (authed reg rq d h))"
  by (simp add: authed_def split: sum.splits prod.splits)

lemma step_ok_gated: "step_ok d (fst (h d)) \<Longrightarrow> step_ok d (fst (gated reg now hdr d h))"
  using gated_db [of reg now hdr d h] by (metis step_ok_refl)

lemma step_ok_create_package: "step_ok d (fst (create_package f d))"
proof (rule step_ok_shrink)
  have "bookings (fst (create_package f d)) = bookings d \<and> reviews (fst (create_package f d)) = reviews d"
    by (auto simp: create_package_def insert_package_def Let_def split: sum.splits option.splits)
  then show "bookings (fst (create_package f d)) = bookings d" "set (reviews (fst (create_package f d))) \<subseteq> set (reviews d)"
    by simp_all
qed (rule create_package_invariants)

lemma step_ok_update_package: "step_ok d (fst (update_package i f d))"
proof (rule step_ok_shrink)
  have "bookings (fst (update_package i f d)) = bookings d \<and> reviews (fst (update_package i f d)) = reviews d"
    by (auto simp: update_package_def set_package_fields_def split: sum.splits option.splits)
  then show "bookings (fst (update_package i f d)) = bookings d" "set (reviews (fst (update_package i f d))) \<subseteq> set (reviews d)"
    by simp_all
qed (rule update_package_invariants)

lemma step_ok_delete_package: "step_ok d (fst (delete_package i d))"
proof (rule step_ok_shrink)
  show "bookings (fst (delete_package i d)) = bookings d" by (rule delete_package_bookings)
  show "set (reviews (fst (delete_package i d))) \<subseteq> set (reviews d)"
    using delete_package_db [of i d] by (auto simp: delete_package_row_def)
qed (rule delete_package_invariants)

lemma step_ok_route_create_package: "step_ok d (fst (route_create_package reg now hdr body d))"
  using route_create_package_db [of reg now hdr body d] step_ok_create_package by (metis step_ok_refl)

lemma step_ok_route_update_package: "step_ok d (fst (route_update_package reg now hdr ps body d))"
  using route_update_package_db [of reg now hdr ps body d] step_ok_update_package by (metis step_ok_refl)

lemma step_ok_route_delete_package: "step_ok d (fst (route_delete_package reg now hdr ps d))"
  using route_delete_package_db [of reg now hdr ps d] step_ok_delete_package by (metis step_ok_refl)

lemma step_ok_admin_update_booking_status: "step_ok d (fst (admin_update_booking_status i st d))"
  by (simp add: admin_update_booking_status_def Let_def step_ok_set_booking_status split: option.splits)

lemma step_ok_admin_update_user_role: "step_ok d (fst (admin_update_user_role i r d))"
  by (simp add: admin_update_user_role_def step_ok_set_user_role split: option.splits)

text \<open>A user with no bookings has no reviews, so the cascade of \<open>DELETE FROM users\<close> removes none.\<close>

lemma backed_no_reviews:
  assumes "reviews_backed d" and "filter (\<lambda>b. booking_user_id b = i) (bookings d) = []"
  shows "filter (\<lambda>r. review_user_id r \<noteq> i) (reviews d) = reviews d"
proof (intro filter_True ballI)
  fix r assume r: "r \<in> set (reviews d)"
  then obtain b where "b \<in> set (bookings d)" "booking_user_id b = review_user_id r"
    using assms(1) by (auto simp: reviews_backed_def)
  then show "review_user_id r \<noteq> i" using assms(2) by (auto simp: filter_empty_conv)
qed

lemma step_ok_admin_delete_user: "step_ok d (fst (admin_delete_user i d))"
proof -
  from admin_delete_user_db [of i d]
  show ?thesis
  proof
    assume "fst (admin_delete_user i d) = d" then show ?thesis by simp
  next
    assume "filter (\<lambda>b. booking_user_id b = i) (bookings d) = [] \<and> (\<exists>u. find_user d i = Some u \<and> user_role u = RoleUser)
            \<and> fst (admin_delete_user i d) = delete_user_row i d"
    then have none: "filter (\<lambda>b. booking_user_id b = i) (bookings d) = []"
      and d': "fst (admin_delete_user i d) = delete_user_row i d" by simp_all
    have b: "bookings (delete_user_row i d) = bookings d"
      using none by (simp add: delete_user_row_def filter_empty_conv filter_True)
    have kept: "bookings_kept d (fst (admin_delete_user i d))" using b d' by (simp add: bookings_kept_same)
    have r: "reviews (delete_user_row i d) = reviews d" if "api_inv d"
      using that backed_no_reviews [OF _ none] by (simp add: api_inv_def delete_user_row_def)
    have p: "packages (delete_user_row i d) = packages d" by (simp add: delete_user_row_def)
    show ?thesis
    proof (rule step_okI [OF kept])
      show "db_wf (fst (admin_delete_user i d))" if "api_inv d"
        using that wf_delete_user_row d' by (simp add: api_inv_def)
      show "rating_cache_ok (fst (admin_delete_user i d))" if "api_inv d"
        using that rating_cache_ok_cong [OF p r [OF that]] d' by (simp add: api_inv_def)
      show "reviews_backed (fst (admin_delete_user i d))" if "api_inv d"
        using that b r [OF that] d' by (simp add: api_inv_def reviews_backed_def)
    qed
  qed
qed

lemma step_ok_api_exec: "step_ok d (fst (api_exec E ep rq d))"
  by (cases ep) (simp_all add: Let_def step_ok_authed step_ok_gated step_ok_register step_ok_update_profile
      step_ok_change_password step_ok_route_create_booking step_ok_route_update_booking_status
      step_ok_route_cancel_booking step_ok_create_booking_contact step_ok_update_contact_status
      step_ok_delete_booking_contact step_ok_route_create_review step_ok_route_update_review
      step_ok_route_delete_review step_ok_route_create_package step_ok_route_update_package
      step_ok_route_delete_package route_admin_booking_status_def route_admin_delete_user_def
      route_admin_user_role_def step_ok_admin_update_booking_status step_ok_admin_delete_user
      step_ok_admin_update_user_role)

lemma status_update_twice: "x = y\<lparr>booking_status := s\<rparr> \<Longrightarrow> z = x\<lparr>booking_status := t\<rparr> \<Longrightarrow> z = y\<lparr>booking_status := t\<rparr>"
  by simp

lemma bookings_kept_trans: "bookings_kept d1 d2 \<Longrightarrow> bookings_kept d2 d3 \<Longrightarrow> bookings_kept d1 d3"
  unfolding bookings_kept_def
proof
  fix b assume k12: "\<forall>b\<in>set (bookings d1). \<exists>b'\<in>set (bookings d2). b' = b\<lparr>booking_status := booking_status b'\<rparr>"
    and k23: "\<forall>b\<in>set (bookings d2). \<exists>b'\<in>set (bookings d3). b' = b\<lparr>booking_status := booking_status b'\<rparr>"
    and b: "b \<in> set (bookings d1)"
  obtain b' where b': "b' \<in> set (bookings d2)" "b' = b\<lparr>booking_status := booking_status b'\<rparr>" using k12 b by blast
  obtain b'' where b'': "b'' \<in> set (bookings d3)" "b'' = b'\<lparr>booking_status := booking_status b''\<rparr>" using k23 b'(1) by blast
  have "b'' = b\<lparr>booking_status := booking_status b''\<rparr>" by (rule status_update_twice [OF b'(2) b''(2)])
  then show "\<exists>b'\<in>set (bookings d3). b' = b\<lparr>booking_status := booking_status b'\<rparr>" using b''(1) by blast
qed

lemma step_ok_trans: "step_ok d1 d2 \<Longrightarrow> step_ok d2 d3 \<Longrightarrow> step_ok d1 d3"
  unfolding step_ok_def by (blast intro: bookings_kept_trans)

lemma step_ok_insert_admin_user: "insert_admin_user n e pw d = Inr d' \<Longrightarrow> step_ok d d'"
  by (rule step_ok_frame) (auto simp: insert_admin_user_def Let_def bookings_kept_same wf_insert_admin_user split: if_splits)

lemma step_ok_insert_package: "insert_package f d = Inr (i, d') \<Longrightarrow> step_ok d d'"
  by (rule step_ok_shrink)
     (auto simp: insert_package_def Let_def split: option.splits intro: wf_insert_package cache_insert_package)

lemma step_ok_insert_packages: "insert_packages fs d = Inr d' \<Longrightarrow> step_ok d d'"
proof (induction fs arbitrary: d)
  case (Cons f fs)
  from Cons.prems obtain i d1 where ins: "insert_package f d = Inr (i, d1)" and rest: "insert_packages fs d1 = Inr d'"
    by (auto split: sum.splits)
  show ?case by (rule step_ok_trans [OF step_ok_insert_package [OF ins] Cons.IH [OF rest]])
qed simp

lemma step_ok_initialize_database:
  assumes "initialize_database d = Inr d'"
  shows "step_ok d d'"
proof -
  obtain d1 where d1: "(if find_user_by_email d ''admin@wavv.com'' = None
            then insert_admin_user ''Admin User'' ''admin@wavv.com'' (Bcrypt ''admin123'') d else Inr d) = Inr d1"
    and d': "(if packages d1 = [] then insert_packages sample_packages d1 else Inr d1) = Inr d'"
    using assms unfolding initialize_database_def by (auto split: sum.splits)
  have "step_ok d d1" using d1 by (auto split: if_splits intro: step_ok_insert_admin_user)
  moreover have "step_ok d1 d'" using d' by (auto split: if_splits intro: step_ok_insert_packages)
  ultimately show ?thesis by (rule step_ok_trans)
qed

lemma api_inv_empty: "api_inv empty_db"
  using db_wf_empty by (simp add: api_inv_def rating_cache_ok_def reviews_backed_def) (simp add: empty_db_def)

lemma reachable_api_inv: "reachable E d \<Longrightarrow> api_inv d"
proof (induction rule: reachable.induct)
  case (init d)
  then show ?case using step_ok_initialize_database api_inv_empty by (simp add: step_ok_def)
next
  case (step d ep rq)
  then show ?case using step_ok_api_exec [of d E ep rq] by (simp add: step_ok_def)
qed

lemma reachable_api_run: "reachable E d \<Longrightarrow> reachable E (api_run E rs d)"
proof (induction rs arbitrary: d)
  case (Cons r rs)
  then show ?case by (cases r) (simp add: reachable.step)
qed simp

lemma step_ok_api_run: "step_ok d (api_run E rs d)"
proof (induction rs arbitrary: d)
  case (Cons r rs)
  show ?case by (cases r) (simp add: step_ok_trans [OF step_ok_api_exec Cons.IH])
qed simp

subsection \<open>Who can confirm a booking\<close>

text \<open>
  The bookings table under each route: most routes leave it alone; creating a booking
  appends a pending one, cancelling sets a status other than confirmed, and only the
  status routes can confirm.
\<close>

lemma nnc_same: "bookings d' = bookings d \<Longrightarrow> no_new_confirm d d'"
  unfolding no_new_confirm_def by auto

lemma nnc_refl [simp]: "no_new_confirm d d"
  by (rule nnc_same) (rule refl)

lemma nnc_append_pending: "bookings d' = bookings d @ [b] \<Longrightarrow> booking_status b = Pending \<Longrightarrow> no_new_confirm d d'"
  unfolding no_new_confirm_def by auto

lemma nnc_set_status: "s \<noteq> Confirmed \<Longrightarrow> no_new_confirm d (set_booking_status i s d)"
  unfolding no_new_confirm_def set_booking_status_def
proof
  fix b' assume s: "s \<noteq> Confirmed" and "b' \<in> set (bookings (d\<lparr>bookings := update_where (\<lambda>b. booking_id b = i) (\<lambda>b. b\<lparr>booking_status := s\<rparr>) (bookings d)\<rparr>))"
  then obtain b where b: "b \<in> set (bookings d)" "b' = (if booking_id b = i then b\<lparr>booking_status := s\<rparr> else b)"
    using update_where_in_image by fastforce
  show "booking_status b' = Confirmed \<longrightarrow> (\<exists>b\<in>set (bookings d). booking_id b = booking_id b' \<and> booking_status b = Confirmed)"
    using b s by (intro impI bexI [of _ b]) (auto split: if_splits)
qed

lemma bookings_register: "bookings (fst (register em now body d)) = bookings d"
  by (auto simp: register_def insert_user_def Let_def split: sum.splits option.splits prod.splits if_splits)

lemma bookings_update_profile: "bookings (fst (update_profile u body d)) = bookings d"
  by (auto simp: update_profile_def set_user_profile_def Let_def split: sum.splits if_splits)

lemma bookings_change_password: "bookings (fst (change_password u body d)) = bookings d"
  by (auto simp: change_password_def set_user_password_def Let_def split: option.splits bool.splits)

lemma bookings_contacts:
  "bookings (fst (create_booking_contact body d)) = bookings d"
  "bookings (fst (update_contact_status i st d)) = bookings d"
  "bookings (fst (delete_booking_contact i d)) = bookings d"
  by (simp_all add: create_booking_contact_def update_contact_status_def delete_booking_contact_def Let_def
      insert_contact_def set_contact_status_def delete_contact_row_def case_prod_beta split: option.splits)

lemma bookings_route_create_review: "bookings (fst (route_create_review u body d)) = bookings d"
  by (auto simp: route_create_review_def create_review_def insert_review_def Let_def
           split: sum.splits option.splits prod.splits if_splits)

lemma bookings_route_update_review: "bookings (fst (route_update_review u ps body d)) = bookings d"
proof -
  have "bookings (fst (update_review u i rt c d)) = bookings d" for i rt c
    using update_review_cases [OF prod.collapse [symmetric], of u i rt c d]
    by (auto simp: update_review_fields_def split: if_splits)
  then show ?thesis by (simp add: route_update_review_def split: sum.splits)
qed

lemma bookings_route_delete_review: "bookings (fst (route_delete_review u ps d)) = bookings d"
  by (simp add: route_delete_review_def delete_review_def delete_review_row_def split: sum.splits option.splits)

lemma bookings_create_package: "bookings (fst (create_package f d)) = bookings d"
  by (auto simp: create_package_def insert_package_def Let_def split: sum.splits option.splits)

lemma bookings_update_package: "bookings (fst (update_package i f d)) = bookings d"
  by (auto simp: update_package_def set_package_fields_def split: sum.splits option.splits)

lemma bookings_package_routes:
  "bookings (fst (route_create_package reg now hdr body d)) = bookings d"
  "bookings (fst (route_update_package reg now hdr ps body d)) = bookings d"
  "bookings (fst (route_delete_package reg now hdr ps d)) = bookings d"
  using route_create_package_db [of reg now hdr body d] route_update_package_db [of reg now hdr ps body d]
    route_delete_package_db [of reg now hdr ps d] bookings_create_package bookings_update_package delete_package_bookings
  by metis+

lemma bookings_admin_delete_user: "bookings (fst (admin_delete_user i d)) = bookings d"
  using admin_delete_user_db [of i d]
  by (auto simp: delete_user_row_def filter_empty_conv intro: filter_True)

lemma bookings_admin_update_user_role: "bookings (fst (admin_update_user_role i r d)) = bookings d"
  by (simp add: admin_update_user_role_def set_user_role_def split: option.splits)

lemma nnc_route_create_booking: "no_new_confirm d (fst (route_create_booking t u body d))"
  by (auto simp: route_create_booking_def create_booking_def insert_booking_def Let_def
           split: sum.splits option.splits prod.splits if_splits intro: nnc_append_pending)

lemma nnc_route_cancel_booking: "no_new_confirm d (fst (route_cancel_booking u ps d))"
  by (simp add: route_cancel_booking_def cancel_booking_def nnc_set_status split: sum.splits option.splits)

lemma nnc_route_update_booking_status:
  "no_new_confirm d (fst (route_update_booking_status u ps body d)) \<or> user_role u = RoleAdmin"
  by (cases "user_role u")
     (auto simp: route_update_booking_status_def update_booking_status_def Let_def nnc_set_status
           split: sum.splits option.splits)

lemma nnc_authed:
  "(\<And>u. no_new_confirm d (fst (h u d)) \<or> user_role u = RoleAdmin) \<Longrightarrow>
   no_new_confirm d (fst (authed reg rq d h))
   \<or> (\<exists>u. authenticate_token reg (rq_now rq) (rq_hdr rq) d = Inr u \<and> user_role u = RoleAdmin)"
  by (auto simp: authed_def split: sum.splits prod.splits)

lemma nnc_gated:
  "no_new_confirm d (fst (gated reg now hdr d h)) \<or> (\<exists>u. authenticate_token reg now hdr d = Inr u \<and> user_role u = RoleAdmin)"
  by (auto simp: gated_def admin_gate_def require_admin_def split: sum.splits prod.splits if_splits)

lemma nnc_authed_all:
  "(\<And>u. no_new_confirm d (fst (h u d))) \<Longrightarrow> no_new_confirm d (fst (authed reg rq d h))"
  by (simp add: authed_def split: sum.splits prod.splits)

lemma bookings_authed:
  "(\<And>u. bookings (fst (h u d)) = bookings d) \<Longrightarrow> bookings (fst (authed reg rq d h)) = bookings d"
  by (simp add: authed_def split: sum.splits prod.splits)

lemma api_exec_confirm:
  "no_new_confirm d (fst (api_exec E ep rq d))
   \<or> (\<exists>u. authenticate_token (env_reg E) (rq_now rq) (rq_hdr rq) d = Inr u \<and> user_role u = RoleAdmin)"
proof (cases ep)
  case UpdateBookingStatus
  then show ?thesis
    using nnc_route_update_booking_status [where ps = "rq_params rq" and body = "rq_body rq" and d = d]
    by (auto simp: Let_def authed_def split: sum.splits)
next
  case AdminBookingStatus
  then show ?thesis using nnc_gated by (simp add: Let_def route_admin_booking_status_def)
qed (simp_all add: Let_def nnc_same bookings_register nnc_authed_all bookings_authed bookings_update_profile bookings_change_password
       nnc_route_create_booking nnc_route_cancel_booking bookings_contacts bookings_route_create_review
       bookings_route_update_review bookings_route_delete_review bookings_package_routes
       route_admin_delete_user_def route_admin_user_role_def gated_def bookings_admin_delete_user
       bookings_admin_update_user_role split: sum.splits prod.splits)

end
