(* ===== verification/Samples.thy ===== *)
theory Samples
  imports Bookings Reviews Accounts Packages Admin Seed ErrorHandler Api
begin

text \<open>
  Sample data for the witnesses of the root theory: two users (Jane and an admin), one
  package, Jane's booking and review of it in the stages the routes produce, an
  e-mail library stand-in, and an admin token.
\<close>

definition jane :: user_row where
  "jane = \<lparr>user_id = 1, user_name = ''Jane'', user_email = ''jane@x.com'',
           user_password = Bcrypt ''secret1'', user_role = RoleUser\<rparr>"

definition admin :: user_row where
  "admin = \<lparr>user_id = 2, user_name = ''Admin User'', user_email = ''admin@wavv.com'',
            user_password = Bcrypt ''admin123'', user_role = RoleAdmin\<rparr>"

definition tour :: package_row where
  "tour = \<lparr>package_id = 1, package_title = ''Turkish Delight'', package_destination = ''Turkey'',
           package_description = ''Visit historic Istanbul'', package_price = 10000,
           package_duration = ''4 days'', package_image_url = ''/uploads/turkey.jpg'',
           package_rating = 0, package_total_reviews = 0\<rparr>"

definition demo_db :: db where
  "demo_db = empty_db\<lparr>users := [jane, admin], packages := [tour], users_ai := 3, packages_ai := 2\<rparr>"

definition demo_req :: booking_req where
  "demo_req = \<lparr>req_package_id = 1, req_booking_date = (2030, 6, 1), req_guests = 2, req_rooms = 1\<rparr>"

definition demo_body :: js_object where
  "demo_body = [(''packageId'', JNum 1), (''bookingDate'', JStr ''2030-06-01''),
                (''guests'', JNum 2), (''rooms'', JStr ''1'')]"

text \<open>Jane's booking of the tour, as \<open>POST /api/bookings\<close> stores it.\<close>

definition jane_booking :: "status \<Rightarrow> booking_row" where
  "jane_booking st = \<lparr>booking_id = 1, booking_user_id = 1, booking_package_id = 1,
     booking_date = (2030, 6, 1), booking_guests = 2, booking_rooms = 1,
     booking_total_amount = 20000, booking_status = st\<rparr>"

definition booked_db :: "status \<Rightarrow> db" where
  "booked_db st = demo_db\<lparr>bookings := [jane_booking st], bookings_ai := 2\<rparr>"

text \<open>Jane's review of the tour once her booking is confirmed, and the package it refreshes.\<close>

definition jane_review :: review_row where
  "jane_review = \<lparr>review_id = 1, review_user_id = 1, review_package_id = 1, review_rating = 4,
                   review_comment = Some ''Wonderful guided tours''\<rparr>"

definition review_req_4 :: review_req where
  "review_req_4 = \<lparr>rreq_package_id = 1, rreq_rating = 4, rreq_comment = ''Wonderful guided tours''\<rparr>"

definition reviewed_db :: db where
  "reviewed_db = (booked_db Confirmed)\<lparr>packages := [tour\<lparr>package_rating := 400, package_total_reviews := 1\<rparr>],
                    reviews := [jane_review], reviews_ai := 2\<rparr>"

text \<open>
  A stand-in for validator.js's \<open>isEmail\<close> and \<open>normalizeEmail\<close> (lower case; dots
  removed from Gmail local parts), and Jane's registration body.
\<close>

definition demo_email :: email_lib where
  "demo_email = \<lparr>is_email = (\<lambda>s. CHR ''@'' \<in> set s),
     normalize_email = (\<lambda>s. let l = takeWhile (\<lambda>c. c \<noteq> CHR ''@'') s; r = dropWhile (\<lambda>c. c \<noteq> CHR ''@'') s in
        if ci_key r = ''@gmail.com'' then ci_key (filter (\<lambda>c. c \<noteq> CHR ''.'') l) @ ci_key r else ci_key s)\<rparr>"

definition jane_signup :: js_object where
  "jane_signup = [(''name'', JStr ''Jane''), (''email'', JStr ''jane@x.com''), (''password'', JStr ''secret1'')]"

definition jane_db :: db where
  "jane_db = empty_db\<lparr>users := [jane], users_ai := 2\<rparr>"

text \<open>
  A signed token of the admin valid until \<open>10^6\<close>, a package body without
  \<open>image_url\<close>, and the same body with one.
\<close>

definition demo_reg :: token_registry where
  "demo_reg t = (if t = ''tokA'' then Some (2, 1000000) else None)"

definition admin_hdr :: "string option" where
  "admin_hdr = Some ''Bearer tokA''"

definition pkg_body :: js_object where
  "pkg_body = [(''title'', JStr ''Alpine Escape''), (''destination'', JStr ''Switzerland''),
               (''description'', JStr ''Five days in the Alps''), (''price'', JNum 1200),
               (''duration'', JStr ''5 days'')]"

definition pkg_body_img :: js_object where
  "pkg_body_img = pkg_body @ [(''image_url'', JStr ''/uploads/alps.jpg'')]"

lemmas demo_defs = jane_def admin_def tour_def demo_db_def empty_db_def demo_req_def demo_body_def
  jane_booking_def booked_db_def jane_review_def review_req_4_def reviewed_db_def
  demo_email_def jane_signup_def jane_db_def

lemmas sample_defs = demo_defs demo_reg_def admin_hdr_def pkg_body_def pkg_body_img_def

lemma demo_db_wf: "db_wf demo_db"
  by (simp add: db_wf_def keys_ok_def fk_ok_def ci_key_def ascii_lower_def demo_defs)

lemma booked_db_wf: "db_wf (booked_db st)"
  by (simp add: db_wf_def keys_ok_def fk_ok_def ci_key_def ascii_lower_def decimal_10_2_max_def demo_defs)

lemma reviewed_db_wf: "db_wf reviewed_db"
  by (simp add: db_wf_def keys_ok_def fk_ok_def ci_key_def ascii_lower_def decimal_10_2_max_def demo_defs)

lemma demo_db_cache: "rating_cache_ok demo_db"
  by (simp add: rating_cache_ok_def package_ratings_def stored_rating_def demo_defs)

lemma demo_admin_gate: "admin_gate demo_reg 100 admin_hdr demo_db = Inr admin"
  by (simp add: admin_gate_def authenticate_token_def bearer_token_def jwt_verify_def require_admin_def
                find_user_def sample_defs)

lemma booked_admin_gate: "admin_gate demo_reg 100 admin_hdr (booked_db st) = Inr admin"
  by (simp add: admin_gate_def authenticate_token_def bearer_token_def jwt_verify_def require_admin_def
                find_user_def sample_defs)

end
