(* ===== verification/Scenario.thy ===== *)
theory Scenario
  imports Samples
begin

text \<open>
  A run of the whole server from its first start: \<open>initializeDatabase\<close> seeds the admin
  (id 1) and the six sample packages; then Jane registers (id 2), books package 4
  (Turkish Delight, 500.00 per guest) for two guests, the admin confirms the booking,
  Jane reviews the package, and Jane cancels the booking.  Each request's effect is
  computed from the route definitions; the signed tokens \<open>tokA\<close> (admin) and
  \<open>tokJ\<close> (Jane) are valid until \<open>10^6\<close>.
\<close>

definition seeded_db :: db where
  "seeded_db = projr (initialize_database empty_db)"

definition seed_admin :: user_row where
  "seed_admin = \<lparr>user_id = 1, user_name = ''Admin User'', user_email = ''admin@wavv.com'',
                 user_password = Bcrypt ''admin123'', user_role = RoleAdmin\<rparr>"

definition seed_pkg4 :: package_row where
  "seed_pkg4 = \<lparr>package_id = 4, package_title = ''Turkish Delight'', package_destination = ''Turkey'',
     package_description = ''Visit historic Istanbul and stunning Cappadocia with hot air balloon rides.'',
     package_price = 50000, package_duration = ''4 days'', package_image_url = ''/uploads/turkey.jpg'',
     package_rating = 0, package_total_reviews = 0\<rparr>"

definition scen_reg :: token_registry where
  "scen_reg t = (if t = ''tokA'' then Some (1, 1000000) else if t = ''tokJ'' then Some (2, 1000000) else None)"

definition scen_env :: env where
  "scen_env = \<lparr>env_reg = scen_reg, env_email = demo_email\<rparr>"

definition jane_hdr :: "string option" where
  "jane_hdr = Some ''Bearer tokJ''"

definition scen_rq :: "string option \<Rightarrow> (string \<times> string) list \<Rightarrow> js_object \<Rightarrow> request" where
  "scen_rq h ps b = \<lparr>rq_hdr = h, rq_params = ps, rq_body = b, rq_now = 0, rq_today = (2026, 11, 9)\<rparr>"

definition scen_script :: "(endpoint \<times> request) list" where
  "scen_script =
     [(Register, scen_rq None [] jane_signup),
      (CreateBooking, scen_rq jane_hdr []
         [(''packageId'', JNum 4), (''bookingDate'', JStr ''2030-06-01''), (''guests'', JNum 2), (''rooms'', JNum 1)]),
      (AdminBookingStatus, scen_rq admin_hdr [(''id'', ''1'')] [(''status'', JStr ''confirmed'')]),
      (CreateReview, scen_rq jane_hdr []
         [(''packageId'', JNum 4), (''rating'', JNum 5), (''comment'', JStr ''Hot air balloons at dawn'')]),
      (CancelBooking, scen_rq jane_hdr [(''id'', ''1'')] [])]"

definition jane2 :: user_row where
  "jane2 = jane\<lparr>user_id := 2\<rparr>"

definition scen_booking :: "status \<Rightarrow> booking_row" where
  "scen_booking st = \<lparr>booking_id = 1, booking_user_id = 2, booking_package_id = 4,
     booking_date = (2030, 6, 1), booking_guests = 2, booking_rooms = 1,
     booking_total_amount = 100000, booking_status = st\<rparr>"

definition scen_review :: review_row where
  "scen_review = \<lparr>review_id = 1, review_user_id = 2, review_package_id = 4, review_rating = 5,
                   review_comment = Some ''Hot air balloons at dawn''\<rparr>"

definition scen_db1 :: db where
  "scen_db1 = seeded_db\<lparr>users := [seed_admin, jane2], users_ai := 3\<rparr>"

definition scen_db2 :: "status \<Rightarrow> db" where
  "scen_db2 st = scen_db1\<lparr>bookings := [scen_booking st], bookings_ai := 2\<rparr>"

definition scen_db4 :: db where
  "scen_db4 = update_package_rating 4 ((scen_db2 Confirmed)\<lparr>reviews := [scen_review], reviews_ai := 2\<rparr>)"

definition scen_db5 :: db where
  "scen_db5 = set_booking_status 1 Cancelled scen_db4"

text \<open>A lead another visitor left through the booking-contact form.\<close>

definition visitor_contact :: contact_row where
  "visitor_contact = \<lparr>contact_id = 1, contact_name = ''Sam Visitor'', contact_email = ''sam@example.org'',
     contact_phone = ''555-0100'', contact_booking_date = ''2030-07-01'', contact_status = Pending\<rparr>"

section \<open>The run, request by request\<close>

lemmas seed_defs = initialize_database_def insert_admin_user_def find_user_by_email_def empty_db_def
  Let_def sample_packages_def insert_package_def package_fields_error_def sample_package_def decimal_10_2_max_def

lemma seeded_db_init: "initialize_database empty_db = Inr seeded_db"
  by (simp add: seeded_db_def seed_defs)

lemma seeded_db_fields:
  "users seeded_db = [seed_admin]" "users_ai seeded_db = 2" "bookings seeded_db = []" "bookings_ai seeded_db = 1"
  "reviews seeded_db = []" "reviews_ai seeded_db = 1" "map package_id (packages seeded_db) = [1, 2, 3, 4, 5, 6]"
  by (simp_all add: seeded_db_def seed_defs seed_admin_def)

lemma seeded_package_4: "packages d = packages seeded_db \<Longrightarrow> find_package d 4 = Some seed_pkg4"
  by (simp add: seeded_db_def seed_defs find_package_def seed_pkg4_def)

lemma scen_step1: "fst (api_exec scen_env Register (scen_rq None [] jane_signup) seeded_db) = scen_db1"
  by (simp add: scen_env_def scen_rq_def register_def validate_register_def js_get_def js_trim_def js_space_def
      ascii_letter_def find_user_by_email_def insert_user_def find_user_def ci_key_def ascii_lower_def Let_def
      demo_email_def jane_signup_def seeded_db_fields scen_db1_def jane2_def jane_def seed_admin_def)

lemma scen_step2:
  "fst (api_exec scen_env CreateBooking (scen_rq jane_hdr []
     [(''packageId'', JNum 4), (''bookingDate'', JStr ''2030-06-01''), (''guests'', JNum 2), (''rooms'', JNum 1)]) scen_db1)
   = scen_db2 Pending"
  by (simp add: scen_env_def scen_rq_def authed_def authenticate_token_def bearer_token_def jwt_verify_def scen_reg_def
      jane_hdr_def find_user_def route_create_booking_def validate_booking_def js_get_def parse_iso_date_def parse_nat_def
      digit_val_def int_in_def create_booking_def insert_booking_def seeded_package_4 decimal_10_2_max_def
      seeded_db_fields scen_db1_def scen_db2_def scen_booking_def seed_pkg4_def jane2_def jane_def seed_admin_def)

lemmas scen_auth = scen_env_def scen_rq_def authed_def authenticate_token_def bearer_token_def jwt_verify_def
  scen_reg_def jane_hdr_def admin_hdr_def find_user_def seeded_db_fields jane2_def jane_def seed_admin_def

lemma scen_step3:
  "fst (api_exec scen_env AdminBookingStatus (scen_rq admin_hdr [(''id'', ''1'')] [(''status'', JStr ''confirmed'')])
          (scen_db2 Pending))
   = scen_db2 Confirmed"
  by (simp add: scen_auth route_admin_booking_status_def gated_def admin_gate_def require_admin_def path_param_def
      path_id_def js_parse_int_def js_space_def parse_nat_def digit_val_def admin_update_booking_status_def js_get_def
      find_booking_def set_booking_status_def scen_db1_def scen_db2_def scen_booking_def Let_def)

lemma scen_step4:
  "fst (api_exec scen_env CreateReview (scen_rq jane_hdr []
     [(''packageId'', JNum 4), (''rating'', JNum 5), (''comment'', JStr ''Hot air balloons at dawn'')]) (scen_db2 Confirmed))
   = scen_db4"
  by (simp add: scen_auth route_create_review_def validate_review_def js_get_def js_trim_def js_space_def
      create_review_def insert_review_def seeded_package_4 scen_db1_def scen_db2_def scen_booking_def scen_db4_def
      scen_review_def Let_def numeral_2_eq_2)

lemma scen_step5: "fst (api_exec scen_env CancelBooking (scen_rq jane_hdr [(''id'', ''1'')] []) scen_db4) = scen_db5"
  by (simp add: scen_auth route_cancel_booking_def validate_id_def param_val_def int_in_def parse_nat_def digit_val_def
      cancel_booking_def find_own_booking_def scen_db1_def scen_db2_def scen_booking_def scen_db4_def scen_db5_def)

lemma scen_run: "api_run scen_env scen_script seeded_db = scen_db5"
  by (simp only: scen_script_def api_run.simps scen_step1 scen_step2 scen_step3 scen_step4 scen_step5)

lemma scen_reachable: "reachable scen_env scen_db5"
  using reachable_api_run [OF reachable.init [OF seeded_db_init], of scen_env scen_script] by (simp only: scen_run)

lemma scen_db5_tables: "bookings scen_db5 = [scen_booking Cancelled]" "reviews scen_db5 = [scen_review]"
  by (simp_all add: scen_db5_def scen_db4_def scen_db2_def set_booking_status_def scen_booking_def)

end
