(* ===== verification/Client.thy ===== *)
theory Client
  imports Bookings Auth
begin

text \<open>
  The React client's booking flow: the booking modal of
  \<open>src/client/src/components/Popular.jsx\<close> (its form state, \<open>handleInputChange\<close>,
  \<open>handlePackageClick\<close>, \<open>handleBookingSubmit\<close>), the request it builds, and the
  generic \<open>apiRequest\<close> of \<open>src/client/src/services/api.js\<close> that turns a non-2xx answer
  into a thrown \<open>Error(data.error || 'API request failed')\<close>.  The server is a parameter:
  the function that answers \<open>POST /api/bookings\<close> for the logged-in user.  Alerts are
  returned as a value; rendering is not modelled.
\<close>

text \<open>The modal's form state, all strings as the inputs and selects deliver them.\<close>

record booking_form =
  bf_check_in :: string
  bf_check_out :: string
  bf_guests :: string
  bf_rooms :: string
  bf_payment :: string

definition initial_booking_form :: booking_form where
  "initial_booking_form = \<lparr>bf_check_in = [], bf_check_out = [], bf_guests = ''2'', bf_rooms = ''1'',
                           bf_payment = ''payLater''\<rparr>"

text \<open>The component state that the booking flow reads and writes.\<close>

record popular_state =
  pop_selected :: "package_row option"
  pop_show_modal :: bool
  pop_form :: booking_form
  pop_booking_loading :: bool
  pop_booking_error :: string

text \<open>\<open>handleInputChange(field, value)\<close>: \<open>{...prev, [field]: value}\<close> on the form.\<close>

definition handle_input_change :: "string \<Rightarrow> string \<Rightarrow> popular_state \<Rightarrow> popular_state" where
  "handle_input_change field v st =
     (let f = pop_form st in
      st\<lparr>pop_form :=
        (if field = ''checkIn'' then f\<lparr>bf_check_in := v\<rparr>
         else if field = ''checkOut'' then f\<lparr>bf_check_out := v\<rparr>
         else if field = ''guests'' then f\<lparr>bf_guests := v\<rparr>
         else if field = ''rooms'' then f\<lparr>bf_rooms := v\<rparr>
         else if field = ''paymentOption'' then f\<lparr>bf_payment := v\<rparr>
         else f)\<rparr>)"

text \<open>\<open>handlePackageClick(pkg)\<close>: a visitor who is not logged in gets an alert.\<close>

definition handle_package_click :: "bool \<Rightarrow> package_row \<Rightarrow> popular_state \<Rightarrow> popular_state \<times> string option" where
  "handle_package_click authd pkg st =
     (if \<not> authd then (st, Some ''Please login to book a package'')
      else (st\<lparr>pop_selected := Some pkg, pop_show_modal := True\<rparr>, None))"

text \<open>\<open>JSON.stringify\<close> of \<open>parseInt(s)\<close>: a number, or \<open>null\<close> for \<open>NaN\<close>.\<close>

definition json_parse_int :: "string \<Rightarrow> jsval" where
  "json_parse_int s = (case js_parse_int s of Some n \<Rightarrow> JNum n | None \<Rightarrow> JNull)"

text \<open>
  The body of \<open>bookingService.createBooking(bookingData)\<close>: the package id, the two dates
  as typed, and guests and rooms through \<open>parseInt\<close>.  The \<open>totalPrice\<close> field
  (\<open>selectedPackage.price * parseInt(rooms)\<close>, a decimal) is left out: no server
  validator or handler reads it.
\<close>

definition popular_booking_data :: "package_row \<Rightarrow> booking_form \<Rightarrow> js_object" where
  "popular_booking_data pkg f =
     [(''packageId'', JNum (int (package_id pkg))), (''checkIn'', JStr (bf_check_in f)),
      (''checkOut'', JStr (bf_check_out f)), (''guests'', json_parse_int (bf_guests f)),
      (''rooms'', json_parse_int (bf_rooms f))]"

text \<open>
  \<open>apiRequest\<close>: a 2xx answer is the data, any other answer throws with the body's
  \<open>error\<close> field (every failing route answers \<open>{error: message}\<close>) or the default text.
\<close>

definition api_request :: "'a response \<Rightarrow> string + 'a" where
  "api_request r =
     (case r of
        Success c x \<Rightarrow> if c < 200 \<or> 300 \<le> c then Inl ''API request failed'' else Inr x
      | Failure c m \<Rightarrow> Inl (if m = [] then ''API request failed'' else m))"

text \<open>
  \<open>handleBookingSubmit\<close> for the logged-in user, with \<open>server\<close> answering
  \<open>POST /api/bookings\<close>.  On success the modal closes, the form is reset and an alert is
  shown; with \<open>payNow\<close> the client also posts to \<open>/api/payment/pay\<close>, which no mounted
  router serves (the \<open>routes/payment\<close> module is absent), so the 404 of the catch-all
  handler prefixes the alert with the payment failure.  On failure the thrown message
  becomes \<open>bookingError\<close>.  The modal is only rendered with a selected package.
\<close>

definition handle_booking_submit ::
  "bool \<Rightarrow> (js_object \<Rightarrow> 'd \<Rightarrow> 'd \<times> 'a response) \<Rightarrow> popular_state \<Rightarrow> 'd \<Rightarrow> popular_state \<times> 'd \<times> string option" where
  "handle_booking_submit authd server st d =
     (if \<not> authd then (st, d, Some ''Please login to book a package'')
      else case pop_selected st of
        None \<Rightarrow> (st, d, None)
      | Some pkg \<Rightarrow>
          (let (d', r) = server (popular_booking_data pkg (pop_form st)) d in
           case api_request r of
             Inl m \<Rightarrow> (st\<lparr>pop_booking_loading := False, pop_booking_error := m\<rparr>, d', None)
           | Inr _ \<Rightarrow>
               (let msg = ''Booking confirmed for '' @ package_title pkg
                          @ ''! You will receive a confirmation email shortly.'' in
                (st\<lparr>pop_selected := None, pop_show_modal := False, pop_form := initial_booking_form,
                    pop_booking_loading := False, pop_booking_error := []\<rparr>, d',
                 Some (if bf_payment (pop_form st) = ''payNow''
                       then ''Payment failed. Please try again.'' @ ''\<newline>'' @ msg else msg)))))"

section \<open>Properties\<close>

text \<open>The body the modal sends has no \<open>bookingDate\<close>, so \<open>validateBooking\<close> stops at it.\<close>

lemma popular_booking_data_date:
  "js_get (popular_booking_data pkg f) ''bookingDate'' = JUndefined"
  by (simp add: popular_booking_data_def js_get_def)

lemma validate_popular_booking:
  assumes "0 < package_id pkg"
  shows "validate_booking today (popular_booking_data pkg f) = Inl ''Booking date must be a valid date''"
  using assms by (simp add: validate_booking_def popular_booking_data_date)
    (simp add: popular_booking_data_def js_get_def parse_iso_date_def)

end
