(* ===== verification/Listings.thy ===== *)
theory Listings
  imports Admin
begin

text \<open>
  The read-only listings of \<open>routes/bookings.js\<close> and \<open>routes/reviews.js\<close>:
  \<open>GET /api/bookings/my-bookings\<close>, \<open>GET /api/reviews/my-reviews\<close> (both behind
  \<open>authenticateToken\<close>, with the unvalidated pagination of theory \<open>Admin\<close>),
  \<open>GET /api/reviews/recent/:limit\<close> and \<open>GET /api/bookings/contacts/all\<close> (both public).
  \<open>ORDER BY created_at DESC\<close> is reverse insertion order; an inner \<open>JOIN\<close> keeps the
  rows whose referenced row exists.
\<close>

text \<open>\<open>JOIN packages p ON b.package_id = p.id\<close>: a booking with its package.\<close>

definition booking_with_package :: "db \<Rightarrow> booking_row \<Rightarrow> (booking_row \<times> package_row) option" where
  "booking_with_package d b = map_option (\<lambda>p. (b, p)) (find_package d (booking_package_id b))"

text \<open>
  \<open>GET /my-bookings\<close>: the caller's bookings, optionally \<open>AND b.status = ?\<close> when the
  \<open>status\<close> query value is non-empty (compared as text, case-insensitively), newest first,
  one page; the count query counts the same bookings without the join.
\<close>

definition my_booking_cond :: "(string \<times> string) list \<Rightarrow> user_row \<Rightarrow> booking_row \<Rightarrow> bool" where
  "my_booking_cond q usr b \<longleftrightarrow>
     booking_user_id b = user_id usr
     \<and> (case map_of q ''status'' of
          Some s \<Rightarrow> s = [] \<or> ci_key (status_text (booking_status b)) = ci_key s
        | None \<Rightarrow> True)"

definition my_bookings ::
  "user_row \<Rightarrow> (string \<times> string) list \<Rightarrow> db \<Rightarrow> ((booking_row \<times> package_row) list \<times> pagination) response" where
  "my_bookings usr q d =
     (case sql_pagination (map_of q ''page'') (map_of q ''limit'') of
        None \<Rightarrow> Failure 500 ''Failed to fetch bookings''
      | Some plo \<Rightarrow>
          (let bs = filter (my_booking_cond q usr) (rev (bookings d)) in
           Success 200 (page_of plo (List.map_filter (booking_with_package d) bs), pagination_of plo (length bs))))"

text \<open>\<open>GET /my-reviews\<close>: the caller's reviews with their package, newest first, one page.\<close>

definition review_with_package :: "db \<Rightarrow> review_row \<Rightarrow> (review_row \<times> package_row) option" where
  "review_with_package d r = map_option (\<lambda>p. (r, p)) (find_package d (review_package_id r))"

definition my_reviews ::
  "user_row \<Rightarrow> (string \<times> string) list \<Rightarrow> db \<Rightarrow> ((review_row \<times> package_row) list \<times> pagination) response" where
  "my_reviews usr q d =
     (case sql_pagination (map_of q ''page'') (map_of q ''limit'') of
        None \<Rightarrow> Failure 500 ''Failed to fetch reviews''
      | Some plo \<Rightarrow>
          (let rs = filter (\<lambda>r. review_user_id r = user_id usr) (rev (reviews d)) in
           Success 200 (page_of plo (List.map_filter (review_with_package d) rs), pagination_of plo (length rs))))"

text \<open>
  \<open>GET /recent/:limit\<close>: \<open>LIMIT ?\<close> bound to \<open>parseInt(limit)\<close>; \<open>NaN\<close> or a negative
  value is rejected by MySQL (500).  Each review comes with its author's name and its
  package.
\<close>

definition recent_review_row :: "db \<Rightarrow> review_row \<Rightarrow> (review_row \<times> string \<times> package_row) option" where
  "recent_review_row d r =
     (case (find_user d (review_user_id r), find_package d (review_package_id r)) of
        (Some u, Some p) \<Rightarrow> Some (r, user_name u, p)
      | _ \<Rightarrow> None)"

definition recent_reviews :: "string \<Rightarrow> db \<Rightarrow> (review_row \<times> string \<times> package_row) list response" where
  "recent_reviews lim d =
     (case js_parse_int lim of
        None \<Rightarrow> Failure 500 ''Failed to fetch recent reviews''
      | Some n \<Rightarrow>
          if n < 0 then Failure 500 ''Failed to fetch recent reviews''
          else Success 200 (take (nat n) (List.map_filter (recent_review_row d) (rev (reviews d)))))"

text \<open>\<open>GET /contacts/all\<close>: every booking contact, newest first, to anyone.\<close>

definition all_booking_contacts :: "db \<Rightarrow> contact_row list response" where
  "all_booking_contacts d = Success 200 (rev (booking_contacts d))"

section \<open>Properties\<close>

text \<open>Under the foreign keys every booking and review joins with its package.\<close>

lemma map_filter_join_total:
  assumes "\<forall>x\<in>set xs. f x \<noteq> None"
  shows "length (List.map_filter f xs) = length xs"
  using assms by (induction xs) (auto simp: List.map_filter_simps split: option.splits)

lemma booking_with_package_fk:
  "fk_ok d \<Longrightarrow> b \<in> set (bookings d) \<Longrightarrow> booking_with_package d b \<noteq> None"
  by (auto simp: fk_ok_def booking_with_package_def find_package_def find_None_iff) (metis imageE)

lemma review_with_package_fk:
  "fk_ok d \<Longrightarrow> r \<in> set (reviews d) \<Longrightarrow> review_with_package d r \<noteq> None"
  by (auto simp: fk_ok_def review_with_package_def find_package_def find_None_iff) (metis imageE)

text \<open>Every listed booking is the caller's, and with the default query the total counts all of them.\<close>

lemma in_map_filterD: "y \<in> set (List.map_filter f xs) \<Longrightarrow> \<exists>x\<in>set xs. f x = Some y"
  by (induction xs) (auto simp: List.map_filter_simps split: option.splits if_splits)

lemma my_bookings_own:
  "my_bookings usr q d = Success c (rows, pg) \<Longrightarrow> (b, p) \<in> set rows \<Longrightarrow> booking_user_id b = user_id usr"
  by (auto simp: my_bookings_def Let_def page_of_def my_booking_cond_def booking_with_package_def
           dest!: in_set_takeD in_set_dropD in_map_filterD split: option.splits prod.splits)

lemma my_booking_cond_Nil: "my_booking_cond [] usr = (\<lambda>b. booking_user_id b = user_id usr)"
  by (simp add: fun_eq_iff my_booking_cond_def)

lemma my_bookings_default:
  "my_bookings usr [] d =
           Success 200 (take 10 (List.map_filter (booking_with_package d)
                          (filter (\<lambda>b. booking_user_id b = user_id usr) (rev (bookings d)))),
                        \<lparr>pg_page = 1, pg_limit = 10,
                         pg_total = length (filter (\<lambda>b. booking_user_id b = user_id usr) (bookings d)),
                         pg_pages = Some ((int (length (filter (\<lambda>b. booking_user_id b = user_id usr) (bookings d))) + 9) div 10)\<rparr>)"
  by (simp add: my_bookings_def sql_pagination_def page_of_def pagination_of_def js_ceil_div_def my_booking_cond_Nil
      rev_filter [symmetric] add.commute)

end
