(* ===== verification/ClientDashboard.thy ===== *)
theory ClientDashboard
  imports Client Listings
begin

text \<open>
  The user dashboard of \<open>src/client/src/pages/UserDashboard.jsx\<close> composed with the
  server routes it calls.  \<open>loadUserData\<close> fetches \<open>/api/bookings/my-bookings\<close> and
  \<open>/api/reviews/my-reviews\<close> with the stored token and no query (so page 1 of 10),
  and \<open>/api/bookings/contacts/all\<close> without one; a list is replaced only when its
  answer is 2xx.  The overview's cards show \<open>bookings.length\<close> and
  \<open>reviews.length\<close>, its lists the first three of each; the "My Bookings" tab shows the
  booking contacts, split into confirmed and pending-or-cancelled.  The favourites list
  is never filled and is not modelled.  \<open>window.confirm\<close> is a parameter.
\<close>

record user_dashboard =
  ud_tab :: string
  ud_bookings :: "(booking_row \<times> package_row) list"
  ud_reviews :: "(review_row \<times> package_row) list"
  ud_contacts :: "contact_row list"
  ud_loading :: bool

definition initial_user_dashboard :: user_dashboard where
  "initial_user_dashboard = \<lparr>ud_tab = ''overview'', ud_bookings = [], ud_reviews = [], ud_contacts = [], ud_loading = True\<rparr>"

text \<open>\<open>response.ok\<close>: a status in 200..299.\<close>

definition response_ok :: "nat \<Rightarrow> bool" where
  "response_ok c \<longleftrightarrow> 200 \<le> c \<and> c < 300"

text \<open>A route behind \<open>authenticateToken\<close>, answered for the request's \<open>Authorization\<close> header.\<close>

definition with_token :: "token_registry \<Rightarrow> int \<Rightarrow> string option \<Rightarrow> db \<Rightarrow> (user_row \<Rightarrow> 'a response) \<Rightarrow> 'a response" where
  "with_token reg now hdr d h = (case authenticate_token reg now hdr d of Inl (c, m) \<Rightarrow> Failure c m | Inr u \<Rightarrow> h u)"

text \<open>\<open>if (res.ok) setX(data.x || [])\<close>: keep the old list on any other answer.\<close>

definition take_list :: "('a \<times> 'p) response \<Rightarrow> 'a \<Rightarrow> 'a" where
  "take_list r old = (case r of Success c (xs, _) \<Rightarrow> if response_ok c then xs else old | Failure _ _ \<Rightarrow> old)"

definition load_user_data :: "token_registry \<Rightarrow> int \<Rightarrow> string option \<Rightarrow> db \<Rightarrow> user_dashboard \<Rightarrow> user_dashboard" where
  "load_user_data reg now hdr d st =
     (let br = with_token reg now hdr d (\<lambda>u. my_bookings u [] d);
          rr = with_token reg now hdr d (\<lambda>u. my_reviews u [] d);
          cr = all_booking_contacts d in
      st\<lparr>ud_bookings := take_list br (ud_bookings st),
         ud_reviews := take_list rr (ud_reviews st),
         ud_contacts := (case cr of Success c cs \<Rightarrow> if response_ok c then cs else ud_contacts st
                         | Failure _ _ \<Rightarrow> ud_contacts st),
         ud_loading := False\<rparr>)"

text \<open>The two lists of the "My Bookings" tab.\<close>

definition tab_confirmed_contacts :: "user_dashboard \<Rightarrow> contact_row list" where
  "tab_confirmed_contacts st = filter (\<lambda>c. contact_status c = Confirmed) (ud_contacts st)"

definition tab_other_contacts :: "user_dashboard \<Rightarrow> contact_row list" where
  "tab_other_contacts st = filter (\<lambda>c. contact_status c = Pending \<or> contact_status c = Cancelled) (ud_contacts st)"

text \<open>
  \<open>handleCancelBooking\<close> and \<open>handleDeleteReview\<close>: after the user confirms, the request
  is sent with the id printed in decimal; a 2xx answer reloads the dashboard.
\<close>

definition handle_cancel_booking ::
  "token_registry \<Rightarrow> int \<Rightarrow> string option \<Rightarrow> bool \<Rightarrow> ident \<Rightarrow> db \<Rightarrow> user_dashboard \<Rightarrow> db \<times> user_dashboard" where
  "handle_cancel_booking reg now hdr confirmed i d st =
     (if \<not> confirmed then (d, st)
      else let (d', r) = (case authenticate_token reg now hdr d of
                            Inl (c, m) \<Rightarrow> (d, Failure c m)
                          | Inr u \<Rightarrow> route_cancel_booking u [(''id'', nat_to_string i)] d) in
           if response_ok (status_of r) then (d', load_user_data reg now hdr d' st) else (d', st))"

definition handle_delete_review ::
  "token_registry \<Rightarrow> int \<Rightarrow> string option \<Rightarrow> bool \<Rightarrow> ident \<Rightarrow> db \<Rightarrow> user_dashboard \<Rightarrow> db \<times> user_dashboard" where
  "handle_delete_review reg now hdr confirmed i d st =
     (if \<not> confirmed then (d, st)
      else let (d', r) = (case authenticate_token reg now hdr d of
                            Inl (c, m) \<Rightarrow> (d, Failure c m)
                          | Inr u \<Rightarrow> route_delete_review u [(''id'', nat_to_string i)] d) in
           if response_ok (status_of r) then (d', load_user_data reg now hdr d' st) else (d', st))"

text \<open>
  The effect that loads the data once a user is signed in, and the page's two early
  returns: without a user it asks to log in, while loading it shows a spinner.
\<close>

definition user_dashboard_effect ::
  "user_row option \<Rightarrow> (user_dashboard \<Rightarrow> user_dashboard) \<Rightarrow> user_dashboard \<Rightarrow> user_dashboard" where
  "user_dashboard_effect u load st = (case u of None \<Rightarrow> st | Some _ \<Rightarrow> load st)"

datatype user_page = PleaseLogIn | LoadingUserDashboard | UserTab string

definition user_page_view :: "user_row option \<Rightarrow> user_dashboard \<Rightarrow> user_page" where
  "user_page_view u st =
     (case u of None \<Rightarrow> PleaseLogIn
      | Some _ \<Rightarrow> if ud_loading st then LoadingUserDashboard else UserTab (ud_tab st))"

text \<open>The sidebar: four buttons, each \<open>setActiveTab\<close> with its name.\<close>

definition user_tabs :: "string list" where
  "user_tabs = [''overview'', ''bookings'', ''reviews'', ''favorites'']"

definition user_set_tab :: "string \<Rightarrow> user_dashboard \<Rightarrow> user_dashboard" where
  "user_set_tab t st = st\<lparr>ud_tab := t\<rparr>"

text \<open>
  The overview: three cards (\<open>bookings.length\<close>, \<open>reviews.length\<close> and
  \<open>favorites.length\<close>, a list no code fills), the first three bookings with a badge
  coloured by status, and the first three reviews with five stars, star \<open>i\<close> lit when
  \<open>i < review.rating\<close>.
\<close>

definition overview_cards :: "user_dashboard \<Rightarrow> nat list" where
  "overview_cards st = [length (ud_bookings st), length (ud_reviews st), 0]"

definition overview_bookings :: "user_dashboard \<Rightarrow> (booking_row \<times> package_row) list" where
  "overview_bookings st = take 3 (ud_bookings st)"

definition overview_reviews :: "user_dashboard \<Rightarrow> (review_row \<times> package_row) list" where
  "overview_reviews st = take 3 (ud_reviews st)"

definition booking_status_badge :: "status \<Rightarrow> string" where
  "booking_status_badge s =
     ''px-2 py-1 text-xs rounded-full '' @
     (if s = Confirmed then ''bg-green-100 text-green-800''
      else if s = Pending then ''bg-yellow-100 text-yellow-800''
      else ''bg-red-100 text-red-800'')"

definition review_stars :: "int \<Rightarrow> bool list" where
  "review_stars r = map (\<lambda>i. int i < r) [0..<5]"

section \<open>Properties\<close>

lemma with_token_pass: "authenticate_token reg now hdr d = Inr u \<Longrightarrow> with_token reg now hdr d h = h u"
  by (simp add: with_token_def)

text \<open>The tab's two lists partition the contacts.\<close>

lemma tab_contacts_partition:
  "length (tab_confirmed_contacts st) + length (tab_other_contacts st) = length (ud_contacts st)"
proof -
  have st: "\<And>c. (contact_status c = Pending \<or> contact_status c = Cancelled) \<longleftrightarrow> \<not> contact_status c = Confirmed"
    by (case_tac "contact_status c") auto
  show ?thesis
    unfolding tab_confirmed_contacts_def tab_other_contacts_def st by (rule sum_length_filter_compl)
qed

text \<open>The loaded booking list is the user's newest ten bookings.\<close>

lemma load_user_data_bookings:
  assumes "authenticate_token reg now hdr d = Inr u" and "fk_ok d"
  shows "ud_bookings (load_user_data reg now hdr d st)
         = take 10 (List.map_filter (booking_with_package d) (filter (\<lambda>b. booking_user_id b = user_id u) (rev (bookings d))))"
  using assms by (simp add: load_user_data_def with_token_pass my_bookings_default take_list_def response_ok_def)

lemma load_user_data_contacts:
  "ud_contacts (load_user_data reg now hdr d st) = rev (booking_contacts d)"
  by (simp add: load_user_data_def all_booking_contacts_def response_ok_def)

lemma my_reviews_default:
  "my_reviews usr [] d =
     Success 200 (take 10 (List.map_filter (review_with_package d)
                    (filter (\<lambda>r. review_user_id r = user_id usr) (rev (reviews d)))),
                  pagination_of (1, 10, 0) (length (filter (\<lambda>r. review_user_id r = user_id usr) (reviews d))))"
  by (simp add: my_reviews_def sql_pagination_def page_of_def rev_filter [symmetric])

lemma load_user_data_reviews:
  assumes "authenticate_token reg now hdr d = Inr u"
  shows "ud_reviews (load_user_data reg now hdr d st)
         = take 10 (List.map_filter (review_with_package d) (filter (\<lambda>r. review_user_id r = user_id u) (rev (reviews d))))"
  using assms by (simp add: load_user_data_def with_token_pass my_reviews_default take_list_def response_ok_def)

text \<open>A rating between 0 and 5 lights exactly that many of the five stars.\<close>

lemma review_stars_lit:
  assumes "0 \<le> r" "r \<le> 5"
  shows "length (filter id (review_stars r)) = nat r"
proof -
  have "r = 0 \<or> r = 1 \<or> r = 2 \<or> r = 3 \<or> r = 4 \<or> r = 5" using assms by arith
  then show ?thesis by (auto simp: review_stars_def upt_rec)
qed

text \<open>
  On a loaded dashboard of a well-formed database, every listed review is one of the
  user's and shows its rating as lit stars.
\<close>

lemma load_user_data_review_stars:
  assumes "authenticate_token reg now hdr d = Inr u" "db_wf d"
    and "(r, p) \<in> set (ud_reviews (load_user_data reg now hdr d st))"
  shows "review_user_id r = user_id u \<and> length (filter id (review_stars (review_rating r))) = nat (review_rating r)"
proof -
  from assms(3) have "(r, p) \<in> set (List.map_filter (review_with_package d) (filter (\<lambda>r. review_user_id r = user_id u) (rev (reviews d))))"
    by (simp add: load_user_data_reviews [OF assms(1)]) (meson in_set_takeD)
  then have r: "r \<in> set (reviews d)" "review_user_id r = user_id u"
    by (auto simp: review_with_package_def dest!: in_map_filterD)
  with assms(2) have "1 \<le> review_rating r" "review_rating r \<le> 5" by (auto simp: db_wf_def)
  with r show ?thesis using review_stars_lit by simp
qed

lemma user_page_signed_out: "user_page_view None st = PleaseLogIn \<and> user_dashboard_effect None load st = st"
  by (simp add: user_page_view_def user_dashboard_effect_def)

end
