(* ===== verification/AdminClient.thy ===== *)
theory AdminClient
  imports ClientDashboard
begin

text \<open>
  The admin dashboard of \<open>src/client/src/pages/AdminDashboard.jsx\<close> and the JSON the
  server's \<open>GET /api/admin/dashboard\<close> sends it.  JSON values are a small datatype;
  property access on a value that has no such key is \<open>undefined\<close>.  The rows of the
  dashboard's lists are serialised by mysql2 (dates, timestamps and \<open>DECIMAL\<close> strings),
  which is a parameter here: no property below reads them.
\<close>

datatype json = JAtom jsval | JObj "(string \<times> json) list" | JArr "json list"

text \<open>\<open>obj.key\<close> on a parsed JSON value.\<close>

definition json_get :: "json \<Rightarrow> string \<Rightarrow> json" where
  "json_get j k = (case j of JObj kvs \<Rightarrow> (case map_of kvs k of Some v \<Rightarrow> v | None \<Rightarrow> JAtom JUndefined)
                   | _ \<Rightarrow> JAtom JUndefined)"

text \<open>A \<open>DECIMAL(10,2)\<close> value as mysql2 returns it: a string with two decimals.\<close>

definition decimal_text :: "cents \<Rightarrow> string" where
  "decimal_text c =
     (if c < 0 then ''-'' else []) @ nat_to_string (nat \<bar>c\<bar> div 100) @ ''.''
     @ [digit_char (nat \<bar>c\<bar> mod 100 div 10), digit_char (nat \<bar>c\<bar> mod 10)]"

text \<open>
  \<open>res.json({ stats: { total_users, total_packages, total_bookings, total_revenue },
  recent_bookings, popular_packages, status_distribution })\<close>: the counts are numbers,
  \<open>SUM(total_amount)\<close> is a decimal string, or \<open>NULL || 0\<close> when no booking is
  confirmed.
\<close>

definition dashboard_json ::
  "((booking_row \<times> package_row \<times> user_row) \<Rightarrow> json) \<Rightarrow> ((package_row \<times> nat) \<Rightarrow> json) \<Rightarrow> db \<Rightarrow> dashboard \<Rightarrow> json" where
  "dashboard_json rb pp d s =
     JObj [(''stats'', JObj [(''total_users'', JAtom (JNum (int (db_total_users s)))),
                            (''total_packages'', JAtom (JNum (int (db_total_packages s)))),
                            (''total_bookings'', JAtom (JNum (int (db_total_bookings s)))),
                            (''total_revenue'',
                               if filter (\<lambda>b. booking_status b = Confirmed) (bookings d) = [] then JAtom (JNum 0)
                               else JAtom (JStr (decimal_text (db_total_revenue s))))]),
           (''recent_bookings'', JArr (map rb (db_recent_bookings s))),
           (''popular_packages'', JArr (map pp (db_popular_packages s))),
           (''status_distribution'',
              JArr (map (\<lambda>(st, n). JObj [(''status'', JAtom (JStr (status_text st))), (''count'', JAtom (JNum (int n)))])
                      (db_status_distribution s)))]"

text \<open>The dashboard's state: \<open>stats\<close> starts as the object of zeros and is replaced by the answer.\<close>

record admin_view =
  av_tab :: string
  av_stats :: json
  av_users :: "user_summary list"
  av_bookings :: "(booking_row \<times> package_row \<times> user_row) list"
  av_contacts :: "contact_row list"
  av_packages :: "package_summary list"
  av_loading :: bool

definition initial_admin_view :: admin_view where
  "initial_admin_view =
     \<lparr>av_tab = ''dashboard'',
      av_stats = JObj [(''totalUsers'', JAtom (JNum 0)), (''totalBookings'', JAtom (JNum 0)),
                       (''totalPackages'', JAtom (JNum 0)), (''totalRevenue'', JAtom (JNum 0))],
      av_users = [], av_bookings = [], av_contacts = [], av_packages = [], av_loading = True\<rparr>"

text \<open>
  \<open>loadDashboardData\<close>: \<open>setStats(statsData)\<close> with the whole answer, then the users,
  the bookings (both admin routes, first page), the booking contacts and the first page
  of \<open>/api/packages\<close>; each only on a 2xx answer.
\<close>

definition load_dashboard_data ::
  "((booking_row \<times> package_row \<times> user_row) \<Rightarrow> json) \<Rightarrow> ((package_row \<times> nat) \<Rightarrow> json)
   \<Rightarrow> token_registry \<Rightarrow> int \<Rightarrow> string option \<Rightarrow> db \<Rightarrow> admin_view \<Rightarrow> admin_view" where
  "load_dashboard_data rb pp reg now hdr d st =
     (let sr = snd (route_admin_dashboard reg now hdr d);
          ur = snd (route_admin_users reg now hdr [] d);
          br = snd (route_admin_bookings reg now hdr [] d);
          cr = all_booking_contacts d;
          pr = route_list_packages [] d in
      st\<lparr>av_stats := (case sr of Success c s \<Rightarrow> if response_ok c then dashboard_json rb pp d s else av_stats st
                      | Failure _ _ \<Rightarrow> av_stats st),
         av_users := take_list ur (av_users st),
         av_bookings := take_list br (av_bookings st),
         av_contacts := (case cr of Success c cs \<Rightarrow> if response_ok c then cs else av_contacts st
                         | Failure _ _ \<Rightarrow> av_contacts st),
         av_packages := (case pr of Success c pg \<Rightarrow> if response_ok c then pp_packages pg else av_packages st
                         | Failure _ _ \<Rightarrow> av_packages st),
         av_loading := False\<rparr>)"

text \<open>The four cards: \<open>{stats.totalUsers}\<close>, \<open>{stats.totalBookings}\<close>, \<open>{stats.totalPackages}\<close>, \<open>${stats.totalRevenue}\<close>.\<close>

definition stat_cards :: "admin_view \<Rightarrow> json list" where
  "stat_cards st = map (json_get (av_stats st)) [''totalUsers'', ''totalBookings'', ''totalPackages'', ''totalRevenue'']"

text \<open>
  The table's delete button sends \<open>DELETE /api/admin/bookings/:id\<close>.  The admin router
  has no such route, so the request falls through to the catch-all 404 of
  \<open>server.js\<close>: the answer is never ok and the admin is alerted.
\<close>

definition admin_delete_booking_request :: "ident \<Rightarrow> db \<Rightarrow> db \<times> string response" where
  "admin_delete_booking_request i d = (d, Failure 404 ''Route not found'')"

definition handle_admin_delete_booking ::
  "bool \<Rightarrow> ident \<Rightarrow> db \<Rightarrow> admin_view \<Rightarrow> (db \<Rightarrow> admin_view \<Rightarrow> admin_view) \<Rightarrow> db \<times> admin_view \<times> string option" where
  "handle_admin_delete_booking confirmed i d st reload =
     (if \<not> confirmed then (d, st, None)
      else let (d', r) = admin_delete_booking_request i d in
           if response_ok (status_of r) then (d', reload d' st, None)
           else (d', st, Some ''Failed to delete booking.''))"

text \<open>The user table's delete button: \<open>DELETE /api/admin/users/:id\<close>, reload on success, alert otherwise.\<close>

definition handle_admin_delete_user ::
  "token_registry \<Rightarrow> int \<Rightarrow> string option \<Rightarrow> bool \<Rightarrow> ident \<Rightarrow> db \<Rightarrow> admin_view \<Rightarrow> (db \<Rightarrow> admin_view \<Rightarrow> admin_view)
   \<Rightarrow> db \<times> admin_view \<times> string option" where
  "handle_admin_delete_user reg now hdr confirmed i d st reload =
     (if \<not> confirmed then (d, st, None)
      else let (d', r) = route_admin_delete_user reg now hdr (nat_to_string i) d in
           if response_ok (status_of r) then (d', reload d' st, None)
           else (d', st, Some ''Failed to delete user.''))"

text \<open>
  \<open>handleUserRoleUpdate\<close> and \<open>handleBookingStatusUpdate\<close>: \<open>PATCH\<close> with the new
  value as JSON; a 2xx answer reloads the dashboard, any other is ignored.
\<close>

definition handle_user_role_update ::
  "token_registry \<Rightarrow> int \<Rightarrow> string option \<Rightarrow> ident \<Rightarrow> string \<Rightarrow> db \<Rightarrow> admin_view \<Rightarrow> (db \<Rightarrow> admin_view \<Rightarrow> admin_view)
   \<Rightarrow> db \<times> admin_view" where
  "handle_user_role_update reg now hdr i rl d st reload =
     (let (d', r) = route_admin_user_role reg now hdr (nat_to_string i) [(''role'', JStr rl)] d in
      if response_ok (status_of r) then (d', reload d' st) else (d', st))"

definition handle_booking_status_update ::
  "token_registry \<Rightarrow> int \<Rightarrow> string option \<Rightarrow> ident \<Rightarrow> string \<Rightarrow> db \<Rightarrow> admin_view \<Rightarrow> (db \<Rightarrow> admin_view \<Rightarrow> admin_view)
   \<Rightarrow> db \<times> admin_view" where
  "handle_booking_status_update reg now hdr i s d st reload =
     (let (d', r) = route_admin_booking_status reg now hdr (nat_to_string i) [(''status'', JStr s)] d in
      if response_ok (status_of r) then (d', reload d' st) else (d', st))"

text \<open>
  The page guard (the \<open>useEffect\<close> and the two early returns): the dashboard is
  loaded only for a signed-in user whose role is \<open>'admin'\<close>; anyone else sees
  "Access Denied", an admin the spinner while loading, then the active tab.
\<close>

definition is_admin_user :: "user_row option \<Rightarrow> bool" where
  "is_admin_user u = (case u of Some usr \<Rightarrow> user_role usr = RoleAdmin | None \<Rightarrow> False)"

definition admin_dashboard_effect :: "user_row option \<Rightarrow> (admin_view \<Rightarrow> admin_view) \<Rightarrow> admin_view \<Rightarrow> admin_view" where
  "admin_dashboard_effect u load st = (if is_admin_user u then load st else st)"

datatype admin_page = AccessDenied | LoadingDashboard | AdminTab string

definition admin_page_view :: "user_row option \<Rightarrow> admin_view \<Rightarrow> admin_page" where
  "admin_page_view u st =
     (if \<not> is_admin_user u then AccessDenied
      else if av_loading st then LoadingDashboard else AdminTab (av_tab st))"

text \<open>The sidebar: five buttons, each \<open>setActiveTab\<close> with its name.\<close>

definition admin_tabs :: "string list" where
  "admin_tabs = [''dashboard'', ''users'', ''bookings'', ''packages'', ''settings'']"

definition admin_set_tab :: "string \<Rightarrow> admin_view \<Rightarrow> admin_view" where
  "admin_set_tab t st = st\<lparr>av_tab := t\<rparr>"

text \<open>
  The rows of the booking contacts in the bookings table.  The status \<open>select\<close> offers
  three values and sends \<open>PATCH /api/bookings/contacts/:id/status\<close> (no token: the
  route has no \<open>authenticateToken\<close>) with the contact's own id; a 2xx answer reloads the
  dashboard, any other alerts.  "View" alerts the e-mail and phone; "Delete" asks for
  confirmation and sends \<open>DELETE /api/bookings/contacts/:id\<close>.
\<close>

definition contact_status_options :: "string list" where
  "contact_status_options = [''pending'', ''confirmed'', ''cancelled'']"

definition contact_status_class :: "status \<Rightarrow> string" where
  "contact_status_class s =
     ''text-sm border rounded px-2 py-1 '' @
     (if s = Confirmed then ''border-green-300 bg-green-50''
      else if s = Pending then ''border-yellow-300 bg-yellow-50''
      else ''border-red-300 bg-red-50'')"

definition handle_contact_status_change ::
  "contact_row \<Rightarrow> string \<Rightarrow> db \<Rightarrow> admin_view \<Rightarrow> (db \<Rightarrow> admin_view \<Rightarrow> admin_view) \<Rightarrow> db \<times> admin_view \<times> string option" where
  "handle_contact_status_change c s d st reload =
     (let (d', r) = update_contact_status (contact_id c) (JStr s) d in
      if response_ok (status_of r) then (d', reload d' st, None)
      else (d', st, Some ''Failed to update status.''))"

definition contact_view_alert :: "contact_row \<Rightarrow> string" where
  "contact_view_alert c = ''Email: '' @ contact_email c @ [CHR 0x0A] @ ''Phone: '' @ contact_phone c"

definition handle_contact_delete ::
  "bool \<Rightarrow> contact_row \<Rightarrow> db \<Rightarrow> admin_view \<Rightarrow> (db \<Rightarrow> admin_view \<Rightarrow> admin_view) \<Rightarrow> db \<times> admin_view \<times> string option" where
  "handle_contact_delete confirmed c d st reload =
     (if \<not> confirmed then (d, st, None)
      else let (d', r) = delete_booking_contact (contact_id c) d in
           if response_ok (status_of r) then (d', reload d' st, None)
           else (d', st, Some ''Failed to delete booking request.''))"

section \<open>Properties\<close>

lemma json_get_stats_keys:
  "k \<notin> {''stats'', ''recent_bookings'', ''popular_packages'', ''status_distribution''} \<Longrightarrow>
   json_get (dashboard_json rb pp d s) k = JAtom JUndefined"
  by (simp add: json_get_def dashboard_json_def)

lemma handle_admin_delete_booking_fails:
  "handle_admin_delete_booking True i d st reload = (d, st, Some ''Failed to delete booking.'')"
  by (simp add: handle_admin_delete_booking_def admin_delete_booking_request_def response_ok_def)

lemma admin_page_non_admin:
  "\<not> is_admin_user u \<Longrightarrow> admin_page_view u st = AccessDenied \<and> admin_dashboard_effect u load st = st"
  by (simp add: admin_page_view_def admin_dashboard_effect_def)

lemma contact_status_options_parse:
  "s \<in> set contact_status_options \<Longrightarrow> \<exists>st. parse_status (JStr s) = Some st"
  by (auto simp: contact_status_options_def)

lemma handle_contact_status_change_select:
  assumes "c \<in> set (booking_contacts d)" "parse_status (JStr s) = Some st"
  shows "handle_contact_status_change c s d v reload =
           (snd (set_contact_status (contact_id c) st d), reload (snd (set_contact_status (contact_id c) st d)) v, None)"
proof -
  have "length (filter (\<lambda>c'. contact_id c' = contact_id c) (booking_contacts d)) \<noteq> 0"
    using assms(1) by (auto simp: filter_empty_conv)
  then show ?thesis
    using assms(2) by (simp add: handle_contact_status_change_def update_contact_status_def set_contact_status_def response_ok_def)
qed

lemma handle_contact_status_change_missing:
  assumes "contact_id c \<notin> contact_id ` set (booking_contacts d)"
  shows "handle_contact_status_change c s d v reload = (d, v, Some ''Failed to update status.'')"
proof -
  have "filter (\<lambda>c'. contact_id c' = contact_id c) (booking_contacts d) = []"
    using assms by (auto simp: filter_empty_conv image_iff)
  moreover have "update_where (\<lambda>c'. contact_id c' = contact_id c) (\<lambda>c'. c'\<lparr>contact_status := t\<rparr>) (booking_contacts d)
                   = booking_contacts d" for t
    using assms by (intro update_where_no_match) (auto simp: image_iff)
  ultimately show ?thesis
    by (cases "parse_status (JStr s)")
       (simp_all add: handle_contact_status_change_def update_contact_status_def set_contact_status_def response_ok_def)
qed

lemma handle_contact_delete_removes:
  assumes "c \<in> set (booking_contacts d)"
  shows "handle_contact_delete True c d v reload =
           (d\<lparr>booking_contacts := filter (\<lambda>c'. contact_id c' \<noteq> contact_id c) (booking_contacts d)\<rparr>,
            reload (d\<lparr>booking_contacts := filter (\<lambda>c'. contact_id c' \<noteq> contact_id c) (booking_contacts d)\<rparr>) v, None)"
proof -
  have "length (filter (\<lambda>c'. contact_id c' = contact_id c) (booking_contacts d)) \<noteq> 0"
    using assms by (auto simp: filter_empty_conv)
  then show ?thesis
    by (simp add: handle_contact_delete_def delete_booking_contact_def delete_contact_row_def response_ok_def)
qed

lemma handle_contact_delete_declined: "handle_contact_delete False c d v reload = (d, v, None)"
  by (simp add: handle_contact_delete_def)

end
