(* ===== verification/ContactForm.thy ===== *)
theory ContactForm
  imports Accounts
begin

text \<open>
  \<open>POST /api/contact\<close> of \<open>src/server/routes/contact.js\<close>: the \<open>contactValidation\<close>
  chains (name, email, subject, message, in this order; the first error's message is
  answered with 400) and the handler, which only logs the submission (not modelled) and
  acknowledges it.  No table is read or written.
\<close>

text \<open>
  \<open>contactValidation\<close>: the trimmed name has at least 2 characters, the email passes
  \<open>isEmail\<close> (and is normalised), the trimmed subject has at least 5 and the trimmed
  message at least 10 characters.  An absent field is read as the empty string.
\<close>

definition validate_contact :: "email_lib \<Rightarrow> js_object \<Rightarrow> string + (string \<times> string \<times> string \<times> string)" where
  "validate_contact em body =
     (let n = js_trim (js_to_string (js_get body ''name''));
          e = js_to_string (js_get body ''email'');
          s = js_trim (js_to_string (js_get body ''subject''));
          m = js_trim (js_to_string (js_get body ''message'')) in
      if length n < 2 then Inl ''Name must be at least 2 characters long''
      else if \<not> is_email em e then Inl ''Please enter a valid email address''
      else if length s < 5 then Inl ''Subject must be at least 5 characters long''
      else if length m < 10 then Inl ''Message must be at least 10 characters long''
      else Inr (n, normalize_email em e, s, m))"

definition contact_submit :: "email_lib \<Rightarrow> js_object \<Rightarrow> string response" where
  "contact_submit em body =
     (case validate_contact em body of
        Inl msg \<Rightarrow> Failure 400 msg
      | Inr _ \<Rightarrow> Success 200 ''Contact message received successfully. We will get back to you soon!'')"

subsection \<open>The unused middleware of \<open>validation.js\<close>\<close>

text \<open>
  \<open>handleValidationErrors\<close>: the first collected error's message with 400, or
  \<open>'Validation failed'\<close> when it is empty; no error goes on to the handler.
\<close>

definition handle_validation_errors :: "string list \<Rightarrow> (nat \<times> string) + unit" where
  "handle_validation_errors errs =
     (case errs of [] \<Rightarrow> Inr () | m # _ \<Rightarrow> Inl (400, if m = [] then ''Validation failed'' else m))"

text \<open>
  \<open>validateContact\<close> and \<open>validateNewsletter\<close> of \<open>middleware/validation.js\<close>,
  which no route mounts: every chain runs and contributes its error, in field order.
  \<open>validateContact\<close> bounds the lengths from above as well.
\<close>

definition length_between :: "nat \<Rightarrow> nat \<Rightarrow> string \<Rightarrow> bool" where
  "length_between lo hi s \<longleftrightarrow> lo \<le> length s \<and> length s \<le> hi"

definition validate_contact_middleware :: "email_lib \<Rightarrow> js_object \<Rightarrow> (nat \<times> string) + unit" where
  "validate_contact_middleware em body =
     (let n = js_trim (js_to_string (js_get body ''name''));
          e = js_to_string (js_get body ''email'');
          s = js_trim (js_to_string (js_get body ''subject''));
          m = js_trim (js_to_string (js_get body ''message'')) in
      handle_validation_errors
        ((if length_between 2 50 n then [] else [''Name must be between 2 and 50 characters''])
         @ (if is_email em e then [] else [''Please provide a valid email address''])
         @ (if length_between 5 100 s then [] else [''Subject must be between 5 and 100 characters''])
         @ (if length_between 10 1000 m then [] else [''Message must be between 10 and 1000 characters''])))"

definition validate_newsletter :: "email_lib \<Rightarrow> js_object \<Rightarrow> (nat \<times> string) + unit" where
  "validate_newsletter em body =
     handle_validation_errors
       (if is_email em (js_to_string (js_get body ''email'')) then [] else [''Please provide a valid email address''])"

section \<open>Properties\<close>

text \<open>The form is acknowledged exactly when every field passes its check.\<close>

lemma contact_submit_cases:
  "contact_submit em body = Success 200 ''Contact message received successfully. We will get back to you soon!''
   \<longleftrightarrow> 2 \<le> length (js_trim (js_to_string (js_get body ''name''))) \<and> is_email em (js_to_string (js_get body ''email''))
       \<and> 5 \<le> length (js_trim (js_to_string (js_get body ''subject'')))
       \<and> 10 \<le> length (js_trim (js_to_string (js_get body ''message'')))"
  by (auto simp: contact_submit_def validate_contact_def Let_def split: sum.splits)

text \<open>A missing name is reported first, whatever else is wrong.\<close>

lemma contact_submit_no_name:
  "js_get body ''name'' = JUndefined \<Longrightarrow> contact_submit em body = Failure 400 ''Name must be at least 2 characters long''"
  by (simp add: contact_submit_def validate_contact_def js_trim_def)

text \<open>
  The unused \<open>validateContact\<close> accepts exactly the bodies the route's own
  \<open>contactValidation\<close> accepts whose name, subject and message also stay within 50,
  100 and 1000 characters.
\<close>

lemma validate_contact_middleware_iff:
  "validate_contact_middleware em body = Inr () \<longleftrightarrow>
     (\<exists>r. validate_contact em body = Inr r)
     \<and> length (js_trim (js_to_string (js_get body ''name''))) \<le> 50
     \<and> length (js_trim (js_to_string (js_get body ''subject''))) \<le> 100
     \<and> length (js_trim (js_to_string (js_get body ''message''))) \<le> 1000"
  by (auto simp: validate_contact_middleware_def validate_contact_def handle_validation_errors_def
           length_between_def Let_def split: list.splits)

end
