(* ===== verification/ClientContact.thy ===== *)
theory ClientContact
  imports Client ContactForm
begin

text \<open>
  The contact section of \<open>src/client/src/components/Contact.jsx\<close> and the route it
  posts to, \<open>POST /api/contact\<close> (theory \<open>ContactForm\<close>).  The client checks that each
  trimmed field is non-empty and that the e-mail matches
  \<open>/^[^\s@]+@[^\s@]+\.[^\s@]+$/\<close>; the server then applies its own, stricter, length
  rules.  The timers that clear the status message are not modelled.
\<close>

record contact_form =
  cf_name :: string
  cf_email :: string
  cf_subject :: string
  cf_message :: string

definition empty_contact_form :: contact_form where
  "empty_contact_form = \<lparr>cf_name = [], cf_email = [], cf_subject = [], cf_message = []\<rparr>"

record contact_view =
  cv_form :: contact_form
  cv_submitting :: bool
  cv_status :: "string option"
  cv_error :: string

text \<open>\<open>handleChange\<close>: \<open>{...formData, [e.target.name]: e.target.value}\<close>.\<close>

definition contact_handle_change :: "string \<Rightarrow> string \<Rightarrow> contact_view \<Rightarrow> contact_view" where
  "contact_handle_change field v st =
     (let f = cv_form st in
      st\<lparr>cv_form :=
        (if field = ''name'' then f\<lparr>cf_name := v\<rparr>
         else if field = ''email'' then f\<lparr>cf_email := v\<rparr>
         else if field = ''subject'' then f\<lparr>cf_subject := v\<rparr>
         else if field = ''message'' then f\<lparr>cf_message := v\<rparr>
         else f)\<rparr>)"

text \<open>
  \<open>/^[^\s@]+@[^\s@]+\.[^\s@]+$/\<close>: one \<open>@\<close> with a non-empty part before it, and after
  it a part containing a dot that is neither its first nor its last character; no
  whitespace anywhere.
\<close>

definition email_regex :: "string \<Rightarrow> bool" where
  "email_regex s =
     (let a = takeWhile (\<lambda>c. c \<noteq> CHR ''@'') s; rest = dropWhile (\<lambda>c. c \<noteq> CHR ''@'') s in
      case rest of
        [] \<Rightarrow> False
      | _ # r \<Rightarrow> a \<noteq> [] \<and> (\<forall>c\<in>set s. \<not> js_space c) \<and> CHR ''@'' \<notin> set r
                 \<and> CHR ''.'' \<in> set (tl (butlast r)))"

definition validate_contact_form :: "contact_form \<Rightarrow> string option" where
  "validate_contact_form f =
     (if js_trim (cf_name f) = [] then Some ''Name is required''
      else if js_trim (cf_email f) = [] then Some ''Email is required''
      else if js_trim (cf_subject f) = [] then Some ''Subject is required''
      else if js_trim (cf_message f) = [] then Some ''Message is required''
      else if \<not> email_regex (cf_email f) then Some ''Please enter a valid email address''
      else None)"

text \<open>The body \<open>api.post('/contact', formData)\<close> sends.\<close>

definition contact_body :: "contact_form \<Rightarrow> js_object" where
  "contact_body f =
     [(''name'', JStr (cf_name f)), (''email'', JStr (cf_email f)), (''subject'', JStr (cf_subject f)),
      (''message'', JStr (cf_message f))]"

text \<open>\<open>handleSubmit\<close> with the server's \<open>POST /api/contact\<close>.\<close>

definition contact_handle_submit :: "email_lib \<Rightarrow> contact_view \<Rightarrow> contact_view" where
  "contact_handle_submit em st =
     (case validate_contact_form (cv_form st) of
        Some e \<Rightarrow> st\<lparr>cv_status := Some ''error'', cv_error := e\<rparr>
      | None \<Rightarrow>
          (case api_request (contact_submit em (contact_body (cv_form st))) of
             Inr _ \<Rightarrow> st\<lparr>cv_status := Some ''success'', cv_error := [], cv_form := empty_contact_form,
                        cv_submitting := False\<rparr>
           | Inl m \<Rightarrow> st\<lparr>cv_status := Some ''error'', cv_error := m, cv_submitting := False\<rparr>))"

text \<open>
  The banner above the form (\<open>submitStatus\<close> and \<open>errorMessage\<close>) and the submit
  button's label.
\<close>

definition contact_status_banner :: "contact_view \<Rightarrow> string option" where
  "contact_status_banner st =
     (if cv_status st = Some ''success'' then Some ''Message sent successfully! We'll get back to you soon.''
      else if cv_status st = Some ''error''
      then Some (if cv_error st = [] then ''Please fill in all required fields correctly.'' else cv_error st)
      else None)"

definition contact_button_label :: "contact_view \<Rightarrow> string" where
  "contact_button_label st = (if cv_submitting st then ''Sending Message...'' else ''Send Message'')"

text \<open>
  \<open>contactInfo\<close>: title, text and link of each entry (the icon left out), and the
  attributes of a link: \<open>target="_blank"\<close> with \<open>rel="noopener noreferrer"\<close> for an
  \<open>http\<close> link, none otherwise; an entry without a link is plain text.
\<close>

definition contact_info :: "(string \<times> string \<times> string option) list" where
  "contact_info =
     [(''Phone'', ''+1 812-125-1251'', Some ''tel:+18121251251''),
      (''Email'', ''info@wavv.com'', Some ''mailto:info@wavv.com''),
      (''Address'', ''123 Travel Street, City, Country'', Some ''https://maps.google.com''),
      (''Working Hours'', ''Mon-Fri 9:00-18:00'', None)]"

definition contact_link_attrs :: "string \<Rightarrow> (string \<times> string) option" where
  "contact_link_attrs l = (if take 4 l = ''http'' then Some (''_blank'', ''noopener noreferrer'') else None)"

section \<open>Properties\<close>

text \<open>A message goes through exactly when both the client's and the server's checks pass.\<close>

lemma contact_handle_submit_success:
  "cv_status (contact_handle_submit em st) = Some ''success'' \<longleftrightarrow>
     validate_contact_form (cv_form st) = None \<and> (\<exists>x. validate_contact em (contact_body (cv_form st)) = Inr x)"
  by (auto simp: contact_handle_submit_def contact_submit_def api_request_def
           split: option.splits sum.splits)

text \<open>A subject of one to four characters passes the client and is refused by the server.\<close>

lemma contact_short_subject:
  assumes "validate_contact_form (cv_form st) = None" and "2 \<le> length (js_trim (cf_name (cv_form st)))"
    and "is_email em (cf_email (cv_form st))" and "length (js_trim (cf_subject (cv_form st))) < 5"
  shows "contact_handle_submit em st
         = st\<lparr>cv_status := Some ''error'', cv_error := ''Subject must be at least 5 characters long'', cv_submitting := False\<rparr>"
  using assms
  by (simp add: contact_handle_submit_def contact_submit_def validate_contact_def contact_body_def js_get_def
      api_request_def Let_def)

text \<open>A form the client's own check refuses shows that check's message in the banner.\<close>

lemma contact_banner_validation_error:
  "validate_contact_form (cv_form st) = Some e \<Longrightarrow> e \<noteq> [] \<Longrightarrow>
   contact_status_banner (contact_handle_submit em st) = Some e"
  by (simp add: contact_status_banner_def contact_handle_submit_def)

text \<open>Only the address opens in a new tab, and it does so with \<open>noopener\<close>.\<close>

lemma contact_info_new_tab:
  "[(t, l). (t, i, Some l) \<leftarrow> contact_info, contact_link_attrs l \<noteq> None] = [(''Address'', ''https://maps.google.com'')]"
  by (simp add: contact_info_def contact_link_attrs_def)

end
