(* ===== verification/ClientFeatured.thy ===== *)
theory ClientFeatured
  imports ClientDashboard Seed
begin

text \<open>
  The featured section of \<open>src/client/src/components/Featured.jsx\<close>: a search form that
  only alerts, and a booking modal whose four required inputs (name, e-mail, phone, date)
  are posted to the public \<open>POST /api/bookings/contacts\<close>.  The browser does not submit
  the form while a required input is empty (its constraint validation), which the model
  takes as the guard of the submission.
\<close>

record search_form =
  sf_destination :: string
  sf_check_in :: string
  sf_check_out :: string
  sf_adults :: string
  sf_children :: string

definition initial_search_form :: search_form where
  "initial_search_form = \<lparr>sf_destination = [], sf_check_in = [], sf_check_out = [], sf_adults = ''2'', sf_children = ''0''\<rparr>"

text \<open>\<open>handleSearch\<close>: no request, only an alert naming the active tab and the destination.\<close>

definition handle_search :: "string \<Rightarrow> search_form \<Rightarrow> string" where
  "handle_search active f =
     ''Searching for '' @ active @ '' packages in ''
     @ (if sf_destination f = [] then ''any destination'' else sf_destination f) @ ''!''"

text \<open>The body \<open>{ name, email, phone, booking_date }\<close> read from the form's first four inputs.\<close>

definition featured_contact_body :: "string \<Rightarrow> string \<Rightarrow> string \<Rightarrow> string \<Rightarrow> js_object" where
  "featured_contact_body n e ph dt =
     [(''name'', JStr n), (''email'', JStr e), (''phone'', JStr ph), (''booking_date'', JStr dt)]"

text \<open>
  \<open>handleBookingSubmit\<close>: the answer decides the alert; the modal closes in every case.
  The result is the new database, whether the modal is still shown, and the alert.
\<close>

definition featured_booking_submit :: "string \<Rightarrow> string \<Rightarrow> string \<Rightarrow> string \<Rightarrow> db \<Rightarrow> db \<times> bool \<times> string option" where
  "featured_booking_submit n e ph dt d =
     (if n = [] \<or> e = [] \<or> ph = [] \<or> dt = [] then (d, True, None)
      else let (d', r) = create_booking_contact (featured_contact_body n e ph dt) d in
           (d', False,
            Some (case r of
                    Success c _ \<Rightarrow> if response_ok c then ''Booking confirmed! You will receive a confirmation email shortly.''
                                   else ''Booking failed: Unknown error''
                  | Failure _ m \<Rightarrow> ''Booking failed: '' @ (if m = [] then ''Unknown error'' else m))))"

text \<open>
  The six cards of the section (\<open>const packages\<close>; the image is a bundled asset and
  is left out), the four type buttons, and the state the buttons and \<open>handleBookNow\<close>
  change.  \<open>handleInputChange\<close> sets one field of the search form by name; the
  inputs only ever pass the five names below.
\<close>

record featured_card =
  fc_amount :: string
  fc_country :: string
  fc_packages :: string
  fc_description :: string

definition featured_cards :: "featured_card list" where
  "featured_cards =
     [\<lparr>fc_amount = ''2400'', fc_country = ''Italy'', fc_packages = ''2'',
       fc_description = ''Explore the beautiful cities of Rome, Florence, and Venice''\<rparr>,
      \<lparr>fc_amount = ''980'', fc_country = ''Mexico'', fc_packages = ''4'',
       fc_description = ''Discover ancient ruins and pristine beaches''\<rparr>,
      \<lparr>fc_amount = ''1200'', fc_country = ''France'', fc_packages = ''3'',
       fc_description = ''Experience the romance of Paris and French countryside''\<rparr>,
      \<lparr>fc_amount = ''500'', fc_country = ''Turkey'', fc_packages = ''3'',
       fc_description = ''Visit historic Istanbul and stunning Cappadocia''\<rparr>,
      \<lparr>fc_amount = ''800'', fc_country = ''India'', fc_packages = ''6'',
       fc_description = ''Journey through diverse cultures and landscapes''\<rparr>,
      \<lparr>fc_amount = ''1999'', fc_country = ''Spain'', fc_packages = ''5'',
       fc_description = ''Enjoy vibrant cities and Mediterranean coast''\<rparr>]"

definition featured_tabs :: "string list" where
  "featured_tabs = [''Hotel'', ''Flight'', ''Car'', ''Ship'']"

record featured_state =
  fs_active :: string
  fs_search :: search_form
  fs_show_modal :: bool
  fs_selected :: "featured_card option"

definition initial_featured_state :: featured_state where
  "initial_featured_state =
     \<lparr>fs_active = ''Hotel'', fs_search = initial_search_form, fs_show_modal = False, fs_selected = None\<rparr>"

definition featured_set_active :: "string \<Rightarrow> featured_state \<Rightarrow> featured_state" where
  "featured_set_active l st = st\<lparr>fs_active := l\<rparr>"

definition featured_input_change :: "string \<Rightarrow> string \<Rightarrow> featured_state \<Rightarrow> featured_state" where
  "featured_input_change field v st =
     st\<lparr>fs_search :=
          (let f = fs_search st in
           if field = ''destination'' then f\<lparr>sf_destination := v\<rparr>
           else if field = ''checkIn'' then f\<lparr>sf_check_in := v\<rparr>
           else if field = ''checkOut'' then f\<lparr>sf_check_out := v\<rparr>
           else if field = ''adults'' then f\<lparr>sf_adults := v\<rparr>
           else if field = ''children'' then f\<lparr>sf_children := v\<rparr>
           else f)\<rparr>"

definition handle_book_now :: "featured_card \<Rightarrow> featured_state \<Rightarrow> featured_state" where
  "handle_book_now c st = st\<lparr>fs_selected := Some c, fs_show_modal := True\<rparr>"

definition search_button_label :: "featured_state \<Rightarrow> string" where
  "search_button_label st = ''Search '' @ fs_active st @ '' Packages''"

text \<open>The modal's heading lines, shown while \<open>showBookingModal && selectedPackage\<close>.\<close>

definition featured_modal_lines :: "featured_state \<Rightarrow> (string \<times> string) option" where
  "featured_modal_lines st =
     (case fs_selected st of
        Some c \<Rightarrow> if fs_show_modal st
                  then Some (fc_country c @ '' - '' @ fc_packages c @ '' Packages'', ''Starting from $'' @ fc_amount c)
                  else None
      | None \<Rightarrow> None)"

section \<open>Properties\<close>

text \<open>
  A filled-in modal stores a pending contact row, yet tells the visitor the booking
  is confirmed; the row is then listed on every user's dashboard.
\<close>

lemma featured_booking_submit_stores:
  assumes "n \<noteq> []" "e \<noteq> []" "ph \<noteq> []" "dt \<noteq> []"
  shows "featured_booking_submit n e ph dt d
         = (snd (insert_contact n e ph dt Pending d), False,
            Some ''Booking confirmed! You will receive a confirmation email shortly.'')"
  using assms
  by (simp add: featured_booking_submit_def create_booking_contact_def featured_contact_body_def js_get_def
      response_ok_def Let_def)

lemma featured_contact_on_dashboards:
  assumes "n \<noteq> []" "e \<noteq> []" "ph \<noteq> []" "dt \<noteq> []"
    and "featured_booking_submit n e ph dt d = (d', m)"
  shows "\<exists>c\<in>set (ud_contacts (load_user_data reg now hdr d' st)).
           contact_name c = n \<and> contact_email c = e \<and> contact_phone c = ph \<and> contact_status c = Pending"
  using assms featured_booking_submit_stores [OF assms(1-4), of d]
  by (auto simp: load_user_data_contacts insert_contact_def Let_def)

text \<open>
  The hard-coded cards agree with the packages \<open>initializeDatabase\<close> seeds: each
  card's country is a sample package's destination, its amount that package's price in
  whole dollars, and its description the beginning of the package's.
\<close>

lemma featured_cards_match_seed:
  "list_all (\<lambda>c. list_ex (\<lambda>f. pf_destination f = fc_country c \<and> js_parse_int (fc_amount c) = Some (pf_price f div 100)
                          \<and> pf_price f mod 100 = 0
                          \<and> take (length (fc_description c)) (pf_description f) = fc_description c)
                  sample_packages)
     featured_cards"
  by code_simp

end
