(* ===== verification/Services.thy ===== *)
theory Services
  imports ClientDashboard Accounts
begin

text \<open>
  The client's service layer, \<open>src/client/src/services\<close>: the token kept in
  \<open>localStorage\<close> and the \<open>Authorization\<close> header \<open>api.js\<close> builds from it; the
  account calls of \<open>authService.js\<close> composed with the server's \<open>routes/auth.js\<close>; and the
  query strings the list services build with \<open>URLSearchParams\<close>, together with the
  parser Express hands them to (\<open>qs\<close>), so that what a route reads can be compared with
  what the page asked for.  A signed token is a string; \<open>sign\<close> is the server's
  \<open>jwt.sign\<close> on a payload, a parameter like the registry of \<open>Auth\<close>.
\<close>

subsection \<open>The stored token (\<open>api.js\<close>)\<close>

text \<open>\<open>localStorage.getItem('token')\<close>: the stored string, if any.\<close>

type_synonym token_store = "string option"

text \<open>\<open>setAuthToken(token)\<close>: a truthy token is stored, anything else removes the entry.\<close>

definition set_auth_token :: "string option \<Rightarrow> token_store" where
  "set_auth_token t = (case t of Some s \<Rightarrow> if s = [] then None else Some s | None \<Rightarrow> None)"

text \<open>\<open>getAuthHeaders()\<close>: the \<open>Authorization\<close> header, present when the stored token is truthy.\<close>

definition get_auth_headers :: "token_store \<Rightarrow> string option" where
  "get_auth_headers tok = (case tok of Some t \<Rightarrow> if t = [] then None else Some (''Bearer '' @ t) | None \<Rightarrow> None)"

text \<open>\<open>authService.isAuthenticated()\<close>: \<open>!!localStorage.getItem('token')\<close>.\<close>

definition is_authenticated :: "token_store \<Rightarrow> bool" where
  "is_authenticated tok = (case tok of Some t \<Rightarrow> t \<noteq> [] | None \<Rightarrow> False)"

subsection \<open>The account calls (\<open>authService.js\<close>)\<close>

text \<open>
  \<open>register\<close> and \<open>login\<close> post the form through \<open>apiRequest\<close>; when the answer carries a
  token it is stored.  The answer is the route's \<open>{user, token}\<close>; a failure throws the
  route's message.  \<open>logout\<close> removes the token.
\<close>

definition auth_service_register ::
  "((ident \<times> int) \<Rightarrow> string) \<Rightarrow> email_lib \<Rightarrow> int \<Rightarrow> js_object \<Rightarrow> db \<Rightarrow> token_store
   \<Rightarrow> db \<times> token_store \<times> (string + user_row \<times> string)" where
  "auth_service_register sign em now body d tok =
     (let (d', r) = register em now body d in
      case api_request r of
        Inl m \<Rightarrow> (d', tok, Inl m)
      | Inr (u, p) \<Rightarrow> (d', if sign p \<noteq> [] then set_auth_token (Some (sign p)) else tok, Inr (u, sign p)))"

definition auth_service_login ::
  "((ident \<times> int) \<Rightarrow> string) \<Rightarrow> email_lib \<Rightarrow> int \<Rightarrow> js_object \<Rightarrow> db \<Rightarrow> token_store
   \<Rightarrow> token_store \<times> (string + user_row \<times> string)" where
  "auth_service_login sign em now body d tok =
     (case api_request (login em now body d) of
        Inl m \<Rightarrow> (tok, Inl m)
      | Inr (u, p) \<Rightarrow> (if sign p \<noteq> [] then set_auth_token (Some (sign p)) else tok, Inr (u, sign p)))"

definition auth_service_logout :: "token_store \<Rightarrow> token_store" where
  "auth_service_logout tok = set_auth_token None"

text \<open>
  A call to a route behind \<open>authenticateToken\<close> with the stored token: the middleware's
  401 or the handler's answer, as \<open>apiRequest\<close> returns it.
\<close>

definition token_call ::
  "token_registry \<Rightarrow> int \<Rightarrow> token_store \<Rightarrow> db \<Rightarrow> (user_row \<Rightarrow> db \<Rightarrow> db \<times> 'a response) \<Rightarrow> db \<times> (string + 'a)" where
  "token_call reg now tok d h =
     (case authenticate_token reg now (get_auth_headers tok) d of
        Inl (c, m) \<Rightarrow> (d, api_request (Failure c m :: 'a response))
      | Inr u \<Rightarrow> let (d', r) = h u d in (d', api_request r))"

text \<open>\<open>getProfile\<close>, \<open>updateProfile\<close> and \<open>changePassword\<close>.\<close>

definition auth_service_get_profile :: "token_registry \<Rightarrow> int \<Rightarrow> token_store \<Rightarrow> db \<Rightarrow> string + user_row" where
  "auth_service_get_profile reg now tok d = snd (token_call reg now tok d (\<lambda>u d. (d, get_profile u d)))"

definition auth_service_update_profile ::
  "token_registry \<Rightarrow> int \<Rightarrow> token_store \<Rightarrow> js_object \<Rightarrow> db \<Rightarrow> db \<times> (string + user_row option)" where
  "auth_service_update_profile reg now tok body d = token_call reg now tok d (\<lambda>u. update_profile u body)"

definition auth_service_change_password ::
  "token_registry \<Rightarrow> int \<Rightarrow> token_store \<Rightarrow> js_object \<Rightarrow> db \<Rightarrow> db \<times> (string + string)" where
  "auth_service_change_password reg now tok body d = token_call reg now tok d (\<lambda>u. change_password u body)"

subsection \<open>Query strings\<close>

text \<open>
  \<open>Object.keys(filters).forEach(key => { if (filters[key]) params.append(key, filters[key]) })\<close>:
  the truthy filters, each key once in first-occurrence order, their values through
  \<open>String(...)\<close>.
\<close>

definition search_params :: "js_object \<Rightarrow> (string \<times> string) list" where
  "search_params f =
     map (\<lambda>k. (k, js_to_string (js_get f k))) (filter (\<lambda>k. js_truthy (js_get f k)) (remdups (map fst f)))"

text \<open>
  \<open>params.toString()\<close>, the \<open>application/x-www-form-urlencoded\<close> serializer: each
  character as UTF-8, the bytes of \<open>*-._\<close>, digits and ASCII letters kept, space as
  \<open>+\<close>, every other byte as \<open>%XY\<close> in upper-case hex; pairs \<open>k=v\<close> joined by \<open>&\<close>.
  A character of the model is a code point below 256, so it has one or two UTF-8 bytes.
\<close>

definition form_safe :: "char \<Rightarrow> bool" where
  "form_safe c \<longleftrightarrow>
     (let k = (of_char c :: nat) in
      (48 \<le> k \<and> k \<le> 57) \<or> (65 \<le> k \<and> k \<le> 90) \<or> (97 \<le> k \<and> k \<le> 122) \<or> k = 42 \<or> k = 45 \<or> k = 46 \<or> k = 95)"

definition hex_char :: "nat \<Rightarrow> char" where
  "hex_char n = (if n < 10 then char_of (48 + n) else char_of (55 + n))"

definition pct_byte :: "nat \<Rightarrow> string" where
  "pct_byte b = [CHR ''%'', hex_char (b div 16), hex_char (b mod 16)]"

definition utf8_bytes :: "char \<Rightarrow> nat list" where
  "utf8_bytes c = (let k = (of_char c :: nat) in if k < 128 then [k] else [192 + k div 64, 128 + k mod 64])"

definition form_encode_char :: "char \<Rightarrow> string" where
  "form_encode_char c =
     (if c = CHR '' '' then ''+'' else if form_safe c then [c] else concat (map pct_byte (utf8_bytes c)))"

definition form_encode :: "string \<Rightarrow> string" where
  "form_encode s = concat (map form_encode_char s)"

fun join_amp :: "string list \<Rightarrow> string" where
  "join_amp [] = []"
| "join_amp [x] = x"
| "join_amp (x # xs) = x @ ''&'' @ join_amp xs"

definition url_query :: "(string \<times> string) list \<Rightarrow> string" where
  "url_query ps = join_amp (map (\<lambda>(k, v). form_encode k @ ''='' @ form_encode v) ps)"

text \<open>
  The endpoint of a list service: \<open>queryString ? `${base}?${queryString}` : base\<close>.
  \<open>bookingService.getMyBookings\<close>, \<open>packageService.getPackages\<close>,
  \<open>reviewService.getPackageReviews\<close> and \<open>reviewService.getMyReviews\<close> each build it
  with their own copy of the loop.
\<close>

definition with_query :: "string \<Rightarrow> js_object \<Rightarrow> string" where
  "with_query base f = (let q = url_query (search_params f) in if q = [] then base else base @ ''?'' @ q)"

definition get_my_bookings_url :: "js_object \<Rightarrow> string" where
  "get_my_bookings_url f = with_query ''/bookings/my-bookings'' f"

definition get_packages_url :: "js_object \<Rightarrow> string" where
  "get_packages_url f = with_query ''/packages'' f"

definition get_package_reviews_url :: "string \<Rightarrow> js_object \<Rightarrow> string" where
  "get_package_reviews_url pid f = with_query (''/reviews/package/'' @ pid) f"

definition get_my_reviews_url :: "js_object \<Rightarrow> string" where
  "get_my_reviews_url f = with_query ''/reviews/my-reviews'' f"

text \<open>
  The server side: Express's default query parser, \<open>qs.parse(str, {allowPrototypes: true})\<close>.
  It first rewrites \<open>%5B\<close> and \<open>%5D\<close> (any case) to brackets, splits on \<open>&\<close> keeping at most
  1000 parts, cuts each part at its first \<open>]=\<close> (after the bracket) or else its first
  \<open>=\<close>, and decodes both sides with \<open>+\<close> as space through \<open>decodeURIComponent\<close>,
  keeping the text as it is when that throws.  Empty keys are dropped.  A key with a
  bracket may become a nested object and a repeated key an array; such a query is not a
  flat list of strings and is \<open>None\<close> here.
\<close>

definition hex_val :: "char \<Rightarrow> nat option" where
  "hex_val c =
     (let k = (of_char c :: nat) in
      if 48 \<le> k \<and> k \<le> 57 then Some (k - 48)
      else if 65 \<le> k \<and> k \<le> 70 then Some (k - 55)
      else if 97 \<le> k \<and> k \<le> 102 then Some (k - 87) else None)"

text \<open>
  \<open>decodeURIComponent\<close>: \<open>%XY\<close> is a byte; a byte below 128 is a character, a lead byte
  \<open>C2\<close> or \<open>C3\<close> with a continuation byte is a character of 128--255; a malformed
  sequence throws (\<open>None\<close>).  Longer sequences decode to code points above 255, outside
  the model's characters, and are \<open>None\<close> as well.
\<close>

fun uri_decode :: "string \<Rightarrow> string option" where
  "uri_decode [] = Some []"
| "uri_decode (c # cs) =
     (if c \<noteq> CHR ''%'' then map_option (Cons c) (uri_decode cs)
      else case cs of
        h1 # h2 # rest \<Rightarrow>
          (case (hex_val h1, hex_val h2) of
             (Some a, Some b) \<Rightarrow>
               if 16 * a + b < 128 then map_option (Cons (char_of (16 * a + b))) (uri_decode rest)
               else if 16 * a + b = 194 \<or> 16 * a + b = 195 then
                 (case rest of
                    p # h3 # h4 # rest' \<Rightarrow>
                      (case (hex_val h3, hex_val h4) of
                         (Some x, Some y) \<Rightarrow>
                           if p = CHR ''%'' \<and> 128 \<le> 16 * x + y \<and> 16 * x + y < 192
                           then map_option (Cons (char_of ((16 * a + b - 192) * 64 + (16 * x + y - 128))))
                                  (uri_decode rest')
                           else None
                       | _ \<Rightarrow> None)
                  | _ \<Rightarrow> None)
               else None
           | _ \<Rightarrow> None)
      | _ \<Rightarrow> None)"

text \<open>\<open>str.replace(/%5B/gi, '[').replace(/%5D/gi, ']')\<close>.\<close>

fun unbracket :: "string \<Rightarrow> string" where
  "unbracket (c1 # c2 # c3 # cs) =
     (if c1 = CHR ''%'' \<and> c2 = CHR ''5'' \<and> (c3 = CHR ''B'' \<or> c3 = CHR ''b'') then CHR ''['' # unbracket cs
      else if c1 = CHR ''%'' \<and> c2 = CHR ''5'' \<and> (c3 = CHR ''D'' \<or> c3 = CHR ''d'') then CHR '']'' # unbracket cs
      else c1 # unbracket (c2 # c3 # cs))"
| "unbracket cs = cs"

text \<open>\<open>utils.decode\<close>: \<open>+\<close> as space, then \<open>decodeURIComponent\<close>, or the text itself when it throws.\<close>

definition plus_to_space :: "char \<Rightarrow> char" where
  "plus_to_space c = (if c = CHR ''+'' then CHR '' '' else c)"

definition qs_decode :: "string \<Rightarrow> string" where
  "qs_decode s = (let s' = map plus_to_space s in case uri_decode s' of Some r \<Rightarrow> r | None \<Rightarrow> s')"

text \<open>\<open>part.indexOf(']=')\<close>.\<close>

fun find_bracket_eq :: "string \<Rightarrow> nat option" where
  "find_bracket_eq (a # b # cs) =
     (if a = CHR '']'' \<and> b = CHR ''='' then Some 0 else map_option Suc (find_bracket_eq (b # cs)))"
| "find_bracket_eq _ = None"

definition qs_pair :: "string \<Rightarrow> string \<times> string" where
  "qs_pair part =
     (let pos = (case find_bracket_eq part of
                   Some i \<Rightarrow> Some (Suc i)
                 | None \<Rightarrow> if CHR ''='' \<in> set part then Some (length (takeWhile (\<lambda>c. c \<noteq> CHR ''='') part)) else None) in
      case pos of
        None \<Rightarrow> (qs_decode part, [])
      | Some p \<Rightarrow> (qs_decode (take p part), qs_decode (drop (Suc p) part)))"

definition qs_parse :: "string \<Rightarrow> (string \<times> string) list option" where
  "qs_parse s =
     (let ps = filter (\<lambda>kv. fst kv \<noteq> []) (map qs_pair (take 1000 (js_split CHR ''&'' (unbracket s)))) in
      if distinct (map fst ps) \<and> list_all (\<lambda>kv. CHR ''['' \<notin> set (fst kv)) ps then Some ps else None)"

text \<open>\<open>req.query\<close> for a request URL: the parse of what follows the first \<open>?\<close>, else \<open>{}\<close>.\<close>

definition express_query :: "string \<Rightarrow> (string \<times> string) list option" where
  "express_query url = (case dropWhile (\<lambda>c. c \<noteq> CHR ''?'') url of [] \<Rightarrow> Some [] | _ # q \<Rightarrow> qs_parse q)"

section \<open>Properties\<close>

lemma js_split_no_sep: "c \<notin> set s \<Longrightarrow> js_split c s = [s]"
  by (induction s) (auto simp: Let_def)

lemma js_split_append_sep: "c \<notin> set s \<Longrightarrow> js_split c (s @ c # t) = s # js_split c t"
  by (induction s) (auto simp: Let_def)

lemma bearer_token_header:
  "t \<noteq> [] \<Longrightarrow> CHR '' '' \<notin> set t \<Longrightarrow> bearer_token (get_auth_headers (Some t)) = Some t"
  using js_split_append_sep [of "CHR '' ''" "''Bearer''" t]
  by (simp add: get_auth_headers_def bearer_token_def js_split_no_sep)

lemma login_Success:
  "login em now body d = Success c (u, p) \<Longrightarrow> c = 200 \<and> p = jwt_sign (user_id u) now"
  by (auto simp: login_def split: sum.splits option.splits bool.splits)

lemma auth_service_login_Inr:
  assumes "auth_service_login sign em now body d tok = (tok', Inr (u, t))" and "t \<noteq> []"
  shows "tok' = Some t \<and> t = sign (jwt_sign (user_id u) now)"
proof -
  obtain c p where "login em now body d = Success c (u, p)" and "t = sign p" and "tok' = Some t"
    using assms
    by (auto simp: auth_service_login_def api_request_def set_auth_token_def
             split: response.splits if_splits prod.splits)
  then show ?thesis using login_Success by blast
qed

lemma login_token_header:
  assumes "auth_service_login sign em now body d tok = (tok', Inr (u, t))" and "t \<noteq> []"
    and "CHR '' '' \<notin> set t" and "reg t = Some (jwt_sign (user_id u) now)"
  shows "authenticate_token reg later (get_auth_headers tok') d'
         = (if now + jwt_lifetime \<le> later then Inl (401, ''Token expired.'')
            else case find_user d' (user_id u) of None \<Rightarrow> Inl (401, ''Invalid token. User not found.'')
                 | Some usr \<Rightarrow> Inr usr)"
  using auth_service_login_Inr [OF assms(1,2)] assms(2-4)
  by (simp add: authenticate_token_def bearer_token_header jwt_verify_def jwt_sign_def split: option.splits)

subsection \<open>The query string round trip\<close>

lemma hex_val_hex_char: "n < 16 \<Longrightarrow> hex_val (hex_char n) = Some n"
  by (simp add: hex_val_def hex_char_def Let_def)

lemma hex_char_inj: "a < 16 \<Longrightarrow> b < 16 \<Longrightarrow> hex_char a = hex_char b \<longleftrightarrow> a = b"
  by (metis hex_val_hex_char option.inject)

lemma hex_char_not_val: "hex_val c = None \<Longrightarrow> n < 16 \<Longrightarrow> hex_char n \<noteq> c"
  using hex_val_hex_char by fastforce

lemma hex_char_consts: "hex_char 5 = CHR ''5''" "hex_char 11 = CHR ''B''" "hex_char 13 = CHR ''D''"
  by (simp_all add: hex_char_def) code_simp+

lemma hex_char_lower: "n < 16 \<Longrightarrow> hex_char n \<noteq> CHR ''b'' \<and> hex_char n \<noteq> CHR ''d''"
proof -
  assume n: "n < 16"
  have vals: "hex_val (CHR ''b'') = Some 11" "hex_val (CHR ''d'') = Some 13" by (simp_all add: hex_val_def)
  have "hex_char 11 \<noteq> CHR ''b''" "hex_char 13 \<noteq> CHR ''d''" by (simp_all add: hex_char_consts)
  then show ?thesis using hex_val_hex_char [OF n] vals by auto
qed

lemma unbracket_Cons: "c \<noteq> CHR ''%'' \<Longrightarrow> unbracket (c # t) = c # unbracket t"
  by (cases t rule: unbracket.cases) auto

lemma hex_char_pct: "n < 16 \<Longrightarrow> hex_char n \<noteq> CHR ''%''"
  by (rule hex_char_not_val) (simp_all add: hex_val_def)

lemma unbracket_pct_byte:
  assumes "b < 256"
  shows "unbracket (pct_byte b @ t)
         = (if b = 91 then CHR ''['' # unbracket t else if b = 93 then CHR '']'' # unbracket t else pct_byte b @ unbracket t)"
proof -
  have lt: "b div 16 < 16" "b mod 16 < 16" using assms by simp_all
  have five: "hex_char (b div 16) = CHR ''5'' \<longleftrightarrow> b div 16 = 5"
    using hex_char_inj [OF lt(1), of 5] by (simp add: hex_char_consts)
  have eleven: "hex_char (b mod 16) = CHR ''B'' \<longleftrightarrow> b mod 16 = 11"
    using hex_char_inj [OF lt(2), of 11] by (simp add: hex_char_consts)
  have thirteen: "hex_char (b mod 16) = CHR ''D'' \<longleftrightarrow> b mod 16 = 13"
    using hex_char_inj [OF lt(2), of 13] by (simp add: hex_char_consts)
  have dm: "\<And>x y. b div 16 = x \<Longrightarrow> b mod 16 = y \<Longrightarrow> b = x * 16 + y"
    by (metis div_mult_mod_eq)
  have n91: "b = 91 \<longleftrightarrow> b div 16 = 5 \<and> b mod 16 = 11"
  proof
    assume "b div 16 = 5 \<and> b mod 16 = 11"
    then show "b = 91" using dm [of 5 11] by simp
  qed simp
  have n93: "b = 93 \<longleftrightarrow> b div 16 = 5 \<and> b mod 16 = 13"
  proof
    assume "b div 16 = 5 \<and> b mod 16 = 13"
    then show "b = 93" using dm [of 5 13] by simp
  qed simp
  have lo: "hex_char (b mod 16) = CHR ''b'' \<longleftrightarrow> False" "hex_char (b mod 16) = CHR ''d'' \<longleftrightarrow> False"
    using hex_char_lower [OF lt(2)] by simp_all
  have "unbracket (pct_byte b @ t)
        = (if hex_char (b div 16) = CHR ''5'' \<and> (hex_char (b mod 16) = CHR ''B'' \<or> hex_char (b mod 16) = CHR ''b'')
           then CHR ''['' # unbracket t
           else if hex_char (b div 16) = CHR ''5'' \<and> (hex_char (b mod 16) = CHR ''D'' \<or> hex_char (b mod 16) = CHR ''d'')
           then CHR '']'' # unbracket t
           else pct_byte b @ unbracket t)"
    using hex_char_pct [OF lt(1)] hex_char_pct [OF lt(2)]
    by (simp only: pct_byte_def append_Cons append_Nil unbracket.simps(1) unbracket_Cons simp_thms)
  also have "\<dots> = (if b = 91 then CHR ''['' # unbracket t else if b = 93 then CHR '']'' # unbracket t else pct_byte b @ unbracket t)"
    by (simp only: five eleven thirteen lo n91 n93 simp_thms)
  finally show ?thesis .
qed

lemma plus_to_space_pct_byte: "b < 256 \<Longrightarrow> map plus_to_space (pct_byte b) = pct_byte b"
proof -
  assume "b < 256"
  then have "b div 16 < 16" "b mod 16 < 16" by simp_all
  then show ?thesis
    using hex_char_not_val [of "CHR ''+''" "b div 16"] hex_char_not_val [of "CHR ''+''" "b mod 16"]
    by (simp add: pct_byte_def plus_to_space_def hex_val_def)
qed

lemma uri_decode_pct_ascii:
  "b < 128 \<Longrightarrow> uri_decode (pct_byte b @ r) = map_option (Cons (char_of b)) (uri_decode r)"
  by (simp add: pct_byte_def hex_val_hex_char)

lemma uri_decode_pct_utf8:
  assumes "L = 194 \<or> L = 195" and "128 \<le> C" and "C < 192"
  shows "uri_decode (pct_byte L @ pct_byte C @ r)
         = map_option (Cons (char_of ((L - 192) * 64 + (C - 128)))) (uri_decode r)"
proof -
  have "L div 16 < 16" "L mod 16 < 16" "C div 16 < 16" "C mod 16 < 16" using assms by auto
  then show ?thesis using assms by (auto simp: pct_byte_def hex_val_hex_char)
qed

lemma form_safe_not: "\<not> form_safe CHR ''%''" "\<not> form_safe CHR ''+''" "\<not> form_safe CHR '' ''"
  by (simp_all add: form_safe_def)

lemma form_encode_char_cases:
  obtains (space) "c = CHR '' ''" "form_encode_char c = ''+''"
  | (safe) "form_safe c" "c \<noteq> CHR ''%''" "c \<noteq> CHR ''+''" "form_encode_char c = [c]"
  | (ascii) "of_char c < (128::nat)" "form_encode_char c = pct_byte (of_char c)"
  | (utf8) "128 \<le> (of_char c :: nat)"
      "form_encode_char c = pct_byte (192 + of_char c div 64) @ pct_byte (128 + of_char c mod 64)"
  using form_safe_not
  by (cases "c = CHR '' ''"; cases "form_safe c"; cases "of_char c < (128::nat)")
     (auto simp: form_encode_char_def utf8_bytes_def Let_def)

lemma utf8_nat_bounds:
  fixes k :: nat
  assumes "128 \<le> k" and "k < 256"
  shows "192 + k div 64 = 194 \<or> 192 + k div 64 = 195"
    and "128 \<le> 128 + k mod 64" and "128 + k mod 64 < 192"
    and "(192 + k div 64 - 192) * 64 + (128 + k mod 64 - 128) = k"
proof -
  have "128 div 64 \<le> k div 64" using assms(1) by (rule div_le_mono)
  moreover have "k div 64 < 4" using assms(2) by (simp add: less_mult_imp_div_less)
  ultimately show "192 + k div 64 = 194 \<or> 192 + k div 64 = 195" by linarith
  show "128 \<le> 128 + k mod 64" "128 + k mod 64 < 192" by simp_all
  show "(192 + k div 64 - 192) * 64 + (128 + k mod 64 - 128) = k" by simp
qed

lemmas utf8_bytes_bounds = utf8_nat_bounds [OF _ nat_of_char_less_256]

lemma unbracket_pct_byte_other:
  "b < 256 \<Longrightarrow> b \<noteq> 91 \<Longrightarrow> b \<noteq> 93 \<Longrightarrow> unbracket (pct_byte b @ t) = pct_byte b @ unbracket t"
  using unbracket_pct_byte [of b t] by simp

lemma unbracket_pct_byte_Nil:
  "b < 256 \<Longrightarrow> b \<noteq> 91 \<Longrightarrow> b \<noteq> 93 \<Longrightarrow> unbracket (pct_byte b) = pct_byte b"
  using unbracket_pct_byte [of b "[]"] by simp

lemma unbracket_form_char:
  "unbracket (form_encode_char c @ t) = unbracket (form_encode_char c) @ unbracket t"
proof (cases c rule: form_encode_char_cases)
  case space
  then show ?thesis by (simp add: unbracket_Cons)
next
  case safe
  then show ?thesis by (simp add: unbracket_Cons)
next
  case ascii
  define k where "k = (of_char c :: nat)"
  have k: "k < 256" unfolding k_def by simp
  have e: "form_encode_char c = pct_byte k" using ascii(2) unfolding k_def .
  show ?thesis
    unfolding e using unbracket_pct_byte [OF k, of t] unbracket_pct_byte [OF k, of "[]"]
    by (cases "k = 91"; cases "k = 93") simp_all
next
  case utf8
  note b = utf8_bytes_bounds [OF utf8(1)]
  define L where "L = 192 + (of_char c :: nat) div 64"
  define C where "C = 128 + (of_char c :: nat) mod 64"
  have L: "L < 256" "L \<noteq> 91" "L \<noteq> 93" using b(1) unfolding L_def by auto
  have C: "C < 256" "C \<noteq> 91" "C \<noteq> 93" using b(2,3) unfolding C_def by auto
  have e: "form_encode_char c = pct_byte L @ pct_byte C" using utf8(2) unfolding L_def C_def .
  show ?thesis
    unfolding e append_assoc
    by (simp only: unbracket_pct_byte_other [OF L] unbracket_pct_byte_other [OF C] unbracket_pct_byte_Nil [OF C]
        append_assoc)
qed

lemma plus_to_space_other: "c \<noteq> CHR ''+'' \<Longrightarrow> plus_to_space c = c"
  by (simp add: plus_to_space_def)

lemma uri_decode_pct_utf8_char:
  assumes "L = 194 \<or> L = 195" and "128 \<le> C" and "C < 192" and "char_of ((L - 192) * 64 + (C - 128)) = c"
  shows "uri_decode (pct_byte L @ pct_byte C @ r) = map_option (Cons c) (uri_decode r)"
  using uri_decode_pct_utf8 [OF assms(1-3), of r] assms(4) by simp

lemma utf8_char_of:
  assumes "128 \<le> (of_char c :: nat)"
  shows "char_of ((192 + of_char c div 64 - 192) * 64 + (128 + of_char c mod 64 - 128) :: nat) = c"
proof -
  have "(char_of ((192 + of_char c div 64 - 192) * 64 + (128 + of_char c mod 64 - 128) :: nat) :: char)
        = char_of (of_char c :: nat)"
    by (rule arg_cong [OF utf8_bytes_bounds(4) [OF assms]])
  also have "\<dots> = c" by (rule char_of_char)
  finally show ?thesis .
qed

lemma decode_form_char:
  "uri_decode (map plus_to_space (unbracket (form_encode_char c)) @ r) = map_option (Cons c) (uri_decode r)"
proof (cases c rule: form_encode_char_cases)
  case space
  then show ?thesis by (simp add: plus_to_space_def)
next
  case safe
  then show ?thesis by (simp add: plus_to_space_other)
next
  case ascii
  have k: "(of_char c :: nat) < 256" by simp
  show ?thesis
  proof (cases "(of_char c :: nat) = 91 \<or> (of_char c :: nat) = 93")
    case True
    have "unbracket (form_encode_char c) = [c]"
    proof -
      have ch: "char_of (91::nat) = CHR ''[''" "char_of (93::nat) = CHR '']''" by code_simp+
      from True show ?thesis
      proof
        assume o: "(of_char c :: nat) = 91"
        have "c = char_of (91::nat)" by (metis o char_of_char)
        then show ?thesis using o ascii(2) unbracket_pct_byte [OF k, of "[]"] ch by simp
      next
        assume o: "(of_char c :: nat) = 93"
        have "c = char_of (93::nat)" by (metis o char_of_char)
        then show ?thesis using o ascii(2) unbracket_pct_byte [OF k, of "[]"] ch by simp
      qed
    qed
    moreover have "c \<noteq> CHR ''%''" "c \<noteq> CHR ''+''" using True by auto
    ultimately show ?thesis by (simp add: plus_to_space_other)
  next
    case False
    then have "unbracket (form_encode_char c) = pct_byte (of_char c)"
      using ascii(2) unbracket_pct_byte_Nil [OF k] by simp
    then show ?thesis
      using ascii(1) uri_decode_pct_ascii [OF ascii(1), of r] plus_to_space_pct_byte [OF k] by simp
  qed
next
  case utf8
  note b = utf8_bytes_bounds [OF utf8(1)]
  define L where "L = 192 + (of_char c :: nat) div 64"
  define C where "C = 128 + (of_char c :: nat) mod 64"
  have L: "L < 256" "L \<noteq> 91" "L \<noteq> 93" using b(1) unfolding L_def by auto
  have C: "C < 256" "C \<noteq> 91" "C \<noteq> 93" using b(2,3) unfolding C_def by auto
  have u: "unbracket (form_encode_char c) = pct_byte L @ pct_byte C"
    unfolding utf8(2) L_def [symmetric] C_def [symmetric]
    by (simp only: unbracket_pct_byte_other [OF L] unbracket_pct_byte_Nil [OF C])
  have "uri_decode (pct_byte L @ pct_byte C @ r) = map_option (Cons c) (uri_decode r)"
    by (rule uri_decode_pct_utf8_char) (use b utf8_char_of [OF utf8(1)] in \<open>simp_all add: L_def C_def\<close>)
  then show ?thesis
    by (simp only: u map_append plus_to_space_pct_byte [OF L(1)] plus_to_space_pct_byte [OF C(1)] append_assoc)
qed

lemma form_encode_Cons: "form_encode (c # s) = form_encode_char c @ form_encode s"
  by (simp add: form_encode_def)

lemma unbracket_form_encode: "unbracket (form_encode s @ t) = unbracket (form_encode s) @ unbracket t"
proof (induction s)
  case Nil
  then show ?case by (simp add: form_encode_def)
next
  case (Cons c s)
  have "unbracket (form_encode (c # s) @ t) = unbracket (form_encode_char c) @ unbracket (form_encode s @ t)"
    by (simp only: form_encode_Cons append_assoc unbracket_form_char)
  also have "\<dots> = unbracket (form_encode (c # s)) @ unbracket t"
    by (simp only: Cons.IH form_encode_Cons unbracket_form_char append_assoc)
  finally show ?case .
qed

lemma decode_form_encode:
  "uri_decode (map plus_to_space (unbracket (form_encode s)) @ r) = map_option ((@) s) (uri_decode r)"
proof (induction s arbitrary: r)
  case Nil
  then show ?case by (simp add: form_encode_def option.map_ident)
next
  case (Cons c s)
  have "unbracket (form_encode (c # s)) = unbracket (form_encode_char c) @ unbracket (form_encode s)"
    by (simp only: form_encode_Cons unbracket_form_char)
  then show ?case
    by (simp add: decode_form_char Cons.IH option.map_comp comp_def)
qed

lemma qs_decode_form_encode: "qs_decode (unbracket (form_encode s)) = s"
  using decode_form_encode [of s "[]"] by (simp add: qs_decode_def)

lemma pct_byte_chars:
  assumes "b < 256" and "x \<in> set (pct_byte b)"
  shows "x = CHR ''%'' \<or> (\<exists>n<16. x = hex_char n)"
proof -
  have lt: "b div 16 < 16" "b mod 16 < 16" using assms(1) by simp_all
  from assms(2) have "x = CHR ''%'' \<or> x = hex_char (b div 16) \<or> x = hex_char (b mod 16)"
    by (simp add: pct_byte_def)
  then show ?thesis using lt by blast
qed

lemma unbracket_form_char_chars:
  assumes "x \<in> set (unbracket (form_encode_char c))"
  shows "form_safe x \<or> x \<in> {CHR ''+'', CHR ''['', CHR '']'', CHR ''%''} \<or> (\<exists>n<16. x = hex_char n)"
proof (cases c rule: form_encode_char_cases)
  case ascii
  define k where "k = (of_char c :: nat)"
  have k: "k < 256" unfolding k_def by simp
  have e: "form_encode_char c = pct_byte k" using ascii(2) unfolding k_def .
  show ?thesis using assms unbracket_pct_byte [OF k, of "[]"] pct_byte_chars [OF k] unfolding e
    by (auto split: if_splits)
next
  case utf8
  note b = utf8_bytes_bounds [OF utf8(1)]
  define L where "L = 192 + (of_char c :: nat) div 64"
  define C where "C = 128 + (of_char c :: nat) mod 64"
  have L: "L < 256" "L \<noteq> 91" "L \<noteq> 93" using b(1) unfolding L_def by auto
  have C: "C < 256" "C \<noteq> 91" "C \<noteq> 93" using b(2,3) unfolding C_def by auto
  have e: "unbracket (form_encode_char c) = pct_byte L @ pct_byte C"
    using utf8(2) unfolding L_def [symmetric] C_def [symmetric]
    by (simp only: unbracket_pct_byte_other [OF L] unbracket_pct_byte_Nil [OF C])
  show ?thesis using assms pct_byte_chars [OF L(1)] pct_byte_chars [OF C(1)] unfolding e by auto
qed (use assms in \<open>auto simp: unbracket_Cons\<close>)

lemma hex_char_no_sep: "n < 16 \<Longrightarrow> hex_char n \<noteq> CHR ''&'' \<and> hex_char n \<noteq> CHR ''=''"
  using hex_char_not_val [of "CHR ''&''" n] hex_char_not_val [of "CHR ''=''" n] by (simp add: hex_val_def)

lemma form_encode_no_sep:
  assumes "x \<in> set (unbracket (form_encode s))"
  shows "x \<noteq> CHR ''&'' \<and> x \<noteq> CHR ''=''"
  using assms
proof (induction s)
  case Nil
  then show ?case by (simp add: form_encode_def)
next
  case (Cons c s)
  have "x \<in> set (unbracket (form_encode_char c)) \<or> x \<in> set (unbracket (form_encode s))"
    using Cons.prems by (simp add: form_encode_Cons unbracket_form_char)
  then show ?case
  proof
    assume "x \<in> set (unbracket (form_encode_char c))"
    then show ?thesis using unbracket_form_char_chars hex_char_no_sep by (fastforce simp: form_safe_def)
  qed (rule Cons.IH)
qed

lemma unbracket_query:
  "unbracket (url_query ps)
   = join_amp (map (\<lambda>(k, v). unbracket (form_encode k) @ CHR ''='' # unbracket (form_encode v)) ps)"
proof (induction ps rule: induct_list012)
  case 1
  then show ?case by (simp add: url_query_def)
next
  case (2 x)
  then show ?case by (cases x) (simp add: url_query_def unbracket_form_encode unbracket_Cons)
next
  case (3 x y zs)
  then show ?case by (cases x) (simp add: url_query_def unbracket_form_encode unbracket_Cons)
qed

lemma js_split_join_amp:
  "(\<And>p. p \<in> set ps \<Longrightarrow> CHR ''&'' \<notin> set p) \<Longrightarrow> ps \<noteq> [] \<Longrightarrow> js_split CHR ''&'' (join_amp ps) = ps"
proof (induction ps rule: induct_list012)
  case (2 x)
  then show ?case by (simp add: js_split_no_sep)
next
  case (3 x y zs)
  then show ?case by (simp add: js_split_append_sep)
qed simp

lemma find_bracket_eq_Some:
  "find_bracket_eq xs = Some i \<Longrightarrow> Suc i < length xs \<and> xs ! Suc i = CHR ''=''"
  by (induction xs arbitrary: i rule: find_bracket_eq.induct) (auto split: if_splits)

lemma qs_pair_split:
  assumes "CHR ''='' \<notin> set K" and "CHR ''='' \<notin> set V"
  shows "qs_pair (K @ CHR ''='' # V) = (qs_decode K, qs_decode V)"
proof (cases "find_bracket_eq (K @ CHR ''='' # V)")
  case None
  have "takeWhile (\<lambda>c. c \<noteq> CHR ''='') (K @ CHR ''='' # V) = K"
    using assms(1) by (induction K) auto
  then show ?thesis using None by (simp add: qs_pair_def)
next
  case (Some i)
  note f = find_bracket_eq_Some [OF Some]
  have "Suc i = length K"
  proof (rule ccontr)
    assume ne: "Suc i \<noteq> length K"
    show False
    proof (cases "Suc i < length K")
      case True
      then show False using f assms(1) nth_mem [OF True] by (simp add: nth_append)
    next
      case False
      then have "length K < Suc i" using ne by simp
      then obtain j where j: "Suc i = Suc (length K + j)" using less_imp_Suc_add by blast
      have "(K @ CHR ''='' # V) ! (length K + Suc j) = V ! j" by (simp only: nth_append_length_plus nth_Cons_Suc)
      then have "(K @ CHR ''='' # V) ! Suc i = V ! j" using j by simp
      moreover have "j < length V" using f j by simp
      ultimately show False using f assms(2) nth_mem by metis
    qed
  qed
  then show ?thesis using Some by (simp add: qs_pair_def)
qed

lemma qs_pair_part:
  "qs_pair (unbracket (form_encode k) @ CHR ''='' # unbracket (form_encode v)) = (k, v)"
  using qs_pair_split [of "unbracket (form_encode k)" "unbracket (form_encode v)"] form_encode_no_sep
  by (auto simp: qs_decode_form_encode)

lemma qs_parse_url_query:
  assumes "ps \<noteq> []" and "distinct (map fst ps)" and "list_all (\<lambda>k. k \<noteq> [] \<and> CHR ''['' \<notin> set k) (map fst ps)"
    and "length ps \<le> 1000"
  shows "qs_parse (url_query ps) = Some ps"
proof -
  define part where "part = (\<lambda>(k, v). unbracket (form_encode k) @ CHR ''='' # unbracket (form_encode v))"
  have split: "js_split CHR ''&'' (unbracket (url_query ps)) = map part ps"
    unfolding unbracket_query part_def
    by (rule js_split_join_amp) (auto dest: form_encode_no_sep simp: assms(1))
  have pairs: "map (qs_pair \<circ> part) ps = ps"
    by (rule map_idI) (simp add: part_def qs_pair_part case_prod_beta)
  have filt: "filter (\<lambda>kv. fst kv \<noteq> []) ps = ps"
    by (rule filter_True) (use assms(3) in \<open>auto simp: list_all_iff\<close>)
  have brk: "list_all (\<lambda>kv. CHR ''['' \<notin> set (fst kv)) ps"
    using assms(3) by (auto simp: list_all_iff)
  show ?thesis
    using assms(2,4) by (simp add: qs_parse_def Let_def split pairs filt brk)
qed

lemma search_params_keys:
  "map fst (search_params f) = filter (\<lambda>k. js_truthy (js_get f k)) (remdups (map fst f))"
  by (simp add: search_params_def comp_def)

lemma url_query_Nil_iff: "url_query ps = [] \<longleftrightarrow> ps = []"
  by (induction ps rule: induct_list012) (auto simp: url_query_def)

end
