(* ===== verification/ClientUI.thy ===== *)
theory ClientUI
  imports ClientContact Services
begin

text \<open>
  The remaining interactive components of the React client: the navigation header
  (\<open>components/Header.jsx\<close>) as a state machine over its four flags, the links of its
  user menu, the newsletter form (\<open>components/Newsletter.jsx\<close>), the services section
  (\<open>components/Services.jsx\<close>), the profile page (\<open>pages/UserProfile.jsx\<close>) and the
  review modal (\<open>components/ReviewModal.jsx\<close>).  The authentication context the header
  and the profile page read (\<open>contexts/AuthContext\<close>) is not part of the repository: its
  \<open>logout\<close> and \<open>updateProfile\<close> are parameters, as is the review modal's \<open>onSubmit\<close>.
  Timers are events of their own.
\<close>

subsection \<open>The header (\<open>Header.jsx\<close>)\<close>

record header_state =
  hd_is_open :: bool
  hd_show_login :: bool
  hd_show_register :: bool
  hd_show_user_menu :: bool

definition initial_header :: header_state where
  "initial_header = \<lparr>hd_is_open = False, hd_show_login = False, hd_show_register = False, hd_show_user_menu = False\<rparr>"

text \<open>
  The header's handlers: \<open>toggleMenu\<close>, \<open>handleLogout\<close> (the context's \<open>logout\<close>, then the
  menu closes), \<open>openLoginModal\<close>, \<open>openRegisterModal\<close> (also the modals'
  \<open>onSwitchToRegister\<close>/\<open>onSwitchToLogin\<close>), \<open>closeModals\<close> (the modals' \<open>onClose\<close>),
  the user button, a link of the user menu, and a link of the mobile navigation (which
  calls \<open>toggleMenu\<close>).
\<close>

datatype header_event =
  ToggleMenu | HandleLogout | OpenLoginModal | OpenRegisterModal | CloseModals
  | ToggleUserMenu | UserMenuLink | MobileNavLink

fun header_step :: "header_event \<Rightarrow> header_state \<Rightarrow> header_state" where
  "header_step ToggleMenu s = s\<lparr>hd_is_open := \<not> hd_is_open s\<rparr>"
| "header_step HandleLogout s = s\<lparr>hd_show_user_menu := False\<rparr>"
| "header_step OpenLoginModal s = s\<lparr>hd_show_login := True, hd_show_register := False\<rparr>"
| "header_step OpenRegisterModal s = s\<lparr>hd_show_register := True, hd_show_login := False\<rparr>"
| "header_step CloseModals s = s\<lparr>hd_show_login := False, hd_show_register := False\<rparr>"
| "header_step ToggleUserMenu s = s\<lparr>hd_show_user_menu := \<not> hd_show_user_menu s\<rparr>"
| "header_step UserMenuLink s = s\<lparr>hd_show_user_menu := False\<rparr>"
| "header_step MobileNavLink s = s\<lparr>hd_is_open := \<not> hd_is_open s\<rparr>"

text \<open>The states the header reaches from its initial state by any sequence of events.\<close>

inductive header_reachable :: "header_state \<Rightarrow> bool" where
  init: "header_reachable initial_header"
| step: "header_reachable s \<Longrightarrow> header_reachable (header_step e s)"

text \<open>\<open>role ENUM('user', 'admin')\<close>: the text the server sends as \<open>user.role\<close>.\<close>

fun role_name :: "role \<Rightarrow> string" where
  "role_name RoleUser = ''user''"
| "role_name RoleAdmin = ''admin''"

text \<open>The user menu's links: dashboard, profile, and the admin panel when \<open>user?.role === 'admin'\<close>.\<close>

definition user_menu_links :: "string option \<Rightarrow> string list" where
  "user_menu_links r = [''/dashboard'', ''/profile''] @ (if r = Some ''admin'' then [''/admin''] else [])"

subsection \<open>The newsletter form (\<open>Newsletter.jsx\<close>)\<close>

record newsletter_state =
  nl_email :: string
  nl_subscribed :: bool
  nl_loading :: bool
  nl_error :: string

definition initial_newsletter :: newsletter_state where
  "initial_newsletter = \<lparr>nl_email = [], nl_subscribed = False, nl_loading = False, nl_error = []\<rparr>"

text \<open>\<open>validateEmail\<close>: the same pattern as the contact form's.\<close>

definition newsletter_validate_email :: "string \<Rightarrow> bool" where
  "newsletter_validate_email s = email_regex s"

text \<open>
  \<open>handleSubmit\<close>: an empty or malformed address is an error; otherwise, after a simulated
  delay, the form reports a subscription and clears the address.  No request is sent.
\<close>

definition newsletter_submit :: "newsletter_state \<Rightarrow> newsletter_state" where
  "newsletter_submit s =
     (if nl_email s = [] then s\<lparr>nl_error := ''Please enter your email address''\<rparr>
      else if \<not> newsletter_validate_email (nl_email s) then s\<lparr>nl_error := ''Please enter a valid email address''\<rparr>
      else s\<lparr>nl_error := [], nl_subscribed := True, nl_email := [], nl_loading := False\<rparr>)"

text \<open>The timer five seconds later.\<close>

definition newsletter_reset :: "newsletter_state \<Rightarrow> newsletter_state" where
  "newsletter_reset s = s\<lparr>nl_subscribed := False\<rparr>"

subsection \<open>The services section (\<open>Services.jsx\<close>)\<close>

record services_view =
  sv_selected :: "string option"
  sv_show_modal :: bool

definition handle_service_click :: "string \<Rightarrow> services_view \<Rightarrow> services_view" where
  "handle_service_click t st = st\<lparr>sv_selected := Some t, sv_show_modal := True\<rparr>"

text \<open>\<open>handleBookService\<close>: an alert and the modal closes; nothing is sent.\<close>

definition handle_book_service :: "services_view \<Rightarrow> services_view \<times> string option" where
  "handle_book_service st =
     (case sv_selected st of
        None \<Rightarrow> (st, None)
      | Some t \<Rightarrow> (st\<lparr>sv_show_modal := False\<rparr>,
                   Some (''Booking '' @ t @ '' service! Our team will contact you shortly.'')))"

subsection \<open>The profile page (\<open>UserProfile.jsx\<close>)\<close>

record profile_view =
  pv_editing :: bool
  pv_name :: string
  pv_email :: string
  pv_loading :: bool
  pv_message :: string
  pv_error :: string

text \<open>The effect on \<open>[user]\<close>: the form takes the user's name and e-mail.\<close>

definition profile_from_user :: "user_row option \<Rightarrow> profile_view \<Rightarrow> profile_view" where
  "profile_from_user u st =
     (case u of None \<Rightarrow> st | Some usr \<Rightarrow> st\<lparr>pv_name := user_name usr, pv_email := user_email usr\<rparr>)"

definition profile_handle_change :: "string \<Rightarrow> string \<Rightarrow> profile_view \<Rightarrow> profile_view" where
  "profile_handle_change field v st =
     (if field = ''name'' then st\<lparr>pv_name := v\<rparr> else if field = ''email'' then st\<lparr>pv_email := v\<rparr> else st)"

text \<open>
  \<open>handleSubmit\<close> with the context's \<open>updateProfile(formData)\<close>, which answers or throws
  a message.
\<close>

definition profile_handle_submit ::
  "(js_object \<Rightarrow> 'd \<Rightarrow> 'd \<times> (string + 'a)) \<Rightarrow> profile_view \<Rightarrow> 'd \<Rightarrow> 'd \<times> profile_view" where
  "profile_handle_submit update st d =
     (let (d', r) = update [(''name'', JStr (pv_name st)), (''email'', JStr (pv_email st))] d in
      (d', case r of
             Inr _ \<Rightarrow> st\<lparr>pv_message := ''Profile updated successfully!'', pv_error := [], pv_editing := False,
                         pv_loading := False\<rparr>
           | Inl m \<Rightarrow> st\<lparr>pv_message := [], pv_error := (if m = [] then ''Failed to update profile'' else m),
                         pv_loading := False\<rparr>))"

subsection \<open>The review modal (\<open>ReviewModal.jsx\<close>)\<close>

record review_modal =
  rm_rating :: int
  rm_comment :: string
  rm_loading :: bool
  rm_error :: string

definition initial_review_modal :: review_modal where
  "initial_review_modal = \<lparr>rm_rating = 5, rm_comment = [], rm_loading = False, rm_error = []\<rparr>"

text \<open>The select's options \<open>[5,4,3,2,1]\<close>; choosing one sets \<open>Number(e.target.value)\<close>.\<close>

definition rating_options :: "int list" where
  "rating_options = [5, 4, 3, 2, 1]"

definition review_modal_select :: "int \<Rightarrow> review_modal \<Rightarrow> review_modal" where
  "review_modal_select n st = (if n \<in> set rating_options then st\<lparr>rm_rating := n\<rparr> else st)"

text \<open>
  \<open>handleSubmit\<close>: \<open>onSubmit({rating, comment})\<close>; on success the modal closes
  (\<open>True\<close>), otherwise it shows a fixed error.
\<close>

definition review_modal_submit ::
  "(js_object \<Rightarrow> 'd \<Rightarrow> 'd \<times> (string + 'a)) \<Rightarrow> review_modal \<Rightarrow> 'd \<Rightarrow> 'd \<times> review_modal \<times> bool" where
  "review_modal_submit on_submit st d =
     (let (d', r) = on_submit [(''rating'', JNum (rm_rating st)), (''comment'', JStr (rm_comment st))] d in
      case r of
        Inr _ \<Rightarrow> (d', st\<lparr>rm_loading := False, rm_error := []\<rparr>, True)
      | Inl _ \<Rightarrow> (d', st\<lparr>rm_loading := False, rm_error := ''Failed to submit review.''\<rparr>, False))"

subsection \<open>The popular packages list (\<open>Popular.jsx\<close>)\<close>

text \<open>
  \<open>fetchPopularPackages\<close>: \<open>packageService.getPopularPackages(6)\<close>, that is
  \<open>GET /api/packages/popular/6\<close>; the list on success, the error text otherwise.
\<close>

definition fetch_popular_packages :: "db \<Rightarrow> (package_summary \<times> nat) list option \<times> string option" where
  "fetch_popular_packages d =
     (case api_request (popular_packages ''6'' d) of
        Inr ps \<Rightarrow> (Some ps, None)
      | Inl _ \<Rightarrow> (None, Some ''Failed to load popular packages''))"

section \<open>Properties\<close>

text \<open>The login and register modals are never shown together, whatever the user clicks.\<close>

lemma header_step_modals:
  "\<not> (hd_show_login s \<and> hd_show_register s) \<Longrightarrow> \<not> (hd_show_login (header_step e s) \<and> hd_show_register (header_step e s))"
  by (cases e) simp_all

lemma header_reachable_one_modal: "header_reachable s \<Longrightarrow> \<not> (hd_show_login s \<and> hd_show_register s)"
  by (induction rule: header_reachable.induct) (simp_all add: initial_header_def header_step_modals)

text \<open>The reachable header states are exactly those of the event sequences.\<close>

lemma header_reachable_events: "header_reachable s \<longleftrightarrow> (\<exists>es. s = fold header_step es initial_header)"
proof
  assume "header_reachable s"
  then show "\<exists>es. s = fold header_step es initial_header"
  proof (induction rule: header_reachable.induct)
    case init
    show ?case by (rule exI [of _ "[]"]) simp
  next
    case (step s e)
    then obtain es where "s = fold header_step es initial_header" by blast
    then show ?case by (intro exI [of _ "es @ [e]"]) simp
  qed
next
  assume "\<exists>es. s = fold header_step es initial_header"
  then obtain es where s: "s = fold header_step es initial_header" by blast
  have "header_reachable (fold header_step es t)" if "header_reachable t" for t
    using that by (induction es arbitrary: t) (simp_all add: header_reachable.step)
  then show "header_reachable s" unfolding s by (simp add: header_reachable.init)
qed

text \<open>The admin panel link is shown to exactly the users \<open>requireAdmin\<close> lets through.\<close>

lemma admin_link_iff_require_admin:
  "''/admin'' \<in> set (user_menu_links (Some (role_name (user_role u)))) \<longleftrightarrow> require_admin u = Inr u"
  by (cases "user_role u") (simp_all add: user_menu_links_def require_admin_def)

text \<open>A subscription is reported for every well-formed address, and nothing is stored anywhere.\<close>

lemma newsletter_submit_subscribes:
  "nl_email s \<noteq> [] \<Longrightarrow> email_regex (nl_email s) \<Longrightarrow>
   newsletter_submit s = s\<lparr>nl_error := [], nl_subscribed := True, nl_email := [], nl_loading := False\<rparr>"
  by (simp add: newsletter_submit_def newsletter_validate_email_def)

text \<open>The review modal only ever holds a rating of 1 to 5, and its body lacks the package id.\<close>

lemma review_modal_select_rating:
  "rm_rating st \<in> {1..5} \<Longrightarrow> rm_rating (review_modal_select n st) \<in> {1..5}"
  by (auto simp: review_modal_select_def rating_options_def)

lemma review_modal_body_rejected:
  "snd (snd (review_modal_submit (\<lambda>b d. let (d', r) = route_create_review usr b d in (d', api_request r)) st d))
   = False
   \<and> fst (review_modal_submit (\<lambda>b d. let (d', r) = route_create_review usr b d in (d', api_request r)) st d) = d"
  by (simp add: review_modal_submit_def route_create_review_def validate_review_def js_get_def api_request_def int_in_def)

text \<open>The section shows the six most booked packages, or all of them when there are fewer.\<close>

lemma fetch_popular_packages_six:
  "fetch_popular_packages d = (Some (take 6 (sort_key (\<lambda>(ps, n). (- int n, - ps_average ps))
      (map (\<lambda>p. (package_summary d p, booking_count d (package_id p))) (packages d)))), None)"
proof -
  have "popular_limit ''6'' = 6"
    by (simp add: popular_limit_def js_parse_int_def js_space_def parse_nat_def digit_val_def)
  then show ?thesis by (simp add: fetch_popular_packages_def popular_packages_def api_request_def Let_def)
qed

end
