(* ===== verification/Server.thy ===== *)
theory Server
  imports AdminClient
begin

text \<open>
  What \<open>src/server/server.js\<close> puts around the routers, and the start-up helpers of
  \<open>src/server/config/database.js\<close>: the configuration read from the environment
  (\<open>process.env.X || default\<close>), the CORS origins, the per-client rate limiter mounted
  on \<open>/api/\<close>, the info, health and catch-all answers, and \<open>startServer\<close>, which
  tests the connection and the tables before it listens.
\<close>

section \<open>Configuration from the environment\<close>

record server_env =
  env_node_env :: "string option"
  env_port :: "string option"
  env_rate_window :: "string option"
  env_rate_max :: "string option"
  env_db_host :: "string option"
  env_db_user :: "string option"
  env_db_password :: "string option"
  env_db_name :: "string option"
  env_db_port :: "string option"

text \<open>\<open>process.env.X || d\<close>: an unset or empty variable gives the default.\<close>

definition env_or :: "string option \<Rightarrow> string \<Rightarrow> string" where
  "env_or v dflt = (case v of Some s \<Rightarrow> if s \<noteq> [] then s else dflt | None \<Rightarrow> dflt)"

text \<open>\<open>parseInt(process.env.X) || d\<close>: \<open>NaN\<close> and \<open>0\<close> are both falsy.\<close>

definition env_int_or :: "string option \<Rightarrow> int \<Rightarrow> int" where
  "env_int_or v dflt =
     (case v of None \<Rightarrow> dflt
      | Some s \<Rightarrow> (case js_parse_int s of Some n \<Rightarrow> if n = 0 then dflt else n | None \<Rightarrow> dflt))"

text \<open>\<open>dbConfig\<close> of \<open>database.js\<close>.\<close>

record db_config =
  cfg_host :: string
  cfg_user :: string
  cfg_password :: string
  cfg_database :: string
  cfg_port :: string
  cfg_connection_limit :: nat

definition db_config_of :: "server_env \<Rightarrow> db_config" where
  "db_config_of e =
     \<lparr>cfg_host = env_or (env_db_host e) ''localhost'', cfg_user = env_or (env_db_user e) ''root'',
      cfg_password = env_or (env_db_password e) [], cfg_database = env_or (env_db_name e) ''wavv_travel'',
      cfg_port = env_or (env_db_port e) ''3306'', cfg_connection_limit = 10\<rparr>"

definition server_port :: "server_env \<Rightarrow> string" where
  "server_port e = env_or (env_port e) ''5000''"

section \<open>CORS\<close>

text \<open>The \<open>origin\<close> option: an array, so a request's \<open>Origin\<close> is allowed when it is one of them.\<close>

definition dev_origins :: "string list" where
  "dev_origins =
     [''http://localhost:3000'', ''http://localhost:3001'', ''http://localhost:3002'', ''http://localhost:5173'',
      ''http://127.0.0.1:5173'', ''http://127.0.0.1:3000'', ''http://127.0.0.1:3001'', ''http://127.0.0.1:3002'',
      ''http://192.168.56.1:3000'', ''http://192.168.56.1:3001'', ''http://192.168.56.1:3002'',
      ''http://192.168.56.1:5173'']"

definition cors_origins :: "server_env \<Rightarrow> string list" where
  "cors_origins e = (if env_node_env e = Some ''production'' then [''https://yourdomain.com''] else dev_origins)"

definition cors_methods :: "string list" where
  "cors_methods = [''GET'', ''POST'', ''PUT'', ''DELETE'', ''PATCH'', ''OPTIONS'']"

definition cors_allowed_headers :: "string list" where
  "cors_allowed_headers = [''Content-Type'', ''Authorization'']"

definition cors_allows :: "server_env \<Rightarrow> string \<Rightarrow> bool" where
  "cors_allows e origin \<longleftrightarrow> origin \<in> set (cors_origins e)"

section \<open>The rate limiter\<close>

text \<open>
  \<open>rateLimit({ windowMs, max, message })\<close> on \<open>/api/\<close>.  The limiter keeps, per
  client key (\<open>req.ip\<close>), a hit count and the time its window ends (milliseconds); a
  request at or after that time starts a new window of \<open>windowMs\<close>.  The request is
  counted, and one whose count exceeds \<open>max\<close> is answered 429 with the message and
  goes no further.
\<close>

definition rate_limit_window :: "server_env \<Rightarrow> int" where
  "rate_limit_window e = env_int_or (env_rate_window e) (15 * 60 * 1000)"

definition rate_limit_max :: "server_env \<Rightarrow> int" where
  "rate_limit_max e = env_int_or (env_rate_max e) 1000"

type_synonym rl_store = "string \<Rightarrow> (nat \<times> int) option"

definition rl_increment :: "int \<Rightarrow> string \<Rightarrow> int \<Rightarrow> rl_store \<Rightarrow> nat \<times> rl_store" where
  "rl_increment w ip now s =
     (let (h, r) = (case s ip of Some (n, r) \<Rightarrow> if now < r then (n, r) else (0, now + w) | None \<Rightarrow> (0, now + w)) in
      (Suc h, s(ip \<mapsto> (Suc h, r))))"

definition rate_limit_message :: string where
  "rate_limit_message = ''Too many requests from this IP, please try again later.''"

definition rate_limit :: "server_env \<Rightarrow> string \<Rightarrow> int \<Rightarrow> rl_store \<Rightarrow> rl_store \<times> unit gate" where
  "rate_limit e ip now s =
     (let (h, s') = rl_increment (rate_limit_window e) ip now s in
      (s', if rate_limit_max e < int h then Inl (429, rate_limit_message) else Inr ()))"

text \<open>Requests from one client at the given times, in order, through the limiter.\<close>

fun rate_limit_seq :: "server_env \<Rightarrow> string \<Rightarrow> int list \<Rightarrow> rl_store \<Rightarrow> rl_store \<times> unit gate list" where
  "rate_limit_seq e ip [] s = (s, [])"
| "rate_limit_seq e ip (t # ts) s =
     (let (s', g) = rate_limit e ip t s; (s'', gs) = rate_limit_seq e ip ts s' in (s'', g # gs))"

section \<open>Answers outside the routers\<close>

definition api_endpoints :: "string list" where
  "api_endpoints = [''/api/health'', ''/api/auth'', ''/api/packages'', ''/api/bookings'', ''/api/reviews'',
                    ''/api/admin'', ''/api/contact'', ''/api/payment'']"

definition api_info :: "string \<Rightarrow> json" where
  "api_info ts =
     JObj [(''status'', JAtom (JStr ''OK'')), (''message'', JAtom (JStr ''Welcome to the Wavv Travel API'')),
           (''endpoints'', JArr (map (JAtom \<circ> JStr) api_endpoints)), (''timestamp'', JAtom (JStr ts))]"

definition api_health :: "string \<Rightarrow> json" where
  "api_health ts =
     JObj [(''status'', JAtom (JStr ''OK'')), (''message'', JAtom (JStr ''Wavv Travel API is running'')),
           (''timestamp'', JAtom (JStr ts))]"

definition route_not_found :: "string \<Rightarrow> string \<Rightarrow> nat \<times> json" where
  "route_not_found meth url =
     (404, JObj [(''error'', JAtom (JStr ''Route not found'')), (''message'', JAtom (JStr (''Cannot '' @ meth @ '' '' @ url)))])"

section \<open>Start-up\<close>

text \<open>
  The MySQL server as \<open>startServer\<close> sees it: reachable or not, and the rows of
  \<open>INFORMATION_SCHEMA.TABLES\<close> as (schema, table) pairs.
\<close>

record mysql_server =
  ms_reachable :: bool
  ms_tables :: "(string \<times> string) list"

definition required_tables :: "string list" where
  "required_tables = [''users'', ''packages'', ''bookings'', ''reviews'', ''booking_contacts'']"

text \<open>\<open>testConnection\<close>: \<open>False\<close> is its \<open>process.exit(1)\<close>.\<close>

definition test_connection :: "mysql_server \<Rightarrow> bool" where
  "test_connection m = ms_reachable m"

text \<open>\<open>checkTables\<close>: fewer than five of the required tables in the schema, or an error, is \<open>false\<close>.\<close>

definition check_tables :: "server_env \<Rightarrow> mysql_server \<Rightarrow> bool" where
  "check_tables e m =
     (ms_reachable m \<and>
      \<not> length (filter (\<lambda>(sc, t). sc = env_or (env_db_name e) ''wavv_travel'' \<and> t \<in> set required_tables)
                 (ms_tables m)) < 5)"

datatype start_outcome = StartExit nat | StartListening string

definition start_server :: "server_env \<Rightarrow> mysql_server \<Rightarrow> start_outcome" where
  "start_server e m =
     (if \<not> test_connection m then StartExit 1
      else if \<not> check_tables e m then StartExit 1
      else StartListening (server_port e))"

section \<open>Properties\<close>

lemma env_int_or_falsy:
  "js_parse_int s = Some 0 \<or> js_parse_int s = None \<Longrightarrow> env_int_or (Some s) d = d"
  by (auto simp: env_int_or_def)

lemma rl_increment_live:
  "s ip = Some (n, r) \<Longrightarrow> now < r \<Longrightarrow> rl_increment w ip now s = (Suc n, s(ip \<mapsto> (Suc n, r)))"
  by (simp add: rl_increment_def)

lemma rl_increment_fresh:
  "(\<forall>n r. s ip = Some (n, r) \<longrightarrow> r \<le> now) \<Longrightarrow> rl_increment w ip now s = (1, s(ip \<mapsto> (1, now + w)))"
  by (cases "s ip") (auto simp: rl_increment_def)

lemma rate_limit_seq_live:
  assumes "s ip = Some (n, r)" "\<forall>t\<in>set ts. t < r"
  shows "snd (rate_limit_seq e ip ts s) =
           map (\<lambda>k. if rate_limit_max e < int (n + k + 1) then Inl (429, rate_limit_message) else Inr ()) [0..<length ts]"
  using assms
proof (induction ts arbitrary: n s)
  case Nil
  then show ?case by simp
next
  case (Cons t ts)
  let ?s' = "s(ip \<mapsto> (Suc n, r))"
  have "snd (rate_limit_seq e ip ts ?s') =
          map (\<lambda>k. if rate_limit_max e < int (Suc n + k + 1) then Inl (429, rate_limit_message) else Inr ()) [0..<length ts]"
    using Cons.prems by (intro Cons.IH) auto
  then show ?case
    using Cons.prems
    by (simp add: rate_limit_def rl_increment_live Let_def split_def upt_conv_Cons map_Suc_upt [symmetric] del: upt_Suc)
qed

lemma map_threshold_replicate:
  "map (\<lambda>k. if m < int (k + 1) then b else a) [0..<L] = replicate (min L (nat m)) a @ replicate (L - nat m) b"
proof (induction L)
  case 0
  then show ?case by simp
next
  case (Suc L)
  show ?case
  proof (cases "L < nat m")
    case True
    then have "\<not> m < int (L + 1)" "min (Suc L) (nat m) = Suc (min L (nat m))" "Suc L - nat m = 0" "L - nat m = 0"
      by linarith+
    with Suc.IH show ?thesis by (simp add: replicate_append_same)
  next
    case False
    then have "m < int (L + 1)" "min (Suc L) (nat m) = min L (nat m)" "Suc L - nat m = Suc (L - nat m)"
      by linarith+
    with Suc.IH show ?thesis by (simp add: replicate_append_same)
  qed
qed


text \<open>
  A client with no live window gets, for a first request at \<open>t\<close> and any further
  requests before \<open>t + windowMs\<close>, exactly \<open>max\<close> answers through and 429 for the rest.
\<close>

lemma rate_limit_seq_window:
  assumes "\<forall>n r. s ip = Some (n, r) \<longrightarrow> r \<le> t" "\<forall>t'\<in>set ts. t' < t + rate_limit_window e"
  shows "snd (rate_limit_seq e ip (t # ts) s) =
           replicate (min (Suc (length ts)) (nat (rate_limit_max e))) (Inr ()) @
           replicate (Suc (length ts) - nat (rate_limit_max e)) (Inl (429, rate_limit_message))"
proof -
  let ?s' = "s(ip \<mapsto> (1, t + rate_limit_window e))"
  let ?f = "\<lambda>k. if rate_limit_max e < int (k + 1) then Inl (429, rate_limit_message) else Inr ()"
  have first: "rate_limit e ip t s = (?s', ?f 0)"
    using rl_increment_fresh [where s = s and ip = ip and now = t, OF assms(1)] by (simp add: rate_limit_def)
  have "snd (rate_limit_seq e ip ts ?s') = map (\<lambda>k. ?f (Suc k)) [0..<length ts]"
    using rate_limit_seq_live [of ?s' ip 1 "t + rate_limit_window e" ts e] assms(2) by simp
  then have "snd (rate_limit_seq e ip (t # ts) s) = map ?f [0..<Suc (length ts)]"
    using first by (simp add: split_def upt_conv_Cons map_Suc_upt [symmetric] del: upt_Suc)
  then show ?thesis
    using map_threshold_replicate [of "rate_limit_max e" "Inl (429, rate_limit_message)" "Inr ()" "Suc (length ts)"]
    by simp
qed

lemma rate_limit_default_max: "env_rate_max e = None \<Longrightarrow> rate_limit_max e = 1000"
  by (simp add: rate_limit_max_def env_int_or_def)

lemma cors_production_origins:
  "env_node_env e = Some ''production'' \<Longrightarrow> cors_allows e origin \<longleftrightarrow> origin = ''https://yourdomain.com''"
  by (simp add: cors_allows_def cors_origins_def)

text \<open>
  With the rows of \<open>INFORMATION_SCHEMA.TABLES\<close> distinct, \<open>checkTables\<close> succeeds
  exactly when the server is reachable and all five tables are in the configured schema.
\<close>

lemma check_tables_iff:
  assumes "distinct (ms_tables m)"
  shows "check_tables e m \<longleftrightarrow>
           ms_reachable m \<and> (\<forall>t\<in>set required_tables. (cfg_database (db_config_of e), t) \<in> set (ms_tables m))"
proof -
  define sc where "sc = cfg_database (db_config_of e)"
  define F where "F = filter (\<lambda>(x, t). x = sc \<and> t \<in> set required_tables) (ms_tables m)"
  have sub: "set F \<subseteq> Pair sc ` set required_tables" by (auto simp: F_def)
  have c5: "card (Pair sc ` set required_tables) = 5" by (simp add: required_tables_def)
  have "distinct F" using assms by (simp add: F_def)
  then have len: "length F = card (set F)" by (simp add: distinct_card)
  have le: "card (set F) \<le> 5" using card_mono [OF _ sub] c5 by simp
  have "(\<not> length F < 5) \<longleftrightarrow> set F = Pair sc ` set required_tables"
  proof
    assume "\<not> length F < 5"
    then have "card (set F) = card (Pair sc ` set required_tables)" using len le c5 by simp
    then show "set F = Pair sc ` set required_tables" using card_subset_eq [OF _ sub] by simp
  next
    assume "set F = Pair sc ` set required_tables"
    then show "\<not> length F < 5" using len c5 by simp
  qed
  moreover have "set F = Pair sc ` set required_tables \<longleftrightarrow> (\<forall>t\<in>set required_tables. (sc, t) \<in> set (ms_tables m))"
    using sub by (auto simp: F_def)
  ultimately show ?thesis
    by (simp add: check_tables_def F_def sc_def db_config_of_def)
qed

lemma start_server_outcome:
  "distinct (ms_tables m) \<Longrightarrow>
   start_server e m =
     (if ms_reachable m \<and> (\<forall>t\<in>set required_tables. (cfg_database (db_config_of e), t) \<in> set (ms_tables m))
      then StartListening (server_port e) else StartExit 1)"
  using check_tables_iff [of m e] by (simp add: start_server_def test_connection_def)

end
