(* ===== verification/ClientApp.thy ===== *)
theory ClientApp
  imports ClientUI AdminClient ClientFeatured
begin

text \<open>
  The client's routing (\<open>src/client/src/App.jsx\<close>): the five routes and the page each
  renders with its own guard, the header's navigation links (\<open>Header.jsx\<close>: scroll
  links to sections of the home page and router links to routes), and the two buttons
  of \<open>Discover.jsx\<close>.  Of the home page's sections only those whose components are
  in the repository are known to carry an \<open>id\<close>.
\<close>

section \<open>Routes\<close>

datatype app_page = HomePage | TestimonialsRoute | ProfileRoute | AdminRoute | DashboardRoute

definition app_routes :: "(string \<times> app_page) list" where
  "app_routes =
     [(''/'', HomePage), (''/testimonials'', TestimonialsRoute), (''/profile'', ProfileRoute),
      (''/admin'', AdminRoute), (''/dashboard'', DashboardRoute)]"

text \<open>\<open><Routes>\<close>: the first route whose path is the location's; none renders nothing.\<close>

definition app_route :: "string \<Rightarrow> app_page option" where
  "app_route path = map_of app_routes path"

text \<open>The home page's components in order, with the \<open>id\<close> of the section each renders, where known.\<close>

definition home_sections :: "(string \<times> string option) list" where
  "home_sections =
     [(''Header'', None), (''Hero'', None), (''Featured'', Some ''featured''), (''Popular'', None),
      (''Discover'', Some ''discover''), (''Services'', Some ''services''), (''Blog'', None),
      (''Gallery'', None), (''Testimonials'', None), (''Contact'', Some ''contact''),
      (''Newsletter'', None), (''FloatingCta'', None), (''Footer'', None)]"

definition home_section_ids :: "string list" where
  "home_section_ids = List.map_filter snd home_sections"

text \<open>\<open>UserProfile\<close>'s early return: without a user it asks to log in.\<close>

datatype profile_page = ProfileLogIn | ProfileForm

definition profile_page_view :: "user_row option \<Rightarrow> profile_page" where
  "profile_page_view u = (case u of None \<Rightarrow> ProfileLogIn | Some _ \<Rightarrow> ProfileForm)"

datatype app_view =
  HomeView | TestimonialsView | ProfileView profile_page | AdminView admin_page
  | DashboardView user_page | BlankView

definition app_render :: "string \<Rightarrow> user_row option \<Rightarrow> admin_view \<Rightarrow> user_dashboard \<Rightarrow> app_view" where
  "app_render path u av ud =
     (case app_route path of
        None \<Rightarrow> BlankView
      | Some HomePage \<Rightarrow> HomeView
      | Some TestimonialsRoute \<Rightarrow> TestimonialsView
      | Some ProfileRoute \<Rightarrow> ProfileView (profile_page_view u)
      | Some AdminRoute \<Rightarrow> AdminView (admin_page_view u av)
      | Some DashboardRoute \<Rightarrow> DashboardView (user_page_view u ud))"

section \<open>The header's navigation\<close>

datatype nav_link = ScrollLink string | RouterLink string

definition header_nav :: "nav_link list" where
  "header_nav =
     [ScrollLink ''home'', ScrollLink ''discover'', ScrollLink ''services'', RouterLink ''/testimonials'',
      ScrollLink ''contact'']"

text \<open>The links the header shows: the navigation, and the user menu when signed in.\<close>

definition header_links :: "bool \<Rightarrow> string option \<Rightarrow> nav_link list" where
  "header_links signed_in r = header_nav @ (if signed_in then map RouterLink (user_menu_links r) else [])"

section \<open>Discover\<close>

datatype page_effect = ScrollTo string | ScrollTop | AlertMsg string

definition discover_content :: "(nat \<times> string \<times> string) list" where
  "discover_content = [(1, ''Discover Exotic Places'', ''Explore More''), (2, ''Unforgettable Journeys'', ''Start Your Journey'')]"

text \<open>\<open>handleExploreMore\<close> looks the featured section up among the page's ids.\<close>

definition handle_explore_more :: "string list \<Rightarrow> page_effect" where
  "handle_explore_more ids = (if ''featured'' \<in> set ids then ScrollTo ''featured'' else ScrollTop)"

definition handle_start_journey :: page_effect where
  "handle_start_journey = AlertMsg ''Let's start planning your unforgettable journey! Our travel experts will contact you soon.''"

definition discover_click :: "nat \<Rightarrow> string list \<Rightarrow> page_effect" where
  "discover_click i ids = (if i = 1 then handle_explore_more ids else handle_start_journey)"

section \<open>Properties\<close>

text \<open>Every router link the header can show leads to a route, whatever the user's role.\<close>

lemma header_router_links_routed:
  "list_all (\<lambda>l. case l of RouterLink p \<Rightarrow> app_route p \<noteq> None | ScrollLink _ \<Rightarrow> True) (header_links s r)"
  by (simp add: header_links_def header_nav_def user_menu_links_def app_route_def app_routes_def)

text \<open>
  The scroll targets of the header other than \<open>home\<close> are sections the home page
  renders; \<open>home\<close> is none of the known ones (it would be the \<open>Hero\<close> component's).
\<close>

lemma header_scroll_targets:
  "[t. ScrollLink t \<leftarrow> header_nav, t \<notin> set home_section_ids] = [''home'']"
  by (simp add: header_nav_def home_section_ids_def home_sections_def map_filter_simps)

text \<open>On the home page "Explore More" scrolls to the featured section.\<close>

lemma discover_explore_on_home: "discover_click 1 home_section_ids = ScrollTo ''featured''"
  by (simp add: discover_click_def handle_explore_more_def home_section_ids_def home_sections_def map_filter_simps)

text \<open>
  The admin panel's content is rendered only at \<open>/admin\<close> and only for a signed-in
  administrator: any other visitor of that route sees "Access Denied".
\<close>

lemma app_render_admin_content:
  "app_render path u av ud = AdminView (AdminTab t) \<Longrightarrow> path = ''/admin'' \<and> is_admin_user u"
  by (auto simp: app_render_def app_route_def app_routes_def admin_page_view_def
           split: if_splits option.splits app_page.splits)

lemma app_render_admin_denied:
  "\<not> is_admin_user u \<Longrightarrow> app_render ''/admin'' u av ud = AdminView AccessDenied"
  by (simp add: app_render_def app_route_def app_routes_def admin_page_view_def)

lemma app_render_signed_out:
  "app_render ''/profile'' None av ud = ProfileView ProfileLogIn \<and>
   app_render ''/dashboard'' None av ud = DashboardView PleaseLogIn"
  by (simp add: app_render_def app_route_def app_routes_def profile_page_view_def user_page_view_def)

end
