(* ===== verification/Spec2Isabelle.thy ===== *)
theory Spec2Isabelle
  imports Samples Scenario AdminClient ClientContact ClientFeatured Services ClientUI Server ClientApp
begin

text \<open>
  \<^bold>\<open>A verification model of the Wavv travel-booking backend.\<close>

  \<^bold>\<open>The program.\<close>  An Express server (\<open>src/server/server.js\<close>) mounts one router per
  resource; each route is a chain of middleware (\<open>authenticateToken\<close> and
  \<open>requireAdmin\<close> of \<open>middleware/auth.js\<close>, the express-validator chains of
  \<open>middleware/validation.js\<close>) followed by a handler that runs parameterised SQL
  statements on a MySQL pool in sequence, without transactions, and answers JSON.
  The state of the program is the database; the handlers share it and nothing else.
  The React client (\<open>src/client\<close>) keeps component state and calls the REST API
  through \<open>services/api.js\<close>.

  \<^bold>\<open>The library.\<close>
  \<^item> \<open>Prelude\<close>: JavaScript values of request bodies (\<open>jsval\<close>, \<open>js_get\<close>,
    \<open>js_truthy\<close>), HTTP responses (\<open>response\<close>: \<open>Success status payload\<close> or
    \<open>Failure status message\<close>), tables as row lists with \<open>update_where\<close> for
    \<open>UPDATE\<close>, primary keys (\<open>keys_ok\<close>), half-up rounding (\<open>round_div\<close>), and
    the rewrite collection \<open>table_simps\<close>.
  \<^item> \<open>Store\<close>: the schema of \<open>initializeDatabase\<close> in \<open>config/database.js\<close> as records
    (\<open>user_row\<close>, \<open>package_row\<close>, \<open>booking_row\<close>, \<open>review_row\<close>,
    \<open>contact_row\<close>) inside the record \<open>db\<close> with its \<open>AUTO_INCREMENT\<close> counters;
    one function per kind of statement the routes execute (\<open>insert_booking\<close>,
    \<open>set_booking_status\<close>, \<open>insert_review\<close>, \<open>update_review_fields\<close>,
    \<open>delete_review_row\<close>, \<open>set_package_rating\<close>, the cascading \<open>delete_package_row\<close>
    and \<open>delete_user_row\<close>, the booking-contact statements).  A statement that violates a
    constraint returns the MySQL error (\<open>sql_error\<close>) and changes nothing.  \<open>db_wf\<close>
    collects the schema's constraints (keys, unique keys, foreign keys, the rating
    \<open>CHECK\<close>, the \<open>DECIMAL(10,2)\<close> range) and every statement keeps it.
  \<^item> \<open>Validation\<close>: \<open>validateBooking\<close>, \<open>validateReview\<close>, \<open>validateId\<close> as
    \<open>validate_booking\<close>, \<open>validate_review\<close>, \<open>validate_id\<close>, returning the first
    error message or a typed request; the library validators they use (\<open>isInt\<close>,
    \<open>isISO8601\<close> on calendar dates, \<open>trim\<close>) and the conversions of bound parameters
    into \<open>INT\<close>/\<open>TEXT\<close> columns.  Decimal printing and parsing round-trip
    (\<open>parse_int_int_to_string\<close>).
  \<^item> \<open>Bookings\<close>: the handlers of \<open>routes/bookings.js\<close> (\<open>create_booking\<close>,
    \<open>get_booking\<close>, \<open>update_booking_status\<close>, \<open>cancel_booking\<close>,
    \<open>user_booking_stats\<close>, the booking contacts) and \<open>admin_update_booking_status\<close> of
    \<open>routes/admin.js\<close>; \<open>route_*\<close> definitions compose a handler with its validators.
  \<^item> \<open>Reviews\<close>: the handlers of \<open>routes/reviews.js\<close> (\<open>create_review\<close>,
    \<open>update_review\<close>, \<open>delete_review\<close>, \<open>package_reviews\<close>) and
    \<open>update_package_rating\<close> (\<open>updatePackageRating\<close>), with \<open>stored_rating\<close>, the
    value MySQL stores: \<open>AVG\<close> to four decimals, rounded again by \<open>DECIMAL(3,2)\<close>.
    \<open>rating_of_mset\<close> is its abstract specification and \<open>rating_cache_ok\<close> the
    denormalisation invariant of the spec (cached rating and count equal the aggregate).
  \<^item> \<open>Auth\<close>: \<open>middleware/auth.js\<close>.  Signed tokens are a parameter
    (\<open>token_registry\<close>: the payload \<open>(userId, exp)\<close> of each validly signed string);
    \<open>authenticate_token\<close> re-reads the user on every request, \<open>require_admin\<close>,
    \<open>require_owner_or_admin\<close>, \<open>optional_auth\<close>, and \<open>admin_gate\<close>, the chain in front
    of every admin route.
  \<^item> \<open>Accounts\<close>: \<open>routes/auth.js\<close> (\<open>register\<close>, \<open>login\<close>, \<open>get_profile\<close>,
    \<open>update_profile\<close>, \<open>change_password\<close>) with \<open>validateRegister\<close> and
    \<open>validateLogin\<close>; validator.js's \<open>isEmail\<close>/\<open>normalizeEmail\<close> are a parameter
    (\<open>email_lib\<close>) and bcrypt is the injective \<open>Bcrypt\<close> constructor.
  \<^item> \<open>Packages\<close>: \<open>routes/packages.js\<close> (listing with filters and pagination,
    popular, by destination, get, and the admin create/update/delete), with
    \<open>validatePackage\<close>, \<open>validateSearch\<close>, validator.js's \<open>isFloat\<close>
    (\<open>parse_float\<close>), MySQL's \<open>LIKE\<close> (\<open>sql_like\<close>: wildcards, escape, ASCII case)
    and the conversion of prices into \<open>DECIMAL(10,2)\<close> (\<open>decimal_cents\<close>).  The
    listing's two statements are checked for their placeholder counts
    (\<open>execute_check\<close>).
  \<^item> \<open>Admin\<close>: \<open>routes/admin.js\<close> (users and bookings lists with their unvalidated
    pagination, dashboard, delete user, change role) behind \<open>gated\<close>.
  \<^item> \<open>Seed\<close>: \<open>initializeDatabase\<close>'s admin account and six sample packages.
  \<^item> \<open>ErrorHandler\<close>: \<open>middleware/errorHandler.js\<close> and a reference reading of its
    rule table (\<open>last_rule\<close>).
  \<^item> \<open>ContactForm\<close>: \<open>routes/contact.js\<close> (\<open>contactValidation\<close> and the
    acknowledgement; nothing is stored), and the middleware of \<open>validation.js\<close> no route
    mounts (\<open>validateContact\<close>, stricter than the route's own chains by its upper
    length bounds, \<open>validateNewsletter\<close>, \<open>handleValidationErrors\<close>).
  \<^item> \<open>Api\<close>: the server as a state machine.  \<open>api_exec\<close> serves one request to any
    of the 18 routes that write (the routers \<open>server.js\<close> mounts, each with its
    middleware chain; \<open>authed\<close> is \<open>authenticateToken\<close> in front of a handler),
    \<open>reachable\<close> is the inductive set of states from \<open>initialize_database\<close> on the
    empty store, \<open>api_run\<close> serves a list of requests.  \<open>api_inv\<close> (\<open>db_wf\<close>, the
    rating cache, every review backed by a booking) and \<open>bookings_kept\<close> (no booking
    lost, only statuses change) are proved for every step by one lemma per statement
    (\<open>step_ok_*\<close>), lifted through the handlers, the middleware and \<open>api_exec\<close>, and
    then for every reachable state by rule induction (\<open>reachable_api_inv\<close>).
  \<^item> \<open>Client\<close>: the booking modal of \<open>components/Popular.jsx\<close> (form state,
    \<open>handlePackageClick\<close>, \<open>handleBookingSubmit\<close>, the request body) and
    \<open>apiRequest\<close> of \<open>services/api.js\<close>, with the server as a parameter.
  \<^item> \<open>Listings\<close>: the read-only listings \<open>my-bookings\<close>, \<open>my-reviews\<close>,
    \<open>recent\<close> and \<open>contacts/all\<close>, with their joins and pagination.
  \<^item> \<open>ClientDashboard\<close>: \<open>pages/UserDashboard.jsx\<close> (\<open>loadUserData\<close>, the lists of
    its tabs, the cancel and delete-review actions) composed with the routes it calls.
  \<^item> \<open>AdminClient\<close>: \<open>pages/AdminDashboard.jsx\<close> (the admin guard and its
    page, \<open>loadDashboardData\<close>, the sidebar tabs, the statistic cards, the delete and
    update actions, and the booking-contact rows: status select, view, delete) and the
    JSON of the server's dashboard answer (\<open>dashboard_json\<close>, over a small \<open>json\<close>
    datatype).
  \<^item> \<open>ClientContact\<close>: \<open>components/Contact.jsx\<close> (form, \<open>validateForm\<close> with its
    e-mail pattern, \<open>handleSubmit\<close>) composed with \<open>POST /api/contact\<close>.
  \<^item> \<open>ClientFeatured\<close>: \<open>components/Featured.jsx\<close> (the search form, which only
    alerts, and the booking modal posting to \<open>POST /api/bookings/contacts\<close>).
  \<^item> \<open>Services\<close>: \<open>services/api.js\<close> and \<open>authService.js\<close> (the stored token,
    its \<open>Authorization\<close> header, the account calls composed with \<open>routes/auth.js\<close>), and
    the query strings of \<open>bookingService\<close>, \<open>packageService\<close> and \<open>reviewService\<close>:
    \<open>URLSearchParams\<close> serialisation on the client and Express's \<open>qs\<close> parser on the
    server (\<open>express_query\<close>), library code modelled from its documented behaviour so
    that the two ends can be composed.  Characters are code points below 256 (one or two
    UTF-8 bytes); a query \<open>qs\<close> would turn into a nested object or an array is \<open>None\<close>.
  \<^item> \<open>ClientUI\<close>: the header of \<open>components/Header.jsx\<close> as a state machine
    (\<open>header_step\<close> over its four flags, \<open>header_reachable\<close> the states its events
    reach: never both modals at once) and its user menu (the admin link appears exactly
    for the users \<open>requireAdmin\<close> admits), \<open>Newsletter.jsx\<close> (which only simulates a
    subscription), \<open>Services.jsx\<close>, \<open>pages/UserProfile.jsx\<close>, \<open>ReviewModal.jsx\<close>
    (whose body lacks the package id the review route requires) and the popular list's
    fetch.  \<open>ClientFeatured\<close> also holds the featured cards, checked against the
    seeded packages (\<open>featured_cards_match_seed\<close>); \<open>ClientContact\<close> the banners
    and the contact information's links; \<open>ClientDashboard\<close> the user dashboard's
    guard, tabs, overview and review stars.  The authentication context these read (\<open>contexts/AuthContext\<close>) is not in
    the repository; its operations are parameters.
  \<^item> \<open>ClientApp\<close>: the client's routes (\<open>App.jsx\<close>: \<open>app_route\<close>, and
    \<open>app_render\<close>, the page each route shows behind its own guard), the header's
    navigation (\<open>header_links\<close>: scroll links to sections of the home page, router
    links to routes) and the buttons of \<open>Discover.jsx\<close>.
  \<^item> \<open>Server\<close>: what \<open>server.js\<close> configures around the routers and the start-up
    helpers of \<open>config/database.js\<close>: the environment defaults (\<open>env_or\<close> for
    \<open>process.env.X || d\<close>, \<open>env_int_or\<close> for \<open>parseInt(...) || d\<close>, \<open>dbConfig\<close>,
    \<open>PORT\<close>), the CORS origins, the rate limiter mounted on \<open>/api/\<close>
    (\<open>rate_limit\<close>: express-rate-limit's per-client window, from its documented
    behaviour, with the configured \<open>windowMs\<close>, \<open>max\<close> and message), the info, health
    and catch-all answers, and \<open>startServer\<close> with \<open>testConnection\<close> and
    \<open>checkTables\<close> over the rows of \<open>INFORMATION_SCHEMA.TABLES\<close>.
  \<^item> \<open>Samples\<close>, \<open>Scenario\<close>: sample data for the witnesses, and a run of the server
    from its first start (\<open>scen_script\<close>: register, book, confirm, review, cancel) whose
    every state is computed from the route definitions.  This theory: the properties of
    the manifest.

  Handlers take the caller's row as \<open>authenticateToken\<close> attaches it (\<open>req.user\<close>) and
  return the new database with the response; a failing statement is the route's
  \<open>catch\<close> (500).  Admin and package-administration routes take the request's
  \<open>Authorization\<close> header and run the gate themselves.  Route parameters that MySQL
  compares with an \<open>INT\<close> column without \<open>validateId\<close> are taken as the integer
  MySQL reads.

  \<^bold>\<open>Representation choices.\<close>  Money is exact in hundredths (\<open>cents = int\<close>): the
  JavaScript product of a two-decimal price with two small integers is within rounding
  distance of the exact value, which the \<open>DECIMAL\<close> column restores; decimal strings
  are read exactly (\<open>parseFloat\<close>'s rounding to a double is not modelled).  Ratings are
  cached in hundredths, averages in ten-thousandths.  MySQL runs in strict mode
  (out-of-range values and non-numeric strings into \<open>INT\<close> are errors) with the
  \<open>CHECK\<close> enforced (MySQL 8.0.16 and later); text compares under the default
  case-insensitive collation, modelled as ASCII lower-casing (\<open>ci_key\<close>).  Listings
  ordered by \<open>created_at DESC\<close> are in reverse insertion order, which is that order up
  to rows created in the same second.  No fuel or partial functions are needed: every
  handler is a finite sequence of statements, and the only recursion
  (\<open>nat_to_string\<close>, \<open>digits_acc\<close>, \<open>sql_like\<close>, \<open>insert_packages\<close>,
  \<open>api_run\<close>, \<open>rate_limit_seq\<close>) terminates structurally, lexicographically or by \<open>div\<close>.  Requests are
  served one at a time: the reachable states are those of a server whose requests do not
  interleave (the handlers' statements run without transactions; interleavings are not
  modelled).

  \<^bold>\<open>What is proved.\<close>  Booking creation computes \<open>price * guests * rooms\<close> and stays
  within the validated bounds (C1, C2); only administrators confirm (C3, C4), but an owner
  may move a confirmed booking back to \<open>pending\<close> (C5, a divergence from the spec);
  cancellation (C6); an overflow of \<open>total_amount\<close> is a 500 (C7); a booking made from
  the client's popular-packages modal is always refused, because the client sends
  \<open>checkIn\<close>/\<open>checkOut\<close> where the server requires \<open>bookingDate\<close> (C8, client and
  server composed).  Review creation rejects duplicates (C9) and reviews without a
  confirmed booking (C10); every review write keeps the rating cache consistent (C11); the
  cached rating refines a function of the multiset of ratings (C12), lies in [1.00, 5.00]
  (C13), but is rounded twice (C14); the per-package review listing is unreachable (C15);
  a rating of 0 slips past the route's check (C16).  Accounts: a taken e-mail is refused
  (C17); a login through the client's \<open>authService\<close> opens a session the server honours
  for exactly seven days, after which the client still believes it is logged in (C18);
  change-password accepts a one-character password (C19); the list services' filters
  reach the routes unchanged through \<open>URLSearchParams\<close> and \<open>qs\<close> (C20, a round trip);
  an authenticated request carries a live user with an unexpired token (C21); the profile
  e-mail is stored without normalisation, locking the user out of login (C22).  Packages:
  every filtered listing fails on its count query (C23); the popular list is ordered and
  bounded (C25); the destination search is a case-insensitive substring search (C27); deleting a package never deletes a
  booking (C29); a package without \<open>image_url\<close> cannot be created (C31); integral
  JSON prices are stored exactly (C32); the reported average agrees with the cache (C33).
  Admin: filtered booking lists fail (C34); deleting a user
  never removes a booking or an admin (C36); the admin dashboard's statistic cards read
  keys the server's answer does not have and stay empty (C24).  The user dashboard shows
  at most ten of the user's bookings as their total and every visitor's booking contact (C37).  The seed is
  well formed and idempotent (C38), and the error middleware is its rule table read
  bottom-up (C39).  The server as a whole: every reachable state satisfies the schema
  invariant, the rating cache and "every review is backed by a booking" (C30); its
  stored values have their column types (C26); only a request authenticated as an
  admin ever confirms a booking (C35); no request loses a booking or changes
  anything but its status, so amounts fixed at creation survive (C40); and five requests
  from the first start reach a review whose booking is cancelled, so the spec's
  "a review has a confirmed booking" is not an invariant (C28).  Further lemmas, not
  among the properties: the spec's register, login, profile scenario
  (\<open>register_login_profile_scenario\<close>), a deleted user's token refused at once
  (\<open>deleted_user_token_rejected\<close>), the popular limit's fallbacks (\<open>popular_limit_fallbacks\<close>),
  the unescaped destination wildcard (\<open>destination_wildcard_matches_all\<close>), the
  statistics partition (\<open>user_booking_stats_total\<close>), the dashboard's consistency with the tables (\<open>admin_dashboard_consistent\<close>), the unfiltered package
  listing (\<open>route_list_packages_unfiltered\<close>), the admin's booking delete button
  that always fails (\<open>handle_admin_delete_booking_fails\<close>), the admin lists' unvalidated
  pagination (\<open>admin_users_pagination_errors\<close>), the contact form's acceptance
  condition (\<open>contact_submit_cases\<close>) and the client's weaker check of it
  (\<open>contact_short_subject\<close>), the featured modal's "Booking confirmed!" for a
  pending lead that every user's dashboard then lists (\<open>featured_contact_on_dashboards\<close>), the ownership of listed bookings
  (\<open>my_bookings_own\<close>), the admin dashboard's contact actions
  (\<open>handle_contact_status_change_select\<close>, \<open>handle_contact_delete_removes\<close>), the
  limiter's window (\<open>rate_limit_seq_window\<close>: exactly \<open>max\<close> requests of a window pass,
  1000 by default where the source's comment says 100), the production CORS origin
  (\<open>cors_production_origins\<close>, a placeholder) and the start-up condition
  (\<open>start_server_outcome\<close>: the server listens exactly when MySQL is reachable and
  the five tables exist), the client's routing (every router link of the header has a
  route, \<open>header_router_links_routed\<close>; the admin panel renders only at \<open>/admin\<close>
  for an administrator, \<open>app_render_admin_content\<close>), the loaded dashboard's review
  stars (\<open>load_user_data_review_stars\<close>).

  \<^bold>\<open>Not modelled.\<close>  \<open>toFixed\<close> formatting, non-integral JSON numbers, time zones,
  the connection pool and its failures, interleaved requests, helmet, body parsing and
  static files (off-the-shelf middleware with no configuration of the program's own
  beyond a size limit); the limiter and CORS are modelled only as far as
  \<open>server.js\<close> configures them, and the limiter is not composed with \<open>api_exec\<close>
  (it only refuses requests, so it cannot change a reachable state).  \<open>server.js\<close> requires a
  \<open>routes/payment\<close> module the repository does not contain, so the server does not
  start as is; the model mounts the routers that exist.  Of the React client the booking
  modal, \<open>apiRequest\<close>, the service layer's token, account calls and query strings, the
  user dashboard, the admin dashboard and the contact and featured sections are
  modelled, and so are the header, newsletter, services section, profile page and review
  modal (which no page renders), the routes of \<open>App.jsx\<close> and the discover section;
  the testimonials page only renders static content, \<open>App.jsx\<close> imports components
  (\<open>Hero\<close>, \<open>Blog\<close>, \<open>Gallery\<close>, \<open>Testimonials\<close>, \<open>FloatingCta\<close>,
  \<open>Footer\<close>) and a context (\<open>AuthContext\<close>) that are not among the sources, and
  the admin dashboard's rendering of rows (dates through \<open>toLocaleDateString\<close>) is
  not modelled.
\<close>

section \<open>Bookings\<close>





text \<open>
  C3. A caller who is not an administrator and asks \<open>PATCH /api/bookings/:id/status\<close>
  to set \<open>confirmed\<close> on one of their own bookings gets 403, and nothing changes.
\<close>

theorem non_admin_confirm_forbidden:
  assumes "user_role usr \<noteq> RoleAdmin" and "validate_id params = Inr k"
    and "find_own_booking d (nat k) (user_id usr) \<noteq> None"
    and "js_get body ''status'' = JStr ''confirmed''"
  shows "route_update_booking_status usr params body d = (d, Failure 403 ''Only admins can confirm bookings'')"
  using assms update_booking_status_non_admin_confirm [of usr d "nat k"]
  unfolding route_update_booking_status_def by simp

theorem non_admin_confirm_forbidden_witness:
  "route_update_booking_status jane [(''id'', ''1'')] [(''status'', JStr ''confirmed'')] (booked_db Pending)
     = (booked_db Pending, Failure 403 ''Only admins can confirm bookings'')"
proof -
  have "user_role jane \<noteq> RoleAdmin" by (simp add: demo_defs)
  moreover have "validate_id [(''id'', ''1'')] = Inr 1"
    by (simp add: validate_id_def param_val_def int_in_def parse_nat_def digit_val_def)
  moreover have "find_own_booking (booked_db Pending) (nat 1) (user_id jane) \<noteq> None"
    by (simp add: find_own_booking_def demo_defs)
  moreover have "js_get [(''status'', JStr ''confirmed'')] ''status'' = JStr ''confirmed''"
    by (simp add: js_get_def)
  ultimately show ?thesis by (rule non_admin_confirm_forbidden)
qed

text \<open>
  C4. \<open>PATCH /api/admin/bookings/:id/status\<close> with \<open>confirmed\<close> confirms any existing
  booking, whoever owns it, and answers 200.
\<close>

theorem admin_confirms_booking:
  assumes "find_booking d i = Some b"
  shows "\<exists>r. admin_update_booking_status i (JStr ''confirmed'') d = (set_booking_status i Confirmed d, Success 200 r)
           \<and> find_booking (set_booking_status i Confirmed d) i = Some (b\<lparr>booking_status := Confirmed\<rparr>)"
  using admin_update_booking_status_sets [OF assms, where v = "JStr ''confirmed''" and s = Confirmed] by simp

theorem admin_confirms_booking_witness:
  "\<exists>r. admin_update_booking_status 1 (JStr ''confirmed'') (booked_db Pending)
        = (booked_db Confirmed, Success 200 r)"
proof -
  have f: "find_booking (booked_db Pending) 1 = Some (jane_booking Pending)"
    by (simp add: find_booking_def demo_defs)
  have "set_booking_status 1 Confirmed (booked_db Pending) = booked_db Confirmed"
    by (simp add: set_booking_status_def demo_defs)
  with admin_confirms_booking [OF f] show ?thesis by auto
qed

text \<open>
  C5. The owner of a confirmed booking who is not an administrator can move it back to
  \<open>pending\<close> through \<open>PATCH /api/bookings/:id/status\<close>: only \<open>confirmed\<close> is reserved
  to administrators, every other target is written.
\<close>

theorem owner_reopens_confirmed_booking:
  assumes "db_wf d" and "find_own_booking d i (user_id usr) = Some b"
    and "booking_status b = Confirmed"
  shows "\<exists>r. update_booking_status usr i (JStr ''pending'') d = (set_booking_status i Pending d, Success 200 r)
           \<and> find_booking (set_booking_status i Pending d) i = Some (b\<lparr>booking_status := Pending\<rparr>)"
  using update_booking_status_owner [OF assms(1,2), where v = "JStr ''pending''" and s = Pending] by simp

theorem owner_reopens_confirmed_booking_witness:
  "user_role jane = RoleUser
   \<and> (\<exists>r. update_booking_status jane 1 (JStr ''pending'') (booked_db Confirmed) = (booked_db Pending, Success 200 r))"
proof -
  note wf = booked_db_wf [of Confirmed]
  have own: "find_own_booking (booked_db Confirmed) 1 (user_id jane) = Some (jane_booking Confirmed)"
    by (simp add: find_own_booking_def demo_defs)
  have st: "booking_status (jane_booking Confirmed) = Confirmed" by (simp add: demo_defs)
  have "set_booking_status 1 Pending (booked_db Confirmed) = booked_db Pending"
    by (simp add: set_booking_status_def demo_defs)
  with owner_reopens_confirmed_booking [OF wf own st] show ?thesis by (auto simp: demo_defs)
qed

text \<open>
  C6. \<open>POST /api/bookings/:id/cancel\<close> on the caller's own booking answers 400 and
  changes nothing when it is already cancelled, and otherwise sets it to \<open>cancelled\<close>
  (from \<open>pending\<close> or from \<open>confirmed\<close>) and answers 200.
\<close>

theorem cancel_booking_outcome:
  assumes "db_wf d" and "find_own_booking d i (user_id usr) = Some b"
  shows "cancel_booking usr i d =
           (if booking_status b = Cancelled then (d, Failure 400 ''Booking is already cancelled'')
            else (set_booking_status i Cancelled d, Success 200 ''Booking cancelled successfully''))
       \<and> (booking_status b \<noteq> Cancelled \<longrightarrow>
            find_booking (set_booking_status i Cancelled d) i = Some (b\<lparr>booking_status := Cancelled\<rparr>))"
proof (cases "booking_status b = Cancelled")
  case True
  then show ?thesis using assms(2) unfolding cancel_booking_def by simp
next
  case False
  then show ?thesis using cancel_booking_cancels [OF assms False] by simp
qed

theorem cancel_booking_outcome_witness:
  "cancel_booking jane 1 (booked_db Confirmed) = (booked_db Cancelled, Success 200 ''Booking cancelled successfully'')
   \<and> cancel_booking jane 1 (booked_db Cancelled) = (booked_db Cancelled, Failure 400 ''Booking is already cancelled'')"
proof -
  have o1: "find_own_booking (booked_db Confirmed) 1 (user_id jane) = Some (jane_booking Confirmed)"
    and o2: "find_own_booking (booked_db Cancelled) 1 (user_id jane) = Some (jane_booking Cancelled)"
    by (simp_all add: find_own_booking_def demo_defs)
  have "set_booking_status 1 Cancelled (booked_db Confirmed) = booked_db Cancelled"
    by (simp add: set_booking_status_def demo_defs)
  with cancel_booking_outcome [OF booked_db_wf o1] cancel_booking_outcome [OF booked_db_wf o2]
  show ?thesis by (simp add: demo_defs)
qed

text \<open>
  C7. Nothing bounds a package's price below the \<open>DECIMAL(10,2)\<close> range divided by the
  50 guest-rooms a booking may ask for: when \<open>price * guests * rooms\<close> leaves the range of
  \<open>total_amount\<close>, the insert fails in strict mode and the route answers 500, not a
  validation error.
\<close>

theorem create_booking_amount_overflow:
  assumes "find_package d (nat (req_package_id rq)) = Some pk"
    and "decimal_10_2_max < \<bar>package_price pk * req_guests rq * req_rooms rq\<bar>"
  shows "create_booking usr rq d = (d, Failure 500 ''Failed to create booking'')"
  using assms unfolding create_booking_def insert_booking_def by (auto simp: Let_def)

theorem create_booking_amount_overflow_witness:
  "create_booking jane (demo_req\<lparr>req_guests := 10, req_rooms := 5\<rparr>)
      (demo_db\<lparr>packages := [tour\<lparr>package_price := 200000000\<rparr>]\<rparr>)
   = (demo_db\<lparr>packages := [tour\<lparr>package_price := 200000000\<rparr>]\<rparr>, Failure 500 ''Failed to create booking'')"
proof (rule create_booking_amount_overflow)
  show "find_package (demo_db\<lparr>packages := [tour\<lparr>package_price := 200000000\<rparr>]\<rparr>)
          (nat (req_package_id (demo_req\<lparr>req_guests := 10, req_rooms := 5\<rparr>))) = Some (tour\<lparr>package_price := 200000000\<rparr>)"
    by (simp add: find_package_def demo_defs)
  show "decimal_10_2_max < \<bar>package_price (tour\<lparr>package_price := 200000000\<rparr>)
          * req_guests (demo_req\<lparr>req_guests := 10, req_rooms := 5\<rparr>) * req_rooms (demo_req\<lparr>req_guests := 10, req_rooms := 5\<rparr>)\<bar>"
    by (simp add: decimal_10_2_max_def)
qed

text \<open>
  The per-user booking statistics partition the user's bookings: the total is the sum
  of the confirmed, pending and cancelled counts.
\<close>

theorem user_booking_stats_total:
  "total_bookings (user_booking_stats usr d)
     = confirmed_bookings (user_booking_stats usr d) + pending_bookings (user_booking_stats usr d)
       + cancelled_bookings (user_booking_stats usr d)"
  unfolding user_booking_stats_def Let_def
  by (simp only: booking_stats.simps) (rule length_status_partition)

section \<open>Reviews and the rating cache\<close>

text \<open>
  C9. A second review of the same package by the same user is rejected with 400
  (the spec's Conflict), whatever its rating and comment, and nothing changes.
\<close>

theorem create_review_duplicate_rejected:
  assumes "find_package d (nat (rreq_package_id rq)) \<noteq> None"
    and "\<exists>r\<in>set (reviews d). review_user_id r = user_id usr \<and> review_package_id r = nat (rreq_package_id rq)"
  shows "create_review usr rq d = (d, Failure 400 ''You have already reviewed this package'')"
  using assms unfolding create_review_def by (auto simp: Let_def)

theorem create_review_duplicate_rejected_witness:
  "create_review jane (review_req_4\<lparr>rreq_rating := 1, rreq_comment := ''Changed my mind entirely''\<rparr>) reviewed_db
     = (reviewed_db, Failure 400 ''You have already reviewed this package'')"
  by (rule create_review_duplicate_rejected) (simp_all add: find_package_def demo_defs)

text \<open>
  C10. Without a confirmed booking of the package by the caller (and without an earlier
  review), review creation is rejected with 403 and nothing changes.
\<close>

theorem create_review_needs_confirmed_booking:
  assumes "find_package d (nat (rreq_package_id rq)) \<noteq> None"
    and "\<forall>r\<in>set (reviews d). \<not> (review_user_id r = user_id usr \<and> review_package_id r = nat (rreq_package_id rq))"
    and "\<forall>b\<in>set (bookings d). booking_user_id b = user_id usr \<and> booking_package_id b = nat (rreq_package_id rq)
            \<longrightarrow> booking_status b \<noteq> Confirmed"
  shows "create_review usr rq d = (d, Failure 403 ''You can only review packages you have booked and completed'')"
  using assms unfolding create_review_def by (auto simp: Let_def)

theorem create_review_needs_confirmed_booking_witness:
  "create_review jane review_req_4 (booked_db Pending)
     = (booked_db Pending, Failure 403 ''You can only review packages you have booked and completed'')"
  by (rule create_review_needs_confirmed_booking) (simp_all add: find_package_def demo_defs)

text \<open>
  C11. Every review write (create, update, delete) leaves the database with each package's
  cached \<open>rating\<close> and \<open>total_reviews\<close> equal to the aggregate of its current reviews,
  when it was so before.
\<close>

theorem review_writes_keep_rating_cache:
  assumes "db_wf d" and "rating_cache_ok d"
  shows "rating_cache_ok (fst (create_review usr rq d))
       \<and> rating_cache_ok (fst (update_review usr i rt c d))
       \<and> rating_cache_ok (fst (delete_review usr i d))"
  using create_review_cache [OF assms(2)] update_review_cache [OF assms] delete_review_cache [OF assms]
  by (metis prod.collapse)

theorem review_writes_keep_rating_cache_witness:
  "create_review jane review_req_4 (booked_db Confirmed) = (reviewed_db, Success 201 (Some (jane_review, ''Jane'')))
   \<and> rating_cache_ok reviewed_db"
proof -
  have wf: "db_wf (booked_db Confirmed)" by (rule booked_db_wf)
  have ok: "rating_cache_ok (booked_db Confirmed)"
    by (simp add: rating_cache_ok_def package_ratings_def stored_rating_def demo_defs)
  have run: "create_review jane review_req_4 (booked_db Confirmed) = (reviewed_db, Success 201 (Some (jane_review, ''Jane'')))"
    by (simp add: create_review_def insert_review_def update_package_rating_def set_package_rating_def
        package_ratings_def stored_rating_def mysql_avg4_def round_div_def review_join_def find_defs
        Let_def demo_defs)
  from review_writes_keep_rating_cache [OF wf ok, of jane review_req_4] run show ?thesis by simp
qed



theorem stored_rating_in_range_witness:
  "100 \<le> stored_rating [4, 5, 5] \<and> stored_rating [4, 5, 5] \<le> 500"
  by (rule stored_rating_bounds) simp_all


text \<open>
  C15. \<open>GET /api/reviews/package/:packageId\<close> always answers 400: its \<open>validateId\<close>
  reads the parameter \<open>id\<close>, which this route does not have.
\<close>

theorem package_reviews_route_always_rejected:
  "route_package_reviews pid d = Failure 400 ''ID must be a positive integer''"
  unfolding route_package_reviews_def by (simp add: validate_id_absent)

text \<open>
  C16. \<open>PUT /api/reviews/:id\<close> with rating 0 passes the route's range check (0 is falsy
  in JavaScript) and reaches the database, whose \<open>CHECK\<close> rejects it: the caller gets
  500, not 400, and nothing changes.
\<close>

theorem update_review_rating_zero:
  assumes "find_own_review d i (user_id usr) = Some rv" and "db_wf d"
  shows "update_review usr i (JNum 0) c d = (d, Failure 500 ''Failed to update review'')"
proof -
  have "\<exists>r\<in>set (reviews d). review_id r = i"
    using find_own_review_SomeD [OF assms(2,1)] by blast
  then show ?thesis using assms(1)
    unfolding update_review_def update_review_fields_def by simp
qed

theorem update_review_rating_zero_witness:
  "update_review jane 1 (JNum 0) JUndefined reviewed_db = (reviewed_db, Failure 500 ''Failed to update review'')"
  by (rule update_review_rating_zero [OF _ reviewed_db_wf]) (simp add: find_own_review_def demo_defs)

section \<open>Accounts and authentication\<close>

text \<open>
  C17. A registration whose (normalised) email is already in use, in the collation's
  sense, is rejected with 400 (the spec's Conflict) and changes nothing.
\<close>

theorem register_rejects_taken_email:
  assumes "validate_register em body = Inr (n, e, pw)" and "find_user_by_email d e \<noteq> None"
  shows "register em now body d = (d, Failure 400 ''User with this email already exists'')"
  using assms unfolding register_def by simp

theorem register_rejects_taken_email_witness:
  "register demo_email 0 ([(''name'', JStr ''Janet''), (''email'', JStr ''jane@x.com''), (''password'', JStr ''secret1'')]) jane_db
     = (jane_db, Failure 400 ''User with this email already exists'')"
proof (rule register_rejects_taken_email)
  show "validate_register demo_email ([(''name'', JStr ''Janet''), (''email'', JStr ''jane@x.com''), (''password'', JStr ''secret1'')]) = Inr (''Janet'', ''jane@x.com'', JStr ''secret1'')"
    by (simp add: validate_register_def js_get_def js_trim_def js_space_def ascii_letter_def ci_key_def
        ascii_lower_def Let_def demo_defs)
  show "find_user_by_email jane_db ''jane@x.com'' \<noteq> None"
    by (simp add: find_user_by_email_def demo_defs)
qed

text \<open>
  The spec's scenario: registering Jane on an empty database creates her as a
  \<open>user\<close> and issues a token for her id valid for seven days; logging in with the same
  credentials issues such a token again; a request bearing it passes \<open>authenticateToken\<close>
  and \<open>GET /api/auth/profile\<close> answers her row with the name "Jane".
\<close>

theorem register_login_profile_scenario:
  "register demo_email 0 jane_signup empty_db = (jane_db, Success 201 (jane, (1, 604800)))
   \<and> login demo_email 100 [(''email'', JStr ''jane@x.com''), (''password'', JStr ''secret1'')] jane_db
       = Success 200 (jane, (1, 604900))
   \<and> authenticate_token (\<lambda>t. if t = ''tokJ'' then Some (1, 604900) else None) 200 (Some ''Bearer tokJ'') jane_db
       = Inr jane
   \<and> get_profile jane jane_db = Success 200 jane \<and> user_name jane = ''Jane''"
proof (intro conjI)
  show "register demo_email 0 jane_signup empty_db = (jane_db, Success 201 (jane, (1, 604800)))"
    by (simp add: register_def validate_register_def js_get_def js_trim_def js_space_def ascii_letter_def
        find_user_by_email_def insert_user_def find_user_def jwt_sign_def jwt_lifetime_def
        ci_key_def ascii_lower_def Let_def demo_defs)
  show "login demo_email 100 [(''email'', JStr ''jane@x.com''), (''password'', JStr ''secret1'')] jane_db
       = Success 200 (jane, (1, 604900))"
    by (simp add: login_def validate_login_def js_get_def find_user_by_email_def jwt_sign_def jwt_lifetime_def
        ci_key_def ascii_lower_def Let_def demo_defs)
  show "authenticate_token (\<lambda>t. if t = ''tokJ'' then Some (1, 604900) else None) 200 (Some ''Bearer tokJ'') jane_db
       = Inr jane"
    by (simp add: authenticate_token_def bearer_token_def jwt_verify_def find_user_def demo_defs)
  show "get_profile jane jane_db = Success 200 jane" by (simp add: get_profile_def find_user_def demo_defs)
  show "user_name jane = ''Jane''" by (simp add: demo_defs)
qed

text \<open>
  C19. \<open>PUT /api/auth/change-password\<close> does not apply the registration rule on password
  length: with the right current password, a one-character new password is stored,
  although registration rejects it.
\<close>

theorem change_password_accepts_short_password:
  assumes "find_user d (user_id usr) = Some u" and "user_password u = Bcrypt old" and "old \<noteq> []"
  shows "change_password usr [(''currentPassword'', JStr old), (''newPassword'', JStr ''a'')] d
           = (set_user_password (user_id usr) (Bcrypt ''a'') d, Success 200 ''Password changed successfully'')
       \<and> find_user (set_user_password (user_id usr) (Bcrypt ''a'') d) (user_id usr)
           = Some (u\<lparr>user_password := Bcrypt ''a''\<rparr>)"
  using assms by (simp add: change_password_def js_get_def find_user_set_user_password)

theorem change_password_accepts_short_password_witness:
  "change_password jane [(''currentPassword'', JStr ''secret1''), (''newPassword'', JStr ''a'')] jane_db
     = (set_user_password 1 (Bcrypt ''a'') jane_db, Success 200 ''Password changed successfully'')
   \<and> validate_register demo_email [(''name'', JStr ''Jane''), (''email'', JStr ''jane@x.com''), (''password'', JStr ''a'')]
       = Inl ''Password must be at least 6 characters long''"
proof -
  have "find_user jane_db (user_id jane) = Some jane" by (simp add: find_user_def demo_defs)
  from change_password_accepts_short_password [OF this, of "''secret1''"]
  have "change_password jane [(''currentPassword'', JStr ''secret1''), (''newPassword'', JStr ''a'')] jane_db
     = (set_user_password 1 (Bcrypt ''a'') jane_db, Success 200 ''Password changed successfully'')"
    by (simp add: demo_defs)
  moreover have "validate_register demo_email [(''name'', JStr ''Jane''), (''email'', JStr ''jane@x.com''), (''password'', JStr ''a'')]
       = Inl ''Password must be at least 6 characters long''"
    by (simp add: validate_register_def js_get_def js_trim_def js_space_def ascii_letter_def Let_def demo_defs)
  ultimately show ?thesis by simp
qed

text \<open>
  A token stops working as soon as its user is deleted: \<open>authenticateToken\<close>
  re-reads the user, so an unexpired, validly signed token of a deleted user is answered
  with 401.
\<close>

theorem deleted_user_token_rejected:
  assumes "bearer_token hdr = Some t" and "reg t = Some (u, ex)" and "now < ex"
  shows "authenticate_token reg now hdr (delete_user_row u d) = Inl (401, ''Invalid token. User not found.'')"
  using assms by (simp add: authenticate_token_def jwt_verify_def find_user_delete_user_row)

theorem deleted_user_token_rejected_witness:
  "authenticate_token (\<lambda>t. if t = ''tokJ'' then Some (1, 604900) else None) 200 (Some ''Bearer tokJ'')
     (delete_user_row 1 jane_db) = Inl (401, ''Invalid token. User not found.'')"
  by (rule deleted_user_token_rejected [where t = "''tokJ''" and ex = 604900])
     (simp_all add: bearer_token_def)

text \<open>
  C21. A request that passes \<open>authenticateToken\<close> carries a live user: the bearer token is
  validly signed for that user's id, unexpired, and the user's row is in the database.
\<close>

theorem authenticated_user_is_live:
  assumes "authenticate_token reg now hdr d = Inr usr"
  shows "find_user d (user_id usr) = Some usr
       \<and> (\<exists>t ex. bearer_token hdr = Some t \<and> reg t = Some (user_id usr, ex) \<and> now < ex)"
  using authenticate_token_Inr [OF assms] by blast

theorem authenticated_user_is_live_witness:
  "find_user jane_db 1 = Some jane"
proof -
  have "authenticate_token (\<lambda>t. if t = ''tokJ'' then Some (1, 604900) else None) 200 (Some ''Bearer tokJ'') jane_db
       = Inr jane"
    by (simp add: authenticate_token_def bearer_token_def jwt_verify_def find_user_def demo_defs)
  from authenticated_user_is_live [OF this] show ?thesis by (simp add: demo_defs)
qed

text \<open>
  C22. \<open>PUT /api/auth/profile\<close> stores the email as sent, without the
  \<open>normalizeEmail\<close> that registration and login apply; a user who changes their email to
  a form that normalises differently can no longer log in with it.
\<close>

theorem profile_email_not_normalised:
  assumes "find_user d (user_id usr) = Some u0" and "update_profile usr body d = (d1, Success n r)"
  shows "find_user d1 (user_id usr)
           = Some (u0\<lparr>user_name := js_to_string (js_get body ''name''), user_email := js_to_string (js_get body ''email'')\<rparr>)
       \<and> (is_email em e \<and> js_to_string pw \<noteq> [] \<and> find_user_by_email d1 (normalize_email em e) = None
            \<longrightarrow> login em now [(''email'', JStr e), (''password'', pw)] d1 = Failure 401 ''Invalid email or password'')"
  using update_profile_stores_email [OF assms]
  by (simp add: login_def validate_login_def js_get_def)

theorem profile_email_not_normalised_witness:
  "login demo_email 0 [(''email'', JStr ''Jane.Doe@gmail.com''), (''password'', JStr ''secret1'')]
     (fst (update_profile jane [(''name'', JStr ''Jane''), (''email'', JStr ''Jane.Doe@gmail.com'')] jane_db))
   = Failure 401 ''Invalid email or password''"
proof -
  let ?b = "[(''name'', JStr ''Jane''), (''email'', JStr ''Jane.Doe@gmail.com'')]"
  let ?d1 = "jane_db\<lparr>users := [jane\<lparr>user_email := ''Jane.Doe@gmail.com''\<rparr>]\<rparr>"
  have run: "update_profile jane ?b jane_db = (?d1, Success 200 (Some (jane\<lparr>user_email := ''Jane.Doe@gmail.com''\<rparr>)))"
    by (simp add: update_profile_def set_user_profile_def js_get_def find_user_def ci_key_def ascii_lower_def Let_def demo_defs)
  have f: "find_user jane_db (user_id jane) = Some jane" by (simp add: find_user_def demo_defs)
  have h: "is_email demo_email ''Jane.Doe@gmail.com'' \<and> js_to_string (JStr ''secret1'') \<noteq> []
         \<and> find_user_by_email ?d1 (normalize_email demo_email ''Jane.Doe@gmail.com'') = None"
    by (simp add: find_user_by_email_def ci_key_def ascii_lower_def demo_defs)
  from profile_email_not_normalised [OF f run, of demo_email "''Jane.Doe@gmail.com''" "JStr ''secret1''" 0] h run
  show ?thesis by simp
qed

section \<open>Packages\<close>

text \<open>
  C23. \<open>GET /api/packages\<close> fails whenever a filter is given: the count query is run
  with \<open>params.slice(0, -2)\<close>, fewer values than its placeholders, so every request with
  a search term, a destination or a price bound that passes \<open>validateSearch\<close> is
  answered 500.
\<close>

theorem route_list_packages_filtered_fails:
  assumes "validate_search q = Inr sr"
    and "map_of q ''search'' \<noteq> None \<or> map_of q ''destination'' \<noteq> None
         \<or> map_of q ''minPrice'' \<noteq> None \<or> map_of q ''maxPrice'' \<noteq> None"
  shows "route_list_packages q d = Failure 500 ''Failed to fetch packages''"
proof -
  have "search_conditions sr \<noteq> []" using assms(2) by (simp add: validate_search_conditions [OF assms(1)])
  then show ?thesis using assms(1) by (simp add: route_list_packages_def list_packages_filtered)
qed

theorem route_list_packages_filtered_fails_witness:
  "route_list_packages [(''search'', ''Turkey'')] demo_db = Failure 500 ''Failed to fetch packages''"
  by (rule route_list_packages_filtered_fails
        [where sr = "\<lparr>sr_search = Some ''Turkey'', sr_destination = None, sr_min_price = None,
                      sr_max_price = None, sr_page = 1, sr_limit = 10\<rparr>"])
     (simp_all add: validate_search_def opt_text_def opt_price_def opt_int_def js_trim_def js_space_def)

text \<open>
  Without filters the listing answers the requested page of all packages, newest
  first, with their review aggregates, and a total that counts every package.
\<close>

theorem route_list_packages_unfiltered:
  assumes "validate_search q = Inr sr"
    and "map_of q ''search'' = None" "map_of q ''destination'' = None"
    and "map_of q ''minPrice'' = None" "map_of q ''maxPrice'' = None"
  shows "route_list_packages q d =
           Success 200 \<lparr>pp_packages = map (package_summary d)
                          (take (nat (sr_limit sr)) (drop (nat ((sr_page sr - 1) * sr_limit sr)) (rev (packages d)))),
                        pp_page = sr_page sr, pp_limit = sr_limit sr, pp_total = length (packages d),
                        pp_pages = (int (length (packages d)) + sr_limit sr - 1) div sr_limit sr\<rparr>"
proof -
  have "search_conditions sr = []" using assms(2-5) by (simp add: validate_search_conditions [OF assms(1)])
  then show ?thesis using assms(1) by (simp add: route_list_packages_def list_packages_unfiltered)
qed

theorem route_list_packages_unfiltered_witness:
  "route_list_packages [] demo_db =
     Success 200 \<lparr>pp_packages = [package_summary demo_db tour], pp_page = 1, pp_limit = 10, pp_total = 1,
                  pp_pages = 1\<rparr>"
  using route_list_packages_unfiltered
          [where q = "[]" and d = demo_db
             and sr = "\<lparr>sr_search = None, sr_destination = None, sr_min_price = None,
                        sr_max_price = None, sr_page = 1, sr_limit = 10\<rparr>"]
  by (simp add: validate_search_def opt_text_def opt_price_def opt_int_def demo_defs)

text \<open>
  C25. \<open>GET /api/packages/popular/:limit\<close> answers at most \<open>limit\<close> packages, ordered
  by their number of bookings, most first, and among equal counts by average rating,
  highest first.
\<close>

theorem popular_packages_ordered:
  assumes "popular_packages s d = Success c rs"
  shows "sorted_wrt (\<lambda>a b. snd b < snd a \<or> (snd b = snd a \<and> ps_average (fst b) \<le> ps_average (fst a))) rs
         \<and> length rs = min (nat (popular_limit s)) (length (packages d))"
  using popular_packages_sorted [OF assms] popular_packages_length [OF assms] by blast

theorem popular_packages_ordered_witness:
  "sorted_wrt (\<lambda>a b. snd b < snd a \<or> (snd b = snd a \<and> ps_average (fst b) \<le> ps_average (fst a)))
     [(package_summary (booked_db Pending) tour, 1 :: nat)]
   \<and> length [(package_summary (booked_db Pending) tour, 1 :: nat)]
       = min (nat (popular_limit ''3'')) (length (packages (booked_db Pending)))"
proof -
  have "popular_packages ''3'' (booked_db Pending) = Success 200 [(package_summary (booked_db Pending) tour, 1)]"
    by (simp add: popular_packages_def popular_limit_def js_parse_int_def js_space_def parse_nat_def
                  digit_val_def booking_count_def demo_defs)
  then show ?thesis by (rule popular_packages_ordered)
qed

text \<open>
  The popular limit falls back to 6 when it parses to 0 (\<open>parseInt('0') || 6\<close>),
  and a negative limit is interpolated into \<open>LIMIT\<close> as is and answered 500.
\<close>

theorem popular_limit_fallbacks:
  "(\<exists>rs. popular_packages ''0'' d = Success 200 rs \<and> length rs = min 6 (length (packages d)))
   \<and> popular_packages ''-1'' d = Failure 500 ''Failed to fetch popular packages''"
proof -
  have z: "popular_limit ''0'' = 6" and n: "popular_limit ''-1'' = -1"
    by (simp_all add: popular_limit_def js_parse_int_def js_space_def parse_nat_def digit_val_def)
  show ?thesis
    by (simp add: popular_packages_def z n length_sort)
qed



text \<open>
  The destination is put into the pattern unescaped: \<open>%\<close> as destination matches
  every package.
\<close>

theorem destination_wildcard_matches_all:
  "packages_by_destination ''%'' d = Success 200 (map (package_summary d) (rev (packages d)))"
  by (simp add: packages_by_destination_def sql_like_contains_percent)

text \<open>
  C29. Deleting a package never deletes a booking: the route refuses (400) a package
  that has bookings, so the cascade on \<open>bookings\<close> never fires.
\<close>

theorem delete_package_route_keeps_bookings:
  "bookings (fst (route_delete_package reg now hdr params d)) = bookings d"
  using route_delete_package_db [of reg now hdr params d] delete_package_bookings by metis

text \<open>
  C31. An admin's \<open>POST /api/packages\<close> without \<open>image_url\<close> passes validation and
  then fails: the handler binds \<open>undefined\<close>, which the driver refuses, and the route
  answers 500 with nothing stored.
\<close>

theorem create_package_without_image_fails:
  assumes "admin_gate reg now hdr d = Inr u" and "validate_package body = Inr f"
    and "js_get body ''image_url'' = JUndefined"
  shows "route_create_package reg now hdr body d = (d, Failure 500 ''Failed to create package'')"
proof -
  have "pf_image_url f = JUndefined" using validate_package_Inr [OF assms(2)] assms(3) by simp
  then show ?thesis
    using assms(1,2) by (simp add: route_create_package_def create_package_undefined_image)
qed

theorem create_package_without_image_fails_witness:
  "route_create_package demo_reg 100 admin_hdr pkg_body demo_db = (demo_db, Failure 500 ''Failed to create package'')"
proof -
  have v: "validate_package pkg_body =
             Inr \<lparr>pf_title = ''Alpine Escape'', pf_destination = ''Switzerland'',
                  pf_description = ''Five days in the Alps'', pf_price = 120000,
                  pf_duration = ''5 days'', pf_image_url = JUndefined\<rparr>"
    by (simp add: validate_package_def Let_def js_get_def float_min0_JNum decimal_cents_int js_trim_def js_space_def sample_defs)
  have i: "js_get pkg_body ''image_url'' = JUndefined" by (simp add: js_get_def sample_defs)
  show ?thesis by (rule create_package_without_image_fails [OF demo_admin_gate v i])
qed





section \<open>Admin console\<close>

text \<open>
  C34. \<open>GET /api/admin/bookings\<close> fails whenever a \<open>status\<close> or \<open>userId\<close> filter is
  given: as in the package listing, the count query is run with
  \<open>params.slice(0, -2)\<close>, so an admin's filtered request is answered 500.
\<close>

theorem admin_bookings_filtered_fails:
  assumes "admin_gate reg now hdr d = Inr u"
    and "map_of q ''status'' = Some s \<or> map_of q ''userId'' = Some s" and "s \<noteq> []"
  shows "route_admin_bookings reg now hdr q d = (d, Failure 500 ''Failed to fetch bookings'')"
  using assms by (simp add: route_admin_bookings_def gated_pass admin_bookings_filtered admin_booking_conds_filter)

theorem admin_bookings_filtered_fails_witness:
  "route_admin_bookings demo_reg 100 admin_hdr [(''status'', ''pending'')] demo_db
     = (demo_db, Failure 500 ''Failed to fetch bookings'')"
  by (rule admin_bookings_filtered_fails [OF demo_admin_gate, where s = "''pending''"]) simp_all

text \<open>
  The dashboard is consistent with the tables: its status histogram adds up to the
  number of bookings, the revenue is the sum of the confirmed bookings' amounts, and it
  lists at most five recent bookings and five packages.
\<close>

theorem admin_dashboard_consistent:
  assumes "admin_gate reg now hdr d = Inr u"
  shows "\<exists>ds. route_admin_dashboard reg now hdr d = (d, Success 200 ds)
           \<and> sum_list (map snd (db_status_distribution ds)) = db_total_bookings ds
           \<and> db_total_bookings ds = length (bookings d)
           \<and> db_total_revenue ds = sum_list (map booking_total_amount (filter (\<lambda>b. booking_status b = Confirmed) (bookings d)))
           \<and> length (db_recent_bookings ds) \<le> 5 \<and> length (db_popular_packages ds) \<le> 5"
proof -
  obtain ds where ds: "admin_dashboard d = Success 200 ds" by (simp add: admin_dashboard_def)
  have "db_total_bookings ds = length (bookings d)" using ds by (auto simp: admin_dashboard_def)
  then show ?thesis
    using assms ds admin_dashboard_counts [OF ds]
    by (simp add: route_admin_dashboard_def gated_pass) (rule exI [of _ ds], simp)
qed

theorem admin_dashboard_consistent_witness:
  "\<exists>ds. route_admin_dashboard demo_reg 100 admin_hdr (booked_db Confirmed) = (booked_db Confirmed, Success 200 ds)
     \<and> sum_list (map snd (db_status_distribution ds)) = db_total_bookings ds
     \<and> db_total_bookings ds = length (bookings (booked_db Confirmed))
     \<and> db_total_revenue ds = sum_list (map booking_total_amount
                                 (filter (\<lambda>b. booking_status b = Confirmed) (bookings (booked_db Confirmed))))
     \<and> length (db_recent_bookings ds) \<le> 5 \<and> length (db_popular_packages ds) \<le> 5"
  by (rule admin_dashboard_consistent [OF booked_admin_gate])

text \<open>
  C35. Only an administrator confirms a booking: whatever request reaches the server, a
  booking that is confirmed afterwards and was not confirmed before was confirmed by a
  request whose token authenticates a live admin user.  The owner's
  \<open>PATCH /api/bookings/:id/status\<close> can move a booking to pending or cancelled only,
  cancelling never confirms, a new booking is pending, and every other route leaves the
  bookings table alone or goes through \<open>requireAdmin\<close>.
\<close>

theorem only_admins_confirm:
  assumes "b' \<in> set (bookings (fst (api_exec E ep rq d)))" and "booking_status b' = Confirmed"
    and "\<forall>b\<in>set (bookings d). booking_id b = booking_id b' \<longrightarrow> booking_status b \<noteq> Confirmed"
  shows "\<exists>u. authenticate_token (env_reg E) (rq_now rq) (rq_hdr rq) d = Inr u \<and> user_role u = RoleAdmin"
  using api_exec_confirm [where d = d and E = E and ep = ep and rq = rq] assms
  unfolding no_new_confirm_def by blast

theorem only_admins_confirm_witness:
  "scen_booking Confirmed \<in> set (bookings (fst (api_exec scen_env AdminBookingStatus
       (scen_rq admin_hdr [(''id'', ''1'')] [(''status'', JStr ''confirmed'')]) (scen_db2 Pending))))
   \<and> bookings (scen_db2 Pending) = [scen_booking Pending]
   \<and> (\<exists>u. authenticate_token (env_reg scen_env) 0 admin_hdr (scen_db2 Pending) = Inr u \<and> user_role u = RoleAdmin)"
proof -
  have confirmed: "scen_booking Confirmed \<in> set (bookings (fst (api_exec scen_env AdminBookingStatus
       (scen_rq admin_hdr [(''id'', ''1'')] [(''status'', JStr ''confirmed'')]) (scen_db2 Pending))))"
    unfolding scen_step3 by (simp add: scen_db2_def)
  have before: "bookings (scen_db2 Pending) = [scen_booking Pending]" by (simp add: scen_db2_def)
  have "\<exists>u. authenticate_token (env_reg scen_env) (rq_now (scen_rq admin_hdr [(''id'', ''1'')] [(''status'', JStr ''confirmed'')]))
             (rq_hdr (scen_rq admin_hdr [(''id'', ''1'')] [(''status'', JStr ''confirmed'')])) (scen_db2 Pending) = Inr u
          \<and> user_role u = RoleAdmin"
    by (rule only_admins_confirm [OF confirmed]) (simp_all add: before scen_booking_def)
  then show ?thesis using confirmed before by (simp add: scen_rq_def)
qed

text \<open>
  C36. \<open>DELETE /api/admin/users/:id\<close> never removes a booking nor an admin: it refuses
  (403) an admin and (400) a user with bookings, and ids are unique.
\<close>

theorem admin_delete_user_safe:
  assumes "db_wf d"
  shows "bookings (fst (route_admin_delete_user reg now hdr i d)) = bookings d
         \<and> filter (\<lambda>v. user_role v = RoleAdmin) (users (fst (route_admin_delete_user reg now hdr i d)))
             = filter (\<lambda>v. user_role v = RoleAdmin) (users d)"
proof -
  have k: "keys_ok user_id (users d) (users_ai d)" using assms by (simp add: db_wf_def)
  show ?thesis
    using route_admin_delete_user_db [of reg now hdr i d] admin_delete_user_db [of "path_id i" d]
          filter_admins_delete_user_row [OF _ _ k]
    by (auto simp: delete_user_row_def filter_empty_conv intro: filter_True)
qed

theorem admin_delete_user_safe_witness:
  "bookings (fst (route_admin_delete_user demo_reg 100 admin_hdr ''1'' demo_db)) = bookings demo_db
   \<and> filter (\<lambda>v. user_role v = RoleAdmin) (users (fst (route_admin_delete_user demo_reg 100 admin_hdr ''1'' demo_db)))
       = filter (\<lambda>v. user_role v = RoleAdmin) (users demo_db)"
  by (rule admin_delete_user_safe [OF demo_db_wf])

text \<open>
  The admin lists do not validate their pagination: page 0, a negative limit or a
  page that is no number make \<open>LIMIT ... OFFSET ...\<close> invalid and are answered 500, and a
  limit of 0 answers an empty page whose page count is \<open>null\<close>.
\<close>

theorem admin_users_pagination_errors:
  "admin_users [(''page'', ''0'')] d = Failure 500 ''Failed to fetch users''
   \<and> admin_users [(''limit'', ''-1'')] d = Failure 500 ''Failed to fetch users''
   \<and> admin_users [(''page'', ''abc'')] d = Failure 500 ''Failed to fetch users''
   \<and> admin_users [(''limit'', ''0'')] d =
       Success 200 ([], \<lparr>pg_page = 1, pg_limit = 0, pg_total = length (users d), pg_pages = None\<rparr>)"
  by (simp_all add: admin_users_def sql_pagination_def js_parse_int_def js_space_def parse_nat_def digit_val_def
                    page_of_def pagination_of_def js_ceil_div_def)

section \<open>Initialisation and error handling\<close>

text \<open>
  C38. \<open>initializeDatabase\<close> on a fresh database succeeds with a well-formed store holding
  the admin account (role admin, password \<open>admin123\<close>) and the six sample packages, and
  running it again changes nothing.
\<close>

theorem initialize_database_fresh:
  "\<exists>d. initialize_database empty_db = Inr d \<and> db_wf d
       \<and> map (\<lambda>u. (user_id u, user_email u, user_role u)) (users d) = [(1, ''admin@wavv.com'', RoleAdmin)]
       \<and> map package_id (packages d) = [1, 2, 3, 4, 5, 6]
       \<and> initialize_database d = Inr d"
proof -
  obtain d where d: "initialize_database empty_db = Inr d"
    by (simp add: initialize_database_def insert_admin_user_def find_user_by_email_def empty_db_def
                  Let_def sample_packages_def insert_package_def package_fields_error_def sample_package_def
                  decimal_10_2_max_def)
  have wf: "db_wf d" by (rule wf_initialize_database [OF db_wf_empty d])
  have shape: "map (\<lambda>u. (user_id u, user_email u, user_role u)) (users d) = [(1, ''admin@wavv.com'', RoleAdmin)]
             \<and> map package_id (packages d) = [1, 2, 3, 4, 5, 6]"
    using d by (auto simp: initialize_database_def insert_admin_user_def find_user_by_email_def empty_db_def
                  Let_def sample_packages_def insert_package_def package_fields_error_def sample_package_def
                  decimal_10_2_max_def)
  have "find_user_by_email d ''admin@wavv.com'' \<noteq> None" "packages d \<noteq> []"
    using shape by (auto simp: find_user_by_email_def find_None_iff)
  then have "initialize_database d = Inr d" by (auto simp: initialize_database_def)
  with d wf shape show ?thesis by (intro exI [of _ d]) simp
qed


section \<open>The client and the server together\<close>

text \<open>
  C8. A booking submitted from the popular-packages modal of the client is always refused:
  the client sends \<open>checkIn\<close> and \<open>checkOut\<close>, \<open>validateBooking\<close> requires
  \<open>bookingDate\<close>, so the server answers 400 without touching the database, and the modal
  shows \<open>Booking date must be a valid date\<close>, whatever dates, guests, rooms and payment
  option the user chose.
\<close>

theorem popular_booking_always_rejected:
  assumes "pop_selected st = Some pkg" and "0 < package_id pkg"
  shows "handle_booking_submit True (route_create_booking today u) st d
         = (st\<lparr>pop_booking_loading := False, pop_booking_error := ''Booking date must be a valid date''\<rparr>, d, None)"
  using assms by (simp add: handle_booking_submit_def route_create_booking_def validate_popular_booking api_request_def)

theorem popular_booking_always_rejected_witness:
  "handle_booking_submit True (route_create_booking (2026, 11, 9) jane)
     \<lparr>pop_selected = Some tour, pop_show_modal = True,
      pop_form = initial_booking_form\<lparr>bf_check_in := ''2030-06-01'', bf_check_out := ''2030-06-05''\<rparr>,
      pop_booking_loading = True, pop_booking_error = []\<rparr> demo_db
   = (\<lparr>pop_selected = Some tour, pop_show_modal = True,
       pop_form = initial_booking_form\<lparr>bf_check_in := ''2030-06-01'', bf_check_out := ''2030-06-05''\<rparr>,
       pop_booking_loading = False, pop_booking_error = ''Booking date must be a valid date''\<rparr>, demo_db, None)"
  using popular_booking_always_rejected [of "\<lparr>pop_selected = Some tour, pop_show_modal = True,
      pop_form = initial_booking_form\<lparr>bf_check_in := ''2030-06-01'', bf_check_out := ''2030-06-05''\<rparr>,
      pop_booking_loading = True, pop_booking_error = []\<rparr>" tour "(2026, 11, 9)" jane demo_db]
  by (simp add: tour_def)

text \<open>
  C37. The user dashboard, once loaded for a logged-in user, holds at most the user's ten
  newest bookings (its "Total Bookings" card shows \<open>min 10 n\<close> for a user with \<open>n\<close>
  bookings, not \<open>n\<close>) and every booking contact in the store, left by any visitor, which
  its "My Bookings" tab lists.
\<close>

theorem user_dashboard_load:
  assumes "authenticate_token reg now hdr d = Inr u" and "fk_ok d"
  shows "length (ud_bookings (load_user_data reg now hdr d st))
           = min 10 (length (filter (\<lambda>b. booking_user_id b = user_id u) (bookings d)))
         \<and> ud_contacts (load_user_data reg now hdr d st) = rev (booking_contacts d)"
proof -
  let ?own = "filter (\<lambda>b. booking_user_id b = user_id u) (bookings d)"
  have "\<forall>b\<in>set (rev ?own). booking_with_package d b \<noteq> None"
    using booking_with_package_fk [OF assms(2)] by simp
  then have len: "length (List.map_filter (booking_with_package d) (rev ?own)) = length ?own"
    by (simp add: map_filter_join_total)
  show ?thesis
    using load_user_data_bookings [OF assms] load_user_data_contacts len
    by (simp add: rev_filter [symmetric] min.commute)
qed

theorem user_dashboard_load_witness:
  "length (ud_bookings (load_user_data scen_reg 0 jane_hdr (scen_db5\<lparr>booking_contacts := [visitor_contact]\<rparr>)
                          initial_user_dashboard)) = 1
   \<and> ud_contacts (load_user_data scen_reg 0 jane_hdr (scen_db5\<lparr>booking_contacts := [visitor_contact]\<rparr>)
                    initial_user_dashboard) = [visitor_contact]"
proof -
  let ?d = "scen_db5\<lparr>booking_contacts := [visitor_contact]\<rparr>"
  have users: "users scen_db5 = [seed_admin, jane2]"
    by (simp add: scen_db5_def scen_db4_def scen_db2_def scen_db1_def set_booking_status_def)
  have auth: "authenticate_token scen_reg 0 jane_hdr ?d = Inr jane2"
    by (simp add: authenticate_token_def bearer_token_def jwt_verify_def scen_reg_def jane_hdr_def find_user_def
        users seed_admin_def jane2_def jane_def)
  have "fk_ok scen_db5" using reachable_api_inv [OF scen_reachable] by (simp add: api_inv_def db_wf_def)
  then have fk: "fk_ok ?d" by (simp add: fk_ok_def)
  show ?thesis
    using user_dashboard_load [OF auth fk, of initial_user_dashboard]
    by (simp add: scen_db5_tables scen_booking_def jane2_def jane_def)
qed

text \<open>
  C24. The admin dashboard's statistic cards never show the statistics: the server sends
  them as \<open>stats.total_users\<close>, \<open>stats.total_bookings\<close>, ... (with the right
  counts), the client stores the whole answer as \<open>stats\<close> and reads
  \<open>stats.totalUsers\<close>, \<open>stats.totalBookings\<close>, \<open>stats.totalPackages\<close> and
  \<open>stats.totalRevenue\<close>, which are all undefined once the dashboard has loaded.
\<close>

theorem admin_dashboard_cards_undefined:
  assumes "admin_gate reg now hdr d = Inr a"
  shows "json_get (json_get (av_stats (load_dashboard_data rb pp reg now hdr d st)) ''stats'') ''total_users''
           = JAtom (JNum (int (length (filter (\<lambda>u. user_role u = RoleUser) (users d)))))
         \<and> json_get (json_get (av_stats (load_dashboard_data rb pp reg now hdr d st)) ''stats'') ''total_bookings''
           = JAtom (JNum (int (length (bookings d))))
         \<and> stat_cards (load_dashboard_data rb pp reg now hdr d st) = replicate 4 (JAtom JUndefined)"
  using assms
  by (simp add: load_dashboard_data_def route_admin_dashboard_def gated_pass admin_dashboard_def response_ok_def
      stat_cards_def json_get_def dashboard_json_def eval_nat_numeral)

theorem admin_dashboard_cards_undefined_witness:
  "json_get (json_get (av_stats (load_dashboard_data (\<lambda>_. JObj []) (\<lambda>_. JObj []) demo_reg 100 admin_hdr demo_db
                                   initial_admin_view)) ''stats'') ''total_users'' = JAtom (JNum 1)
   \<and> stat_cards (load_dashboard_data (\<lambda>_. JObj []) (\<lambda>_. JObj []) demo_reg 100 admin_hdr demo_db initial_admin_view)
       = replicate 4 (JAtom JUndefined)"
  using admin_dashboard_cards_undefined [OF demo_admin_gate, of "\<lambda>_. JObj []" "\<lambda>_. JObj []" initial_admin_view]
  by (simp add: demo_defs)

section \<open>The server as a state machine\<close>

text \<open>
  C30. Every state the server can reach (initialisation, then any sequence of requests to
  the routes that write) satisfies the schema invariant, has a rating cache that agrees
  with the reviews, and has every review backed by a booking of its author for its package.
\<close>

theorem reachable_states_invariant:
  assumes "reachable E d"
  shows "db_wf d \<and> rating_cache_ok d \<and> reviews_backed d"
  using reachable_api_inv [OF assms] by (simp add: api_inv_def)

theorem reachable_states_invariant_witness:
  "db_wf scen_db5 \<and> rating_cache_ok scen_db5 \<and> reviews_backed scen_db5"
  by (rule reachable_states_invariant [OF scen_reachable])



text \<open>
  C40. No request changes or removes a booking except for its status: every booking of the
  state before is in the state after with the same id, user, package, date, guests, rooms
  and total amount (so the amount fixed at creation survives later price changes).
\<close>

theorem api_requests_keep_bookings:
  "bookings_kept d (fst (api_exec E ep rq d))"
  using step_ok_api_exec [of d E ep rq] by (simp add: step_ok_def)

theorem api_requests_keep_bookings_witness:
  "bookings_kept scen_db4 scen_db5"
  using api_requests_keep_bookings [of scen_db4 scen_env CancelBooking "scen_rq jane_hdr [(''id'', ''1'')] []"]
  by (simp only: scen_step5)



text \<open>
  C18. A login through the client opens a session the server honours for exactly the
  token's lifetime: after \<open>authService.login\<close> succeeds, the stored token is sent as
  \<open>Bearer\<close> header by \<open>apiRequest\<close> and \<open>authenticateToken\<close> answers the user's
  current row until seven days after the login, and 401 "Token expired." from then on,
  while \<open>isAuthenticated\<close> keeps reporting the client as logged in.
\<close>

theorem login_session_authenticates:
  assumes "auth_service_login sign em now body d tok = (tok', Inr (u, t))"
    and "t \<noteq> []" and "CHR '' '' \<notin> set t" and "reg t = Some (jwt_sign (user_id u) now)"
  shows "is_authenticated tok'
         \<and> authenticate_token reg later (get_auth_headers tok') d'
           = (if now + jwt_lifetime \<le> later then Inl (401, ''Token expired.'')
              else case find_user d' (user_id u) of
                     None \<Rightarrow> Inl (401, ''Invalid token. User not found.'')
                   | Some usr \<Rightarrow> Inr usr)"
  using auth_service_login_Inr [OF assms(1,2)] login_token_header [where reg = reg and t = t, OF assms] assms(2)
  by (simp add: is_authenticated_def)

theorem login_session_authenticates_witness:
  "auth_service_login (\<lambda>_. ''tokJ'') demo_email 100 [(''email'', JStr ''jane@x.com''), (''password'', JStr ''secret1'')]
     jane_db None = (Some ''tokJ'', Inr (jane, ''tokJ''))
   \<and> is_authenticated (Some ''tokJ'')
   \<and> authenticate_token (\<lambda>t. if t = ''tokJ'' then Some (1, 604900) else None) 200 (get_auth_headers (Some ''tokJ'')) jane_db
     = Inr jane
   \<and> authenticate_token (\<lambda>t. if t = ''tokJ'' then Some (1, 604900) else None) 604900
       (get_auth_headers (Some ''tokJ'')) jane_db = Inl (401, ''Token expired.'')"
proof -
  have login: "auth_service_login (\<lambda>_. ''tokJ'') demo_email 100 [(''email'', JStr ''jane@x.com''), (''password'', JStr ''secret1'')]
     jane_db None = (Some ''tokJ'', Inr (jane, ''tokJ''))"
    by (simp add: auth_service_login_def login_def validate_login_def js_get_def find_user_by_email_def
        jwt_sign_def jwt_lifetime_def ci_key_def ascii_lower_def Let_def demo_defs api_request_def set_auth_token_def)
  have reg: "(\<lambda>t. if t = ''tokJ'' then Some (1, 604900) else None) ''tokJ'' = Some (jwt_sign (user_id jane) 100)"
    by (simp add: jwt_sign_def jwt_lifetime_def demo_defs)
  have ne: "''tokJ'' \<noteq> []" and sp: "CHR '' '' \<notin> set ''tokJ''" by simp_all
  note s = login_session_authenticates [where reg = "\<lambda>t. if t = ''tokJ'' then Some (1, 604900) else None"
      and t = "''tokJ''", OF login ne sp reg]
  have a: "authenticate_token (\<lambda>t. if t = ''tokJ'' then Some (1, 604900) else None) 200 (get_auth_headers (Some ''tokJ'')) jane_db
     = Inr jane" using s [of 200 jane_db] by (simp add: jwt_lifetime_def find_user_def demo_defs)
  have b: "authenticate_token (\<lambda>t. if t = ''tokJ'' then Some (1, 604900) else None) 604900
       (get_auth_headers (Some ''tokJ'')) jane_db = Inl (401, ''Token expired.'')"
    using s [of 604900 jane_db] by (simp add: jwt_lifetime_def)
  show ?thesis using login a b s [of 200 jane_db] by simp
qed



end
